(* ===== verification/Prelude.thy ===== *)
theory Prelude
  imports Complex_Main "HOL-Library.Monad_Syntax" "HOL-Library.List_Lexorder"
    "HOL-Library.Char_ord" "HOL-Library.Word"
begin

text \<open>Shared vocabulary of the development.

  \<^bold>\<open>Decimals.\<close> The program computes with \<^verbatim>\<open>rust_decimal::Decimal\<close>, a third-party 96-bit
  decimal.  A decimal is identified with the rational number it denotes, so comparison, negation,
  absolute value, minimum and maximum are exact (the sign of a zero is not kept).  What the
  crate's arithmetic operators do to the exact result (round it to at most 28 fractional digits
  and 96 bits, or panic on overflow) is the parameter \<^verbatim>\<open>l_rnd\<close> of the record \<^verbatim>\<open>lib\<close>: \<^verbatim>\<open>None\<close> is the
  panic.  The documented facts the proofs use are collected in \<^verbatim>\<open>dec_laws\<close>.

  \<^bold>\<open>Text.\<close> The database stores decimals and timestamps as text.  Printing and parsing them belongs
  to \<^verbatim>\<open>rust_decimal\<close> and \<^verbatim>\<open>chrono\<close>, and \<^verbatim>\<open>CAST(x AS REAL) != 0\<close> to SQLite; they are the other
  fields of \<^verbatim>\<open>lib\<close>, with their documented behaviour in \<^verbatim>\<open>text_laws\<close>.

  \<^bold>\<open>Panics.\<close> A Rust expression that may panic is a value of an \<^verbatim>\<open>option\<close> type, \<^verbatim>\<open>None\<close> being the panic;
  the release profile aborts the process on a panic.  A \<^verbatim>\<open>Result<T, E>\<close> is a sum with the error on the
  left, a Rust \<^verbatim>\<open>Option<T>\<close> an \<^verbatim>\<open>option\<close> (inside the panic option where both occur).

  \<^bold>\<open>Time.\<close> A \<^verbatim>\<open>DateTime<Utc>\<close> is an integer number of nanoseconds.\<close>

named_theorems dec_simps "unfolding rules of the decimal operators"

type_synonym dec = rat
type_synonym time = int

section \<open>The parameters for third-party code\<close>

text \<open>\<^verbatim>\<open>serde_json::Value\<close>; a number carries its textual form (what \<^verbatim>\<open>to_string\<close> gives).\<close>
datatype json =
    JNull
  | JBool bool
  | JNum string
  | JStr string
  | JArr "json list"
  | JObj "(string \<times> json) list"

text \<open>What SQLite can report for a statement; its texts belong to \<^verbatim>\<open>sqlx\<close>.\<close>
datatype sql_error = SqlIo | SqlUnique string | SqlForeignKey | SqlNull string | SqlNoColumn string

record lib =
  l_rnd :: "rat \<Rightarrow> dec option"
  l_show :: "dec \<Rightarrow> string"
  l_parse :: "string \<Rightarrow> dec option"
  l_real_nonzero :: "string \<Rightarrow> bool"
  l_round_dp :: "nat \<Rightarrow> dec \<Rightarrow> dec"
  l_iso :: "time \<Rightarrow> string"
  l_parse_iso :: "string \<Rightarrow> time option"
  l_show_time :: "time \<Rightarrow> string"
  l_from_millis :: "int \<Rightarrow> time option"
  l_parse_err :: "string \<Rightarrow> string"
  l_parse_json :: "string \<Rightarrow> json option"
  l_show_json :: "json \<Rightarrow> string"
  l_serde_time :: "time \<Rightarrow> string"
  l_sql_err :: "sql_error \<Rightarrow> string"
  l_time_err :: "string \<Rightarrow> string"
  l_json_err :: "string \<Rightarrow> string"
  l_variant_err :: "string \<Rightarrow> string"
  l_debug :: "string \<Rightarrow> string"

definition dadd :: "lib \<Rightarrow> dec \<Rightarrow> dec \<Rightarrow> dec option" where
  "dadd L a b = l_rnd L (a + b)"

definition dsub :: "lib \<Rightarrow> dec \<Rightarrow> dec \<Rightarrow> dec option" where
  "dsub L a b = l_rnd L (a - b)"

definition dmul :: "lib \<Rightarrow> dec \<Rightarrow> dec \<Rightarrow> dec option" where
  "dmul L a b = l_rnd L (a * b)"

text \<open>Division by zero panics.\<close>
definition ddiv :: "lib \<Rightarrow> dec \<Rightarrow> dec \<Rightarrow> dec option" where
  "ddiv L a b = (if b = 0 then None else l_rnd L (a / b))"

lemmas dec_ops = dadd_def dsub_def dmul_def ddiv_def

declare dadd_def [dec_simps] dsub_def [dec_simps] dmul_def [dec_simps] ddiv_def [dec_simps]

text \<open>\<^verbatim>\<open>iter().sum()\<close> on decimals: a left fold of \<^verbatim>\<open>+\<close> from zero.\<close>
fun dsum_from :: "lib \<Rightarrow> dec \<Rightarrow> dec list \<Rightarrow> dec option" where
  "dsum_from L acc [] = Some acc"
| "dsum_from L acc (x # xs) = do { a \<leftarrow> dadd L acc x; dsum_from L a xs }"

definition dsum :: "lib \<Rightarrow> dec list \<Rightarrow> dec option" where
  "dsum L xs = dsum_from L 0 xs"

text \<open>What \<^verbatim>\<open>rust_decimal\<close> documents: a result with at most 28 fractional digits whose digits fit
  96 bits is exact, rounding never reverses an order, leaves a rounded value alone and treats both signs alike, and an
  operator panics only when the exact result leaves the range of the type.\<close>
definition representable :: "rat \<Rightarrow> bool" where
  "representable x \<longleftrightarrow>
     (\<exists>(m::int) (k::nat). k \<le> 28 \<and> \<bar>m\<bar> < 2 ^ 96 \<and> x = of_int m / 10 ^ k)"

definition dec_laws :: "lib \<Rightarrow> bool" where
  "dec_laws L \<longleftrightarrow>
     (\<forall>x. representable x \<longrightarrow> l_rnd L x = Some x) \<and>
     (\<forall>x y a b. x \<le> y \<longrightarrow> l_rnd L x = Some a \<longrightarrow> l_rnd L y = Some b \<longrightarrow> a \<le> b) \<and>
     (\<forall>x a. l_rnd L x = Some a \<longrightarrow> l_rnd L a = Some a) \<and>
     (\<forall>x. l_rnd L (- x) = map_option uminus (l_rnd L x)) \<and>
     (\<forall>x. \<bar>x\<bar> \<le> 2 ^ 96 - 1 \<longrightarrow> l_rnd L x \<noteq> None)"

text \<open>A value a \<^verbatim>\<open>Decimal\<close> can hold is one that rounding leaves alone.\<close>
definition isdec :: "lib \<Rightarrow> dec \<Rightarrow> bool" where
  "isdec L x \<longleftrightarrow> l_rnd L x = Some x"

text \<open>Printing a decimal and reading it back gives the same value, and SQLite's
  \<^verbatim>\<open>CAST(text AS REAL) != 0\<close> on a printed decimal tells whether it is non-zero.\<close>
definition text_laws :: "lib \<Rightarrow> bool" where
  "text_laws L \<longleftrightarrow>
     (\<forall>x. isdec L x \<longrightarrow> l_parse L (l_show L x) = Some x) \<and>
     (\<forall>x. isdec L x \<longrightarrow> (l_real_nonzero L (l_show L x) \<longleftrightarrow> x \<noteq> 0))"

subsection \<open>Consequences of the laws\<close>

lemma rnd_mono:
  assumes "dec_laws L" "l_rnd L x = Some a" "l_rnd L y = Some b" "x \<le> y"
  shows "a \<le> b"
  using assms unfolding dec_laws_def by blast

lemma rnd_idem: "dec_laws L \<Longrightarrow> l_rnd L x = Some a \<Longrightarrow> isdec L a"
  unfolding dec_laws_def isdec_def by blast

lemma rnd_neg: "dec_laws L \<Longrightarrow> l_rnd L (- x) = map_option uminus (l_rnd L x)"
  unfolding dec_laws_def by blast

lemma isdec_neg: "dec_laws L \<Longrightarrow> isdec L (- x) \<longleftrightarrow> isdec L x"
  by (auto simp: isdec_def rnd_neg)

lemma rnd_representable: "dec_laws L \<Longrightarrow> representable x \<Longrightarrow> l_rnd L x = Some x"
  unfolding dec_laws_def by blast

lemma representable_int: "\<bar>m\<bar> < 2 ^ 96 \<Longrightarrow> representable (of_int m)"
  unfolding representable_def by (intro exI [of _ m] exI [of _ 0]) simp

lemma representable_0 [simp]: "representable 0"
  using representable_int [of 0] by simp

lemma representable_1 [simp]: "representable 1"
  using representable_int [of 1] by simp

lemma representable_numeral:
  "(numeral n :: int) < 2 ^ 96 \<Longrightarrow> representable (numeral n)"
  using representable_int [of "numeral n"] by simp

lemma representable_neg: "representable x \<Longrightarrow> representable (- x)"
proof -
  assume "representable x"
  then obtain m :: int and k :: nat where "k \<le> 28" "\<bar>m\<bar> < 2 ^ 96" "x = of_int m / 10 ^ k"
    unfolding representable_def by blast
  then show ?thesis
    unfolding representable_def by (intro exI [of _ "- m"] exI [of _ k]) simp
qed

lemma rnd_0: "dec_laws L \<Longrightarrow> l_rnd L 0 = Some 0"
  by (simp add: rnd_representable)

lemma rnd_1: "dec_laws L \<Longrightarrow> l_rnd L 1 = Some 1"
  by (simp add: rnd_representable)

lemma isdec_0: "dec_laws L \<Longrightarrow> isdec L 0"
  by (simp add: isdec_def rnd_0)

lemma rnd_total: "dec_laws L \<Longrightarrow> \<bar>x\<bar> \<le> 2 ^ 96 - 1 \<Longrightarrow> \<exists>a. l_rnd L x = Some a"
  unfolding dec_laws_def by blast

lemma rnd_nonneg: "dec_laws L \<Longrightarrow> l_rnd L x = Some a \<Longrightarrow> 0 \<le> x \<Longrightarrow> 0 \<le> a"
  using rnd_mono [OF _ rnd_0] by blast

lemma rnd_nonpos: "dec_laws L \<Longrightarrow> l_rnd L x = Some a \<Longrightarrow> x \<le> 0 \<Longrightarrow> a \<le> 0"
  using rnd_mono [OF _ _ rnd_0] by blast

lemma rnd_bounds:
  assumes "dec_laws L" "l_rnd L x = Some a" "isdec L lo" "isdec L hi" "lo \<le> x" "x \<le> hi"
  shows "lo \<le> a \<and> a \<le> hi"
  using assms rnd_mono unfolding isdec_def by blast

subsection \<open>Operators on bounded operands do not panic\<close>

lemma rnd_bounded:
  assumes "dec_laws L" "\<bar>x\<bar> \<le> 10 ^ k" "k \<le> 28"
  shows "\<exists>a. l_rnd L x = Some a \<and> \<bar>a\<bar> \<le> 10 ^ k"
proof -
  have "(10::int) ^ k \<le> 10 ^ 28" using assms(3) by (intro power_increasing) simp_all
  then have k: "\<bar>(10::int) ^ k\<bar> < 2 ^ 96" by simp
  then have "representable (10 ^ k)" using representable_int [of "10 ^ k"] by simp
  then have d: "isdec L (10 ^ k)" "isdec L (- (10 ^ k))"
    using assms(1) rnd_representable representable_neg by (auto simp: isdec_def)
  have "(10::rat) ^ k \<le> 10 ^ 28" using assms(3) by (intro power_increasing) simp_all
  then have "\<bar>x\<bar> \<le> 2 ^ 96 - 1" using assms(2) by simp
  then obtain a where a: "l_rnd L x = Some a" using rnd_total [OF assms(1)] by blast
  have "- (10 ^ k) \<le> a \<and> a \<le> 10 ^ k"
    using rnd_bounds [OF assms(1) a d(2,1)] assms(2) by (simp add: abs_le_iff)
  then show ?thesis using a by (simp add: abs_le_iff)
qed

lemma dmul_bounded:
  assumes "dec_laws L" "\<bar>a\<bar> \<le> 10 ^ i" "\<bar>b\<bar> \<le> 10 ^ j" "i + j \<le> 28"
  shows "\<exists>r. dmul L a b = Some r \<and> \<bar>r\<bar> \<le> 10 ^ (i + j)"
  using rnd_bounded [OF assms(1) _ assms(4), of "a * b"] mult_mono [OF assms(2,3)]
  by (simp add: dmul_def abs_mult power_add)

lemma dadd_bounded:
  assumes "dec_laws L" "\<bar>a\<bar> \<le> 10 ^ i" "\<bar>b\<bar> \<le> 10 ^ i" "i < 28"
  shows "\<exists>r. dadd L a b = Some r \<and> \<bar>r\<bar> \<le> 10 ^ Suc i"
proof -
  have "\<bar>a + b\<bar> \<le> 2 * 10 ^ i" using assms(2,3) abs_triangle_ineq [of a b] by linarith
  then have "\<bar>a + b\<bar> \<le> 10 ^ Suc i" by (simp add: order_trans)
  from rnd_bounded [OF assms(1) this] show ?thesis
    unfolding dadd_def using assms(4) by (simp only: Suc_le_eq)
qed

lemma dsub_bounded:
  assumes "dec_laws L" "\<bar>a\<bar> \<le> 10 ^ i" "\<bar>b\<bar> \<le> 10 ^ i" "i < 28"
  shows "\<exists>r. dsub L a b = Some r \<and> \<bar>r\<bar> \<le> 10 ^ Suc i"
  using dadd_bounded [OF assms(1), of a i "- b"] assms(2-4) by (simp add: dsub_def dadd_def)

lemma ddiv_bounded:
  assumes "dec_laws L" "\<bar>a\<bar> \<le> 10 ^ i" "1 / 10 ^ j \<le> \<bar>b\<bar>" "i + j \<le> 28"
  shows "\<exists>r. ddiv L a b = Some r \<and> \<bar>r\<bar> \<le> 10 ^ (i + j)"
proof -
  have pos: "(0::rat) < 1 / 10 ^ j" by simp
  then have b: "b \<noteq> 0" using assms(3) by (metis abs_zero linorder_not_less)
  have "\<bar>a\<bar> \<le> 10 ^ (i + j) * \<bar>b\<bar>"
  proof -
    have "1 \<le> 10 ^ j * \<bar>b\<bar>" using assms(3) by (simp add: divide_le_eq mult.commute)
    have "\<bar>a\<bar> \<le> 10 ^ i * 1" using assms(2) by simp
    also have "\<dots> \<le> 10 ^ i * (10 ^ j * \<bar>b\<bar>)"
      using \<open>1 \<le> 10 ^ j * \<bar>b\<bar>\<close> by (intro mult_left_mono) simp_all
    finally show ?thesis by (simp add: power_add mult.assoc)
  qed
  then have "\<bar>a / b\<bar> \<le> 10 ^ (i + j)" using b by (simp add: abs_divide divide_le_eq)
  then show ?thesis using rnd_bounded [OF assms(1) _ assms(4)] b by (simp add: ddiv_def)
qed

lemma bound_mono: "\<bar>a\<bar> \<le> 10 ^ i \<Longrightarrow> i \<le> j \<Longrightarrow> \<bar>a\<bar> \<le> (10::rat) ^ j"
  by (meson one_le_numeral order_trans power_increasing)

section \<open>Durations, sums and JSON values\<close>

text \<open>\<^verbatim>\<open>TimeDelta::num_milliseconds\<close> truncates towards zero.\<close>
definition num_milliseconds :: "int \<Rightarrow> int" where
  "num_milliseconds d = (if 0 \<le> d then d div 1000000 else - ((- d) div 1000000))"

text \<open>\<^verbatim>\<open>Value::get(key)\<close>: \<^verbatim>\<open>None\<close> when the value is not an object or the key is absent.\<close>
fun json_get :: "string \<Rightarrow> json \<Rightarrow> json option" where
  "json_get k (JObj kvs) = map_of kvs k"
| "json_get k _ = None"

text \<open>The unwrapping of a sum.\<close>
fun is_err :: "'e + 'a \<Rightarrow> bool" where
  "is_err (Inl _) = True"
| "is_err (Inr _) = False"

text \<open>The \<^verbatim>\<open>?\<close> operator on a \<^verbatim>\<open>Result\<close>.\<close>
fun rbind :: "'e + 'a \<Rightarrow> ('a \<Rightarrow> 'e + 'b) \<Rightarrow> 'e + 'b" where
  "rbind (Inl e) f = Inl e"
| "rbind (Inr a) f = f a"

lemma rbind_Inr_iff: "rbind r f = Inr b \<longleftrightarrow> (\<exists>a. r = Inr a \<and> f a = Inr b)"
  by (cases r) auto

lemma rbind_Inl_iff: "rbind r f = Inl e \<longleftrightarrow> r = Inl e \<or> (\<exists>a. r = Inr a \<and> f a = Inl e)"
  by (cases r) auto

text \<open>Separator-joined strings, \<^verbatim>\<open>slice::join\<close>.\<close>
fun join_with :: "string \<Rightarrow> string list \<Rightarrow> string" where
  "join_with sep [] = []"
| "join_with sep [s] = s"
| "join_with sep (s # t # ts) = s @ sep @ join_with sep (t # ts)"

lemma do_Some_conv: "Option.bind x f = Some y \<longleftrightarrow> (\<exists>a. x = Some a \<and> f a = Some y)"
  by (cases x) auto

section \<open>A concrete library\<close>

text \<open>An executable instance: exact arithmetic inside the 96-bit range, decimals printed as
  signed fractions, times printed with a fixed number of digits.  Witnesses evaluate on it.\<close>

fun digits_rev :: "nat \<Rightarrow> nat \<Rightarrow> nat list" where
  "digits_rev 0 n = []"
| "digits_rev (Suc f) n = (if n < 10 then [n] else (n mod 10) # digits_rev f (n div 10))"

definition digit_char :: "nat \<Rightarrow> char" where
  "digit_char d = (if d < 10 then char_of (48 + d) else CHR ''?'')"

definition char_digit :: "char \<Rightarrow> nat option" where
  "char_digit c = (let n = (of_char c :: nat) in if 48 \<le> n \<and> n < 58 then Some (n - 48) else None)"

text \<open>\<^verbatim>\<open>format!("{}", n)\<close> for an unsigned and a signed integer (standard library).\<close>
definition show_nat :: "nat \<Rightarrow> string" where
  "show_nat n = map digit_char (rev (digits_rev (Suc n) n))"

definition show_u64 :: "64 word \<Rightarrow> string" where
  "show_u64 w = show_nat (unat w)"

definition show_int :: "int \<Rightarrow> string" where
  "show_int i = (if i < 0 then CHR ''-'' # show_nat (nat (- i)) else show_nat (nat i))"

fun parse_digits :: "nat \<Rightarrow> string \<Rightarrow> nat option" where
  "parse_digits acc [] = Some acc"
| "parse_digits acc (c # cs) = do { d \<leftarrow> char_digit c; parse_digits (10 * acc + d) cs }"

definition parse_nat :: "string \<Rightarrow> nat option" where
  "parse_nat s = (if s = [] then None else parse_digits 0 s)"

fun parse_int :: "string \<Rightarrow> int option" where
  "parse_int (c # cs) =
     (if c = CHR ''-'' then map_option (\<lambda>n. - int n) (parse_nat cs)
      else map_option int (parse_nat (c # cs)))"
| "parse_int [] = None"

lemma digits_rev_lt: "d \<in> set (digits_rev f n) \<Longrightarrow> d < 10"
  by (induction f n rule: digits_rev.induct) (auto split: if_splits)

lemma char_digit_digit_char [simp]: "d < 10 \<Longrightarrow> char_digit (digit_char d) = Some d"
  by (simp add: char_digit_def digit_char_def Let_def)

lemma char_digit_minus [simp]: "char_digit (CHR ''-'') = None"
  by (simp add: char_digit_def Let_def)

lemma digit_char_not_minus: "d < 10 \<Longrightarrow> digit_char d \<noteq> CHR ''-''"
  by (drule char_digit_digit_char) auto

lemma parse_digits_map:
  "(\<And>d. d \<in> set ds \<Longrightarrow> d < 10) \<Longrightarrow>
   parse_digits acc (map digit_char ds) = Some (foldl (\<lambda>a d. 10 * a + d) acc ds)"
  by (induction ds arbitrary: acc) auto

lemma digits_rev_value: "n < f \<Longrightarrow> foldr (\<lambda>d a. 10 * a + d) (digits_rev f n) 0 = n"
  by (induction f n rule: digits_rev.induct) auto

lemma digits_rev_nonempty: "0 < f \<Longrightarrow> digits_rev f n \<noteq> []"
  by (cases f) auto

lemma show_nat_nonempty [simp]: "show_nat n \<noteq> []"
  by (simp add: show_nat_def digits_rev_nonempty del: digits_rev.simps)

lemma parse_show_nat [simp]: "parse_nat (show_nat n) = Some n"
proof -
  have "parse_digits 0 (show_nat n)
      = Some (foldl (\<lambda>a d. 10 * a + d) 0 (rev (digits_rev (Suc n) n)))"
    unfolding show_nat_def by (rule parse_digits_map) (metis digits_rev_lt set_rev)
  then show ?thesis
    by (simp add: parse_nat_def foldl_conv_foldr digits_rev_value del: digits_rev.simps)
qed

lemma show_nat_inject [simp]: "show_nat m = show_nat n \<longleftrightarrow> m = n"
  by (metis option.inject parse_show_nat)

lemma show_nat_digit: "c \<in> set (show_nat n) \<Longrightarrow> c \<noteq> CHR ''-'' \<and> c \<noteq> CHR ''/''"
proof -
  assume "c \<in> set (show_nat n)"
  then obtain d where "d < 10" "c = digit_char d"
    unfolding show_nat_def by (auto dest: digits_rev_lt simp del: digits_rev.simps)
  then have "char_digit c = Some d" by simp
  then show ?thesis by (auto simp: char_digit_def Let_def)
qed

lemma parse_show_int [simp]: "parse_int (show_int i) = Some i"
proof (cases "i < 0")
  case True
  then show ?thesis by (simp add: show_int_def)
next
  case False
  obtain c cs where c: "show_nat (nat i) = c # cs"
    using show_nat_nonempty by (cases "show_nat (nat i)") auto
  then have "c \<noteq> CHR ''-''"
    using show_nat_digit [of c "nat i"] by simp
  moreover have "parse_nat (c # cs) = Some (nat i)"
    using c by (metis parse_show_nat)
  ultimately show ?thesis
    using False by (simp add: show_int_def c)
qed

lemma show_int_inject [simp]: "show_int i = show_int j \<longleftrightarrow> i = j"
  by (metis option.inject parse_show_int)

lemma show_int_no_slash: "CHR ''/'' \<notin> set (show_int i)"
  using show_nat_digit by (auto simp: show_int_def)

definition show_dec :: "dec \<Rightarrow> string" where
  "show_dec x = (case quotient_of x of (n, d) \<Rightarrow>
     if d = 1 then show_int n else show_int n @ CHR ''/'' # show_int d)"

definition parse_dec :: "string \<Rightarrow> dec option" where
  "parse_dec s = (case dropWhile (\<lambda>c. c \<noteq> CHR ''/'') s of
       [] \<Rightarrow> map_option of_int (parse_int s)
     | _ # r \<Rightarrow> do { n \<leftarrow> parse_int (takeWhile (\<lambda>c. c \<noteq> CHR ''/'') s);
                   d \<leftarrow> parse_int r;
                   if d = 0 then None else Some (of_int n / of_int d) })"

lemma span_slash:
  assumes "CHR ''/'' \<notin> set xs"
  shows "takeWhile (\<lambda>c. c \<noteq> CHR ''/'') (xs @ CHR ''/'' # ys) = xs"
    and "dropWhile (\<lambda>c. c \<noteq> CHR ''/'') (xs @ CHR ''/'' # ys) = CHR ''/'' # ys"
    and "dropWhile (\<lambda>c. c \<noteq> CHR ''/'') xs = []"
  using assms by (induction xs) auto

lemma parse_show_dec [simp]: "parse_dec (show_dec x) = Some x"
proof -
  obtain n d where q: "quotient_of x = (n, d)" by (cases "quotient_of x")
  then have x: "x = of_int n / of_int d" and d: "d > 0"
    by (rule quotient_of_div, rule quotient_of_denom_pos)
  have x1: "d = 1 \<Longrightarrow> of_int n = x" by (simp add: x)
  show ?thesis
    using d show_int_no_slash [of n] x1
    by (auto simp: show_dec_def parse_dec_def q span_slash simp flip: x)
qed

text \<open>\<^verbatim>\<open>w\<close> decimal digits of \<^verbatim>\<open>n\<close>, most significant first.\<close>
fun fixed_digits :: "nat \<Rightarrow> nat \<Rightarrow> string" where
  "fixed_digits 0 n = []"
| "fixed_digits (Suc w) n = digit_char (n div 10 ^ w mod 10) # fixed_digits w n"

definition iso_fixed :: "time \<Rightarrow> string" where
  "iso_fixed t = fixed_digits 18 (nat (t div 1000))"

definition parse_iso_fixed :: "string \<Rightarrow> time option" where
  "parse_iso_fixed s = map_option (\<lambda>n. int n * 1000) (parse_nat s)"

definition lib0 :: lib where
  "lib0 = \<lparr> l_rnd = (\<lambda>x. if \<bar>x\<bar> < 2 ^ 96 then Some x else None),
            l_show = show_dec, l_parse = parse_dec,
            l_real_nonzero = (\<lambda>s. parse_dec s \<noteq> Some 0 \<and> parse_dec s \<noteq> None),
            l_round_dp = (\<lambda>k x. of_int \<lfloor>x * 10 ^ k + 1 / 2\<rfloor> / 10 ^ k),
            l_iso = iso_fixed, l_parse_iso = parse_iso_fixed,
            l_show_time = show_int,
            l_from_millis = (\<lambda>ms. Some (ms * 1000000)), l_parse_err = (\<lambda>s. ''invalid decimal''),
            l_parse_json = (\<lambda>s. if s = [] then None else Some (JObj [(''text'', JStr s)])),
            l_show_json = (\<lambda>j. ''json''), l_serde_time = iso_fixed, l_sql_err = (\<lambda>e. ''sql''),
            l_time_err = (\<lambda>s. ''invalid time''), l_json_err = (\<lambda>s. ''invalid json''),
            l_variant_err = (\<lambda>s. ''unknown variant''),
            l_debug = (\<lambda>s. CHR 0x22 # s @ [CHR 0x22]) \<rparr>"

lemma lib0_sel [simp]:
  "l_rnd lib0 x = (if \<bar>x\<bar> < 2 ^ 96 then Some x else None)"
  "l_show lib0 = show_dec" "l_parse lib0 = parse_dec"
  "l_real_nonzero lib0 s \<longleftrightarrow> parse_dec s \<noteq> Some 0 \<and> parse_dec s \<noteq> None"
  "l_round_dp lib0 k x = of_int \<lfloor>x * 10 ^ k + 1 / 2\<rfloor> / 10 ^ k"
  "l_iso lib0 = iso_fixed" "l_parse_iso lib0 = parse_iso_fixed" "l_show_time lib0 = show_int"
  by (simp_all add: lib0_def)

lemma representable_bound: "representable x \<Longrightarrow> \<bar>x\<bar> < 2 ^ 96"
proof -
  assume "representable x"
  then obtain m :: int and k :: nat where m: "\<bar>m\<bar> < 2 ^ 96" "x = of_int m / 10 ^ k"
    unfolding representable_def by blast
  have "\<bar>x\<bar> \<le> of_int \<bar>m\<bar>"
    by (simp add: m(2) divide_le_eq mult_le_cancel_left1)
  also have "\<dots> < of_int (2 ^ 96)"
    using m(1) by (simp only: of_int_less_iff)
  finally show ?thesis by simp
qed

lemma lib0_dec_laws: "dec_laws lib0"
  unfolding dec_laws_def
  by (auto dest: representable_bound split: if_splits)

lemma lib0_text_laws: "text_laws lib0"
  unfolding text_laws_def by simp

end
