(* ===== verification/Domain.thy ===== *)
theory Domain
  imports Prelude
begin

text \<open>The domain types of the \<^verbatim>\<open>rt-core\<close> crate (\<^verbatim>\<open>crates/rt-core/src\<close>): instruments and their
  registry, order-book and market snapshots, orders and their statuses, positions, portfolio state,
  signals and the execution mode, with the accessors of each type.  Constructor names that two Rust
  enums share get a one-letter prefix; record fields get a short prefix of their struct.\<close>

section \<open>Instruments\<close>

datatype broker = KrakenSpot | KrakenFutures | Ibkr

fun broker_display :: "broker \<Rightarrow> string" where
  "broker_display KrakenSpot = ''kraken_spot''"
| "broker_display KrakenFutures = ''kraken_futures''"
| "broker_display Ibkr = ''ibkr''"

datatype sleeve = CryptoSpot | Etf | CryptoLeverage | CashYield

fun counts_toward_kill_switch :: "sleeve \<Rightarrow> bool" where
  "counts_toward_kill_switch CryptoLeverage = True"
| "counts_toward_kill_switch _ = False"

fun target_weight_pct :: "sleeve \<Rightarrow> rat" where
  "target_weight_pct CryptoSpot = 40"
| "target_weight_pct Etf = 30"
| "target_weight_pct CryptoLeverage = 30"
| "target_weight_pct CashYield = 0"

datatype asset_class = ACryptoSpot | ACryptoPerp | EquityEtf | BondEtf | Fiat

record instrument =
  ins_symbol :: string
  ins_broker :: broker
  ins_asset_class :: asset_class
  ins_min_order_size :: dec
  ins_tick_size :: dec

definition is_leveraged :: "instrument \<Rightarrow> bool" where
  "is_leveraged i \<longleftrightarrow> ins_asset_class i = ACryptoPerp"

record instrument_meta =
  im_min_order_size :: dec
  im_tick_size :: dec

type_synonym registry = "string \<rightharpoonup> instrument_meta"

definition registry_new :: registry where
  "registry_new = Map.empty"

definition registry_insert :: "string \<Rightarrow> instrument_meta \<Rightarrow> registry \<Rightarrow> registry" where
  "registry_insert symbol meta r = r(symbol \<mapsto> meta)"

definition registry_lookup :: "registry \<Rightarrow> string \<Rightarrow> instrument_meta" where
  "registry_lookup r symbol = (case r symbol of
      Some m \<Rightarrow> m
    | None \<Rightarrow> \<lparr> im_min_order_size = 1, im_tick_size = 5 / 10 \<rparr>)"

section \<open>Market data\<close>

record level =
  lv_price :: dec
  lv_quantity :: dec

record book_snapshot =
  ob_bids :: "level list"
  ob_asks :: "level list"
  ob_timestamp :: time

definition best_bid :: "book_snapshot \<Rightarrow> level option" where
  "best_bid b = (case ob_bids b of [] \<Rightarrow> None | l # _ \<Rightarrow> Some l)"

definition best_ask :: "book_snapshot \<Rightarrow> level option" where
  "best_ask b = (case ob_asks b of [] \<Rightarrow> None | l # _ \<Rightarrow> Some l)"

definition spread :: "lib \<Rightarrow> book_snapshot \<Rightarrow> dec option option" where
  "spread L b = (case best_ask b of
      None \<Rightarrow> Some None
    | Some a \<Rightarrow> (case best_bid b of
        None \<Rightarrow> Some None
      | Some d \<Rightarrow> map_option Some (dsub L (lv_price a) (lv_price d))))"

definition mid_price :: "lib \<Rightarrow> dec \<Rightarrow> dec \<Rightarrow> dec option" where
  "mid_price L bid ask = do { s \<leftarrow> dadd L bid ask; ddiv L s 2 }"

definition spread_bps :: "lib \<Rightarrow> book_snapshot \<Rightarrow> dec option option" where
  "spread_bps L b = (case best_bid b of
      None \<Rightarrow> Some None
    | Some bl \<Rightarrow> (case best_ask b of
        None \<Rightarrow> Some None
      | Some al \<Rightarrow> do {
          mid \<leftarrow> mid_price L (lv_price bl) (lv_price al);
          if mid = 0 then Some None
          else do {
            d \<leftarrow> dsub L (lv_price al) (lv_price bl);
            q \<leftarrow> ddiv L d mid;
            r \<leftarrow> dmul L q 10000;
            Some (Some r) } }))"

definition bid_depth :: "lib \<Rightarrow> book_snapshot \<Rightarrow> nat \<Rightarrow> dec option" where
  "bid_depth L b depth = dsum L (map lv_quantity (take depth (ob_bids b)))"

definition ask_depth :: "lib \<Rightarrow> book_snapshot \<Rightarrow> nat \<Rightarrow> dec option" where
  "ask_depth L b depth = dsum L (map lv_quantity (take depth (ob_asks b)))"

record market_snapshot =
  mk_instrument_symbol :: string
  mk_order_book :: book_snapshot
  mk_last_price :: dec
  mk_last_trade_at :: time
  mk_atr_absolute :: dec
  mk_atr_pct :: dec
  mk_funding_rate_per_8h :: "dec option"
  mk_fx_quote_per_chf :: dec

section \<open>Orders\<close>

datatype side = Buy | Sell

fun opposite :: "side \<Rightarrow> side" where
  "opposite Buy = Sell"
| "opposite Sell = Buy"

datatype order_type = Market | Limit | PostOnly | StopMarket | StopLimit

datatype time_in_force = Gtc | Ioc | Fok | GoodForSeconds "32 word"

datatype order_status =
    PendingSubmission | Submitted | Acknowledged | PartiallyFilled
  | Filled | OCancelled | ORejected | OFailed

fun is_terminal :: "order_status \<Rightarrow> bool" where
  "is_terminal Filled = True"
| "is_terminal OCancelled = True"
| "is_terminal ORejected = True"
| "is_terminal OFailed = True"
| "is_terminal _ = False"

fun is_live :: "order_status \<Rightarrow> bool" where
  "is_live Submitted = True"
| "is_live Acknowledged = True"
| "is_live PartiallyFilled = True"
| "is_live _ = False"

record order =
  or_id :: int
  or_signal_id :: "int option"
  or_broker :: broker
  or_broker_order_id :: "string option"
  or_cli_ord_id :: "string option"
  or_instrument :: instrument
  or_side :: side
  or_order_type :: order_type
  or_time_in_force :: time_in_force
  or_quantity :: dec
  or_limit_price :: "dec option"
  or_stop_price :: "dec option"
  or_status :: order_status
  or_filled_quantity :: dec
  or_avg_fill_price :: "dec option"
  or_fees_paid :: dec
  or_created_at :: time
  or_updated_at :: time
  or_error_message :: "string option"
  or_reduce_only :: "bool option"

section \<open>Positions and the portfolio\<close>

record position =
  ps_id :: int
  ps_instrument_symbol :: string
  ps_broker :: broker
  ps_sleeve :: sleeve
  ps_quantity :: dec
  ps_avg_entry_price :: dec
  ps_leverage :: dec
  ps_liquidation_price :: "dec option"
  ps_opened_at :: time
  ps_updated_at :: time

definition position_is_long :: "position \<Rightarrow> bool" where
  "position_is_long p \<longleftrightarrow> 0 < ps_quantity p"

definition position_is_short :: "position \<Rightarrow> bool" where
  "position_is_short p \<longleftrightarrow> ps_quantity p < 0"

definition position_notional :: "lib \<Rightarrow> position \<Rightarrow> dec \<Rightarrow> dec option" where
  "position_notional L p mark = map_option abs (dmul L (ps_quantity p) mark)"

definition position_unrealized_pnl :: "lib \<Rightarrow> position \<Rightarrow> dec \<Rightarrow> dec option" where
  "position_unrealized_pnl L p mark =
     do { d \<leftarrow> dsub L mark (ps_avg_entry_price p); dmul L d (ps_quantity p) }"

definition distance_to_liquidation_atrs ::
    "lib \<Rightarrow> position \<Rightarrow> dec \<Rightarrow> dec \<Rightarrow> dec option option" where
  "distance_to_liquidation_atrs L p mark atr = (case ps_liquidation_price p of
      None \<Rightarrow> Some None
    | Some liq \<Rightarrow>
        if atr = 0 then Some None
        else do { d \<leftarrow> dsub L mark liq; r \<leftarrow> ddiv L \<bar>d\<bar> atr; Some (Some r) })"

record open_position =
  op_instrument_symbol :: string
  op_sleeve :: sleeve
  op_quantity :: dec
  op_avg_entry_price :: "dec option"
  op_liquidation_price :: "dec option"
  op_leverage :: "dec option"

definition op_is_long :: "open_position \<Rightarrow> bool" where
  "op_is_long p \<longleftrightarrow> 0 \<le> op_quantity p \<and> op_quantity p \<noteq> 0"

definition op_is_short :: "open_position \<Rightarrow> bool" where
  "op_is_short p \<longleftrightarrow> op_quantity p < 0"

record sleeve_state =
  ss_sleeve :: sleeve
  ss_market_value_chf :: dec
  ss_cash_chf :: dec
  ss_realized_pnl_lifetime_chf :: dec
  ss_unrealized_pnl_chf :: dec

definition sleeve_total_value :: "lib \<Rightarrow> sleeve_state \<Rightarrow> dec option" where
  "sleeve_total_value L s = dadd L (ss_market_value_chf s) (ss_cash_chf s)"

record portfolio =
  pf_snapshot_at :: time
  pf_sleeves :: "sleeve_state list"
  pf_nav_per_unit :: dec
  pf_nav_hwm_per_unit :: dec
  pf_total_units :: dec
  pf_kill_switch_active :: bool
  pf_open_positions :: "open_position list"

fun total_value_from :: "lib \<Rightarrow> dec \<Rightarrow> sleeve_state list \<Rightarrow> dec option" where
  "total_value_from L acc [] = Some acc"
| "total_value_from L acc (s # ss) =
     do { v \<leftarrow> sleeve_total_value L s; a \<leftarrow> dadd L acc v; total_value_from L a ss }"

definition total_value_chf :: "lib \<Rightarrow> portfolio \<Rightarrow> dec option" where
  "total_value_chf L p = total_value_from L 0 (pf_sleeves p)"

definition find_sleeve :: "portfolio \<Rightarrow> sleeve \<Rightarrow> sleeve_state option" where
  "find_sleeve p sl = find (\<lambda>s. ss_sleeve s = sl) (pf_sleeves p)"

definition drawdown_fraction :: "lib \<Rightarrow> portfolio \<Rightarrow> dec option" where
  "drawdown_fraction L p =
     (if pf_nav_hwm_per_unit p = 0 then Some 0
      else if pf_nav_hwm_per_unit p \<le> pf_nav_per_unit p then Some 0
      else do { d \<leftarrow> dsub L (pf_nav_hwm_per_unit p) (pf_nav_per_unit p);
                ddiv L d (pf_nav_hwm_per_unit p) })"

definition leverage_realized_pnl :: "portfolio \<Rightarrow> dec" where
  "leverage_realized_pnl p = (case find_sleeve p CryptoLeverage of
      Some s \<Rightarrow> ss_realized_pnl_lifetime_chf s | None \<Rightarrow> 0)"

definition leverage_unrealized_pnl :: "portfolio \<Rightarrow> dec" where
  "leverage_unrealized_pnl p = (case find_sleeve p CryptoLeverage of
      Some s \<Rightarrow> ss_unrealized_pnl_chf s | None \<Rightarrow> 0)"

definition leverage_effective_pnl :: "lib \<Rightarrow> portfolio \<Rightarrow> dec option" where
  "leverage_effective_pnl L p =
     dadd L (leverage_realized_pnl p) (min (leverage_unrealized_pnl p) 0)"

section \<open>Signals and the execution mode\<close>

datatype signal_type = SpotAccumulation | TrendEntry | TrendExit | Rebalance

datatype signal_status = SPending | SProcessed | SRejected | SFailed | SCancelled

record signal =
  sg_id :: int
  sg_created_at :: time
  sg_instrument_symbol :: string
  sg_side :: side
  sg_signal_type :: signal_type
  sg_sleeve :: sleeve
  sg_notional_chf :: dec
  sg_leverage :: dec
  sg_metadata :: "json option"
  sg_status :: signal_status
  sg_processed_at :: "time option"
  sg_rejection_reason :: "string option"
  sg_expires_at :: "time option"

datatype execution_mode = DryRun | Paper | Live

definition execution_mode_default :: execution_mode where
  "execution_mode_default = DryRun"

fun mode_description :: "execution_mode \<Rightarrow> string" where
  "mode_description DryRun = ''dry-run (no broker submission)''"
| "mode_description Paper = ''paper (broker sandbox/demo)''"
| "mode_description Live = ''LIVE (real money)''"

fun submits_orders :: "execution_mode \<Rightarrow> bool" where
  "submits_orders Paper = True"
| "submits_orders Live = True"
| "submits_orders DryRun = False"

definition canonical_iso :: "lib \<Rightarrow> time \<Rightarrow> string" where
  "canonical_iso L t = l_iso L t"

section \<open>Facts about the accessors\<close>

lemma live_not_terminal: "is_live s \<Longrightarrow> \<not> is_terminal s"
  by (cases s) auto

text \<open>Every status is exactly one of live, terminal, and not yet submitted.\<close>
lemma status_trichotomy:
  "is_terminal s \<noteq> (is_live s \<or> s = PendingSubmission)"
  by (cases s) auto

lemma opposite_opposite [simp]: "opposite (opposite s) = s"
  by (cases s) auto

lemma opposite_neq [simp]: "opposite s \<noteq> s"
  by (cases s) auto

lemma registry_lookup_insert:
  "registry_lookup (registry_insert k m r) k' = (if k' = k then m else registry_lookup r k')"
  by (simp add: registry_lookup_def registry_insert_def)

lemma registry_lookup_new:
  "registry_lookup registry_new k = \<lparr> im_min_order_size = 1, im_tick_size = 1 / 2 \<rparr>"
  by (simp add: registry_lookup_def registry_new_def)

lemma op_long_short: "op_is_long p \<longleftrightarrow> 0 < op_quantity p"
  by (auto simp: op_is_long_def)

text \<open>The effective PnL never counts paper gains: it is at most the realised PnL, and equals it
  when nothing is under water.\<close>
lemma effective_pnl_le_realized:
  assumes "dec_laws L" "leverage_effective_pnl L p = Some e" "isdec L (leverage_realized_pnl p)"
  shows "e \<le> leverage_realized_pnl p"
  using rnd_mono [OF assms(1), of _ e "leverage_realized_pnl p"] assms(2,3)
  by (simp add: leverage_effective_pnl_def dadd_def isdec_def)

lemma effective_pnl_no_paper_gain:
  assumes "0 \<le> leverage_unrealized_pnl p" "isdec L (leverage_realized_pnl p)"
  shows "leverage_effective_pnl L p = Some (leverage_realized_pnl p)"
  using assms by (simp add: leverage_effective_pnl_def dadd_def isdec_def min_absorb2)

lemma drawdown_at_high_water:
  "pf_nav_hwm_per_unit p \<le> pf_nav_per_unit p \<Longrightarrow> drawdown_fraction L p = Some 0"
  by (simp add: drawdown_fraction_def)

text \<open>With a positive NAV and high-water mark the drawdown is a fraction.\<close>
lemma drawdown_bounds:
  assumes L: "dec_laws L" and dd: "drawdown_fraction L p = Some d"
    and nav: "0 \<le> pf_nav_per_unit p" and hwm: "isdec L (pf_nav_hwm_per_unit p)"
  shows "0 \<le> d \<and> d \<le> 1"
proof (cases "pf_nav_hwm_per_unit p = 0 \<or> pf_nav_hwm_per_unit p \<le> pf_nav_per_unit p")
  case True
  then show ?thesis using dd by (auto simp: drawdown_fraction_def split: if_splits)
next
  case False
  let ?h = "pf_nav_hwm_per_unit p"
  from False nav have pos: "0 < ?h" by auto
  from dd False obtain x where x: "l_rnd L (?h - pf_nav_per_unit p) = Some x"
    and d: "l_rnd L (x / ?h) = Some d"
    by (auto simp: drawdown_fraction_def dec_ops do_Some_conv)
  have "0 \<le> x \<and> x \<le> ?h"
    using rnd_bounds [OF L x isdec_0 [OF L] hwm] False nav by auto
  then have "0 \<le> x / ?h" "x / ?h \<le> 1"
    using pos by (auto simp: divide_le_eq)
  then show ?thesis
    using rnd_bounds [OF L d isdec_0 [OF L]] rnd_1 [OF L] by (auto simp: isdec_def)
qed

lemma drawdown_independent_of_units:
  "drawdown_fraction L (p\<lparr> pf_total_units := u \<rparr>) = drawdown_fraction L p"
  by (simp add: drawdown_fraction_def)

lemma mode_submits_iff: "submits_orders m \<longleftrightarrow> m \<noteq> DryRun"
  by (cases m) auto

lemma default_mode_is_safe: "\<not> submits_orders execution_mode_default"
  by (simp add: execution_mode_default_def)

end
