(* ===== verification/Checks.thy ===== *)
theory Checks
  imports Domain
begin

text \<open>The risk configuration and the eight pre-trade checks of \<^verbatim>\<open>crates/rt-risk/src/checks\<close>, with the
  outcome and rejection-reason types of \<^verbatim>\<open>checklist.rs\<close>.  Each check has a specification \<^verbatim>\<open>..._ok\<close>, the
  condition it stands for, and a lemma that the check passes exactly when the condition holds.\<close>

section \<open>Configuration and outcome types\<close>

record risk_config =
  rc_max_tick_age_ms :: "64 word"
  rc_max_spread_bps :: dec
  rc_min_book_depth_multiple :: dec
  rc_book_depth_levels :: nat
  rc_max_atr_pct_for_leverage :: dec
  rc_max_atr_pct_absolute :: dec
  rc_leverage_kill_switch_budget_chf :: dec
  rc_max_portfolio_drawdown :: dec
  rc_kill_switch_effective_threshold_chf :: dec
  rc_adverse_move_for_worst_case :: dec
  rc_max_funding_rate_per_8h :: dec
  rc_max_leverage :: dec
  rc_max_notional_chf_per_order :: dec
  rc_usd_per_chf_fallback :: dec
  rc_min_liq_distance_atrs :: dec
  rc_expected_round_trip_fee_fraction :: dec
  rc_expected_funding_reserve_fraction :: dec

definition risk_config_default :: risk_config where
  "risk_config_default = \<lparr>
     rc_max_tick_age_ms = 500,
     rc_max_spread_bps = 20,
     rc_min_book_depth_multiple = 3,
     rc_book_depth_levels = 5,
     rc_max_atr_pct_for_leverage = 6,
     rc_max_atr_pct_absolute = 15,
     rc_leverage_kill_switch_budget_chf = - 1000,
     rc_max_portfolio_drawdown = 20 / 100,
     rc_kill_switch_effective_threshold_chf = - 1200,
     rc_adverse_move_for_worst_case = 10 / 100,
     rc_max_funding_rate_per_8h = 2 / 10000,
     rc_max_leverage = 2,
     rc_max_notional_chf_per_order = 1000,
     rc_usd_per_chf_fallback = 110 / 100,
     rc_min_liq_distance_atrs = 2,
     rc_expected_round_trip_fee_fraction = 1 / 1000,
     rc_expected_funding_reserve_fraction = 2 / 1000 \<rparr>"

record ctx =
  cx_signal :: signal
  cx_market :: market_snapshot
  cx_portfolio :: portfolio
  cx_config :: risk_config
  cx_now :: time

datatype rejection_reason =
    StaleMarketData "64 word" "64 word"
  | SpreadTooWide dec dec
  | InsufficientLiquidity dec dec string
  | VolatilityTooHighForLeverage dec dec
  | VolatilityAbsoluteHalt dec dec
  | LeverageEffectivePnlBudgetExhausted dec dec dec dec
  | PortfolioDrawdownExceeded dec dec
  | WorstCaseLossWouldExhaustBudget dec dec
  | FundingRateTooExpensive dec dec
  | LeverageCapExceeded dec dec
  | NotionalTooLarge dec dec
  | DuplicatePositionOpen string string dec
  | LiquidationTooClose string dec dec
  | KillSwitchActive
  | InvalidSignal string

datatype check_outcome = Approved | Rejected rejection_reason | NotApplicable

fun reason_summary :: "lib \<Rightarrow> rejection_reason \<Rightarrow> string" where
  "reason_summary L (StaleMarketData age limit) =
     ''stale market data ('' @ show_u64 age @ ''ms > '' @ show_u64 limit @ ''ms)''"
| "reason_summary L (SpreadTooWide bps limit) =
     ''spread too wide ('' @ l_show L bps @ '' > '' @ l_show L limit @ '' bps)''"
| "reason_summary L (InsufficientLiquidity req av side) =
     ''insufficient '' @ side @ '' liquidity (need '' @ l_show L req @ '', have '' @ l_show L av @ '')''"
| "reason_summary L (VolatilityTooHighForLeverage atr limit) =
     ''ATR% '' @ l_show L atr @ '' exceeds leverage limit '' @ l_show L limit"
| "reason_summary L (VolatilityAbsoluteHalt atr limit) =
     ''ATR% '' @ l_show L atr @ '' exceeds absolute market-halt limit '' @ l_show L limit"
| "reason_summary L (LeverageEffectivePnlBudgetExhausted e r u b) =
     ''leverage effective P&L '' @ l_show L e @ '' CHF (realised '' @ l_show L r @ '' + unrealised ''
       @ l_show L u @ '') has exhausted budget '' @ l_show L b @ '' CHF''"
| "reason_summary L (PortfolioDrawdownExceeded d limit) =
     ''portfolio drawdown '' @ l_show L d @ '' exceeds limit '' @ l_show L limit"
| "reason_summary L (WorstCaseLossWouldExhaustBudget loss rem) =
     ''worst-case loss '' @ l_show L loss @ '' CHF would exceed remaining budget ''
       @ l_show L rem @ '' CHF''"
| "reason_summary L (FundingRateTooExpensive rate limit) =
     ''funding rate '' @ l_show L rate @ ''/8h exceeds limit '' @ l_show L limit @ ''/8h''"
| "reason_summary L (LeverageCapExceeded req cap) =
     ''requested leverage '' @ l_show L req @ ''x exceeds cap '' @ l_show L cap @ ''x''"
| "reason_summary L (NotionalTooLarge n limit) =
     ''notional '' @ l_show L n @ '' CHF exceeds per-order cap '' @ l_show L limit @ '' CHF''"
| "reason_summary L (DuplicatePositionOpen symb side q) =
     ''already open position on '' @ symb @ '' '' @ side @ '' (qty '' @ l_show L q
       @ ''); refusing duplicate entry''"
| "reason_summary L (LiquidationTooClose symb d m) =
     ''liquidation too close on '' @ symb @ '': '' @ l_show L d @ '' ATR < required '' @ l_show L m"
| "reason_summary L KillSwitchActive = ''kill-switch is active; no leveraged trades accepted''"
| "reason_summary L (InvalidSignal detail) = ''invalid signal: '' @ detail"

section \<open>The checks\<close>

text \<open>\<^verbatim>\<open>checks/staleness.rs\<close>.\<close>
definition tick_age_ms :: "ctx \<Rightarrow> 64 word" where
  "tick_age_ms c = word_of_int
     (max (num_milliseconds (cx_now c - ob_timestamp (mk_order_book (cx_market c)))) 0)"

definition staleness_check :: "lib \<Rightarrow> ctx \<Rightarrow> check_outcome option" where
  "staleness_check L c = (let age_ms = tick_age_ms c; limit = rc_max_tick_age_ms (cx_config c) in
     Some (if limit < age_ms then Rejected (StaleMarketData age_ms limit) else Approved))"

text \<open>\<^verbatim>\<open>checks/spread_liquidity.rs\<close>.\<close>
definition no_liquidity :: check_outcome where
  "no_liquidity = Rejected (InsufficientLiquidity 0 0 ''either'')"

definition required_quantity :: "lib \<Rightarrow> ctx \<Rightarrow> dec \<Rightarrow> dec option" where
  "required_quantity L c mid = do {
     notional_quote \<leftarrow> dmul L (sg_notional_chf (cx_signal c)) (mk_fx_quote_per_chf (cx_market c));
     required_qty \<leftarrow> ddiv L notional_quote mid;
     dmul L required_qty (rc_min_book_depth_multiple (cx_config c)) }"

definition available_depth :: "lib \<Rightarrow> ctx \<Rightarrow> (dec \<times> string) option" where
  "available_depth L c = (case sg_side (cx_signal c) of
      Buy \<Rightarrow> map_option (\<lambda>d. (d, ''ask''))
        (ask_depth L (mk_order_book (cx_market c)) (rc_book_depth_levels (cx_config c)))
    | Sell \<Rightarrow> map_option (\<lambda>d. (d, ''bid''))
        (bid_depth L (mk_order_book (cx_market c)) (rc_book_depth_levels (cx_config c))))"

definition spread_liquidity_check :: "lib \<Rightarrow> ctx \<Rightarrow> check_outcome option" where
  "spread_liquidity_check L c =
     (let fx = mk_fx_quote_per_chf (cx_market c); book = mk_order_book (cx_market c) in
      if fx \<le> 0 then
        Some (Rejected (InvalidSignal
          (''invalid fx_quote_per_chf in market snapshot: '' @ l_show L fx)))
      else do {
        bps \<leftarrow> spread_bps L book;
        case bps of
          None \<Rightarrow> Some no_liquidity
        | Some sp \<Rightarrow>
            if rc_max_spread_bps (cx_config c) < sp then
              Some (Rejected (SpreadTooWide sp (rc_max_spread_bps (cx_config c))))
            else (case (best_bid book, best_ask book) of
              (Some b, Some a) \<Rightarrow> do {
                mid \<leftarrow> mid_price L (lv_price b) (lv_price a);
                if mid = 0 then Some no_liquidity
                else do {
                  required \<leftarrow> required_quantity L c mid;
                  av \<leftarrow> available_depth L c;
                  Some (if fst av < required
                        then Rejected (InsufficientLiquidity required (fst av) (snd av))
                        else Approved) } }
            | _ \<Rightarrow> Some no_liquidity) })"

text \<open>\<^verbatim>\<open>checks/volatility.rs\<close>.\<close>
definition volatility_check :: "lib \<Rightarrow> ctx \<Rightarrow> check_outcome option" where
  "volatility_check L c = (let atr = mk_atr_pct (cx_market c); cfg = cx_config c in
     Some (if rc_max_atr_pct_absolute cfg < atr
           then Rejected (VolatilityAbsoluteHalt atr (rc_max_atr_pct_absolute cfg))
           else if sg_sleeve (cx_signal c) = CryptoLeverage \<and> rc_max_atr_pct_for_leverage cfg < atr
           then Rejected (VolatilityTooHighForLeverage atr (rc_max_atr_pct_for_leverage cfg))
           else Approved))"

text \<open>\<^verbatim>\<open>checks/hard_limit.rs\<close>.\<close>
definition worst_case_loss :: "lib \<Rightarrow> ctx \<Rightarrow> dec option" where
  "worst_case_loss L c = do {
     notional \<leftarrow> dmul L (sg_notional_chf (cx_signal c)) (sg_leverage (cx_signal c));
     adverse_loss \<leftarrow> dmul L notional (rc_adverse_move_for_worst_case (cx_config c));
     fee_reserve \<leftarrow> dmul L notional (rc_expected_round_trip_fee_fraction (cx_config c));
     funding_reserve \<leftarrow> dmul L notional (rc_expected_funding_reserve_fraction (cx_config c));
     s \<leftarrow> dadd L adverse_loss fee_reserve;
     dadd L s funding_reserve }"

definition hard_limit_check :: "lib \<Rightarrow> ctx \<Rightarrow> check_outcome option" where
  "hard_limit_check L c = (let sg = cx_signal c; cfg = cx_config c; pf = cx_portfolio c in
     if rc_max_leverage cfg < sg_leverage sg then
       Some (Rejected (LeverageCapExceeded (sg_leverage sg) (rc_max_leverage cfg)))
     else if sg_sleeve sg \<noteq> CryptoLeverage then Some Approved
     else do {
       effective \<leftarrow> leverage_effective_pnl L pf;
       let budget = rc_leverage_kill_switch_budget_chf cfg;
       if effective \<le> budget then
         Some (Rejected (LeverageEffectivePnlBudgetExhausted effective
                 (leverage_realized_pnl pf) (leverage_unrealized_pnl pf) budget))
       else do {
         dd \<leftarrow> drawdown_fraction L pf;
         if rc_max_portfolio_drawdown cfg < dd then
           Some (Rejected (PortfolioDrawdownExceeded dd (rc_max_portfolio_drawdown cfg)))
         else do {
           loss \<leftarrow> worst_case_loss L c;
           projected \<leftarrow> dsub L effective loss;
           if projected \<le> budget then do {
             d \<leftarrow> dsub L effective budget;
             Some (Rejected (WorstCaseLossWouldExhaustBudget loss (max d 0))) }
           else Some Approved } } })"

text \<open>\<^verbatim>\<open>checks/duplicate_position.rs\<close>.\<close>
definition same_direction :: "signal \<Rightarrow> open_position \<Rightarrow> bool" where
  "same_direction sg pos \<longleftrightarrow>
     (sg_side sg = Buy \<and> op_is_long pos) \<or> (sg_side sg \<noteq> Buy \<and> op_is_short pos)"

fun duplicate_scan :: "signal \<Rightarrow> open_position list \<Rightarrow> check_outcome" where
  "duplicate_scan sg [] = Approved"
| "duplicate_scan sg (pos # rest) =
     (if op_instrument_symbol pos \<noteq> sg_instrument_symbol sg then duplicate_scan sg rest
      else if op_sleeve pos \<noteq> CryptoLeverage then duplicate_scan sg rest
      else if same_direction sg pos then
        Rejected (DuplicatePositionOpen (sg_instrument_symbol sg)
          (if sg_side sg = Buy then ''buy'' else ''sell'') (op_quantity pos))
      else duplicate_scan sg rest)"

definition duplicate_position_check :: "lib \<Rightarrow> ctx \<Rightarrow> check_outcome option" where
  "duplicate_position_check L c =
     Some (if sg_sleeve (cx_signal c) \<noteq> CryptoLeverage then NotApplicable
           else duplicate_scan (cx_signal c) (pf_open_positions (cx_portfolio c)))"

text \<open>\<^verbatim>\<open>checks/liquidation_distance.rs\<close>.\<close>
definition round2 :: "lib \<Rightarrow> dec \<Rightarrow> dec" where
  "round2 L d = l_round_dp L 2 d"

fun liquidation_scan :: "lib \<Rightarrow> ctx \<Rightarrow> bool \<Rightarrow> open_position list \<Rightarrow> check_outcome option" where
  "liquidation_scan L c any_checked [] = Some (if any_checked then Approved else NotApplicable)"
| "liquidation_scan L c any_checked (pos # rest) =
     (if op_sleeve pos \<noteq> CryptoLeverage then liquidation_scan L c any_checked rest
      else if op_instrument_symbol pos \<noteq> sg_instrument_symbol (cx_signal c)
      then liquidation_scan L c any_checked rest
      else (case op_liquidation_price pos of
          None \<Rightarrow> liquidation_scan L c any_checked rest
        | Some liq \<Rightarrow> do {
            d \<leftarrow> dsub L (mk_last_price (cx_market c)) liq;
            distance \<leftarrow> ddiv L \<bar>d\<bar> (mk_atr_absolute (cx_market c));
            if distance < rc_min_liq_distance_atrs (cx_config c) then
              Some (Rejected (LiquidationTooClose (op_instrument_symbol pos) (round2 L distance)
                      (rc_min_liq_distance_atrs (cx_config c))))
            else liquidation_scan L c True rest }))"

definition liquidation_distance_check :: "lib \<Rightarrow> ctx \<Rightarrow> check_outcome option" where
  "liquidation_distance_check L c =
     (if sg_sleeve (cx_signal c) \<noteq> CryptoLeverage then Some NotApplicable
      else if mk_atr_absolute (cx_market c) = 0 then Some NotApplicable
      else liquidation_scan L c False (pf_open_positions (cx_portfolio c)))"

text \<open>\<^verbatim>\<open>checks/funding_rate.rs\<close>.\<close>
definition funding_rate_check :: "lib \<Rightarrow> ctx \<Rightarrow> check_outcome option" where
  "funding_rate_check L c = Some (case mk_funding_rate_per_8h (cx_market c) of
      None \<Rightarrow> NotApplicable
    | Some funding \<Rightarrow>
        (let adverse = (case sg_side (cx_signal c) of Buy \<Rightarrow> funding | Sell \<Rightarrow> - funding);
             limit = rc_max_funding_rate_per_8h (cx_config c) in
         if limit < adverse then Rejected (FundingRateTooExpensive adverse limit) else Approved))"

text \<open>\<^verbatim>\<open>checks/notional_cap.rs\<close>.\<close>
definition notional_cap_check :: "lib \<Rightarrow> ctx \<Rightarrow> check_outcome option" where
  "notional_cap_check L c =
     (let notional = sg_notional_chf (cx_signal c);
          limit = rc_max_notional_chf_per_order (cx_config c) in
      Some (if limit < notional then Rejected (NotionalTooLarge notional limit) else Approved))"

text \<open>\<^verbatim>\<open>position_sizing.rs\<close>.\<close>
record position_sizing =
  sz_quantity :: dec
  sz_stop_distance_quote :: dec
  sz_risk_chf :: dec

definition atr_based_size ::
    "lib \<Rightarrow> dec \<Rightarrow> dec \<Rightarrow> dec \<Rightarrow> dec \<Rightarrow> dec \<Rightarrow> position_sizing option option" where
  "atr_based_size L equity risk_fraction atr stop_mult price =
     (if atr = 0 \<or> price = 0 then Some None
      else do {
        risk \<leftarrow> dmul L equity risk_fraction;
        stop_quote \<leftarrow> dmul L atr stop_mult;
        stop_chf \<leftarrow> dmul L stop_quote price;
        if stop_chf = 0 then Some None
        else do {
          q \<leftarrow> ddiv L risk stop_chf;
          Some (Some \<lparr> sz_quantity = q, sz_stop_distance_quote = stop_quote,
                       sz_risk_chf = risk \<rparr>) } })"

section \<open>What each check stands for\<close>

fun passes :: "check_outcome \<Rightarrow> bool" where
  "passes Approved = True"
| "passes NotApplicable = True"
| "passes (Rejected _) = False"

text \<open>The book is no older than the limit, in whole milliseconds.\<close>
definition staleness_ok :: "ctx \<Rightarrow> bool" where
  "staleness_ok c \<longleftrightarrow> tick_age_ms c \<le> rc_max_tick_age_ms (cx_config c)"

text \<open>The quote is two-sided and tight, and the side the order takes from holds the order's
  quantity times the configured multiple.\<close>
definition spread_liquidity_ok :: "lib \<Rightarrow> ctx \<Rightarrow> bool" where
  "spread_liquidity_ok L c \<longleftrightarrow>
     0 < mk_fx_quote_per_chf (cx_market c) \<and>
     (case (best_bid (mk_order_book (cx_market c)), best_ask (mk_order_book (cx_market c)),
            spread_bps L (mk_order_book (cx_market c))) of
        (Some b, Some a, Some (Some bps)) \<Rightarrow>
          bps \<le> rc_max_spread_bps (cx_config c) \<and>
          (case mid_price L (lv_price b) (lv_price a) of
             Some mid \<Rightarrow> mid \<noteq> 0 \<and>
               (case (required_quantity L c mid, available_depth L c) of
                  (Some req, Some av) \<Rightarrow> req \<le> fst av
                | _ \<Rightarrow> False)
           | None \<Rightarrow> False)
      | _ \<Rightarrow> False)"

definition volatility_ok :: "ctx \<Rightarrow> bool" where
  "volatility_ok c \<longleftrightarrow>
     mk_atr_pct (cx_market c) \<le> rc_max_atr_pct_absolute (cx_config c) \<and>
     (sg_sleeve (cx_signal c) = CryptoLeverage \<longrightarrow>
        mk_atr_pct (cx_market c) \<le> rc_max_atr_pct_for_leverage (cx_config c))"

text \<open>The leverage cap holds, and for the leverage sleeve the budget survives the worst case.\<close>
definition hard_limit_ok :: "lib \<Rightarrow> ctx \<Rightarrow> bool" where
  "hard_limit_ok L c \<longleftrightarrow>
     sg_leverage (cx_signal c) \<le> rc_max_leverage (cx_config c) \<and>
     (sg_sleeve (cx_signal c) = CryptoLeverage \<longrightarrow>
        (case (leverage_effective_pnl L (cx_portfolio c), drawdown_fraction L (cx_portfolio c),
               worst_case_loss L c) of
           (Some e, Some dd, Some loss) \<Rightarrow>
             rc_leverage_kill_switch_budget_chf (cx_config c) < e \<and>
             dd \<le> rc_max_portfolio_drawdown (cx_config c) \<and>
             (case dsub L e loss of
                Some projected \<Rightarrow> rc_leverage_kill_switch_budget_chf (cx_config c) < projected
              | None \<Rightarrow> False)
         | _ \<Rightarrow> False))"

text \<open>The leverage positions on the signal's instrument.\<close>
definition positions_on :: "ctx \<Rightarrow> open_position list" where
  "positions_on c = filter (\<lambda>p. op_instrument_symbol p = sg_instrument_symbol (cx_signal c)
     \<and> op_sleeve p = CryptoLeverage) (pf_open_positions (cx_portfolio c))"

definition no_duplicate_ok :: "ctx \<Rightarrow> bool" where
  "no_duplicate_ok c \<longleftrightarrow> (sg_sleeve (cx_signal c) = CryptoLeverage \<longrightarrow>
     (\<forall>p \<in> set (positions_on c).
        (case sg_side (cx_signal c) of Buy \<Rightarrow> op_quantity p \<le> 0 | Sell \<Rightarrow> 0 \<le> op_quantity p)))"

definition far_from_liquidation :: "lib \<Rightarrow> ctx \<Rightarrow> open_position \<Rightarrow> bool" where
  "far_from_liquidation L c p \<longleftrightarrow> (case op_liquidation_price p of
      None \<Rightarrow> True
    | Some liq \<Rightarrow> (case do { d \<leftarrow> dsub L (mk_last_price (cx_market c)) liq;
                             ddiv L \<bar>d\<bar> (mk_atr_absolute (cx_market c)) } of
          Some far \<Rightarrow> rc_min_liq_distance_atrs (cx_config c) \<le> far
        | None \<Rightarrow> False))"

definition liquidation_ok :: "lib \<Rightarrow> ctx \<Rightarrow> bool" where
  "liquidation_ok L c \<longleftrightarrow>
     (sg_sleeve (cx_signal c) = CryptoLeverage \<longrightarrow> mk_atr_absolute (cx_market c) \<noteq> 0 \<longrightarrow>
        (\<forall>p \<in> set (positions_on c). far_from_liquidation L c p))"

definition funding_ok :: "ctx \<Rightarrow> bool" where
  "funding_ok c \<longleftrightarrow> (case mk_funding_rate_per_8h (cx_market c) of
      None \<Rightarrow> True
    | Some f \<Rightarrow> (case sg_side (cx_signal c) of
        Buy \<Rightarrow> f \<le> rc_max_funding_rate_per_8h (cx_config c)
      | Sell \<Rightarrow> - rc_max_funding_rate_per_8h (cx_config c) \<le> f))"

definition notional_ok :: "ctx \<Rightarrow> bool" where
  "notional_ok c \<longleftrightarrow>
     sg_notional_chf (cx_signal c) \<le> rc_max_notional_chf_per_order (cx_config c)"

section \<open>Each check passes exactly on its condition\<close>

named_theorems check_iff "a check that returns passes exactly on its condition"

lemma staleness_iff [check_iff]:
  "staleness_check L c = Some out \<Longrightarrow> passes out \<longleftrightarrow> staleness_ok c"
  by (auto simp: staleness_check_def staleness_ok_def Let_def not_less split: if_splits)

lemma mid_not_zero:
  "spread_bps L b = Some (Some r) \<Longrightarrow> best_bid b = Some bl \<Longrightarrow> best_ask b = Some al \<Longrightarrow>
   \<exists>m. mid_price L (lv_price bl) (lv_price al) = Some m \<and> m \<noteq> 0"
  by (auto simp: spread_bps_def do_Some_conv split: if_splits)

lemma spread_liquidity_iff [check_iff]:
  "spread_liquidity_check L c = Some out \<Longrightarrow> passes out \<longleftrightarrow> spread_liquidity_ok L c"
  unfolding spread_liquidity_check_def spread_liquidity_ok_def no_liquidity_def Let_def
  by (auto simp: do_Some_conv not_less split: if_splits option.splits dest: mid_not_zero)

lemma volatility_iff [check_iff]:
  "volatility_check L c = Some out \<Longrightarrow> passes out \<longleftrightarrow> volatility_ok c"
  by (auto simp: volatility_check_def volatility_ok_def Let_def not_less split: if_splits)

lemma hard_limit_iff [check_iff]:
  "hard_limit_check L c = Some out \<Longrightarrow> passes out \<longleftrightarrow> hard_limit_ok L c"
  unfolding hard_limit_check_def hard_limit_ok_def Let_def
  by (auto simp: do_Some_conv not_less not_le split: if_splits option.splits)

lemma duplicate_scan_passes:
  "passes (duplicate_scan sg ps) \<longleftrightarrow>
   (\<forall>p \<in> set ps. op_instrument_symbol p = sg_instrument_symbol sg \<and> op_sleeve p = CryptoLeverage
      \<longrightarrow> \<not> same_direction sg p)"
  by (induction ps) auto

lemma same_direction_iff:
  "same_direction sg p \<longleftrightarrow> (case sg_side sg of Buy \<Rightarrow> 0 < op_quantity p | Sell \<Rightarrow> op_quantity p < 0)"
  by (cases "sg_side sg") (auto simp: same_direction_def op_long_short op_is_short_def)

lemma duplicate_position_iff [check_iff]:
  "duplicate_position_check L c = Some out \<Longrightarrow> passes out \<longleftrightarrow> no_duplicate_ok c"
  by (cases "sg_side (cx_signal c)")
     (auto simp: duplicate_position_check_def no_duplicate_ok_def positions_on_def not_less
       duplicate_scan_passes same_direction_iff split: if_splits)

lemma far_from_liquidation_None:
  "op_liquidation_price p = None \<Longrightarrow> far_from_liquidation L c p"
  by (simp add: far_from_liquidation_def)

lemma far_from_liquidation_Some:
  "op_liquidation_price p = Some liq \<Longrightarrow> dsub L (mk_last_price (cx_market c)) liq = Some d \<Longrightarrow>
   ddiv L \<bar>d\<bar> (mk_atr_absolute (cx_market c)) = Some r \<Longrightarrow>
   far_from_liquidation L c p \<longleftrightarrow> rc_min_liq_distance_atrs (cx_config c) \<le> r"
  by (simp add: far_from_liquidation_def)

lemma liquidation_scan_passes:
  "liquidation_scan L c f ps = Some out \<Longrightarrow>
   passes out \<longleftrightarrow> (\<forall>p \<in> set ps. op_sleeve p = CryptoLeverage
      \<and> op_instrument_symbol p = sg_instrument_symbol (cx_signal c) \<longrightarrow> far_from_liquidation L c p)"
  by (induction ps arbitrary: f)
     (auto simp: far_from_liquidation_None far_from_liquidation_Some do_Some_conv not_less
       split: if_splits option.splits)

lemma liquidation_iff [check_iff]:
  "liquidation_distance_check L c = Some out \<Longrightarrow> passes out \<longleftrightarrow> liquidation_ok L c"
  by (auto simp: liquidation_distance_check_def liquidation_ok_def positions_on_def
       dest: liquidation_scan_passes split: if_splits)

lemma funding_iff [check_iff]:
  "funding_rate_check L c = Some out \<Longrightarrow> passes out \<longleftrightarrow> funding_ok c"
  by (auto simp: funding_rate_check_def funding_ok_def Let_def not_less minus_le_iff
       split: option.splits side.splits if_splits)

lemma notional_iff [check_iff]:
  "notional_cap_check L c = Some out \<Longrightarrow> passes out \<longleftrightarrow> notional_ok c"
  by (auto simp: notional_cap_check_def notional_ok_def Let_def not_less split: if_splits)

end
