(* ===== verification/Checklist.thy ===== *)
theory Checklist
  imports Checks
begin

text \<open>The pre-trade checklist of \<^verbatim>\<open>crates/rt-risk/src/checklist.rs\<close>: the list of checks in the canonical
  order, the kill-switch gate in front of it, and the verdict.  The locale \<^verbatim>\<open>checklist_contract\<close>
  states what the checklist relies on (every check that returns passes exactly on its condition) and
  derives the verdict's meaning; it is interpreted on the standard checklist.\<close>

section \<open>The checklist\<close>

record pre_trade_check =
  ck_id :: string
  ck_description :: string
  ck_evaluate :: "lib \<Rightarrow> ctx \<Rightarrow> check_outcome option"

record checklist_result =
  cr_outcomes :: "(string \<times> check_outcome) list"
  cr_evaluated_at :: time
  cr_approved :: bool

definition staleness_item :: pre_trade_check where
  "staleness_item = \<lparr> ck_id = ''staleness'',
     ck_description = ''Reject if last order-book update is older than the configured tick-age limit'',
     ck_evaluate = staleness_check \<rparr>"

definition spread_liquidity_item :: pre_trade_check where
  "spread_liquidity_item = \<lparr> ck_id = ''spread_liquidity'',
     ck_description = ''Reject if spread exceeds limit or order-book depth is insufficient'',
     ck_evaluate = spread_liquidity_check \<rparr>"

definition volatility_item :: pre_trade_check where
  "volatility_item = \<lparr> ck_id = ''volatility_regime'',
     ck_description = ''Reject leveraged trades in high-vol regimes; reject all trades in extreme-vol regimes'',
     ck_evaluate = volatility_check \<rparr>"

definition hard_limit_item :: pre_trade_check where
  "hard_limit_item = \<lparr> ck_id = ''hard_limit'',
     ck_description = ''Enforce leverage cap, effective-P&L budget, portfolio drawdown, and worst-case projection'',
     ck_evaluate = hard_limit_check \<rparr>"

definition duplicate_position_item :: pre_trade_check where
  "duplicate_position_item = \<lparr> ck_id = ''duplicate_position'',
     ck_description = ''Reject if an open leverage position on the same instrument + side already exists'',
     ck_evaluate = duplicate_position_check \<rparr>"

definition liquidation_distance_item :: pre_trade_check where
  "liquidation_distance_item = \<lparr> ck_id = ''liquidation_distance'',
     ck_description = ''Reject if an open leverage position is closer than min_liq_distance_atrs to liquidation'',
     ck_evaluate = liquidation_distance_check \<rparr>"

definition funding_rate_item :: pre_trade_check where
  "funding_rate_item = \<lparr> ck_id = ''funding_rate'',
     ck_description = ''Reject perpetual trades when adverse funding exceeds the configured threshold'',
     ck_evaluate = funding_rate_check \<rparr>"

definition notional_cap_item :: pre_trade_check where
  "notional_cap_item = \<lparr> ck_id = ''notional_cap'',
     ck_description = ''Reject if signal notional exceeds the configured per-order cap'',
     ck_evaluate = notional_cap_check \<rparr>"

lemmas item_defs = staleness_item_def spread_liquidity_item_def volatility_item_def
  hard_limit_item_def duplicate_position_item_def liquidation_distance_item_def
  funding_rate_item_def notional_cap_item_def

definition standard_checks :: "pre_trade_check list" where
  "standard_checks = [staleness_item, spread_liquidity_item, volatility_item, hard_limit_item,
     duplicate_position_item, liquidation_distance_item, funding_rate_item, notional_cap_item]"

fun run_checks :: "pre_trade_check list \<Rightarrow> lib \<Rightarrow> ctx \<Rightarrow> (string \<times> check_outcome) list option" where
  "run_checks [] L c = Some []"
| "run_checks (k # ks) L c = do {
     out \<leftarrow> ck_evaluate k L c;
     rest \<leftarrow> run_checks ks L c;
     Some ((ck_id k, out) # rest) }"

definition kill_switch_gate :: "ctx \<Rightarrow> (string \<times> check_outcome) list" where
  "kill_switch_gate c =
     (if pf_kill_switch_active (cx_portfolio c) \<and> sg_sleeve (cx_signal c) = CryptoLeverage
      then [(''kill_switch_gate'', Rejected KillSwitchActive)] else [])"

definition evaluate :: "pre_trade_check list \<Rightarrow> lib \<Rightarrow> ctx \<Rightarrow> checklist_result option" where
  "evaluate ks L c = do {
     outs \<leftarrow> run_checks ks L c;
     let outcomes = kill_switch_gate c @ outs;
     Some \<lparr> cr_outcomes = outcomes, cr_evaluated_at = cx_now c,
            cr_approved = list_all (\<lambda>(_, o'). passes o') outcomes \<rparr> }"

definition check_ids :: "pre_trade_check list \<Rightarrow> string list" where
  "check_ids ks = map ck_id ks"

fun reject_of :: "string \<times> check_outcome \<Rightarrow> (string \<times> rejection_reason) option" where
  "reject_of (i, Rejected r) = Some (i, r)"
| "reject_of (i, _) = None"

definition rejections :: "checklist_result \<Rightarrow> (string \<times> rejection_reason) list" where
  "rejections r = List.map_filter reject_of (cr_outcomes r)"

definition result_summary :: "lib \<Rightarrow> checklist_result \<Rightarrow> string" where
  "result_summary L r =
     (if cr_approved r then
        ''APPROVED ('' @ show_nat (length (cr_outcomes r)) @ '' checks ran at ''
          @ l_show_time L (cr_evaluated_at r) @ '')''
      else ''REJECTED ('' @ join_with ''; ''
             (map (\<lambda>(i, why). i @ '': '' @ reason_summary L why) (rejections r)) @ '')'')"

section \<open>The contract between the checklist and its checks\<close>

lemma run_checks_ids: "run_checks ks L c = Some outs \<Longrightarrow> map fst outs = map ck_id ks"
  by (induction ks arbitrary: outs) (auto simp: do_Some_conv)

lemma evaluate_outcomes:
  "evaluate ks L c = Some r \<Longrightarrow>
   map fst (cr_outcomes r) = map fst (kill_switch_gate c) @ check_ids ks"
  by (auto simp: evaluate_def do_Some_conv Let_def check_ids_def dest: run_checks_ids)

text \<open>The verdict is the absence of rejections.\<close>
lemma approved_iff_no_rejection:
  "evaluate ks L c = Some r \<Longrightarrow> cr_approved r \<longleftrightarrow> rejections r = []"
proof -
  have aux: "list_all (\<lambda>(_, o'). passes o') xs \<longleftrightarrow> List.map_filter reject_of xs = []" for xs
  proof (induction xs)
    case (Cons x xs)
    obtain i out where x: "x = (i, out)" by (cases x)
    show ?case using Cons by (cases out) (simp_all add: x List.map_filter_simps)
  qed (simp add: List.map_filter_simps)
  assume "evaluate ks L c = Some r"
  then show ?thesis
    by (auto simp: evaluate_def do_Some_conv Let_def rejections_def aux)
qed

locale checklist_contract =
  fixes checks :: "pre_trade_check list"
    and cond :: "string \<Rightarrow> lib \<Rightarrow> ctx \<Rightarrow> bool"
  assumes exact: "k \<in> set checks \<Longrightarrow> ck_evaluate k L c = Some out \<Longrightarrow>
      passes out \<longleftrightarrow> cond (ck_id k) L c"
begin

lemma run_checks_all_pass:
  "ks \<subseteq> set checks \<Longrightarrow> set xs = ks \<Longrightarrow> run_checks xs L c = Some outs \<Longrightarrow>
   list_all (\<lambda>(_, o'). passes o') outs \<longleftrightarrow> (\<forall>k \<in> ks. cond (ck_id k) L c)"
proof (induction xs arbitrary: ks outs)
  case (Cons x xs)
  then obtain out rest where r: "ck_evaluate x L c = Some out" "run_checks xs L c = Some rest"
    "outs = (ck_id x, out) # rest" by (auto simp: do_Some_conv)
  have "list_all (\<lambda>(_, o'). passes o') rest \<longleftrightarrow> (\<forall>k \<in> set xs. cond (ck_id k) L c)"
    using Cons.prems by (intro Cons.IH [OF _ refl r(2)]) auto
  then show ?case using exact [OF _ r(1)] Cons.prems by (auto simp: r(3))
qed auto

text \<open>The verdict: approved exactly when the gate is open and every check's condition holds.\<close>
lemma verdict:
  assumes "evaluate checks L c = Some r"
  shows "cr_approved r \<longleftrightarrow>
     \<not> (pf_kill_switch_active (cx_portfolio c) \<and> sg_sleeve (cx_signal c) = CryptoLeverage) \<and>
     (\<forall>k \<in> set checks. cond (ck_id k) L c)"
proof -
  obtain outs where o: "run_checks checks L c = Some outs"
    and r: "cr_approved r \<longleftrightarrow> list_all (\<lambda>(_, o'). passes o') (kill_switch_gate c @ outs)"
    using assms by (auto simp: evaluate_def do_Some_conv Let_def)
  show ?thesis
    using run_checks_all_pass [OF subset_refl refl o] by (auto simp: r kill_switch_gate_def)
qed

lemma approved_imp_cond:
  "evaluate checks L c = Some r \<Longrightarrow> cr_approved r \<Longrightarrow> k \<in> set checks \<Longrightarrow> cond (ck_id k) L c"
  using verdict by blast

end

text \<open>The conditions of the standard checklist, by check id.\<close>
definition standard_cond :: "string \<Rightarrow> lib \<Rightarrow> ctx \<Rightarrow> bool" where
  "standard_cond i L c =
     (if i = ''staleness'' then staleness_ok c
      else if i = ''spread_liquidity'' then spread_liquidity_ok L c
      else if i = ''volatility_regime'' then volatility_ok c
      else if i = ''hard_limit'' then hard_limit_ok L c
      else if i = ''duplicate_position'' then no_duplicate_ok c
      else if i = ''liquidation_distance'' then liquidation_ok L c
      else if i = ''funding_rate'' then funding_ok c
      else if i = ''notional_cap'' then notional_ok c
      else False)"

lemma standard_cond_simps [simp]:
  "standard_cond ''staleness'' L c = staleness_ok c"
  "standard_cond ''spread_liquidity'' L c = spread_liquidity_ok L c"
  "standard_cond ''volatility_regime'' L c = volatility_ok c"
  "standard_cond ''hard_limit'' L c = hard_limit_ok L c"
  "standard_cond ''duplicate_position'' L c = no_duplicate_ok c"
  "standard_cond ''liquidation_distance'' L c = liquidation_ok L c"
  "standard_cond ''funding_rate'' L c = funding_ok c"
  "standard_cond ''notional_cap'' L c = notional_ok c"
  by (simp_all add: standard_cond_def)

interpretation standard: checklist_contract standard_checks standard_cond
proof
  fix k L c out
  assume k: "k \<in> set standard_checks" and e: "ck_evaluate k L c = Some out"
  from k consider "k = staleness_item" | "k = spread_liquidity_item" | "k = volatility_item"
    | "k = hard_limit_item" | "k = duplicate_position_item" | "k = liquidation_distance_item"
    | "k = funding_rate_item" | "k = notional_cap_item"
    unfolding standard_checks_def by auto
  then show "passes out \<longleftrightarrow> standard_cond (ck_id k) L c"
    using e by cases (simp only: item_defs pre_trade_check.simps standard_cond_simps,
        erule check_iff)+
qed

text \<open>All eight conditions together.\<close>
definition admissible :: "lib \<Rightarrow> ctx \<Rightarrow> bool" where
  "admissible L c \<longleftrightarrow> staleness_ok c \<and> spread_liquidity_ok L c \<and> volatility_ok c \<and>
     hard_limit_ok L c \<and> no_duplicate_ok c \<and> liquidation_ok L c \<and> funding_ok c \<and> notional_ok c"

lemma standard_conds: "(\<forall>k \<in> set standard_checks. standard_cond (ck_id k) L c) \<longleftrightarrow> admissible L c"
  by (simp add: standard_checks_def item_defs admissible_def)

lemma standard_approved_iff:
  "evaluate standard_checks L c = Some r \<Longrightarrow>
   cr_approved r \<longleftrightarrow>
     \<not> (pf_kill_switch_active (cx_portfolio c) \<and> sg_sleeve (cx_signal c) = CryptoLeverage) \<and>
     admissible L c"
  using standard.verdict standard_conds by blast

end
