(* ===== verification/Check_Safety.thy ===== *)
theory Check_Safety
  imports Checklist
begin

text \<open>When the checks cannot panic.  \<^verbatim>\<open>ctx_bounded\<close> bounds the magnitudes of what the checks compute
  with (prices between a cent and ten million, notionals up to a million, quantities up to a
  billion); under it every decimal operation of the eight checks stays inside the decimal range, so the
  checklist returns.  Without a bound it does not: a notional whose product with the FX rate
  overflows panics in the liquidity check before the notional cap is looked at.\<close>

definition price_bounded :: "dec \<Rightarrow> bool" where
  "price_bounded p \<longleftrightarrow> 1 / 100 \<le> p \<and> p \<le> 10 ^ 7"

definition book_bounded :: "book_snapshot \<Rightarrow> bool" where
  "book_bounded b \<longleftrightarrow>
     (\<forall>l \<in> set (ob_bids b) \<union> set (ob_asks b). price_bounded (lv_price l) \<and> \<bar>lv_quantity l\<bar> \<le> 10 ^ 9)"

definition portfolio_bounded :: "portfolio \<Rightarrow> bool" where
  "portfolio_bounded p \<longleftrightarrow> \<bar>leverage_realized_pnl p\<bar> \<le> 10 ^ 9 \<and> \<bar>leverage_unrealized_pnl p\<bar> \<le> 10 ^ 9 \<and>
     \<bar>pf_nav_per_unit p\<bar> \<le> 10 ^ 9 \<and> \<bar>pf_nav_hwm_per_unit p\<bar> \<le> 10 ^ 9 \<and>
     (pf_nav_hwm_per_unit p \<noteq> 0 \<longrightarrow> 1 / 10 ^ 3 \<le> \<bar>pf_nav_hwm_per_unit p\<bar>) \<and>
     (\<forall>q \<in> set (pf_open_positions p). \<forall>l. op_liquidation_price q = Some l \<longrightarrow> \<bar>l\<bar> \<le> 10 ^ 9)"

definition config_bounded :: "risk_config \<Rightarrow> bool" where
  "config_bounded c \<longleftrightarrow> \<bar>rc_min_book_depth_multiple c\<bar> \<le> 10 ^ 3 \<and> rc_book_depth_levels c \<le> 9 \<and>
     \<bar>rc_adverse_move_for_worst_case c\<bar> \<le> 10 ^ 3 \<and> \<bar>rc_expected_round_trip_fee_fraction c\<bar> \<le> 10 ^ 3 \<and>
     \<bar>rc_expected_funding_reserve_fraction c\<bar> \<le> 10 ^ 3 \<and>
     \<bar>rc_leverage_kill_switch_budget_chf c\<bar> \<le> 10 ^ 9"

definition ctx_bounded :: "ctx \<Rightarrow> bool" where
  "ctx_bounded c \<longleftrightarrow> \<bar>sg_notional_chf (cx_signal c)\<bar> \<le> 10 ^ 6 \<and> \<bar>sg_leverage (cx_signal c)\<bar> \<le> 10 ^ 3 \<and>
     \<bar>mk_fx_quote_per_chf (cx_market c)\<bar> \<le> 10 ^ 3 \<and> \<bar>mk_last_price (cx_market c)\<bar> \<le> 10 ^ 9 \<and>
     (mk_atr_absolute (cx_market c) \<noteq> 0 \<longrightarrow> 1 / 10 ^ 6 \<le> \<bar>mk_atr_absolute (cx_market c)\<bar>) \<and>
     book_bounded (mk_order_book (cx_market c)) \<and> portfolio_bounded (cx_portfolio c) \<and>
     config_bounded (cx_config c)"

lemma mid_bounded:
  assumes L: "dec_laws L" and p: "price_bounded a" "price_bounded b"
  shows "\<exists>m. mid_price L a b = Some m \<and> 1 / 100 \<le> m"
proof -
  have "\<bar>a\<bar> \<le> 10 ^ 7" "\<bar>b\<bar> \<le> 10 ^ 7" using p by (auto simp: price_bounded_def)
  then obtain s where s: "dadd L a b = Some s" "\<bar>s\<bar> \<le> 10 ^ 8"
    using dadd_bounded [OF L, of a 7 b] by auto
  have r: "representable (2 / 100)" "representable (1 / 100)"
    unfolding representable_def by (rule exI [of _ 2], rule exI [of _ 2], simp)
      (rule exI [of _ 1], rule exI [of _ 2], simp)
  have "isdec L (2 / 100)" "isdec L (1 / 100)"
    using rnd_representable [OF L r(1)] rnd_representable [OF L r(2)] by (simp_all add: isdec_def)
  then have "2 / 100 \<le> s"
    using rnd_mono [OF L, of "2 / 100" "2 / 100" "a + b" s] s(1) p
    by (simp add: isdec_def dadd_def price_bounded_def)
  moreover obtain m where m: "ddiv L s 2 = Some m"
    using ddiv_bounded [OF L s(2), of 0 2] by auto
  ultimately have "1 / 100 \<le> m"
    using rnd_mono [OF L, of "1 / 100" "1 / 100" "s / 2" m] \<open>isdec L (1 / 100)\<close>
    by (simp add: ddiv_def isdec_def)
  then show ?thesis using s(1) m by (simp add: mid_price_def)
qed

lemma best_in:
  "best_bid b = Some l \<Longrightarrow> l \<in> set (ob_bids b)" "best_ask b = Some l \<Longrightarrow> l \<in> set (ob_asks b)"
  by (auto simp: best_bid_def best_ask_def split: list.splits)

lemma spread_bps_total:
  assumes L: "dec_laws L" and b: "book_bounded b"
  shows "\<exists>r. spread_bps L b = Some r"
proof (cases "best_bid b"; cases "best_ask b")
  fix bl al
  assume bb: "best_bid b = Some bl" and ba: "best_ask b = Some al"
  have p: "price_bounded (lv_price bl)" "price_bounded (lv_price al)"
    using b best_in(1) [OF bb] best_in(2) [OF ba] by (auto simp: book_bounded_def)
  obtain m where m: "mid_price L (lv_price bl) (lv_price al) = Some m" "1 / 100 \<le> m"
    using mid_bounded [OF L p] by blast
  have abs: "\<bar>lv_price al\<bar> \<le> 10 ^ 7" "\<bar>lv_price bl\<bar> \<le> 10 ^ 7" "1 / 10 ^ 2 \<le> \<bar>m\<bar>"
    using p m(2) by (auto simp: price_bounded_def)
  obtain d where d: "dsub L (lv_price al) (lv_price bl) = Some d" "\<bar>d\<bar> \<le> 10 ^ 8"
    using dsub_bounded [OF L abs(1,2)] by auto
  obtain q where q: "ddiv L d m = Some q" "\<bar>q\<bar> \<le> 10 ^ 10"
    using ddiv_bounded [OF L d(2) abs(3)] by auto
  obtain r where "dmul L q 10000 = Some r"
    using dmul_bounded [OF L q(2), of 10000 4] by auto
  then show ?thesis using m d q by (simp add: spread_bps_def bb ba)
qed (simp_all add: spread_bps_def)

lemma required_total:
  assumes L: "dec_laws L" and c: "ctx_bounded c" and m: "1 / 100 \<le> m"
  shows "\<exists>r. required_quantity L c m = Some r"
proof -
  have abs: "\<bar>sg_notional_chf (cx_signal c)\<bar> \<le> 10 ^ 6" "\<bar>mk_fx_quote_per_chf (cx_market c)\<bar> \<le> 10 ^ 3"
    "\<bar>rc_min_book_depth_multiple (cx_config c)\<bar> \<le> 10 ^ 3" "1 / 10 ^ 2 \<le> \<bar>m\<bar>"
    using c m by (auto simp: ctx_bounded_def config_bounded_def)
  obtain n where n: "dmul L (sg_notional_chf (cx_signal c)) (mk_fx_quote_per_chf (cx_market c)) = Some n"
      "\<bar>n\<bar> \<le> 10 ^ 9" using dmul_bounded [OF L abs(1,2)] by auto
  obtain q where q: "ddiv L n m = Some q" "\<bar>q\<bar> \<le> 10 ^ 11"
    using ddiv_bounded [OF L n(2) abs(4)] by auto
  obtain r where "dmul L q (rc_min_book_depth_multiple (cx_config c)) = Some r"
    using dmul_bounded [OF L q(2) abs(3)] by auto
  then show ?thesis using n q by (simp add: required_quantity_def)
qed

lemma dsum_total:
  "dec_laws L \<Longrightarrow> \<bar>acc\<bar> \<le> 10 ^ k \<Longrightarrow> \<forall>x \<in> set xs. \<bar>x\<bar> \<le> 10 ^ 9 \<Longrightarrow> 9 \<le> k \<Longrightarrow> k + length xs \<le> 28 \<Longrightarrow>
   \<exists>r. dsum_from L acc xs = Some r"
proof (induction xs arbitrary: acc k)
  case (Cons x xs)
  then have "\<bar>x\<bar> \<le> 10 ^ k" using bound_mono [of x 9 k] by simp
  then obtain a where a: "dadd L acc x = Some a" "\<bar>a\<bar> \<le> 10 ^ Suc k"
    using dadd_bounded [of L acc k x] Cons.prems by auto
  show ?case using Cons.IH [OF Cons.prems(1) a(2)] Cons.prems(3-5) a(1) by simp
qed simp

lemma depth_total:
  assumes "dec_laws L" "ctx_bounded c"
  shows "\<exists>r. available_depth L c = Some r"
proof -
  have "\<exists>r. dsum_from L 0 (map lv_quantity (take (rc_book_depth_levels (cx_config c)) ls)) = Some r"
    if "ls = ob_bids (mk_order_book (cx_market c)) \<or> ls = ob_asks (mk_order_book (cx_market c))" for ls
  proof (rule dsum_total [where k = 9])
    have "rc_book_depth_levels (cx_config c) \<le> 9"
      using assms(2) by (simp add: ctx_bounded_def config_bounded_def)
    then show "9 + length (map lv_quantity (take (rc_book_depth_levels (cx_config c)) ls)) \<le> 28"
      by (simp add: min.coboundedI2)
    have "\<forall>l \<in> set ls. \<bar>lv_quantity l\<bar> \<le> 10 ^ 9"
      using assms(2) that by (auto simp: ctx_bounded_def book_bounded_def)
    then show "\<forall>x \<in> set (map lv_quantity (take (rc_book_depth_levels (cx_config c)) ls)). \<bar>x\<bar> \<le> 10 ^ 9"
      by (auto dest: in_set_takeD)
  qed (use assms(1) in simp_all)
  then show ?thesis
    by (cases "sg_side (cx_signal c)") (auto simp: available_depth_def ask_depth_def bid_depth_def dsum_def)
qed

lemma spread_liquidity_total:
  assumes L: "dec_laws L" and c: "ctx_bounded c"
  shows "\<exists>out. spread_liquidity_check L c = Some out"
proof -
  let ?b = "mk_order_book (cx_market c)"
  have b: "book_bounded ?b" using c by (simp add: ctx_bounded_def)
  obtain r where r: "spread_bps L ?b = Some r" using spread_bps_total [OF L b] by blast
  obtain av where av: "available_depth L c = Some av" using depth_total [OF L c] by blast
  show ?thesis
  proof (cases "best_bid ?b"; cases "best_ask ?b")
    fix bl al
    assume bb: "best_bid ?b = Some bl" and ba: "best_ask ?b = Some al"
    have "price_bounded (lv_price bl)" "price_bounded (lv_price al)"
      using b best_in(1) [OF bb] best_in(2) [OF ba] by (auto simp: book_bounded_def)
    then obtain m where m: "mid_price L (lv_price bl) (lv_price al) = Some m" "1 / 100 \<le> m"
      using mid_bounded [OF L] by blast
    obtain q where "required_quantity L c m = Some q" using required_total [OF L c m(2)] by blast
    then show ?thesis
      using r av m(1) bb ba by (cases r) (auto simp: spread_liquidity_check_def Let_def)
  qed (use r in \<open>simp_all add: spread_liquidity_check_def Let_def spread_bps_def split: option.splits\<close>)
qed

lemma worst_case_total:
  assumes L: "dec_laws L" and c: "ctx_bounded c"
  shows "\<exists>r. worst_case_loss L c = Some r \<and> \<bar>r\<bar> \<le> 10 ^ 14"
proof -
  have abs: "\<bar>sg_notional_chf (cx_signal c)\<bar> \<le> 10 ^ 6" "\<bar>sg_leverage (cx_signal c)\<bar> \<le> 10 ^ 3"
    "\<bar>rc_adverse_move_for_worst_case (cx_config c)\<bar> \<le> 10 ^ 3"
    "\<bar>rc_expected_round_trip_fee_fraction (cx_config c)\<bar> \<le> 10 ^ 3"
    "\<bar>rc_expected_funding_reserve_fraction (cx_config c)\<bar> \<le> 10 ^ 3"
    using c by (auto simp: ctx_bounded_def config_bounded_def)
  obtain n where n: "dmul L (sg_notional_chf (cx_signal c)) (sg_leverage (cx_signal c)) = Some n"
      "\<bar>n\<bar> \<le> 10 ^ 9" using dmul_bounded [OF L abs(1,2)] by auto
  obtain x y z where x: "dmul L n (rc_adverse_move_for_worst_case (cx_config c)) = Some x" "\<bar>x\<bar> \<le> 10 ^ 12"
    and y: "dmul L n (rc_expected_round_trip_fee_fraction (cx_config c)) = Some y" "\<bar>y\<bar> \<le> 10 ^ 12"
    and z: "dmul L n (rc_expected_funding_reserve_fraction (cx_config c)) = Some z" "\<bar>z\<bar> \<le> 10 ^ 12"
    using dmul_bounded [OF L n(2) abs(3)] dmul_bounded [OF L n(2) abs(4)]
      dmul_bounded [OF L n(2) abs(5)] by auto
  obtain s where s: "dadd L x y = Some s" "\<bar>s\<bar> \<le> 10 ^ 13" using dadd_bounded [OF L x(2) y(2)] by auto
  obtain r where "dadd L s z = Some r" "\<bar>r\<bar> \<le> 10 ^ 14"
    using dadd_bounded [OF L s(2) bound_mono [OF z(2)]] by auto
  then show ?thesis using n x y z s by (simp add: worst_case_loss_def)
qed

lemma effective_total:
  assumes L: "dec_laws L" and p: "portfolio_bounded p"
  shows "\<exists>e. leverage_effective_pnl L p = Some e \<and> \<bar>e\<bar> \<le> 10 ^ 10"
proof -
  have "\<bar>min (leverage_unrealized_pnl p) 0\<bar> \<le> 10 ^ 9" "\<bar>leverage_realized_pnl p\<bar> \<le> 10 ^ 9"
    using p by (auto simp: portfolio_bounded_def min_def)
  then show ?thesis using dadd_bounded [OF L, of _ 9] by (fastforce simp: leverage_effective_pnl_def)
qed

lemma drawdown_total:
  assumes L: "dec_laws L" and p: "portfolio_bounded p"
  shows "\<exists>d. drawdown_fraction L p = Some d"
proof -
  have abs: "\<bar>pf_nav_hwm_per_unit p\<bar> \<le> 10 ^ 9" "\<bar>pf_nav_per_unit p\<bar> \<le> 10 ^ 9"
    using p by (auto simp: portfolio_bounded_def)
  obtain s where s: "dsub L (pf_nav_hwm_per_unit p) (pf_nav_per_unit p) = Some s" "\<bar>s\<bar> \<le> 10 ^ 10"
    using dsub_bounded [OF L abs] by auto
  have "pf_nav_hwm_per_unit p \<noteq> 0 \<Longrightarrow> \<exists>r. ddiv L s (pf_nav_hwm_per_unit p) = Some r"
    using ddiv_bounded [OF L s(2), of 3 "pf_nav_hwm_per_unit p"] p by (auto simp: portfolio_bounded_def)
  then show ?thesis using s by (auto simp: drawdown_fraction_def)
qed

lemma hard_limit_total:
  assumes L: "dec_laws L" and c: "ctx_bounded c"
  shows "\<exists>out. hard_limit_check L c = Some out"
proof -
  have p: "portfolio_bounded (cx_portfolio c)" using c by (simp add: ctx_bounded_def)
  have b: "\<bar>rc_leverage_kill_switch_budget_chf (cx_config c)\<bar> \<le> 10 ^ 14"
    using c bound_mono [of _ 9 14] by (auto simp: ctx_bounded_def config_bounded_def)
  obtain e where e: "leverage_effective_pnl L (cx_portfolio c) = Some e" "\<bar>e\<bar> \<le> 10 ^ 14"
    using effective_total [OF L p] bound_mono [of _ 10 14] by auto
  obtain dd where "drawdown_fraction L (cx_portfolio c) = Some dd" using drawdown_total [OF L p] by blast
  moreover obtain w where w: "worst_case_loss L c = Some w" "\<bar>w\<bar> \<le> 10 ^ 14"
    using worst_case_total [OF L c] by blast
  moreover obtain x y where "dsub L e w = Some x"
    "dsub L e (rc_leverage_kill_switch_budget_chf (cx_config c)) = Some y"
    using dsub_bounded [OF L e(2) w(2)] dsub_bounded [OF L e(2) b] by auto
  ultimately show ?thesis using e(1) by (simp add: hard_limit_check_def Let_def)
qed

lemma liquidation_scan_total:
  assumes L: "dec_laws L" and atr: "1 / 10 ^ 6 \<le> \<bar>mk_atr_absolute (cx_market c)\<bar>"
    and mark: "\<bar>mk_last_price (cx_market c)\<bar> \<le> 10 ^ 9"
  shows "\<forall>q \<in> set ps. \<forall>l. op_liquidation_price q = Some l \<longrightarrow> \<bar>l\<bar> \<le> 10 ^ 9 \<Longrightarrow>
   \<exists>out. liquidation_scan L c f ps = Some out"
proof (induction ps arbitrary: f)
  case (Cons q ps)
  have "\<exists>d r. dsub L (mk_last_price (cx_market c)) l = Some d \<and>
      ddiv L \<bar>d\<bar> (mk_atr_absolute (cx_market c)) = Some r" if "op_liquidation_price q = Some l" for l
  proof -
    have "\<bar>l\<bar> \<le> 10 ^ 9" using Cons.prems that by simp
    then obtain d where d: "dsub L (mk_last_price (cx_market c)) l = Some d" "\<bar>\<bar>d\<bar>\<bar> \<le> 10 ^ 10"
      using dsub_bounded [OF L mark, of l] by auto
    then show ?thesis using ddiv_bounded [OF L d(2) atr] by auto
  qed
  note step = this
  have IH: "\<exists>out. liquidation_scan L c f ps = Some out" for f using Cons by simp
  show ?case
  proof (cases "op_liquidation_price q")
    case (Some l)
    then obtain d r where "dsub L (mk_last_price (cx_market c)) l = Some d"
      "ddiv L \<bar>d\<bar> (mk_atr_absolute (cx_market c)) = Some r" using step by blast
    then show ?thesis using Some IH by simp
  qed (use IH in simp)
qed simp

lemma liquidation_total:
  assumes "dec_laws L" "ctx_bounded c"
  shows "\<exists>out. liquidation_distance_check L c = Some out"
  using assms liquidation_scan_total [OF assms(1), of c "pf_open_positions (cx_portfolio c)" False]
  by (auto simp: liquidation_distance_check_def ctx_bounded_def portfolio_bounded_def)

lemma bounded_no_panic:
  assumes "dec_laws L" "ctx_bounded c"
  shows "\<exists>r. evaluate standard_checks L c = Some r"
proof -
  obtain a b d where "spread_liquidity_check L c = Some a" "hard_limit_check L c = Some b"
    "liquidation_distance_check L c = Some d"
    using spread_liquidity_total hard_limit_total liquidation_total assms by metis
  then show ?thesis
    by (simp add: evaluate_def standard_checks_def item_defs staleness_check_def volatility_check_def
        duplicate_position_check_def funding_rate_check_def notional_cap_check_def Let_def)
qed

text \<open>The overflow: nothing the later checks would say is reached.\<close>
lemma overflow_panics:
  assumes "l_rnd L (sg_notional_chf (cx_signal c) * mk_fx_quote_per_chf (cx_market c)) = None"
    "0 < mk_fx_quote_per_chf (cx_market c)" "spread_bps L (mk_order_book (cx_market c)) = Some (Some bps)"
    "bps \<le> rc_max_spread_bps (cx_config c)"
  shows "evaluate standard_checks L c = None"
proof -
  obtain bl al m where "best_bid (mk_order_book (cx_market c)) = Some bl"
    "best_ask (mk_order_book (cx_market c)) = Some al"
    "mid_price L (lv_price bl) (lv_price al) = Some m" "m \<noteq> 0"
    using assms(3) by (auto simp: spread_bps_def do_Some_conv split: option.splits if_splits)
  then have "spread_liquidity_check L c = None"
    using assms by (simp add: spread_liquidity_check_def required_quantity_def dmul_def Let_def)
  then show ?thesis
    by (simp add: evaluate_def standard_checks_def item_defs staleness_check_def)
qed

end
