(* ===== verification/Kill_Switch.thy ===== *)
theory Kill_Switch
  imports Checks
begin

text \<open>The kill-switch evaluator of \<^verbatim>\<open>crates/rt-risk/src/kill_switch.rs\<close>, run on a timer by the daemon's
  safety supervisor: its reasons, its decision and the decision's meaning.\<close>

datatype kill_switch_reason =
    LifetimeRealisedLossBudgetExhausted dec dec
  | EffectivePnlBudgetExhausted dec dec
  | PortfolioDrawdown dec dec
  | ManualTrigger string

datatype kill_switch_decision =
    NoChange
  | Disable kill_switch_reason time
  | PanicClose kill_switch_reason time

fun kill_reason_summary :: "lib \<Rightarrow> kill_switch_reason \<Rightarrow> string" where
  "kill_reason_summary L (LifetimeRealisedLossBudgetExhausted realized budget) =
     ''realised lifetime loss '' @ l_show L realized @ '' CHF reached budget '' @ l_show L budget
       @ '' CHF''"
| "kill_reason_summary L (EffectivePnlBudgetExhausted eff thr) =
     ''effective P&L '' @ l_show L eff @ '' CHF breached hard threshold '' @ l_show L thr @ '' CHF''"
| "kill_reason_summary L (PortfolioDrawdown d limit) =
     ''NAV drawdown '' @ l_show L d @ '' exceeded limit '' @ l_show L limit"
| "kill_reason_summary L (ManualTrigger operator) = ''manual trigger by '' @ operator"

definition ks_evaluate :: "lib \<Rightarrow> portfolio \<Rightarrow> risk_config \<Rightarrow> time \<Rightarrow> kill_switch_decision option" where
  "ks_evaluate L pf cfg now = do {
     effective \<leftarrow> leverage_effective_pnl L pf;
     if effective \<le> rc_kill_switch_effective_threshold_chf cfg then
       Some (PanicClose (EffectivePnlBudgetExhausted effective
               (rc_kill_switch_effective_threshold_chf cfg)) now)
     else if pf_kill_switch_active pf then Some NoChange
     else (let realized = leverage_realized_pnl pf in
       if realized \<le> rc_leverage_kill_switch_budget_chf cfg then
         Some (Disable (LifetimeRealisedLossBudgetExhausted realized
                 (rc_leverage_kill_switch_budget_chf cfg)) now)
       else do {
         dd \<leftarrow> drawdown_fraction L pf;
         if rc_max_portfolio_drawdown cfg < dd then
           Some (Disable (PortfolioDrawdown dd (rc_max_portfolio_drawdown cfg)) now)
         else Some NoChange }) }"

section \<open>The meaning of the decision\<close>

fun is_panic :: "kill_switch_decision \<Rightarrow> bool" where
  "is_panic (PanicClose _ _) = True"
| "is_panic _ = False"

fun is_disable :: "kill_switch_decision \<Rightarrow> bool" where
  "is_disable (Disable _ _) = True"
| "is_disable _ = False"

lemma panic_iff:
  "leverage_effective_pnl L pf = Some e \<Longrightarrow> ks_evaluate L pf cfg now = Some d \<Longrightarrow>
   is_panic d \<longleftrightarrow> e \<le> rc_kill_switch_effective_threshold_chf cfg"
  by (auto simp: ks_evaluate_def do_Some_conv Let_def split: if_splits)

lemma disable_iff:
  "leverage_effective_pnl L pf = Some e \<Longrightarrow> drawdown_fraction L pf = Some dd \<Longrightarrow>
   ks_evaluate L pf cfg now = Some d \<Longrightarrow>
   is_disable d \<longleftrightarrow> rc_kill_switch_effective_threshold_chf cfg < e \<and> \<not> pf_kill_switch_active pf \<and>
     (leverage_realized_pnl pf \<le> rc_leverage_kill_switch_budget_chf cfg \<or>
      rc_max_portfolio_drawdown cfg < dd)"
  by (auto simp: ks_evaluate_def do_Some_conv Let_def not_le split: if_splits)

lemma flag_irrelevant [simp]:
  "leverage_realized_pnl (pf\<lparr> pf_kill_switch_active := b \<rparr>) = leverage_realized_pnl pf"
  "leverage_effective_pnl L (pf\<lparr> pf_kill_switch_active := b \<rparr>) = leverage_effective_pnl L pf"
  by (simp_all add: leverage_effective_pnl_def leverage_realized_pnl_def
      leverage_unrealized_pnl_def find_sleeve_def)

text \<open>How far a decision goes.\<close>
fun severity :: "kill_switch_decision \<Rightarrow> nat" where
  "severity NoChange = 0"
| "severity (Disable _ _) = 1"
| "severity (PanicClose _ _) = 2"

lemma severity_cases: "severity d = (if is_panic d then 2 else if is_disable d then 1 else 0)"
  by (cases d) simp_all

text \<open>A portfolio that is no better in any respect gets no milder a decision.\<close>
lemma ks_evaluate_mono:
  assumes "leverage_effective_pnl L pf = Some e" "drawdown_fraction L pf = Some dd" "ks_evaluate L pf cfg now = Some d"
    and "leverage_effective_pnl L pf2 = Some e2" "drawdown_fraction L pf2 = Some dd2" "ks_evaluate L pf2 cfg now = Some d2"
    and "e2 \<le> e" "leverage_realized_pnl pf2 \<le> leverage_realized_pnl pf" "dd \<le> dd2"
    and "pf_kill_switch_active pf2 \<longrightarrow> pf_kill_switch_active pf"
  shows "severity d \<le> severity d2"
  using panic_iff [OF assms(1,3)] disable_iff [OF assms(1-3)] panic_iff [OF assms(4,6)] disable_iff [OF assms(4-6)] assms(7-10)
  by (auto simp: severity_cases)

text \<open>The hard trigger does not look at the active flag.\<close>
lemma panic_ignores_flag:
  assumes "ks_evaluate L pf cfg now = Some d" "is_panic d"
  shows "ks_evaluate L (pf\<lparr> pf_kill_switch_active := b \<rparr>) cfg now = Some d"
proof -
  obtain e where e: "leverage_effective_pnl L pf = Some e"
    using assms(1) by (auto simp: ks_evaluate_def do_Some_conv)
  then have "e \<le> rc_kill_switch_effective_threshold_chf cfg"
    using assms panic_iff by blast
  then show ?thesis
    using assms(1) e by (simp add: ks_evaluate_def)
qed

end
