(* ===== verification/Risk_Properties.thy ===== *)
theory Risk_Properties
  imports Check_Safety Kill_Switch
begin

text \<open>The properties of the pre-trade checklist and of the kill-switch evaluator, over the lemmas of
  \<^verbatim>\<open>Checks\<close>, \<^verbatim>\<open>Checklist\<close> and \<^verbatim>\<open>Kill_Switch\<close>, with the sample contexts their witnesses evaluate.\<close>

section \<open>Sample contexts\<close>

definition sample_book :: book_snapshot where
  "sample_book = \<lparr> ob_bids = [\<lparr> lv_price = 50000, lv_quantity = 5 \<rparr>],
     ob_asks = [\<lparr> lv_price = 50010, lv_quantity = 4 \<rparr>], ob_timestamp = 1000000000 \<rparr>"

definition sample_market :: market_snapshot where
  "sample_market = \<lparr> mk_instrument_symbol = ''PI_XBTUSD'', mk_order_book = sample_book,
     mk_last_price = 50005, mk_last_trade_at = 1000000000, mk_atr_absolute = 1000, mk_atr_pct = 2,
     mk_funding_rate_per_8h = Some (1 / 10000), mk_fx_quote_per_chf = 11 / 10 \<rparr>"

definition sample_portfolio :: portfolio where
  "sample_portfolio = \<lparr> pf_snapshot_at = 0, pf_sleeves = [\<lparr> ss_sleeve = CryptoLeverage,
       ss_market_value_chf = 0, ss_cash_chf = 1000, ss_realized_pnl_lifetime_chf = - 200,
       ss_unrealized_pnl_chf = - 100 \<rparr>],
     pf_nav_per_unit = 1, pf_nav_hwm_per_unit = 5 / 4, pf_total_units = 1000,
     pf_kill_switch_active = False, pf_open_positions = [\<lparr> op_instrument_symbol = ''PI_XBTUSD'',
       op_sleeve = CryptoLeverage, op_quantity = - 10, op_avg_entry_price = Some 51000,
       op_liquidation_price = Some 70000, op_leverage = Some 2 \<rparr>] \<rparr>"

definition sample_signal :: signal where
  "sample_signal = \<lparr> sg_id = 7, sg_created_at = 0, sg_instrument_symbol = ''PI_XBTUSD'', sg_side = Buy,
     sg_signal_type = TrendEntry, sg_sleeve = CryptoLeverage, sg_notional_chf = 500, sg_leverage = 2,
     sg_metadata = None, sg_status = SPending, sg_processed_at = None, sg_rejection_reason = None,
     sg_expires_at = None \<rparr>"

definition sample_ctx :: ctx where
  "sample_ctx = \<lparr> cx_signal = sample_signal, cx_market = sample_market,
     cx_portfolio = sample_portfolio, cx_config = risk_config_default, cx_now = 1200000000 \<rparr>"

lemmas sample_defs = sample_ctx_def sample_signal_def sample_market_def sample_book_def
  sample_portfolio_def risk_config_default_def

lemma sample_effective: "leverage_effective_pnl lib0 sample_portfolio = Some (- 300)"
  by (simp add: leverage_effective_pnl_def leverage_realized_pnl_def leverage_unrealized_pnl_def
      find_sleeve_def sample_portfolio_def dec_ops)

lemma sample_realized: "leverage_realized_pnl sample_portfolio = - 200"
  by (simp add: leverage_realized_pnl_def find_sleeve_def sample_portfolio_def)

lemma sample_drawdown: "drawdown_fraction lib0 sample_portfolio = Some (1 / 5)"
  by (simp add: drawdown_fraction_def sample_portfolio_def dec_ops)

lemma sample_loss: "worst_case_loss lib0 sample_ctx = Some 103"
  by (simp add: worst_case_loss_def sample_defs dec_ops)

lemma sample_checks:
  "staleness_check lib0 sample_ctx = Some Approved"
  "spread_liquidity_check lib0 sample_ctx = Some Approved"
  "volatility_check lib0 sample_ctx = Some Approved"
  "hard_limit_check lib0 sample_ctx = Some Approved"
  "duplicate_position_check lib0 sample_ctx = Some Approved"
  "liquidation_distance_check lib0 sample_ctx = Some Approved"
  "funding_rate_check lib0 sample_ctx = Some Approved"
  "notional_cap_check lib0 sample_ctx = Some Approved"
proof -
  show "staleness_check lib0 sample_ctx = Some Approved"
    by (simp add: staleness_check_def tick_age_ms_def num_milliseconds_def sample_defs)
  show "spread_liquidity_check lib0 sample_ctx = Some Approved"
    by (simp add: spread_liquidity_check_def sample_defs spread_bps_def best_bid_def best_ask_def
        mid_price_def required_quantity_def available_depth_def ask_depth_def dsum_def dec_ops)
  show "volatility_check lib0 sample_ctx = Some Approved"
    by (simp add: volatility_check_def sample_defs)
  show "hard_limit_check lib0 sample_ctx = Some Approved"
    using sample_effective sample_drawdown sample_loss
    by (simp add: hard_limit_check_def Let_def dec_ops sample_ctx_def sample_signal_def
        risk_config_default_def)
  show "duplicate_position_check lib0 sample_ctx = Some Approved"
    by (simp add: duplicate_position_check_def sample_defs same_direction_def op_is_long_def)
  show "liquidation_distance_check lib0 sample_ctx = Some Approved"
    by (simp add: liquidation_distance_check_def sample_defs dec_ops)
  show "funding_rate_check lib0 sample_ctx = Some Approved"
    by (simp add: funding_rate_check_def sample_defs)
  show "notional_cap_check lib0 sample_ctx = Some Approved"
    by (simp add: notional_cap_check_def sample_defs)
qed

definition sample_result :: checklist_result where
  "sample_result = \<lparr> cr_outcomes = map (\<lambda>k. (ck_id k, Approved)) standard_checks,
     cr_evaluated_at = 1200000000, cr_approved = True \<rparr>"

lemma sample_evaluate: "evaluate standard_checks lib0 sample_ctx = Some sample_result"
  using sample_checks
  by (simp add: evaluate_def standard_checks_def item_defs kill_switch_gate_def sample_result_def
      sample_ctx_def sample_portfolio_def)

section \<open>The checklist\<close>

text \<open>C5. The verdict of the standard checklist: a signal is approved exactly when no unresolved
  kill-switch blocks its sleeve and all eight conditions hold: fresh book, tight and deep enough
  quote, volatility within its two limits, leverage cap and surviving budget, no position in the same
  direction, no position close to liquidation, tolerable funding, notional within the cap.\<close>
theorem checklist_verdict:
  assumes "evaluate standard_checks L c = Some r"
  shows "cr_approved r \<longleftrightarrow>
     \<not> (pf_kill_switch_active (cx_portfolio c) \<and> sg_sleeve (cx_signal c) = CryptoLeverage) \<and>
     staleness_ok c \<and> spread_liquidity_ok L c \<and> volatility_ok c \<and> hard_limit_ok L c \<and>
     no_duplicate_ok c \<and> liquidation_ok L c \<and> funding_ok c \<and> notional_ok c"
  using standard_approved_iff [OF assms] by (simp only: admissible_def)

theorem checklist_verdict_witness:
  "hard_limit_ok lib0 sample_ctx \<and> spread_liquidity_ok lib0 sample_ctx \<and> notional_ok sample_ctx"
  using checklist_verdict [OF sample_evaluate] by (simp add: sample_result_def)

lemma checklist_conditions:
  "evaluate standard_checks L c = Some r \<Longrightarrow> cr_approved r \<Longrightarrow> admissible L c"
  using standard_approved_iff by blast

text \<open>C6. An approved leverage trade survives its worst case: if the projected loss (adverse move, fees
  and funding reserve on the leveraged notional) is realised in full, the kill-switch evaluator neither
  panic-closes nor disables the sleeve for its budget, provided the hard threshold is not above the
  budget.\<close>
theorem approved_trade_survives_worst_case:
  assumes L: "dec_laws L" and run: "evaluate standard_checks L c = Some r" and ok: "cr_approved r"
    and sleeve: "sg_sleeve (cx_signal c) = CryptoLeverage"
    and thr: "rc_kill_switch_effective_threshold_chf (cx_config c)
        \<le> rc_leverage_kill_switch_budget_chf (cx_config c)"
    and pnl: "leverage_effective_pnl L (cx_portfolio c) = Some e" "worst_case_loss L c = Some loss"
      "dsub L e loss = Some x"
    and after: "pf_sleeves pf = \<lparr> ss_sleeve = CryptoLeverage, ss_market_value_chf = mv, ss_cash_chf = cash,
        ss_realized_pnl_lifetime_chf = x, ss_unrealized_pnl_chf = 0 \<rparr> # others"
    and eval: "ks_evaluate L pf (cx_config c) now = Some d"
  shows "\<not> is_panic d \<and> (\<forall>p b t. d \<noteq> Disable (LifetimeRealisedLossBudgetExhausted p b) t)"
proof -
  have "hard_limit_ok L c" using checklist_conditions [OF run ok] by (simp add: admissible_def)
  then have x: "rc_leverage_kill_switch_budget_chf (cx_config c) < x"
    using sleeve pnl by (auto simp: hard_limit_ok_def split: option.splits)
  have "l_rnd L x = Some x" using rnd_idem [OF L] pnl(3) by (auto simp: dsub_def isdec_def)
  then have "leverage_realized_pnl pf = x" "leverage_effective_pnl L pf = Some x"
    using after by (simp_all add: leverage_effective_pnl_def leverage_realized_pnl_def
        leverage_unrealized_pnl_def find_sleeve_def dadd_def)
  then show ?thesis
    using x thr eval by (auto simp: ks_evaluate_def do_Some_conv Let_def split: if_splits)
qed

definition sample_after_loss :: portfolio where
  "sample_after_loss = sample_portfolio\<lparr> pf_sleeves := [\<lparr> ss_sleeve = CryptoLeverage,
     ss_market_value_chf = 0, ss_cash_chf = 1000, ss_realized_pnl_lifetime_chf = - 403,
     ss_unrealized_pnl_chf = 0 \<rparr>] \<rparr>"

definition sample_after_panic :: portfolio where
  "sample_after_panic = sample_portfolio\<lparr> pf_sleeves := [\<lparr> ss_sleeve = CryptoLeverage,
     ss_market_value_chf = 0, ss_cash_chf = 1000, ss_realized_pnl_lifetime_chf = - 900,
     ss_unrealized_pnl_chf = - 400 \<rparr>] \<rparr>"

lemma sample_after_eval: "ks_evaluate lib0 sample_after_loss risk_config_default 5 = Some NoChange"
  by (simp add: ks_evaluate_def sample_after_loss_def sample_portfolio_def risk_config_default_def
      leverage_effective_pnl_def leverage_realized_pnl_def leverage_unrealized_pnl_def find_sleeve_def
      drawdown_fraction_def dec_ops)

theorem approved_trade_survives_worst_case_witness:
  "ks_evaluate lib0 sample_after_loss risk_config_default 5 = Some NoChange \<and> \<not> is_panic NoChange"
  using approved_trade_survives_worst_case [OF lib0_dec_laws sample_evaluate, of "- 300" 103 "- 403"
      sample_after_loss 0 1000 "[]" 5 NoChange]
    sample_effective sample_loss sample_after_eval
  by (simp add: sample_result_def sample_ctx_def sample_signal_def sample_after_loss_def
      risk_config_default_def dec_ops)

text \<open>C34. Within the stated magnitudes the checklist never panics, and it always reports on every
  check: the kill-switch gate first when it is closed, then the eight checks in their documented order,
  whatever the earlier ones said.\<close>
theorem checklist_total:
  assumes "dec_laws L" "ctx_bounded c"
  shows "\<exists>r. evaluate standard_checks L c = Some r \<and>
     map fst (cr_outcomes r) =
       (if pf_kill_switch_active (cx_portfolio c) \<and> sg_sleeve (cx_signal c) = CryptoLeverage
        then [''kill_switch_gate''] else []) @
       [''staleness'', ''spread_liquidity'', ''volatility_regime'', ''hard_limit'',
        ''duplicate_position'', ''liquidation_distance'', ''funding_rate'', ''notional_cap'']"
proof -
  obtain r where r: "evaluate standard_checks L c = Some r" using bounded_no_panic [OF assms] by blast
  then show ?thesis
    using evaluate_outcomes [OF r] by (simp add: kill_switch_gate_def check_ids_def standard_checks_def item_defs)
qed

lemma sample_bounded: "ctx_bounded sample_ctx"
  by (simp add: ctx_bounded_def book_bounded_def price_bounded_def portfolio_bounded_def
      config_bounded_def sample_defs leverage_realized_pnl_def leverage_unrealized_pnl_def
      find_sleeve_def)

theorem checklist_total_witness: "\<exists>r. evaluate standard_checks lib0 sample_ctx = Some r"
  using checklist_total [OF lib0_dec_laws sample_bounded] by blast

section \<open>The kill-switch evaluator\<close>

text \<open>C11. The kill-switch decision.  It panic-closes exactly when the effective PnL is at or below the hard
  threshold; it disables exactly when it does not panic-close, the switch is not yet active, and the
  realised loss has used up the budget or the drawdown is above its limit.  An active switch never
  suppresses a panic-close.  And the decision is monotone: a portfolio whose effective PnL, realised PnL and
  drawdown are each no better, and whose switch is active only if the other's is, gets no milder a decision.
  (A lower effective PnL alone is not enough: \<open>milder_at_lower_effective\<close> below.)\<close>
theorem kill_switch_decision_sound:
  assumes "leverage_effective_pnl L pf = Some e" "drawdown_fraction L pf = Some dd"
    and "ks_evaluate L pf cfg now = Some d"
  shows "(is_panic d \<longleftrightarrow> e \<le> rc_kill_switch_effective_threshold_chf cfg) \<and>
     (is_disable d \<longleftrightarrow> \<not> is_panic d \<and> \<not> pf_kill_switch_active pf \<and>
        (leverage_realized_pnl pf \<le> rc_leverage_kill_switch_budget_chf cfg \<or>
         rc_max_portfolio_drawdown cfg < dd)) \<and>
     (is_panic d \<longrightarrow> ks_evaluate L (pf\<lparr> pf_kill_switch_active := b \<rparr>) cfg now = Some d) \<and>
     (\<forall>pf2 e2 dd2 d2. leverage_effective_pnl L pf2 = Some e2 \<longrightarrow> drawdown_fraction L pf2 = Some dd2 \<longrightarrow>
        ks_evaluate L pf2 cfg now = Some d2 \<longrightarrow> e2 \<le> e \<longrightarrow>
        leverage_realized_pnl pf2 \<le> leverage_realized_pnl pf \<longrightarrow> dd \<le> dd2 \<longrightarrow>
        (pf_kill_switch_active pf2 \<longrightarrow> pf_kill_switch_active pf) \<longrightarrow> severity d \<le> severity d2)"
  using panic_iff [OF assms(1,3)] disable_iff [OF assms] panic_ignores_flag [OF assms(3)] ks_evaluate_mono [OF assms]
  by (auto simp: not_le)

text \<open>A budget used up by realised losses disables; a larger effective loss that is half unrealised does not.\<close>
lemma milder_at_lower_effective:
  fixes p :: "dec \<Rightarrow> dec \<Rightarrow> portfolio"
  defines "p \<equiv> \<lambda>r u. sample_portfolio\<lparr> pf_sleeves := [\<lparr> ss_sleeve = CryptoLeverage, ss_market_value_chf = 0,
     ss_cash_chf = 1000, ss_realized_pnl_lifetime_chf = r, ss_unrealized_pnl_chf = u \<rparr>] \<rparr>"
  shows "leverage_effective_pnl lib0 (p (- 1000) 0) = Some (- 1000)"
    "\<exists>x. ks_evaluate lib0 (p (- 1000) 0) risk_config_default now = Some (Disable x now)"
    "leverage_effective_pnl lib0 (p (- 500) (- 600)) = Some (- 1100)"
    "ks_evaluate lib0 (p (- 500) (- 600)) risk_config_default now = Some NoChange"
  by (simp_all add: p_def ks_evaluate_def leverage_effective_pnl_def leverage_realized_pnl_def
      leverage_unrealized_pnl_def find_sleeve_def sample_portfolio_def risk_config_default_def
      drawdown_fraction_def dec_ops)

theorem kill_switch_decision_sound_witness:
  "ks_evaluate lib0 sample_after_panic risk_config_default 9
     = Some (PanicClose (EffectivePnlBudgetExhausted (- 1300) (- 1200)) 9) \<and>
   ks_evaluate lib0 (sample_after_panic\<lparr> pf_kill_switch_active := True \<rparr>) risk_config_default 9
     = Some (PanicClose (EffectivePnlBudgetExhausted (- 1300) (- 1200)) 9)"
proof -
  have e: "leverage_effective_pnl lib0 sample_after_panic = Some (- 1300)"
    by (simp add: leverage_effective_pnl_def leverage_realized_pnl_def leverage_unrealized_pnl_def
      find_sleeve_def sample_after_panic_def sample_portfolio_def dec_ops)
  have d: "drawdown_fraction lib0 sample_after_panic = Some (1 / 5)"
    by (simp add: drawdown_fraction_def sample_after_panic_def sample_portfolio_def dec_ops)
  have k: "ks_evaluate lib0 sample_after_panic risk_config_default 9
     = Some (PanicClose (EffectivePnlBudgetExhausted (- 1300) (- 1200)) 9)"
    by (simp add: ks_evaluate_def e) (simp add: risk_config_default_def)
  show ?thesis
    using kill_switch_decision_sound [OF e d k, of True] k by (auto simp: risk_config_default_def)
qed

text \<open>With a non-negative NAV the drawdown is a fraction between 0 and 1, it is 0 at or above the
  high-water mark, and deposits and withdrawals (the number of units) do not move it.\<close>
theorem drawdown_is_fraction:
  assumes "dec_laws L" "drawdown_fraction L p = Some d" "0 \<le> pf_nav_per_unit p"
    "isdec L (pf_nav_hwm_per_unit p)"
  shows "0 \<le> d \<and> d \<le> 1 \<and> (pf_nav_hwm_per_unit p \<le> pf_nav_per_unit p \<longrightarrow> d = 0) \<and>
     drawdown_fraction L (p\<lparr> pf_total_units := u \<rparr>) = Some d"
  using drawdown_bounds [OF assms] drawdown_at_high_water [of p L] assms(2)
    drawdown_independent_of_units by auto

theorem drawdown_is_fraction_witness: "0 \<le> (1 / 5 :: dec) \<and> (1 / 5 :: dec) \<le> 1"
  using drawdown_is_fraction [OF lib0_dec_laws sample_drawdown, of 0]
  by (simp add: sample_portfolio_def isdec_def)

end
