(* ===== verification/Sorted_Map.thy ===== *)
theory Sorted_Map
  imports Prelude
begin

text \<open>The ordered map the order book is built on.  \<^verbatim>\<open>std::collections::BTreeMap\<close> is modelled by an
  association list in strictly ascending key order; the locale \<^verbatim>\<open>ordered_map\<close> is the interface the
  order book uses (insert, remove, the ascending entries), and its client lemmas are proved once from
  the map laws.  It is interpreted on the association lists.\<close>

type_synonym ('k, 'v) btree = "('k \<times> 'v) list"

fun bt_insert :: "'k::linorder \<Rightarrow> 'v \<Rightarrow> ('k, 'v) btree \<Rightarrow> ('k, 'v) btree" where
  "bt_insert k v [] = [(k, v)]"
| "bt_insert k v ((a, b) # m) =
     (if k < a then (k, v) # (a, b) # m
      else if k = a then (k, v) # m
      else (a, b) # bt_insert k v m)"

fun bt_remove :: "'k::linorder \<Rightarrow> ('k, 'v) btree \<Rightarrow> ('k, 'v) btree" where
  "bt_remove k [] = []"
| "bt_remove k ((a, b) # m) =
     (if k < a then (a, b) # m else if k = a then m else (a, b) # bt_remove k m)"

definition bt_first :: "('k, 'v) btree \<Rightarrow> ('k \<times> 'v) option" where
  "bt_first m = (case m of [] \<Rightarrow> None | e # _ \<Rightarrow> Some e)"

definition bt_last :: "('k, 'v) btree \<Rightarrow> ('k \<times> 'v) option" where
  "bt_last m = (if m = [] then None else Some (last m))"

definition ascending :: "('k::linorder, 'v) btree \<Rightarrow> bool" where
  "ascending m \<longleftrightarrow> sorted_wrt (<) (map fst m)"

locale ordered_map =
  fixes empty :: "'m"
    and insert :: "'k::linorder \<Rightarrow> 'v \<Rightarrow> 'm \<Rightarrow> 'm"
    and remove :: "'k \<Rightarrow> 'm \<Rightarrow> 'm"
    and entries :: "'m \<Rightarrow> ('k \<times> 'v) list"
    and invar :: "'m \<Rightarrow> bool"
  assumes invar_empty: "invar empty"
    and invar_insert: "invar m \<Longrightarrow> invar (insert k v m)"
    and invar_remove: "invar m \<Longrightarrow> invar (remove k m)"
    and sorted_entries: "invar m \<Longrightarrow> sorted_wrt (<) (map fst (entries m))"
    and entries_empty: "entries empty = []"
    and map_insert: "invar m \<Longrightarrow> map_of (entries (insert k v m)) = (map_of (entries m))(k \<mapsto> v)"
    and map_remove: "invar m \<Longrightarrow> map_of (entries (remove k m)) = (map_of (entries m))(k := None)"
begin

text \<open>Loading a list of levels, keeping those that satisfy a test.\<close>
lemma load_map:
  "invar m \<Longrightarrow>
   invar (foldl (\<lambda>a (k, v). if P v then insert k v a else a) m ls) \<and>
   map_of (entries (foldl (\<lambda>a (k, v). if P v then insert k v a else a) m ls))
     = map_of (entries m) ++ map_of (rev (filter (P \<circ> snd) ls))"
  by (induction ls arbitrary: m) (auto simp: invar_insert map_insert map_add_def fun_eq_iff
      split: option.splits)

lemma load_from_empty:
  "map_of (entries (foldl (\<lambda>a (k, v). if P v then insert k v a else a) empty ls))
     = map_of (rev (filter (P \<circ> snd) ls))"
  using load_map [OF invar_empty] by (simp add: entries_empty)

text \<open>The first entry has the least key, the last entry the greatest.\<close>
lemma first_least:
  assumes "invar m" "entries m = (k, v) # r" "k' \<in> dom (map_of (entries m))"
  shows "k \<le> k'"
proof -
  have "\<forall>x \<in> set (map fst r). k < x"
    using sorted_entries [OF assms(1)] by (simp add: assms(2))
  moreover have "k' = k \<or> k' \<in> set (map fst r)"
    using assms(2,3) by (auto simp: dom_map_of_conv_image_fst)
  ultimately show ?thesis by (metis order.order_iff_strict)
qed

lemma last_greatest:
  assumes "invar m" "entries m = r @ [(k, v)]" "k' \<in> dom (map_of (entries m))"
  shows "k' \<le> k"
  using sorted_entries [of m] assms
  by (auto simp: dom_map_of_conv_image_fst sorted_wrt_append)

lemma entry_lookup:
  "invar m \<Longrightarrow> (k, v) \<in> set (entries m) \<longleftrightarrow> map_of (entries m) k = Some v"
  using sorted_entries [of m] by (simp add: strict_sorted_iff)

end

lemma bt_insert_keys: "fst ` set (bt_insert k v m) = insert k (fst ` set m)"
  by (induction k v m rule: bt_insert.induct) (simp_all add: insert_commute)

lemma bt_remove_keys: "fst ` set (bt_remove k m) \<subseteq> fst ` set m"
  by (induction k m rule: bt_remove.induct) (simp_all add: subset_insertI2 insert_mono)

lemma ascending_Cons: "ascending ((k, v) # m) \<longleftrightarrow> (\<forall>x \<in> fst ` set m. k < x) \<and> ascending m"
  by (auto simp: ascending_def)

lemma ascending_insert: "ascending m \<Longrightarrow> ascending (bt_insert k v m)"
proof (induction k v m rule: bt_insert.induct)
  case (2 k v a b m)
  then show ?case by (force simp: ascending_Cons bt_insert_keys)
qed (simp add: ascending_def)

lemma ascending_remove: "ascending m \<Longrightarrow> ascending (bt_remove k m)"
proof (induction k m rule: bt_remove.induct)
  case (2 k a b m)
  then show ?case using bt_remove_keys [of k m] by (fastforce simp: ascending_Cons)
qed simp

lemma map_of_bt_insert: "map_of (bt_insert k v m) = (map_of m)(k \<mapsto> v)"
  by (induction m) auto

lemma map_of_bt_remove: "ascending m \<Longrightarrow> map_of (bt_remove k m) = (map_of m)(k := None)"
proof (induction k m rule: bt_remove.induct)
  case (2 k a b m)
  have "k \<le> a \<Longrightarrow> map_of m k = None"
    using 2(2) by (force simp: map_of_eq_None_iff ascending_Cons)
  then show ?case using 2 by (auto simp: fun_eq_iff ascending_Cons)
qed auto

interpretation bt: ordered_map "[]" bt_insert bt_remove "\<lambda>m. m" ascending
proof
  show "ascending []" by (simp add: ascending_def)
next
  fix m :: "('a \<times> 'b) list"
  assume "ascending m"
  then show "sorted_wrt (<) (map fst m)" by (simp add: ascending_def)
qed (simp_all add: ascending_insert ascending_remove map_of_bt_insert map_of_bt_remove)

lemma bt_first_least:
  assumes "ascending m" "bt_first m = Some (k, v)" "k' \<in> dom (map_of m)"
  shows "k \<le> k'"
proof (cases m)
  case (Cons e r)
  then show ?thesis using bt.first_least [of m k v r k'] assms by (simp add: bt_first_def)
qed (use assms in \<open>simp add: bt_first_def\<close>)

lemma bt_last_greatest:
  assumes "ascending m" "bt_last m = Some (k, v)" "k' \<in> dom (map_of m)"
  shows "k' \<le> k"
proof -
  have "m \<noteq> []" and "last m = (k, v)" using assms(2) by (auto simp: bt_last_def split: if_splits)
  then have "m = butlast m @ [(k, v)]" by (metis append_butlast_last_id)
  then show ?thesis by (rule bt.last_greatest [OF assms(1) _ assms(3)])
qed

lemma bt_first_in: "bt_first m = Some e \<Longrightarrow> e \<in> set m"
  by (auto simp: bt_first_def split: list.splits)

lemma bt_last_in: "bt_last m = Some e \<Longrightarrow> e \<in> set m"
  by (auto simp: bt_last_def split: if_splits)

end
