(* ===== verification/Order_Book.thy ===== *)
theory Order_Book
  imports Domain Sorted_Map
begin

text \<open>The local order book of \<^verbatim>\<open>crates/rt-kraken-futures/src/orderbook.rs\<close>, rebuilt from the exchange's
  snapshot and delta messages (\<^verbatim>\<open>messages.rs\<close>), with its sequence check and crossed-book check.  An
  operation that mutates the book returns the new book and a result; \<^verbatim>\<open>None\<close> is the \<^verbatim>\<open>expect\<close> panic.
  Sequence numbers are 64-bit words and \<^verbatim>\<open>+ 1\<close> wraps, as in the release build.  \<^verbatim>\<open>now\<close> is the reading of
  the clock taken in the call.\<close>

section \<open>Messages and state\<close>

datatype book_side = BBuy | BSell

record price_level =
  pl_price :: dec
  pl_qty :: dec

record book_snapshot_msg =
  bs_product_id :: string
  bs_timestamp :: "64 word"
  bs_seq :: "64 word"
  bs_bids :: "price_level list"
  bs_asks :: "price_level list"

record book_delta_msg =
  bd_product_id :: string
  bd_timestamp :: "64 word"
  bd_seq :: "64 word"
  bd_side :: book_side
  bd_price :: dec
  bd_qty :: dec

datatype book_error =
    SequenceGap string "64 word" "64 word"
  | BOutOfSync string string
  | NotInitialised string
  | Crossed dec dec
  | ProductMismatch string string

datatype book_state = Uninitialised | Synced | OutOfSync

record local_book =
  bk_product_id :: string
  bk_bids :: "(dec, dec) btree"
  bk_asks :: "(dec, dec) btree"
  bk_last_seq :: "64 word option"
  bk_last_update_at :: "time option"
  bk_state :: book_state

definition book_new :: "string \<Rightarrow> local_book" where
  "book_new product_id = \<lparr> bk_product_id = product_id, bk_bids = [], bk_asks = [],
     bk_last_seq = None, bk_last_update_at = None, bk_state = Uninitialised \<rparr>"

definition is_synced :: "local_book \<Rightarrow> bool" where
  "is_synced b \<longleftrightarrow> bk_state b = Synced"

section \<open>Operations\<close>

definition book_best_bid :: "local_book \<Rightarrow> (dec \<times> dec) option" where
  "book_best_bid b = bt_last (bk_bids b)"

definition book_best_ask :: "local_book \<Rightarrow> (dec \<times> dec) option" where
  "book_best_ask b = bt_first (bk_asks b)"

definition sanity_check :: "local_book \<Rightarrow> book_error + unit" where
  "sanity_check b = (case (book_best_bid b, book_best_ask b) of
      (Some (bid, _), Some (ask, _)) \<Rightarrow> if ask \<le> bid then Inl (Crossed bid ask) else Inr ()
    | _ \<Rightarrow> Inr ())"

definition load_levels :: "price_level list \<Rightarrow> (dec, dec) btree" where
  "load_levels ls =
     foldl (\<lambda>m (p, q). if 0 < q then bt_insert p q m else m) [] (map (\<lambda>l. (pl_price l, pl_qty l)) ls)"

definition book_apply_snapshot ::
    "local_book \<Rightarrow> book_snapshot_msg \<Rightarrow> time \<Rightarrow> local_book \<times> (book_error + unit)" where
  "book_apply_snapshot b snap now =
     (if bs_product_id snap \<noteq> bk_product_id b then
        (b, Inl (ProductMismatch (bk_product_id b) (bs_product_id snap)))
      else (let b' = b\<lparr> bk_bids := load_levels (bs_bids snap), bk_asks := load_levels (bs_asks snap),
                        bk_last_seq := Some (bs_seq snap), bk_last_update_at := Some now,
                        bk_state := Synced \<rparr>
            in (b', sanity_check b')))"

definition change_side :: "book_delta_msg \<Rightarrow> (dec, dec) btree \<Rightarrow> (dec, dec) btree" where
  "change_side d m = (if bd_qty d = 0 then bt_remove (bd_price d) m
                      else bt_insert (bd_price d) (bd_qty d) m)"

definition book_apply_delta ::
    "local_book \<Rightarrow> book_delta_msg \<Rightarrow> time \<Rightarrow> (local_book \<times> (book_error + unit)) option" where
  "book_apply_delta b d now =
     (if bd_product_id d \<noteq> bk_product_id b then
        Some (b, Inl (ProductMismatch (bk_product_id b) (bd_product_id d)))
      else (case bk_state b of
        Uninitialised \<Rightarrow> Some (b, Inl (NotInitialised (bk_product_id b)))
      | OutOfSync \<Rightarrow> Some (b, Inl (BOutOfSync (bk_product_id b)
            ''book was previously marked out-of-sync''))
      | Synced \<Rightarrow> do {
          last_seq \<leftarrow> bk_last_seq b;
          let expected = last_seq + 1;
          if bd_seq d \<noteq> expected then
            Some (b\<lparr> bk_state := OutOfSync \<rparr>, Inl (SequenceGap (bk_product_id b) expected (bd_seq d)))
          else do {
            let b1 = (case bd_side d of
                BBuy \<Rightarrow> b\<lparr> bk_bids := change_side d (bk_bids b) \<rparr>
              | BSell \<Rightarrow> b\<lparr> bk_asks := change_side d (bk_asks b) \<rparr>);
            let b2 = b1\<lparr> bk_last_seq := Some (bd_seq d), bk_last_update_at := Some now \<rparr>;
            Some (case sanity_check b2 of
                Inl e \<Rightarrow> (b2\<lparr> bk_state := OutOfSync \<rparr>, Inl e)
              | Inr u \<Rightarrow> (b2, Inr ())) } }))"

definition book_invalidate :: "local_book \<Rightarrow> local_book" where
  "book_invalidate b = b\<lparr> bk_state := OutOfSync, bk_bids := [], bk_asks := [], bk_last_seq := None \<rparr>"

fun state_debug :: "book_state \<Rightarrow> string" where
  "state_debug Uninitialised = ''Uninitialised''"
| "state_debug Synced = ''Synced''"
| "state_debug OutOfSync = ''OutOfSync''"

definition to_levels :: "(dec \<times> dec) list \<Rightarrow> level list" where
  "to_levels es = map (\<lambda>(p, q). \<lparr> lv_price = p, lv_quantity = q \<rparr>) es"

definition to_core_snapshot :: "local_book \<Rightarrow> nat \<Rightarrow> time \<Rightarrow> book_error + book_snapshot" where
  "to_core_snapshot b depth now =
     (if \<not> is_synced b then
        Inl (BOutOfSync (bk_product_id b) (''current state: '' @ state_debug (bk_state b)))
      else Inr \<lparr> ob_bids = to_levels (take depth (rev (bk_bids b))),
                 ob_asks = to_levels (take depth (bk_asks b)),
                 ob_timestamp = (case bk_last_update_at b of Some t \<Rightarrow> t | None \<Rightarrow> now) \<rparr>)"

definition to_market_snapshot ::
    "local_book \<Rightarrow> nat \<Rightarrow> dec \<Rightarrow> time \<Rightarrow> dec \<Rightarrow> dec \<Rightarrow> dec option \<Rightarrow> dec \<Rightarrow> time
     \<Rightarrow> book_error + market_snapshot" where
  "to_market_snapshot b depth last_price last_trade_at atr_absolute atr_pct funding fx now =
     rbind (to_core_snapshot b depth now) (\<lambda>book. Inr
       \<lparr> mk_instrument_symbol = bk_product_id b, mk_order_book = book, mk_last_price = last_price,
         mk_last_trade_at = last_trade_at, mk_atr_absolute = atr_absolute, mk_atr_pct = atr_pct,
         mk_funding_rate_per_8h = funding, mk_fx_quote_per_chf = fx \<rparr>)"

section \<open>The invariant\<close>

definition crossed :: "local_book \<Rightarrow> bool" where
  "crossed b \<longleftrightarrow> (\<exists>bid \<in> fst ` set (bk_bids b). \<exists>ask \<in> fst ` set (bk_asks b). ask \<le> bid)"

text \<open>A side: ascending prices, no empty level.\<close>
definition clean :: "(dec, dec) btree \<Rightarrow> bool" where
  "clean m \<longleftrightarrow> ascending m \<and> (\<forall>e \<in> set m. snd e \<noteq> 0)"

definition book_inv :: "local_book \<Rightarrow> bool" where
  "book_inv b \<longleftrightarrow> clean (bk_bids b) \<and> clean (bk_asks b) \<and>
     (bk_state b = Synced \<longrightarrow> bk_last_seq b \<noteq> None \<and> bk_last_update_at b \<noteq> None) \<and>
     (bk_state b = Uninitialised \<longrightarrow> bk_bids b = [] \<and> bk_asks b = [] \<and> bk_last_seq b = None)"

text \<open>The check of the two best prices finds every crossing.\<close>
lemma sanity_check_iff:
  assumes "ascending (bk_bids b)" "ascending (bk_asks b)"
  shows "sanity_check b = Inr () \<longleftrightarrow> \<not> crossed b"
proof (cases "bk_bids b = [] \<or> bk_asks b = []")
  case True
  then show ?thesis
    by (auto simp: sanity_check_def crossed_def book_best_bid_def book_best_ask_def
        bt_last_def bt_first_def)
next
  case False
  obtain p q a r where bid: "bt_last (bk_bids b) = Some (p, q)"
    and ask: "bt_first (bk_asks b) = Some (a, r)"
    using False by (cases "last (bk_bids b)"; cases "bk_asks b") (auto simp: bt_last_def bt_first_def)
  have "crossed b \<longleftrightarrow> a \<le> p"
  proof
    assume "crossed b"
    then obtain x y where "x \<in> dom (map_of (bk_bids b))" "y \<in> dom (map_of (bk_asks b))" "y \<le> x"
      by (auto simp: crossed_def dom_map_of_conv_image_fst)
    then show "a \<le> p"
      using bt_last_greatest [OF assms(1) bid] bt_first_least [OF assms(2) ask] by force
  next
    assume "a \<le> p"
    then show "crossed b"
      using bt_last_in [OF bid] bt_first_in [OF ask] unfolding crossed_def
      by (metis fst_conv image_eqI)
  qed
  then show ?thesis by (auto simp: sanity_check_def book_best_bid_def book_best_ask_def bid ask)
qed

lemma sanity_check_cases: "sanity_check b = Inr () \<or> (\<exists>p a. sanity_check b = Inl (Crossed p a))"
  by (auto simp: sanity_check_def split: option.splits)

lemma bt_insert_set: "set (bt_insert k v m) \<subseteq> insert (k, v) (set m)"
  by (induction k v m rule: bt_insert.induct) auto

lemma bt_remove_set: "set (bt_remove k m) \<subseteq> set m"
  by (induction k m rule: bt_remove.induct) auto

lemma clean_Nil [simp]: "clean []"
  by (simp add: clean_def ascending_def)

lemma clean_ascending: "clean m \<Longrightarrow> ascending m"
  by (simp add: clean_def)

lemma clean_insert: "clean m \<Longrightarrow> q \<noteq> 0 \<Longrightarrow> clean (bt_insert p q m)"
  using bt_insert_set [of p q m] by (fastforce simp: clean_def ascending_insert)

lemma clean_remove: "clean m \<Longrightarrow> clean (bt_remove p m)"
  using bt_remove_set [of p m] by (fastforce simp: clean_def ascending_remove)

lemma clean_load [simp]: "clean (load_levels ls)"
proof -
  have "clean m \<Longrightarrow> clean (foldl (\<lambda>m (p, q::rat). if 0 < q then bt_insert p q m else m) m es)"
    for m es by (induction es arbitrary: m) (auto simp: clean_insert)
  then show ?thesis by (simp add: load_levels_def)
qed

lemma clean_change: "clean m \<Longrightarrow> clean (change_side d m)"
  by (simp add: change_side_def clean_insert clean_remove)

lemma book_new_inv: "book_inv (book_new p)"
  by (simp add: book_inv_def book_new_def)

lemma snapshot_inv: "book_inv b \<Longrightarrow> book_inv (fst (book_apply_snapshot b s now))"
  by (simp add: book_apply_snapshot_def book_inv_def Let_def)

lemma delta_total: "book_inv b \<Longrightarrow> \<exists>r. book_apply_delta b d now = Some r"
  by (auto simp: book_apply_delta_def book_inv_def Let_def split: book_state.splits)

text \<open>What an accepted delta does: the sequence is the next one and one side changes.\<close>
definition delta_update :: "local_book \<Rightarrow> book_delta_msg \<Rightarrow> time \<Rightarrow> local_book" where
  "delta_update b d now = (case bd_side d of
      BBuy \<Rightarrow> b\<lparr> bk_bids := change_side d (bk_bids b) \<rparr>
    | BSell \<Rightarrow> b\<lparr> bk_asks := change_side d (bk_asks b) \<rparr>)
      \<lparr> bk_last_seq := Some (bd_seq d), bk_last_update_at := Some now \<rparr>"

lemma delta_synced:
  assumes "bd_product_id d = bk_product_id b" "bk_state b = Synced" "bk_last_seq b = Some n"
  shows "book_apply_delta b d now = Some
    (if bd_seq d \<noteq> n + 1
     then (b\<lparr> bk_state := OutOfSync \<rparr>, Inl (SequenceGap (bk_product_id b) (n + 1) (bd_seq d)))
     else (if is_err (sanity_check (delta_update b d now))
           then (delta_update b d now)\<lparr> bk_state := OutOfSync \<rparr> else delta_update b d now,
           sanity_check (delta_update b d now)))"
  using assms by (simp add: book_apply_delta_def Let_def delta_update_def split: sum.splits)

lemma delta_not_synced:
  assumes "bd_product_id d \<noteq> bk_product_id b \<or> bk_state b \<noteq> Synced"
  shows "\<exists>e. book_apply_delta b d now = Some (b, Inl e)"
  using assms by (auto simp: book_apply_delta_def split: book_state.splits)

lemma delta_cases:
  assumes "book_apply_delta b d now = Some (b', r)"
  obtains (rejected) "b' = b" "is_err r" "bd_product_id d \<noteq> bk_product_id b \<or> bk_state b \<noteq> Synced"
  | (gap) n where "bk_last_seq b = Some n" "bd_seq d \<noteq> n + 1" "b' = b\<lparr> bk_state := OutOfSync \<rparr>"
      "r = Inl (SequenceGap (bk_product_id b) (n + 1) (bd_seq d))"
      "bk_state b = Synced" "bd_product_id d = bk_product_id b"
  | (accepted) n where "bk_last_seq b = Some n" "bd_seq d = n + 1" "bk_state b = Synced"
      "bd_product_id d = bk_product_id b"
      "r = sanity_check (delta_update b d now)"
      "b' = (if is_err r then (delta_update b d now)\<lparr> bk_state := OutOfSync \<rparr>
             else delta_update b d now)"
proof (cases "bd_product_id d = bk_product_id b \<and> bk_state b = Synced")
  case True
  then obtain n where n: "bk_last_seq b = Some n"
    using assms by (cases "bk_last_seq b") (auto simp: book_apply_delta_def)
  show ?thesis
  proof (cases "bd_seq d = n + 1")
    case eq: True
    then have "r = sanity_check (delta_update b d now)"
      "b' = (if is_err r then (delta_update b d now)\<lparr> bk_state := OutOfSync \<rparr>
             else delta_update b d now)"
      using assms True delta_synced [OF _ _ n] by auto
    then show ?thesis using accepted n eq True by blast
  next
    case False
    then show ?thesis using gap [OF n] assms True delta_synced [OF _ _ n] by simp
  qed
next
  case False
  then show ?thesis using rejected assms delta_not_synced [of d b now] by auto
qed

lemma delta_update_sel [simp]:
  "bk_product_id (delta_update b d now) = bk_product_id b"
  "bk_state (delta_update b d now) = bk_state b"
  "bk_last_seq (delta_update b d now) = Some (bd_seq d)"
  "bk_last_update_at (delta_update b d now) = Some now"
  "bk_bids (delta_update b d now)
     = (case bd_side d of BBuy \<Rightarrow> change_side d (bk_bids b) | BSell \<Rightarrow> bk_bids b)"
  "bk_asks (delta_update b d now)
     = (case bd_side d of BBuy \<Rightarrow> bk_asks b | BSell \<Rightarrow> change_side d (bk_asks b))"
  by (simp_all add: delta_update_def split: book_side.splits)

lemma delta_update_clean:
  assumes "book_inv b"
  shows "clean (bk_bids (delta_update b d now)) \<and> clean (bk_asks (delta_update b d now))"
  using assms by (auto simp: book_inv_def clean_change split: book_side.splits)

lemma delta_inv:
  assumes inv: "book_inv b" and step: "book_apply_delta b d now = Some (b', r)"
  shows "book_inv b'"
  using step
proof (cases rule: delta_cases)
  case gap
  then show ?thesis using inv by (simp add: book_inv_def)
next
  case (accepted n)
  then show ?thesis using delta_update_clean [OF inv, of d now] by (auto simp: book_inv_def)
qed (use inv in simp)

lemma invalidate_inv: "book_inv (book_invalidate b)"
  by (simp add: book_inv_def book_invalidate_def)

section \<open>Feeding the book\<close>

datatype book_event =
    EvSnapshot book_snapshot_msg time
  | EvDelta book_delta_msg time
  | EvInvalidate

fun book_step :: "local_book \<Rightarrow> book_event \<Rightarrow> local_book option" where
  "book_step b (EvSnapshot s now) = Some (fst (book_apply_snapshot b s now))"
| "book_step b (EvDelta d now) = map_option fst (book_apply_delta b d now)"
| "book_step b EvInvalidate = Some (book_invalidate b)"

fun book_run :: "local_book \<Rightarrow> book_event list \<Rightarrow> local_book option" where
  "book_run b [] = Some b"
| "book_run b (e # es) = do { b' \<leftarrow> book_step b e; book_run b' es }"

lemma book_run_append:
  "book_run b (es @ fs) = do { b' \<leftarrow> book_run b es; book_run b' fs }"
  by (induction es arbitrary: b) (auto split: Option.bind_splits)

lemma book_step_inv: "book_inv b \<Longrightarrow> book_step b e = Some b' \<Longrightarrow> book_inv b'"
  by (cases e) (auto simp: snapshot_inv invalidate_inv intro: delta_inv)

lemma book_step_total: "book_inv b \<Longrightarrow> \<exists>b'. book_step b e = Some b'"
  using delta_total by (cases e) fastforce+

lemma book_run_ok: "book_inv b \<Longrightarrow> \<exists>b'. book_run b es = Some b' \<and> book_inv b'"
proof (induction es arbitrary: b)
  case (Cons e es)
  then obtain b1 where "book_step b e = Some b1" "book_inv b1"
    using book_step_total book_step_inv by blast
  with Cons.IH show ?case by simp
qed simp

lemma book_step_product: "book_step b e = Some b' \<Longrightarrow> bk_product_id b' = bk_product_id b"
proof (cases e)
  case (EvDelta d t)
  moreover assume "book_step b e = Some b'"
  ultimately obtain r where "book_apply_delta b d t = Some (b', r)" by auto
  then show ?thesis by (cases rule: delta_cases) auto
qed (auto simp: book_apply_snapshot_def Let_def book_invalidate_def)

lemma book_run_product: "book_run b es = Some b' \<Longrightarrow> bk_product_id b' = bk_product_id b"
  by (induction es arbitrary: b) (auto simp: do_Some_conv dest: book_step_product)

subsection \<open>The replay specification\<close>

text \<open>The abstract book: each side a partial map from prices to quantities.\<close>
definition snapshot_map :: "price_level list \<Rightarrow> dec \<rightharpoonup> dec" where
  "snapshot_map ls = map_of (rev (filter (\<lambda>e. 0 < snd e) (map (\<lambda>l. (pl_price l, pl_qty l)) ls)))"

definition delta_map :: "book_side \<Rightarrow> (dec \<rightharpoonup> dec) \<Rightarrow> book_delta_msg \<Rightarrow> (dec \<rightharpoonup> dec)" where
  "delta_map sd m d = (if bd_side d \<noteq> sd then m
     else if bd_qty d = 0 then m(bd_price d := None) else m(bd_price d \<mapsto> bd_qty d))"

fun deltas_for :: "string \<Rightarrow> book_event list \<Rightarrow> (book_delta_msg \<times> time) list" where
  "deltas_for p [] = []"
| "deltas_for p (EvDelta d t # es) =
     (if bd_product_id d = p then (d, t) # deltas_for p es else deltas_for p es)"
| "deltas_for p (_ # es) = deltas_for p es"

fun consecutive :: "64 word \<Rightarrow> book_delta_msg list \<Rightarrow> bool" where
  "consecutive n [] = True"
| "consecutive n (d # ds) \<longleftrightarrow> bd_seq d = n + 1 \<and> consecutive (n + 1) ds"

fun resets :: "string \<Rightarrow> book_event \<Rightarrow> bool" where
  "resets p (EvSnapshot s t) \<longleftrightarrow> bs_product_id s = p"
| "resets p (EvDelta d t) = False"
| "resets p EvInvalidate = True"

text \<open>\<^verbatim>\<open>b\<close> is the last snapshot with every later delta for its product applied in an unbroken sequence.\<close>
definition replays :: "string \<Rightarrow> book_event list \<Rightarrow> local_book \<Rightarrow> bool" where
  "replays p es b \<longleftrightarrow> (\<exists>pre s t post ds. es = pre @ EvSnapshot s t # post \<and> bs_product_id s = p \<and>
     list_all (Not \<circ> resets p) post \<and> ds = deltas_for p post \<and>
     consecutive (bs_seq s) (map fst ds) \<and>
     bk_last_seq b = Some (bs_seq s + of_nat (length ds)) \<and>
     bk_last_update_at b = Some (last (t # map snd ds)) \<and>
     map_of (bk_bids b) = foldl (delta_map BBuy) (snapshot_map (bs_bids s)) (map fst ds) \<and>
     map_of (bk_asks b) = foldl (delta_map BSell) (snapshot_map (bs_asks s)) (map fst ds) \<and>
     (crossed b \<longrightarrow> ds = []))"

lemma deltas_for_append: "deltas_for p (es @ fs) = deltas_for p es @ deltas_for p fs"
  by (induction es rule: deltas_for.induct) auto

lemma consecutive_snoc:
  "consecutive n (ds @ [d]) \<longleftrightarrow> consecutive n ds \<and> bd_seq d = n + of_nat (length ds) + 1"
  by (induction ds arbitrary: n) (auto simp: algebra_simps)

lemma load_levels_map: "map_of (load_levels ls) = snapshot_map ls"
  using bt.load_from_empty [of "\<lambda>q. 0 < q" "map (\<lambda>l. (pl_price l, pl_qty l)) ls"]
  by (simp add: load_levels_def snapshot_map_def comp_def case_prod_beta)

lemma change_side_map:
  "ascending m \<Longrightarrow> map_of (change_side d m) = (if bd_qty d = 0 then (map_of m)(bd_price d := None)
     else (map_of m)(bd_price d \<mapsto> bd_qty d))"
  by (simp add: change_side_def map_of_bt_remove map_of_bt_insert)

lemma delta_update_maps:
  assumes "book_inv b"
  shows "map_of (bk_bids (delta_update b d now)) = delta_map BBuy (map_of (bk_bids b)) d"
    and "map_of (bk_asks (delta_update b d now)) = delta_map BSell (map_of (bk_asks b)) d"
  using assms
  by (auto simp: delta_map_def change_side_map book_inv_def clean_ascending split: book_side.splits)

lemma snapshot_replays:
  assumes "bs_product_id s = bk_product_id b"
  shows "replays (bk_product_id b) (es @ [EvSnapshot s t]) (fst (book_apply_snapshot b s t))"
  unfolding replays_def
  by (rule exI [of _ es], rule exI [of _ s], rule exI [of _ t], rule exI [of _ "[]"])
     (simp add: assms book_apply_snapshot_def Let_def load_levels_map)

lemma replays_skip:
  assumes "replays p es b" "deltas_for p [e] = []" "\<not> resets p e"
  shows "replays p (es @ [e]) b"
proof -
  obtain pre s t post where *: "es = pre @ EvSnapshot s t # post" "bs_product_id s = p"
    "list_all (Not \<circ> resets p) post" and r: "deltas_for p post = deltas_for p (post @ [e])"
    "consecutive (bs_seq s) (map fst (deltas_for p post))"
    "bk_last_seq b = Some (bs_seq s + of_nat (length (deltas_for p post)))"
    "bk_last_update_at b = Some (last (t # map snd (deltas_for p post)))"
    "map_of (bk_bids b)
       = foldl (delta_map BBuy) (snapshot_map (bs_bids s)) (map fst (deltas_for p post))"
    "map_of (bk_asks b)
       = foldl (delta_map BSell) (snapshot_map (bs_asks s)) (map fst (deltas_for p post))"
    "crossed b \<longrightarrow> deltas_for p post = []"
    using assms unfolding replays_def by (auto simp: deltas_for_append)
  have "es @ [e] = pre @ EvSnapshot s t # (post @ [e])"
    "list_all (Not \<circ> resets p) (post @ [e])" using * assms(3) by simp_all
  then show ?thesis unfolding replays_def using *(2) r by metis
qed

lemma replays_extend:
  assumes inv: "book_inv b" and rep: "replays p es b" and d: "bd_product_id d = p"
    and seq: "bk_last_seq b = Some n" "bd_seq d = n + 1"
    and ok: "\<not> crossed (delta_update b d now)"
  shows "replays p (es @ [EvDelta d now]) (delta_update b d now)"
proof -
  obtain pre s t post where *: "es = pre @ EvSnapshot s t # post" "bs_product_id s = p"
    "list_all (Not \<circ> resets p) post"
    "consecutive (bs_seq s) (map fst (deltas_for p post))"
    "bk_last_seq b = Some (bs_seq s + of_nat (length (deltas_for p post)))"
    "map_of (bk_bids b)
       = foldl (delta_map BBuy) (snapshot_map (bs_bids s)) (map fst (deltas_for p post))"
    "map_of (bk_asks b)
       = foldl (delta_map BSell) (snapshot_map (bs_asks s)) (map fst (deltas_for p post))"
    using rep unfolding replays_def by auto
  have ds: "deltas_for p (post @ [EvDelta d now]) = deltas_for p post @ [(d, now)]"
    using d by (simp add: deltas_for_append)
  have n: "n = bs_seq s + of_nat (length (deltas_for p post))" using *(5) seq(1) by simp
  show ?thesis
    unfolding replays_def
    by (rule exI [of _ pre], rule exI [of _ s], rule exI [of _ t],
        rule exI [of _ "post @ [EvDelta d now]"])
       (use * ds n seq(2) ok in \<open>auto simp: consecutive_snoc delta_update_maps [OF inv]
          algebra_simps simp del: delta_update_sel(5,6)\<close>)
qed

lemma synced_replays:
  assumes "book_run (book_new p) es = Some b" "is_synced b"
  shows "replays p es b"
  using assms
proof (induction es arbitrary: b rule: rev_induct)
  case Nil
  then show ?case by (auto simp: book_new_def is_synced_def)
next
  case (snoc e es)
  obtain b0 where run: "book_run (book_new p) es = Some b0" and step: "book_step b0 e = Some b"
    using snoc.prems(1) by (auto simp: book_run_append do_Some_conv)
  have inv: "book_inv b0" using book_run_ok [OF book_new_inv] run by (metis option.inject)
  have pid: "bk_product_id b0 = p" using book_run_product [OF run] by (simp add: book_new_def)
  have sync: "bk_state b = Synced" using snoc.prems(2) by (simp add: is_synced_def)
  show ?case
  proof (cases e)
    case (EvSnapshot s t)
    show ?thesis
    proof (cases "bs_product_id s = p")
      case True
      then show ?thesis using snapshot_replays [of s b0 es t] step pid EvSnapshot by simp
    next
      case False
      then have "b = b0" using step pid EvSnapshot by (simp add: book_apply_snapshot_def)
      then show ?thesis
        using snoc.IH [OF run] snoc.prems(2) False EvSnapshot by (auto intro: replays_skip)
    qed
  next
    case (EvDelta d t)
    then obtain r where "book_apply_delta b0 d t = Some (b, r)" using step by auto
    then show ?thesis
    proof (cases rule: delta_cases)
      case rejected
      then have "bd_product_id d \<noteq> p" using sync pid by simp
      then show ?thesis
        using snoc.IH [OF run] snoc.prems(2) rejected EvDelta by (auto intro: replays_skip)
    next
      case gap
      then show ?thesis using sync by simp
    next
      case (accepted n)
      then have ok: "\<not> is_err r" "b = delta_update b0 d t" using sync by (auto split: if_splits)
      then have "sanity_check (delta_update b0 d t) = Inr ()"
        using accepted(5) sanity_check_cases [of "delta_update b0 d t"] by auto
      then have "\<not> crossed (delta_update b0 d t)"
        using sanity_check_iff delta_update_clean [OF inv] clean_ascending by blast
      then show ?thesis
        using replays_extend [OF inv] snoc.IH [OF run] accepted pid ok(2) EvDelta
        by (simp add: is_synced_def)
    qed
  next
    case EvInvalidate
    then show ?thesis using step sync by (auto simp: book_invalidate_def)
  qed
qed

section \<open>What readers see\<close>

lemma to_core_snapshot_prices:
  assumes "to_core_snapshot b depth now = Inr s"
  shows "map lv_price (ob_bids s) = take depth (rev (map fst (bk_bids b)))"
    and "map lv_price (ob_asks s) = take depth (map fst (bk_asks b))"
    and "is_synced b"
  using assms
  by (auto simp: to_core_snapshot_def to_levels_def rev_map take_map comp_def case_prod_beta
      split: if_splits)

lemma core_snapshot_best:
  assumes "to_core_snapshot b depth now = Inr s" "0 < depth"
  shows "best_bid s = map_option (\<lambda>(p, q). \<lparr> lv_price = p, lv_quantity = q \<rparr>) (book_best_bid b)"
    and "best_ask s = map_option (\<lambda>(p, q). \<lparr> lv_price = p, lv_quantity = q \<rparr>) (book_best_ask b)"
proof -
  obtain n where n: "depth = Suc n" using assms(2) by (cases depth) auto
  have "bk_bids b = [] \<or> (\<exists>xs x. bk_bids b = xs @ [x])" by (cases "bk_bids b" rule: rev_cases) auto
  then show "best_bid s
      = map_option (\<lambda>(p, q). \<lparr> lv_price = p, lv_quantity = q \<rparr>) (book_best_bid b)"
    using assms(1) n
    by (auto simp: to_core_snapshot_def best_bid_def book_best_bid_def bt_last_def to_levels_def
        split: if_splits)
  show "best_ask s = map_option (\<lambda>(p, q). \<lparr> lv_price = p, lv_quantity = q \<rparr>) (book_best_ask b)"
    using assms(1) n
    by (cases "bk_asks b")
       (auto simp: to_core_snapshot_def best_ask_def book_best_ask_def bt_first_def to_levels_def
        split: if_splits)
qed

text \<open>The levels handed to the risk layer are sorted as documented: bids strictly descending, asks
  strictly ascending, at most \<^verbatim>\<open>depth\<close> of each.\<close>
lemma core_snapshot_sorted:
  assumes "book_inv b" "to_core_snapshot b depth now = Inr s"
  shows "sorted_wrt (>) (map lv_price (ob_bids s)) \<and> sorted_wrt (<) (map lv_price (ob_asks s)) \<and>
     length (ob_bids s) \<le> depth \<and> length (ob_asks s) \<le> depth"
proof -
  have "sorted_wrt (<) (map fst (bk_bids b))" "sorted_wrt (<) (map fst (bk_asks b))"
    using assms(1) by (auto simp: book_inv_def clean_def ascending_def)
  moreover have "length (ob_bids s) \<le> depth" "length (ob_asks s) \<le> depth"
    using assms(2) by (auto simp: to_core_snapshot_def to_levels_def split: if_splits)
  ultimately show ?thesis
    using to_core_snapshot_prices [OF assms(2)] by (simp add: sorted_wrt_rev sorted_wrt_take)
qed

lemma uncrossed_best:
  assumes "book_inv b" "\<not> crossed b" "book_best_bid b = Some (p, q)" "book_best_ask b = Some (a, r)"
  shows "p < a"
  using assms bt_last_in [of "bk_bids b"] bt_first_in [of "bk_asks b"]
  by (force simp: crossed_def book_best_bid_def book_best_ask_def not_le)

text \<open>A snapshot that fails the crossed check is nevertheless left readable.\<close>
lemma crossed_snapshot_state:
  assumes "bs_product_id s = bk_product_id b" "book_apply_snapshot b s now = (b', Inl e)"
  shows "is_synced b' \<and> (\<exists>bid bq ask aq. book_best_bid b' = Some (bid, bq) \<and>
           book_best_ask b' = Some (ask, aq) \<and> ask \<le> bid \<and> e = Crossed bid ask)"
  using assms
  by (auto simp: book_apply_snapshot_def Let_def is_synced_def sanity_check_def
      split: option.splits if_splits)

text \<open>A delta that crosses the book leaves it out of sync, and no later delta is accepted.\<close>
lemma crossing_delta_blocks:
  assumes "book_apply_delta b d now = Some (b', Inl (Crossed bid ask))"
  shows "bk_state b' = OutOfSync"
  using assms
proof (cases rule: delta_cases)
  case rejected
  then show ?thesis using assms
    by (auto simp: book_apply_delta_def split: book_state.splits if_splits)
next
  case (accepted n)
  then have "is_err (sanity_check (delta_update b d now))" by (metis is_err.simps(1))
  then show ?thesis using accepted by simp
qed auto

lemma out_of_sync_stuck:
  assumes "bk_state b = OutOfSync" "\<forall>e \<in> set es. \<exists>d t. e = EvDelta d t"
  shows "book_run b es = Some b"
  using assms
proof (induction es)
  case (Cons e es)
  then obtain d t where e: "e = EvDelta d t" by auto
  obtain r where "book_apply_delta b d t = Some (b, Inl r)"
    using delta_not_synced [of d b t] Cons.prems by auto
  then show ?case using Cons e by simp
qed simp

end
