(* ===== verification/Private_State.thy ===== *)
theory Private_State
  imports Order_Book
begin

text \<open>The private-feed state of \<^verbatim>\<open>crates/rt-kraken-futures/src/private_state.rs\<close> (the materialised open
  orders and the bounded ring of recent fills, with their messages of \<^verbatim>\<open>messages.rs\<close>) and the nonce
  generator of \<^verbatim>\<open>auth.rs\<close> with its compare-and-swap loop as an interleaving step relation.\<close>

section \<open>Open orders\<close>

record open_order_entry =
  oe_instrument :: string
  oe_time :: "64 word"
  oe_last_update_time :: "64 word option"
  oe_qty :: dec
  oe_filled :: "dec option"
  oe_limit_price :: "dec option"
  oe_stop_price :: "dec option"
  oe_order_type :: "string option"
  oe_order_id :: string
  oe_cli_ord_id :: "string option"
  oe_direction :: "8 word"
  oe_reduce_only :: "bool option"
  oe_trigger_signal :: "string option"

definition oe_side :: "open_order_entry \<Rightarrow> book_side" where
  "oe_side e = (if oe_direction e = 0 then BBuy else BSell)"

record open_orders_update =
  ou_order :: "open_order_entry option"
  ou_is_cancel :: bool
  ou_order_id :: "string option"
  ou_reason :: "string option"

record open_orders_state =
  oo_orders :: "string \<rightharpoonup> open_order_entry"
  oo_last_seen_at :: "time option"
  oo_is_synced :: bool

definition open_orders_new :: open_orders_state where
  "open_orders_new = \<lparr> oo_orders = Map.empty, oo_last_seen_at = None, oo_is_synced = False \<rparr>"

definition oo_apply_snapshot ::
    "open_order_entry list \<Rightarrow> time \<Rightarrow> open_orders_state \<Rightarrow> open_orders_state" where
  "oo_apply_snapshot orders now s = s\<lparr>
     oo_orders := foldl (\<lambda>m e. m(oe_order_id e \<mapsto> e)) Map.empty orders,
     oo_last_seen_at := Some now, oo_is_synced := True \<rparr>"

definition oo_apply_update ::
    "open_orders_update \<Rightarrow> time \<Rightarrow> open_orders_state \<Rightarrow> open_orders_state" where
  "oo_apply_update u now s0 = (let s = s0\<lparr> oo_last_seen_at := Some now \<rparr> in
     if ou_is_cancel u then
       (case (case ou_order u of Some e \<Rightarrow> Some (oe_order_id e) | None \<Rightarrow> ou_order_id u) of
          Some order_id \<Rightarrow> s\<lparr> oo_orders := (oo_orders s)(order_id := None) \<rparr>
        | None \<Rightarrow> s)
     else (case ou_order u of
          Some e \<Rightarrow> s\<lparr> oo_orders := (oo_orders s)(oe_order_id e \<mapsto> e) \<rparr>
        | None \<Rightarrow> s))"

definition oo_invalidate :: "open_orders_state \<Rightarrow> open_orders_state" where
  "oo_invalidate s = s\<lparr> oo_orders := Map.empty, oo_is_synced := False \<rparr>"

definition oo_get :: "open_orders_state \<Rightarrow> string \<Rightarrow> open_order_entry option" where
  "oo_get s order_id = oo_orders s order_id"

text \<open>Every entry is filed under its own order id.\<close>
definition oo_inv :: "open_orders_state \<Rightarrow> bool" where
  "oo_inv s \<longleftrightarrow> (\<forall>k e. oo_orders s k = Some e \<longrightarrow> oe_order_id e = k)"

lemma oo_foldl:
  "foldl (\<lambda>m e. m(oe_order_id e \<mapsto> e)) m0 es
     = m0 ++ map_of (rev (map (\<lambda>e. (oe_order_id e, e)) es))"
  by (induction es arbitrary: m0) (auto simp: map_add_def fun_eq_iff split: option.splits)

lemma oo_snapshot_get:
  "oo_get (oo_apply_snapshot es now s) k = map_of (rev (map (\<lambda>e. (oe_order_id e, e)) es)) k"
  by (simp add: oo_get_def oo_apply_snapshot_def oo_foldl)

lemma oo_snapshot_inv: "oo_inv (oo_apply_snapshot es now s)"
  by (auto simp: oo_inv_def oo_apply_snapshot_def oo_foldl dest!: map_of_SomeD)

lemma oo_update_inv: "oo_inv s \<Longrightarrow> oo_inv (oo_apply_update u now s)"
  by (auto simp: oo_inv_def oo_apply_update_def Let_def split: option.splits)

lemma oo_update_get:
  "oo_get (oo_apply_update u now s) k =
     (case (ou_is_cancel u, ou_order u, ou_order_id u) of
        (True, Some e, _) \<Rightarrow> if k = oe_order_id e then None else oo_get s k
      | (True, None, Some i) \<Rightarrow> if k = i then None else oo_get s k
      | (False, Some e, _) \<Rightarrow> if k = oe_order_id e then Some e else oo_get s k
      | _ \<Rightarrow> oo_get s k)"
  by (auto simp: oo_get_def oo_apply_update_def Let_def split: option.splits bool.splits)

section \<open>The ring of recent fills\<close>

record fill_entry =
  fe_instrument :: string
  fe_time :: "64 word"
  fe_price :: dec
  fe_seq :: "64 word"
  fe_buy :: bool
  fe_qty :: dec
  fe_remaining_order_qty :: "dec option"
  fe_order_id :: string
  fe_fill_id :: string
  fe_fill_type :: string
  fe_fee_paid :: dec
  fe_fee_currency :: string
  fe_cli_ord_id :: "string option"
  fe_order_type :: "string option"
  fe_taker_order_type :: "string option"

definition fe_is_maker :: "fill_entry \<Rightarrow> bool" where
  "fe_is_maker f \<longleftrightarrow> fe_fill_type f = ''maker''"

definition fe_side :: "fill_entry \<Rightarrow> book_side" where
  "fe_side f = (if fe_buy f then BBuy else BSell)"

record fills_ring =
  fr_fills :: "fill_entry list"
  fr_capacity :: nat
  fr_highest_seq :: "64 word"
  fr_is_synced :: bool

record fill_apply_result =
  fa_appended :: nat
  fa_duplicates :: nat
  fa_gap_detected :: bool

definition fills_ring_capacity :: nat where
  "fills_ring_capacity = 200"

definition fills_new :: "nat \<Rightarrow> fills_ring" where
  "fills_new capacity = \<lparr> fr_fills = [], fr_capacity = capacity, fr_highest_seq = 0,
     fr_is_synced = False \<rparr>"

definition fills_push :: "fill_entry \<Rightarrow> fills_ring \<Rightarrow> fills_ring" where
  "fills_push f r = r\<lparr> fr_fills :=
     (if length (fr_fills r) = fr_capacity r then tl (fr_fills r) else fr_fills r) @ [f] \<rparr>"

fun snapshot_loop :: "fill_entry list \<Rightarrow> fills_ring \<Rightarrow> fills_ring" where
  "snapshot_loop [] r = r"
| "snapshot_loop (f # fs) r =
     snapshot_loop fs (fills_push f (r\<lparr> fr_highest_seq := max (fr_highest_seq r) (fe_seq f) \<rparr>))"

definition fills_apply_snapshot :: "fill_entry list \<Rightarrow> fills_ring \<Rightarrow> fills_ring" where
  "fills_apply_snapshot fs r =
     (snapshot_loop fs (r\<lparr> fr_fills := [], fr_highest_seq := 0 \<rparr>))\<lparr> fr_is_synced := True \<rparr>"

fun apply_loop ::
    "fill_entry list \<Rightarrow> fills_ring \<Rightarrow> fill_apply_result \<Rightarrow> fills_ring \<times> fill_apply_result" where
  "apply_loop [] r a = (r, a)"
| "apply_loop (f # fs) r a =
     (if fe_seq f \<le> fr_highest_seq r then
        apply_loop fs r (a\<lparr> fa_duplicates := fa_duplicates a + 1 \<rparr>)
      else apply_loop fs (fills_push f (r\<lparr> fr_highest_seq := fe_seq f \<rparr>))
        (a\<lparr> fa_appended := fa_appended a + 1,
            fa_gap_detected := fa_gap_detected a \<or>
              (fr_highest_seq r \<noteq> 0 \<and> fr_highest_seq r + 1 < fe_seq f) \<rparr>))"

definition fills_apply :: "fill_entry list \<Rightarrow> fills_ring \<Rightarrow> fills_ring \<times> fill_apply_result" where
  "fills_apply fs r = apply_loop fs r
     \<lparr> fa_appended = 0, fa_duplicates = 0, fa_gap_detected = False \<rparr>"

definition fills_invalidate :: "fills_ring \<Rightarrow> fills_ring" where
  "fills_invalidate r = r\<lparr> fr_fills := [], fr_highest_seq := 0, fr_is_synced := False \<rparr>"

subsection \<open>The ring as the tail of the stream\<close>

text \<open>The fills a batch adds: those above every sequence number seen so far.\<close>
fun accepted :: "64 word \<Rightarrow> fill_entry list \<Rightarrow> fill_entry list" where
  "accepted h [] = []"
| "accepted h (f # fs) = (if fe_seq f \<le> h then accepted h fs else f # accepted (fe_seq f) fs)"

definition last_n :: "nat \<Rightarrow> 'a list \<Rightarrow> 'a list" where
  "last_n n xs = drop (length xs - n) xs"

definition ring_inv :: "fills_ring \<Rightarrow> bool" where
  "ring_inv r \<longleftrightarrow> 0 < fr_capacity r \<and> length (fr_fills r) \<le> fr_capacity r \<and>
     (\<forall>f \<in> set (fr_fills r). fe_seq f \<le> fr_highest_seq r)"

lemma last_n_length [simp]: "length (last_n n xs) = min n (length xs)"
  by (auto simp: last_n_def)

lemma last_n_small: "length xs \<le> n \<Longrightarrow> last_n n xs = xs"
  by (simp add: last_n_def)

lemma push_last_n:
  assumes "0 < fr_capacity r" "fr_fills r = last_n (fr_capacity r) xs"
  shows "fr_fills (fills_push f r) = last_n (fr_capacity r) (xs @ [f])"
  using assms
  by (auto simp: fills_push_def last_n_def drop_Suc [symmetric] Suc_diff_le tl_drop drop_tl
      Suc_diff_Suc not_less_eq_eq)

lemma push_sel [simp]:
  "fr_capacity (fills_push f r) = fr_capacity r" "fr_highest_seq (fills_push f r) = fr_highest_seq r"
  "fr_is_synced (fills_push f r) = fr_is_synced r"
  by (simp_all add: fills_push_def)

lemma push_set: "set (fr_fills (fills_push f r)) \<subseteq> insert f (set (fr_fills r))"
  by (cases "fr_fills r") (auto simp: fills_push_def)

lemma push_length:
  "0 < fr_capacity r \<Longrightarrow> length (fr_fills r) \<le> fr_capacity r \<Longrightarrow>
   length (fr_fills (fills_push f r)) \<le> fr_capacity r"
  by (auto simp: fills_push_def)

definition top_seq :: "64 word \<Rightarrow> fill_entry list \<Rightarrow> 64 word" where
  "top_seq h fs = foldl max h (map fe_seq fs)"

lemma top_seq_simps [simp]:
  "top_seq h [] = h" "top_seq h (f # fs) = top_seq (max h (fe_seq f)) fs"
  by (simp_all add: top_seq_def)

lemma top_seq_append: "top_seq h (fs @ gs) = top_seq (top_seq h fs) gs"
  by (simp add: top_seq_def)

lemma top_seq_ge: "h \<le> top_seq h fs"
  by (induction fs arbitrary: h) (simp, metis max.bounded_iff top_seq_simps(2))

lemma top_seq_max: "f \<in> set fs \<Longrightarrow> fe_seq f \<le> top_seq h fs"
proof (induction fs arbitrary: h)
  case (Cons g fs)
  then show ?case using top_seq_ge [of "max h (fe_seq g)" fs] by auto
qed simp

lemma accepted_append: "accepted h (fs @ gs) = accepted h fs @ accepted (top_seq h fs) gs"
  by (induction fs arbitrary: h) (auto simp: max_def)

lemma accepted_none: "\<forall>f \<in> set fs. fe_seq f \<le> h \<Longrightarrow> accepted h fs = []"
  by (induction fs) auto

lemma accepted_above: "f \<in> set (accepted h fs) \<Longrightarrow> h < fe_seq f"
proof (induction fs arbitrary: h)
  case (Cons g fs)
  then show ?case by (cases "fe_seq g \<le> h") (auto simp: not_le dest: less_trans)
qed simp

lemma accepted_strict: "sorted_wrt (<) (map fe_seq (accepted h fs))"
  by (induction fs arbitrary: h) (auto dest: accepted_above)

lemma accepted_subset: "set (accepted h fs) \<subseteq> set fs"
proof (induction fs arbitrary: h)
  case (Cons g fs)
  then show ?case using Cons.IH [of h] Cons.IH [of "fe_seq g"] by auto
qed simp

lemma apply_loop_spec:
  assumes "0 < fr_capacity r" "fr_fills r = last_n (fr_capacity r) xs"
    "apply_loop fs r a = (r', a')"
  shows "fr_fills r' = last_n (fr_capacity r) (xs @ accepted (fr_highest_seq r) fs) \<and>
     fr_capacity r' = fr_capacity r \<and> fr_highest_seq r' = top_seq (fr_highest_seq r) fs \<and>
     fa_appended a' = fa_appended a + length (accepted (fr_highest_seq r) fs) \<and>
     fa_appended a' + fa_duplicates a' = fa_appended a + fa_duplicates a + length fs"
  using assms
proof (induction fs arbitrary: r a xs)
  case (Cons f fs)
  show ?case
  proof (cases "fe_seq f \<le> fr_highest_seq r")
    case True
    then show ?thesis
      using Cons.IH [OF Cons.prems(1,2), of "a\<lparr> fa_duplicates := fa_duplicates a + 1 \<rparr>"] Cons.prems(3)
      by (simp add: max_def)
  next
    case False
    let ?r = "fills_push f (r\<lparr> fr_highest_seq := fe_seq f \<rparr>)"
    have "fr_fills ?r = last_n (fr_capacity ?r) (xs @ [f])"
      using push_last_n [of "r\<lparr> fr_highest_seq := fe_seq f \<rparr>" xs f] Cons.prems(1,2) by simp
    note IH = Cons.IH [OF _ this]
    define a2 where "a2 = a\<lparr> fa_appended := fa_appended a + 1,
      fa_gap_detected := fa_gap_detected a \<or>
        (fr_highest_seq r \<noteq> 0 \<and> fr_highest_seq r + 1 < fe_seq f) \<rparr>"
    have "apply_loop fs ?r a2 = (r', a')" using Cons.prems(3) False by (simp add: a2_def)
    from IH [OF _ this] show ?thesis
      using False Cons.prems(1) by (simp add: max_absorb2 a2_def)
  qed
qed simp

lemma snapshot_loop_spec:
  assumes "0 < fr_capacity r" "fr_fills r = last_n (fr_capacity r) xs"
  shows "fr_fills (snapshot_loop fs r) = last_n (fr_capacity r) (xs @ fs) \<and>
     fr_capacity (snapshot_loop fs r) = fr_capacity r \<and>
     fr_highest_seq (snapshot_loop fs r) = top_seq (fr_highest_seq r) fs"
  using assms
proof (induction fs arbitrary: r xs)
  case (Cons f fs)
  let ?r = "fills_push f (r\<lparr> fr_highest_seq := max (fr_highest_seq r) (fe_seq f) \<rparr>)"
  have "fr_fills ?r = last_n (fr_capacity ?r) (xs @ [f])"
    using push_last_n [of "r\<lparr> fr_highest_seq := max (fr_highest_seq r) (fe_seq f) \<rparr>" xs f] Cons.prems
    by simp
  from Cons.IH [OF _ this] show ?case using Cons.prems(1) by simp
qed simp

lemma fills_snapshot_spec:
  assumes "0 < fr_capacity r"
  shows "fr_fills (fills_apply_snapshot fs r) = last_n (fr_capacity r) fs"
    and "fr_capacity (fills_apply_snapshot fs r) = fr_capacity r"
    and "fr_highest_seq (fills_apply_snapshot fs r) = top_seq 0 fs"
  using snapshot_loop_spec [of "r\<lparr> fr_fills := [], fr_highest_seq := 0 \<rparr>" "[]" fs] assms
  by (simp_all add: fills_apply_snapshot_def last_n_small)

text \<open>Feeding batches.\<close>
definition fills_feed :: "fill_entry list list \<Rightarrow> fills_ring \<Rightarrow> fills_ring" where
  "fills_feed batches r = foldl (\<lambda>r b. fst (fills_apply b r)) r batches"

lemma fills_feed_spec:
  assumes "0 < fr_capacity r" "fr_fills r = last_n (fr_capacity r) xs"
  shows "fr_fills (fills_feed bs r)
           = last_n (fr_capacity r) (xs @ accepted (fr_highest_seq r) (concat bs)) \<and>
     fr_capacity (fills_feed bs r) = fr_capacity r \<and>
     fr_highest_seq (fills_feed bs r) = top_seq (fr_highest_seq r) (concat bs)"
  using assms
proof (induction bs arbitrary: r xs)
  case (Cons b bs)
  obtain r' a' where r': "fills_apply b r = (r', a')" by (cases "fills_apply b r")
  note spec = apply_loop_spec [OF Cons.prems r' [unfolded fills_apply_def]]
  from Cons.IH [of r' "xs @ accepted (fr_highest_seq r) b"] show ?case
    using spec Cons.prems(1) by (simp add: fills_feed_def r' accepted_append top_seq_append)
qed (simp add: fills_feed_def)

text \<open>A batch seen before changes nothing and counts as duplicates only.\<close>
lemma apply_loop_dup:
  "\<forall>f \<in> set fs. fe_seq f \<le> fr_highest_seq r \<Longrightarrow>
   apply_loop fs r a = (r, a\<lparr> fa_duplicates := fa_duplicates a + length fs \<rparr>)"
  by (induction fs arbitrary: a) auto

lemma apply_loop_highest: "fr_highest_seq (fst (apply_loop fs r a)) = top_seq (fr_highest_seq r) fs"
  by (induction fs arbitrary: r a) (auto simp: max_def)

lemma fills_apply_idem:
  assumes "set fs \<subseteq> set (concat bs)"
  shows "fills_apply fs (fills_feed bs r) = (fills_feed bs r,
     \<lparr> fa_appended = 0, fa_duplicates = length fs, fa_gap_detected = False \<rparr>)"
proof -
  have top: "fr_highest_seq (fills_feed bs r) = top_seq (fr_highest_seq r) (concat bs)" for r
    by (induction bs arbitrary: r)
       (simp_all add: fills_feed_def top_seq_append fills_apply_def apply_loop_highest)
  have "\<forall>f \<in> set fs. fe_seq f \<le> fr_highest_seq (fills_feed bs r)"
    using assms top_seq_max unfolding top by blast
  then show ?thesis by (simp add: fills_apply_def apply_loop_dup)
qed

section \<open>Nonces\<close>

text \<open>\<^verbatim>\<open>NonceGenerator::next\<close>: \<^verbatim>\<open>candidate\<close> is what one iteration of the loop proposes.  A call loads the
  shared counter, then repeats a weak compare-and-swap; a failed one (another call got in between, or
  spuriously) reloads the counter.  \<^verbatim>\<open>+ 1\<close> wraps in the release build.\<close>

definition nonce_candidate :: "64 word \<Rightarrow> 64 word \<Rightarrow> 64 word" where
  "nonce_candidate now_ms prev = max now_ms (prev + 1)"

record nonce_state =
  ns_last :: "64 word"
  ns_calls :: "nat \<rightharpoonup> 64 word \<times> 64 word"
  ns_issued :: "64 word list"

definition nonce_init :: nonce_state where
  "nonce_init = \<lparr> ns_last = 0, ns_calls = Map.empty, ns_issued = [] \<rparr>"

inductive nonce_step :: "nonce_state \<Rightarrow> nonce_state \<Rightarrow> bool" where
  load: "ns_calls s i = None \<Longrightarrow>
    nonce_step s (s\<lparr> ns_calls := (ns_calls s)(i \<mapsto> (now_ms, ns_last s)) \<rparr>)"
| swap: "ns_calls s i = Some (now_ms, prev) \<Longrightarrow> prev = ns_last s \<Longrightarrow>
    nonce_step s (s\<lparr> ns_calls := (ns_calls s)(i := None),
                     ns_last := nonce_candidate now_ms prev,
                     ns_issued := ns_issued s @ [nonce_candidate now_ms prev] \<rparr>)"
| retry: "ns_calls s i = Some (now_ms, prev) \<Longrightarrow>
    nonce_step s (s\<lparr> ns_calls := (ns_calls s)(i \<mapsto> (now_ms, ns_last s)) \<rparr>)"

inductive nonce_reach :: "nonce_state \<Rightarrow> bool" where
  init: "nonce_reach nonce_init"
| step: "nonce_reach s \<Longrightarrow> nonce_step s s' \<Longrightarrow> nonce_reach s'"

inductive_cases nonce_stepE: "nonce_step s s'"

lemma nonce_candidate_gt: "prev \<noteq> - 1 \<Longrightarrow> prev < nonce_candidate now_ms prev"
proof -
  assume "prev \<noteq> - 1"
  then have "unat prev + 1 < 2 ^ 64"
    using unsigned_less [where ?'a = nat, of prev] word_unat_eq_iff [of prev "- 1"]
    by (simp add: unsigned_minus_1_eq_mask mask_eq_exp_minus_1)
  then have "prev \<le> prev + 1" using no_plus_overflow_unat_size [of prev 1] by (simp add: word_size)
  then have "prev < prev + 1" by (simp add: order.strict_iff_order)
  then show ?thesis by (simp add: nonce_candidate_def less_max_iff_disj)
qed

lemma sorted_le_last: "sorted_wrt (<) xs \<Longrightarrow> x \<in> set xs \<Longrightarrow> x \<le> last xs" for x :: "'a::order"
  by (cases xs rule: rev_cases) (auto simp: sorted_wrt_append)

lemma nonce_last_issued:
  "nonce_reach s \<Longrightarrow> ns_last s = (if ns_issued s = [] then 0 else last (ns_issued s))"
proof (induction rule: nonce_reach.induct)
  case (step s s')
  from step.hyps(2) show ?case using step.IH by (cases rule: nonce_step.cases) auto
qed (simp add: nonce_init_def)

lemma nonce_strict:
  assumes "nonce_reach s" "- 1 \<notin> set (butlast (ns_issued s))"
  shows "sorted_wrt (<) (ns_issued s)"
  using assms
proof (induction rule: nonce_reach.induct)
  case (step s s')
  from step.hyps(2) show ?case
  proof (cases rule: nonce_step.cases)
    case (swap i now_ms prev)
    have l: "ns_last s = (if ns_issued s = [] then 0 else last (ns_issued s))"
      by (rule nonce_last_issued [OF step.hyps(1)])
    have no: "- 1 \<notin> set (ns_issued s)" using step.prems swap by simp
    then have "sorted_wrt (<) (ns_issued s)"
      using step.IH by (meson in_set_butlastD)
    moreover have "x < nonce_candidate now_ms prev" if "x \<in> set (ns_issued s)" for x
    proof -
      have ne: "ns_issued s \<noteq> []" using that by auto
      then have "ns_last s \<noteq> - 1" using l no by (metis last_in_set)
      moreover have "x \<le> ns_last s"
        using sorted_le_last [OF \<open>sorted_wrt (<) (ns_issued s)\<close> that] l ne by simp
      ultimately show ?thesis using nonce_candidate_gt swap(3) by (metis le_less_trans)
    qed
    ultimately show ?thesis using swap by (simp add: sorted_wrt_append)
  qed (use step.IH step.prems in auto)
qed (simp add: nonce_init_def)

end
