(* ===== verification/Feeds.thy ===== *)
theory Feeds
  imports Private_State
begin

text \<open>The WebSocket client of \<^verbatim>\<open>crates/rt-kraken-futures/src/ws.rs\<close>: its stores (books, tickers, open
  orders, fills), the handler of every inbound message, the event loop of one connection and the
  reconnect loop with its backoff.  Decoding JSON belongs to serde: a text frame carries the decoded
  message, or \<^verbatim>\<open>None\<close> when it does not decode.  A connection is a script of what the socket, the timer
  and the shutdown channel deliver, with the outcome of each send; a script that ends leaves the loop
  running.\<close>

section \<open>Messages, errors, configuration\<close>

record ticker_msg =
  tk_product_id :: string
  tk_bid :: "dec option"
  tk_ask :: "dec option"
  tk_bid_size :: "dec option"
  tk_ask_size :: "dec option"
  tk_funding_rate :: "dec option"
  tk_funding_rate_prediction :: "dec option"
  tk_relative_funding_rate :: "dec option"
  tk_next_funding_rate_time :: "64 word option"
  tk_time :: "64 word option"
  tk_last :: "dec option"

definition tk_funding_rate_per_8h :: "lib \<Rightarrow> ticker_msg \<Rightarrow> dec option option" where
  "tk_funding_rate_per_8h L t = (case tk_funding_rate t of
      None \<Rightarrow> Some None
    | Some r \<Rightarrow> map_option Some (dmul L r (8 * 3600)))"

datatype ws_event =
    EvInfo "64 word option"
  | EvSubscribed string "string list option"
  | EvUnsubscribed string "string list option"
  | EvChallenge string
  | EvAlert string
  | EvError string
  | EvPong

datatype ws_feed =
    Heartbeat "64 word option"
  | BookSnapshot book_snapshot_msg
  | BookDelta book_delta_msg
  | Ticker ticker_msg
  | FillsSnapshot string "fill_entry list"
  | Fills string "fill_entry list"
  | OpenOrdersSnapshot string "open_order_entry list"
  | OpenOrders open_orders_update
  | OpenOrdersVerboseSnapshot string "open_order_entry list"
  | OpenOrdersVerbose open_orders_update
  | FeedOther

datatype ws_inbound = InEvent ws_event | InFeed ws_feed

datatype kraken_error =
    KAuth string
  | KHttp bool
  | KJson
  | KWebSocket
  | KApi "string option" string
  | KBook book_error
  | KUnexpectedMessage string
  | KTimeout string
  | KSequenceGap string "64 word" "64 word"

fun is_sequence_gap :: "kraken_error \<Rightarrow> bool" where
  "is_sequence_gap (KSequenceGap _ _ _) = True"
| "is_sequence_gap _ = False"

record ws_config =
  wc_url :: string
  wc_products :: "string list"
  wc_subscribe_ticker :: bool
  wc_subscribe_book :: bool
  wc_subscribe_fills :: bool
  wc_subscribe_open_orders :: bool
  wc_open_orders_verbose :: bool
  wc_max_backoff :: nat
  wc_initial_backoff :: nat
  wc_ping_interval :: nat

text \<open>Durations in milliseconds.\<close>
definition ws_config_new :: "string list \<Rightarrow> ws_config" where
  "ws_config_new products = \<lparr> wc_url = ''wss://futures.kraken.com/ws/v1'', wc_products = products,
     wc_subscribe_ticker = True, wc_subscribe_book = True, wc_subscribe_fills = True,
     wc_subscribe_open_orders = True, wc_open_orders_verbose = True, wc_max_backoff = 30000,
     wc_initial_backoff = 1000, wc_ping_interval = 30000 \<rparr>"

record feeds =
  fd_books :: "string \<rightharpoonup> local_book"
  fd_tickers :: "string \<rightharpoonup> ticker_msg"
  fd_open_orders :: open_orders_state
  fd_fills :: fills_ring
  fd_text_counter :: "64 word"

definition feeds_new :: "ws_config \<Rightarrow> feeds" where
  "feeds_new cfg = \<lparr> fd_books = foldl (\<lambda>m p. m(p \<mapsto> book_new p)) Map.empty (wc_products cfg),
     fd_tickers = Map.empty, fd_open_orders = open_orders_new,
     fd_fills = fills_new fills_ring_capacity, fd_text_counter = 0 \<rparr>"

section \<open>Handlers\<close>

text \<open>A handler returns the new stores and a result; \<^verbatim>\<open>None\<close> is the panic of the order book.\<close>

definition handle_book_snapshot :: "book_snapshot_msg \<Rightarrow> time \<Rightarrow> feeds \<Rightarrow> feeds \<times> (kraken_error + unit)" where
  "handle_book_snapshot snap now fd =
     (let product = bs_product_id snap;
          book = (case fd_books fd product of Some b \<Rightarrow> b | None \<Rightarrow> book_new product);
          (b', r) = book_apply_snapshot book snap now
      in (fd\<lparr> fd_books := (fd_books fd)(product \<mapsto> b') \<rparr>, map_sum KBook id r))"

definition handle_book_delta ::
    "book_delta_msg \<Rightarrow> time \<Rightarrow> feeds \<Rightarrow> (feeds \<times> (kraken_error + unit)) option" where
  "handle_book_delta d now fd = (let product = bd_product_id d in
     case fd_books fd product of
       None \<Rightarrow> Some (fd\<lparr> fd_books := (fd_books fd)(product \<mapsto> book_new product) \<rparr>,
                 Inl (KUnexpectedMessage (''delta before snapshot for '' @ product)))
     | Some b \<Rightarrow> do {
         (b', r) \<leftarrow> book_apply_delta b d now;
         Some (fd\<lparr> fd_books := (fd_books fd)(product \<mapsto> b') \<rparr>,
           (case r of
              Inr u \<Rightarrow> Inr ()
            | Inl (SequenceGap p expected got) \<Rightarrow> Inl (KSequenceGap p expected got)
            | Inl e \<Rightarrow> Inl (KBook e))) })"

definition handle_ticker :: "ticker_msg \<Rightarrow> feeds \<Rightarrow> feeds" where
  "handle_ticker t fd = fd\<lparr> fd_tickers := (fd_tickers fd)(tk_product_id t \<mapsto> t) \<rparr>"

definition handle_fills_snapshot :: "fill_entry list \<Rightarrow> feeds \<Rightarrow> feeds" where
  "handle_fills_snapshot fs fd = fd\<lparr> fd_fills := fills_apply_snapshot fs (fd_fills fd) \<rparr>"

definition handle_fills :: "fill_entry list \<Rightarrow> feeds \<Rightarrow> feeds" where
  "handle_fills fs fd = fd\<lparr> fd_fills := fst (fills_apply fs (fd_fills fd)) \<rparr>"

definition handle_open_orders_snapshot :: "open_order_entry list \<Rightarrow> time \<Rightarrow> feeds \<Rightarrow> feeds" where
  "handle_open_orders_snapshot os now fd =
     fd\<lparr> fd_open_orders := oo_apply_snapshot os now (fd_open_orders fd) \<rparr>"

definition handle_open_orders_update :: "open_orders_update \<Rightarrow> time \<Rightarrow> feeds \<Rightarrow> feeds" where
  "handle_open_orders_update u now fd =
     fd\<lparr> fd_open_orders := oo_apply_update u now (fd_open_orders fd) \<rparr>"

fun handle_feed :: "ws_feed \<Rightarrow> time \<Rightarrow> feeds \<Rightarrow> (feeds \<times> (kraken_error + unit)) option" where
  "handle_feed (Heartbeat _) now fd = Some (fd, Inr ())"
| "handle_feed (BookSnapshot s) now fd = Some (handle_book_snapshot s now fd)"
| "handle_feed (BookDelta d) now fd = handle_book_delta d now fd"
| "handle_feed (Ticker t) now fd = Some (handle_ticker t fd, Inr ())"
| "handle_feed (FillsSnapshot _ fs) now fd = Some (handle_fills_snapshot fs fd, Inr ())"
| "handle_feed (Fills _ fs) now fd = Some (handle_fills fs fd, Inr ())"
| "handle_feed (OpenOrdersSnapshot _ os) now fd = Some (handle_open_orders_snapshot os now fd, Inr ())"
| "handle_feed (OpenOrdersVerboseSnapshot _ os) now fd =
     Some (handle_open_orders_snapshot os now fd, Inr ())"
| "handle_feed (OpenOrders u) now fd = Some (handle_open_orders_update u now fd, Inr ())"
| "handle_feed (OpenOrdersVerbose u) now fd = Some (handle_open_orders_update u now fd, Inr ())"
| "handle_feed FeedOther now fd = Some (fd, Inr ())"

text \<open>The action is the challenge to sign.\<close>
fun handle_event :: "ws_event \<Rightarrow> kraken_error + string option" where
  "handle_event (EvChallenge message) = Inr (Some message)"
| "handle_event (EvError message) = Inl (KApi None message)"
| "handle_event _ = Inr None"

definition handle_text ::
    "ws_inbound option \<Rightarrow> time \<Rightarrow> feeds \<Rightarrow> (feeds \<times> (kraken_error + string option)) option" where
  "handle_text msg now fd0 = (let fd = fd0\<lparr> fd_text_counter := fd_text_counter fd0 + 1 \<rparr> in
     case msg of
       None \<Rightarrow> Some (fd, Inl KJson)
     | Some (InEvent e) \<Rightarrow> Some (fd, handle_event e)
     | Some (InFeed f) \<Rightarrow> do { (fd', r) \<leftarrow> handle_feed f now fd; Some (fd', map_sum id (\<lambda>_. None) r) })"

definition invalidate_all :: "feeds \<Rightarrow> feeds" where
  "invalidate_all fd = fd\<lparr> fd_books := map_option book_invalidate \<circ> fd_books fd,
     fd_open_orders := oo_invalidate (fd_open_orders fd),
     fd_fills := fills_invalidate (fd_fills fd) \<rparr>"

section \<open>One connection\<close>

datatype outbound =
    OutSubscribe string "string list" "(string \<times> string) option"
  | OutChallenge string
  | OutPing
  | OutPong

datatype ws_item =
    WText "ws_inbound option" time "kraken_error + string"
  | WPing bool
  | WPong
  | WClose
  | WBinary
  | WReadError
  | WEnd
  | WTimer bool
  | WShutdown bool

datatype ws_exit = ExitClean | ExitErr kraken_error | StillRunning

record connection =
  cn_shutdown_before :: bool
  cn_connected :: bool
  cn_public_ok :: bool
  cn_items :: "ws_item list"
  cn_shutdown_in_backoff :: bool

definition wants_private :: "ws_config \<Rightarrow> string option \<Rightarrow> bool" where
  "wants_private cfg key \<longleftrightarrow> key \<noteq> None \<and> (wc_subscribe_fills cfg \<or> wc_subscribe_open_orders cfg)"

definition public_subscriptions :: "ws_config \<Rightarrow> string option \<Rightarrow> outbound list" where
  "public_subscriptions cfg key =
     (if wc_subscribe_book cfg then [OutSubscribe ''book'' (wc_products cfg) None] else []) @
     (if wc_subscribe_ticker cfg then [OutSubscribe ''ticker'' (wc_products cfg) None] else []) @
     (case key of Some k \<Rightarrow> if wants_private cfg key then [OutChallenge k] else [] | None \<Rightarrow> [])"

text \<open>\<^verbatim>\<open>expect\<close>s the credentials; every private request carries the challenge and its signature.\<close>
definition private_subscriptions ::
    "ws_config \<Rightarrow> string option \<Rightarrow> string \<Rightarrow> string \<Rightarrow> outbound list option" where
  "private_subscriptions cfg key challenge sgd = do {
     k \<leftarrow> key;
     Some ((if wc_subscribe_fills cfg then [OutSubscribe ''fills'' [] (Some (challenge, sgd))] else []) @
       (if wc_subscribe_open_orders cfg then
          [OutSubscribe (if wc_open_orders_verbose cfg then ''open_orders_verbose'' else ''open_orders'')
             [] (Some (challenge, sgd))] else [])) }"

text \<open>The event loop.  A text frame carries the time it is handled and the outcome of signing and
  sending the private subscriptions a challenge may trigger.\<close>
fun ws_loop :: "ws_config \<Rightarrow> string option \<Rightarrow> ws_item list \<Rightarrow> bool \<Rightarrow> feeds \<Rightarrow> outbound list
    \<Rightarrow> (feeds \<times> outbound list \<times> ws_exit) option" where
  "ws_loop cfg key [] completed fd out = Some (fd, out, StillRunning)"
| "ws_loop cfg key (WShutdown b # its) completed fd out =
     (if b then Some (fd, out, ExitClean) else ws_loop cfg key its completed fd out)"
| "ws_loop cfg key (WTimer ok # its) completed fd out =
     (if ok then ws_loop cfg key its completed fd (out @ [OutPing])
      else Some (fd, out, ExitErr KWebSocket))"
| "ws_loop cfg key (WText msg now sgd # its) completed fd out = do {
     (fd', r) \<leftarrow> handle_text msg now fd;
     (case r of
        Inr (Some challenge) \<Rightarrow>
          if completed then ws_loop cfg key its completed fd' out
          else (case sgd of
              Inl e \<Rightarrow> Some (fd', out, ExitErr e)
            | Inr sg \<Rightarrow> do { subs \<leftarrow> private_subscriptions cfg key challenge sg;
                            ws_loop cfg key its True fd' (out @ subs) })
      | Inr None \<Rightarrow> ws_loop cfg key its completed fd' out
      | Inl e \<Rightarrow> if is_sequence_gap e then Some (fd', out, ExitErr e)
                 else ws_loop cfg key its completed fd' out) }"
| "ws_loop cfg key (WPing ok # its) completed fd out =
     (if ok then ws_loop cfg key its completed fd (out @ [OutPong])
      else Some (fd, out, ExitErr KWebSocket))"
| "ws_loop cfg key (WPong # its) completed fd out = ws_loop cfg key its completed fd out"
| "ws_loop cfg key (WClose # its) completed fd out =
     Some (fd, out, ExitErr (KTimeout ''server closed connection''))"
| "ws_loop cfg key (WBinary # its) completed fd out = ws_loop cfg key its completed fd out"
| "ws_loop cfg key (WReadError # its) completed fd out = Some (fd, out, ExitErr KWebSocket)"
| "ws_loop cfg key (WEnd # its) completed fd out = Some (fd, out, ExitErr (KTimeout ''stream ended''))"

definition run_once ::
    "ws_config \<Rightarrow> string option \<Rightarrow> connection \<Rightarrow> feeds \<Rightarrow> (feeds \<times> outbound list \<times> ws_exit) option" where
  "run_once cfg key c fd =
     (if \<not> cn_connected c then Some (fd, [], ExitErr KWebSocket)
      else if \<not> cn_public_ok c then Some (fd, [], ExitErr KWebSocket)
      else ws_loop cfg key (cn_items c) (\<not> wants_private cfg key) fd (public_subscriptions cfg key))"

section \<open>The reconnect loop\<close>

text \<open>Runs over the connections of a script and returns the stores, the backoffs slept (in
  milliseconds) and how the loop ended.\<close>
fun ws_run :: "ws_config \<Rightarrow> string option \<Rightarrow> nat \<Rightarrow> connection list \<Rightarrow> feeds
    \<Rightarrow> (feeds \<times> nat list \<times> ws_exit) option" where
  "ws_run cfg key backoff [] fd = Some (fd, [], StillRunning)"
| "ws_run cfg key backoff (c # cs) fd =
     (if cn_shutdown_before c then Some (fd, [], ExitClean)
      else do {
        (fd', out, ex) \<leftarrow> run_once cfg key c fd;
        (case ex of
           ExitClean \<Rightarrow> Some (fd', [], ExitClean)
         | StillRunning \<Rightarrow> Some (fd', [], StillRunning)
         | ExitErr e \<Rightarrow>
             (let fd2 = invalidate_all fd' in
              if cn_shutdown_in_backoff c then Some (fd2, [backoff], ExitClean)
              else do {
                (fd3, waits, ex') \<leftarrow> ws_run cfg key (min (backoff * 2) (wc_max_backoff cfg)) cs fd2;
                Some (fd3, backoff # waits, ex') })) })"

section \<open>Properties of the stores\<close>

text \<open>Every book is filed under its product and keeps the book invariant.\<close>
definition feeds_inv :: "feeds \<Rightarrow> bool" where
  "feeds_inv fd \<longleftrightarrow>
     (\<forall>p b. fd_books fd p = Some b \<longrightarrow> book_inv b \<and> bk_product_id b = p) \<and> oo_inv (fd_open_orders fd)"

lemma feeds_books:
  "feeds_inv fd \<Longrightarrow> fd_books fd p = Some b \<Longrightarrow> book_inv b \<and> bk_product_id b = p"
  by (simp add: feeds_inv_def)

lemma book_new_product [simp]: "bk_product_id (book_new p) = p"
  by (simp add: book_new_def)

lemma book_invalidate_sel [simp]:
  "bk_product_id (book_invalidate b) = bk_product_id b" "bk_state (book_invalidate b) = OutOfSync"
  by (simp_all add: book_invalidate_def)

lemma foldl_book_new:
  "foldl (\<lambda>m p. m(p \<mapsto> book_new p)) m ps p
     = (if p \<in> set ps then Some (book_new p) else m p)"
  by (induction ps arbitrary: m) auto

lemma feeds_new_books: "fd_books (feeds_new cfg) p = Some b \<Longrightarrow> b = book_new p"
  by (simp add: feeds_new_def foldl_book_new split: if_splits)

lemma feeds_inv_new: "feeds_inv (feeds_new cfg)"
proof -
  have "oo_inv (fd_open_orders (feeds_new cfg))"
    by (simp add: feeds_new_def oo_inv_def open_orders_new_def)
  then show ?thesis
    unfolding feeds_inv_def using feeds_new_books book_new_inv book_new_product by blast
qed

lemma feeds_inv_update:
  "feeds_inv fd \<Longrightarrow> book_inv b \<Longrightarrow> bk_product_id b = p \<Longrightarrow>
   feeds_inv (fd\<lparr> fd_books := (fd_books fd)(p \<mapsto> b) \<rparr>)"
  by (auto simp: feeds_inv_def)

lemma snapshot_handler_inv:
  assumes "feeds_inv fd"
  shows "feeds_inv (fst (handle_book_snapshot s now fd))"
proof -
  let ?b = "case fd_books fd (bs_product_id s) of Some b \<Rightarrow> b | None \<Rightarrow> book_new (bs_product_id s)"
  have "book_inv ?b" "bk_product_id ?b = bs_product_id s"
    using assms by (auto simp: feeds_inv_def book_new_inv split: option.splits)
  moreover have "bk_product_id (fst (book_apply_snapshot ?b s now)) = bk_product_id ?b"
    by (simp add: book_apply_snapshot_def Let_def)
  ultimately show ?thesis
    using assms snapshot_inv
    by (simp add: handle_book_snapshot_def Let_def case_prod_beta feeds_inv_update)
qed

lemma delta_handler:
  assumes "feeds_inv fd"
  shows "\<exists>fd' r. handle_book_delta d now fd = Some (fd', r) \<and> feeds_inv fd'"
proof (cases "fd_books fd (bd_product_id d)")
  case None
  then show ?thesis
    using assms
    by (simp add: handle_book_delta_def Let_def feeds_inv_update book_new_inv)
next
  case (Some b)
  then have b: "book_inv b" "bk_product_id b = bd_product_id d" using assms feeds_books by auto
  then obtain b' r where r: "book_apply_delta b d now = Some (b', r)" using delta_total by fastforce
  have "book_step b (EvDelta d now) = Some b'" using r by simp
  then have "bk_product_id b' = bd_product_id d" using book_step_product b(2) by fastforce
  then show ?thesis
    using assms r delta_inv [OF b(1) r] by (simp add: handle_book_delta_def Some feeds_inv_update)
qed

lemma private_handlers_inv:
  assumes "feeds_inv fd"
  shows "feeds_inv (handle_ticker t fd)" "feeds_inv (handle_fills_snapshot fs fd)"
    "feeds_inv (handle_fills fs fd)" "feeds_inv (handle_open_orders_snapshot os now fd)"
    "feeds_inv (handle_open_orders_update u now fd)"
  using assms oo_snapshot_inv oo_update_inv
  by (auto simp: feeds_inv_def handle_ticker_def handle_fills_snapshot_def handle_fills_def
      handle_open_orders_snapshot_def handle_open_orders_update_def)

lemma handle_feed_inv:
  assumes "feeds_inv fd"
  shows "\<exists>fd' r. handle_feed f now fd = Some (fd', r) \<and> feeds_inv fd'"
proof (cases f)
  case (BookSnapshot s)
  then show ?thesis using snapshot_handler_inv [OF assms, of s now]
    by (cases "handle_book_snapshot s now fd") auto
next
  case (BookDelta d)
  then show ?thesis using delta_handler [OF assms, of d now] by simp
qed (use assms in \<open>simp_all add: private_handlers_inv\<close>)

lemma feeds_inv_counter [simp]: "feeds_inv (fd\<lparr> fd_text_counter := n \<rparr>) = feeds_inv fd"
  by (simp add: feeds_inv_def)

lemma handle_text_inv:
  assumes "feeds_inv fd"
  shows "\<exists>fd' r. handle_text msg now fd = Some (fd', r) \<and> feeds_inv fd'"
proof (cases msg)
  case (Some m)
  show ?thesis
  proof (cases m)
    case (InFeed f)
    then show ?thesis
      using Some assms handle_feed_inv [of "fd\<lparr> fd_text_counter := fd_text_counter fd + 1 \<rparr>" f now]
      by (auto simp: handle_text_def Let_def)
  qed (use Some assms in \<open>simp add: handle_text_def Let_def\<close>)
qed (use assms in \<open>simp add: handle_text_def Let_def\<close>)

lemma invalidate_all_inv: "feeds_inv fd \<Longrightarrow> feeds_inv (invalidate_all fd)"
  by (auto simp: feeds_inv_def invalidate_all_def invalidate_inv oo_inv_def oo_invalidate_def)

text \<open>After a lost connection no book, no list of open orders and no fill is readable until fresh snapshots
  arrive; the tickers stay.\<close>
definition readable :: "feeds \<Rightarrow> bool" where
  "readable fd \<longleftrightarrow> (\<exists>b \<in> ran (fd_books fd). is_synced b) \<or> oo_is_synced (fd_open_orders fd)
     \<or> fr_is_synced (fd_fills fd)"

lemma invalidate_all_unreadable: "\<not> readable (invalidate_all fd)"
  by (auto simp: readable_def invalidate_all_def ran_def is_synced_def oo_invalidate_def
      fills_invalidate_def)

lemma ws_loop_text:
  assumes "handle_text msg now fd = Some (fd', r)"
  shows "ws_loop cfg key (WText msg now sgd # its) completed fd out = (case r of
        Inr (Some challenge) \<Rightarrow>
          if completed then ws_loop cfg key its completed fd' out
          else (case sgd of
              Inl e \<Rightarrow> Some (fd', out, ExitErr e)
            | Inr sg \<Rightarrow> do { subs \<leftarrow> private_subscriptions cfg key challenge sg;
                            ws_loop cfg key its True fd' (out @ subs) })
      | Inr None \<Rightarrow> ws_loop cfg key its completed fd' out
      | Inl e \<Rightarrow> if is_sequence_gap e then Some (fd', out, ExitErr e)
                 else ws_loop cfg key its completed fd' out)"
  by (simp add: assms)

lemma ws_loop_total:
  "feeds_inv fd \<Longrightarrow> completed \<or> key \<noteq> None \<Longrightarrow>
   \<exists>fd' out' ex. ws_loop cfg key its completed fd out = Some (fd', out', ex) \<and> feeds_inv fd'"
proof (induction its arbitrary: completed fd out)
  case (Cons i its)
  show ?case
  proof (cases i)
    case (WText msg now sgd)
    obtain fd' r where h: "handle_text msg now fd = Some (fd', r)" "feeds_inv fd'"
      using handle_text_inv [OF Cons.prems(1)] by blast
    note IH = Cons.IH [OF h(2)]
    show ?thesis
    proof (cases r)
      case (Inl e)
      then show ?thesis using IH [OF Cons.prems(2)] h(2)
        by (auto simp: WText ws_loop_text [OF h(1)] simp del: ws_loop.simps)
    next
      case (Inr a)
      then show ?thesis
        using IH [OF Cons.prems(2)] IH [of True] h(2) Cons.prems(2)
        by (cases a; cases sgd; cases key)
           (auto simp: WText ws_loop_text [OF h(1)] private_subscriptions_def simp del: ws_loop.simps)
    qed
  qed (use Cons in auto)
qed auto

lemma run_once_total:
  assumes "feeds_inv fd"
  shows "\<exists>fd' out ex. run_once cfg key c fd = Some (fd', out, ex) \<and> feeds_inv fd'"
proof -
  have "\<not> wants_private cfg key \<or> key \<noteq> None" by (auto simp: wants_private_def)
  from ws_loop_total [OF assms this, of cfg "cn_items c" "public_subscriptions cfg key"]
  show ?thesis using assms by (auto simp: run_once_def)
qed

subsection \<open>Backoff\<close>

lemma ws_run_total:
  "feeds_inv fd \<Longrightarrow> \<exists>fd' waits ex. ws_run cfg key b cs fd = Some (fd', waits, ex) \<and> feeds_inv fd'"
proof (induction cs arbitrary: b fd)
  case (Cons c cs)
  obtain fd1 out ex where r: "run_once cfg key c fd = Some (fd1, out, ex)" "feeds_inv fd1"
    using run_once_total [OF Cons.prems] by blast
  show ?case
    using Cons.prems r(2) invalidate_all_inv [OF r(2)]
      Cons.IH [OF invalidate_all_inv [OF r(2)], of "min (b * 2) (wc_max_backoff cfg)"]
    by (cases ex) (auto simp: r(1) Let_def)
qed simp

lemma min_scale: "1 \<le> n \<Longrightarrow> min (min a M * n) M = min (a * n) M" for n a M :: nat
proof (cases "a \<le> M")
  case False
  moreover assume "1 \<le> n"
  ultimately have "M \<le> M * n" "M \<le> a * n" by (simp_all add: trans_le_add1 mult_le_mono [of M a 1 n, simplified])
  then show ?thesis using False by simp
qed simp

lemma ws_run_waits:
  "ws_run cfg key b cs fd = Some (fd', waits, ex) \<Longrightarrow> k < length waits \<Longrightarrow>
   waits ! k = (if k = 0 then b else min (b * 2 ^ k) (wc_max_backoff cfg))"
proof (induction cs arbitrary: b fd fd' waits ex k)
  case (Cons c cs)
  show ?case
  proof (cases "cn_shutdown_before c")
    case False
    then obtain fd1 out ex1 where r: "run_once cfg key c fd = Some (fd1, out, ex1)"
      using Cons.prems(1) by (auto simp: do_Some_conv)
    show ?thesis
    proof (cases ex1)
      case (ExitErr e)
      let ?b = "min (b * 2) (wc_max_backoff cfg)"
      consider "waits = [b]" | fd3 ws where "waits = b # ws"
        "ws_run cfg key ?b cs (invalidate_all fd1) = Some (fd3, ws, ex)"
        using Cons.prems(1) False
        by (auto simp: r ExitErr Let_def do_Some_conv split: if_splits)
      then show ?thesis
      proof cases
        case 1
        then show ?thesis using Cons.prems(2) by simp
      next
        case 2
        show ?thesis
        proof (cases k)
          case (Suc j)
          then have "ws ! j = (if j = 0 then ?b else min (?b * 2 ^ j) (wc_max_backoff cfg))"
            using Cons.IH [OF 2(2)] Cons.prems(2) 2(1) by simp
          moreover have "min (?b * 2 ^ j) (wc_max_backoff cfg)
              = min (b * 2 ^ Suc j) (wc_max_backoff cfg)"
            using min_scale [of "2 ^ j" "b * 2" "wc_max_backoff cfg"] by (simp add: mult.assoc)
          ultimately show ?thesis using Suc 2(1) by simp
        qed (use 2(1) in simp)
      qed
    qed (use Cons.prems False in \<open>auto simp: r\<close>)
  qed (use Cons.prems in simp)
qed simp

subsection \<open>A crossing delta wedges its book\<close>

definition no_snapshot_of :: "string \<Rightarrow> ws_item \<Rightarrow> bool" where
  "no_snapshot_of p i \<longleftrightarrow>
     (\<forall>s now sgd. i = WText (Some (InFeed (BookSnapshot s))) now sgd \<longrightarrow> bs_product_id s \<noteq> p)"

lemma delta_other_book:
  "handle_book_delta d now fd = Some (fd', r) \<Longrightarrow> bd_product_id d \<noteq> p \<Longrightarrow>
   fd_books fd' p = fd_books fd p"
  by (auto simp: handle_book_delta_def Let_def do_Some_conv split: option.splits prod.splits)

lemma delta_wedged_book:
  assumes "fd_books fd p = Some b" "bk_state b = OutOfSync" "bd_product_id d = p"
    and "handle_book_delta d now fd = Some (fd', r)"
  shows "fd_books fd' p = Some b"
proof -
  obtain e where "book_apply_delta b d now = Some (b, Inl e)"
    using delta_not_synced [of d b now] assms(2) by auto
  then show ?thesis using assms(1,3,4) by (auto simp: handle_book_delta_def Let_def)
qed

lemma handle_text_keeps_wedged:
  assumes wedged: "fd_books fd p = Some b" "bk_state b = OutOfSync"
    and no: "no_snapshot_of p (WText msg now sgd)" and step: "handle_text msg now fd = Some (fd', r)"
  shows "fd_books fd' p = Some b"
proof (cases "\<exists>f. msg = Some (InFeed f)")
  case True
  then obtain f r' where f: "msg = Some (InFeed f)"
    "handle_feed f now (fd\<lparr> fd_text_counter := fd_text_counter fd + 1 \<rparr>) = Some (fd', r')"
    using step by (auto simp: handle_text_def Let_def do_Some_conv split: prod.splits)
  show ?thesis
  proof (cases f)
    case (BookSnapshot s)
    then show ?thesis using no f wedged
      by (auto simp: no_snapshot_of_def handle_book_snapshot_def Let_def split: prod.splits)
  next
    case (BookDelta d)
    then show ?thesis
      using f wedged delta_other_book [of d now _ fd' r' p]
        delta_wedged_book [of "fd\<lparr> fd_text_counter := fd_text_counter fd + 1 \<rparr>" p b d now fd' r']
      by (cases "bd_product_id d = p") auto
  qed (use f wedged in \<open>auto simp: handle_ticker_def handle_fills_snapshot_def handle_fills_def
        handle_open_orders_snapshot_def handle_open_orders_update_def\<close>)
next
  case False
  then show ?thesis using step wedged
    by (auto simp: handle_text_def Let_def split: option.splits ws_inbound.splits)
qed

lemma ws_loop_keeps_wedged:
  assumes "fd_books fd p = Some b" "bk_state b = OutOfSync"
    and "\<forall>i \<in> set its. no_snapshot_of p i"
    and "ws_loop cfg key its completed fd out = Some (fd', out', ex)"
  shows "fd_books fd' p = Some b"
  using assms
proof (induction its arbitrary: completed fd out)
  case (Cons i its)
  note IH = Cons.IH [OF _ Cons.prems(2)]
  show ?case
  proof (cases i)
    case (WText msg now sgd)
    obtain fd1 r where h: "handle_text msg now fd = Some (fd1, r)"
      using Cons.prems(4) by (auto simp: WText do_Some_conv)
    have k: "fd_books fd1 p = Some b"
      using handle_text_keeps_wedged [OF Cons.prems(1,2) _ h] Cons.prems(3) WText by auto
    have "fd' = fd1 \<or> (\<exists>c o'. ws_loop cfg key its c fd1 o' = Some (fd', out', ex))"
      using Cons.prems(4) unfolding WText ws_loop_text [OF h]
      by (auto simp: do_Some_conv split: sum.splits option.splits if_splits)
    then show ?thesis using IH [OF k] k Cons.prems(3) by auto
  qed (use Cons.prems IH in \<open>auto split: if_splits\<close>)
qed simp

end
