(* ===== verification/Feed_Properties.thy ===== *)
theory Feed_Properties
  imports Feeds
begin

text \<open>The properties of the market-data and private feeds, over the lemmas of \<^verbatim>\<open>Order_Book\<close>,
  \<^verbatim>\<open>Private_State\<close> and \<^verbatim>\<open>Feeds\<close>, with the messages their witnesses run on.\<close>

section \<open>Sample messages\<close>

definition sample_product :: string where
  "sample_product = ''PI_XBTUSD''"

definition sample_snapshot :: book_snapshot_msg where
  "sample_snapshot = \<lparr> bs_product_id = sample_product, bs_timestamp = 0, bs_seq = 5,
     bs_bids = [\<lparr> pl_price = 99, pl_qty = 3 \<rparr>, \<lparr> pl_price = 100, pl_qty = 1 \<rparr>],
     bs_asks = [\<lparr> pl_price = 101, pl_qty = 2 \<rparr>, \<lparr> pl_price = 103, pl_qty = 0 \<rparr>] \<rparr>"

definition sample_delta :: "64 word \<Rightarrow> book_side \<Rightarrow> dec \<Rightarrow> dec \<Rightarrow> book_delta_msg" where
  "sample_delta n sd p q = \<lparr> bd_product_id = sample_product, bd_timestamp = 0, bd_seq = n,
     bd_side = sd, bd_price = p, bd_qty = q \<rparr>"

definition crossed_snapshot :: book_snapshot_msg where
  "crossed_snapshot = sample_snapshot\<lparr> bs_bids := [\<lparr> pl_price = 102, pl_qty = 1 \<rparr>] \<rparr>"

definition sample_events :: "book_event list" where
  "sample_events = [EvSnapshot sample_snapshot 10, EvDelta (sample_delta 6 BBuy 100 0) 11,
     EvDelta (sample_delta 7 BSell 102 4) 12]"

definition sample_local_book :: local_book where
  "sample_local_book = \<lparr> bk_product_id = sample_product, bk_bids = [(99, 3)],
     bk_asks = [(101, 2), (102, 4)], bk_last_seq = Some 7, bk_last_update_at = Some 12,
     bk_state = Synced \<rparr>"

lemmas sample_msg_defs = sample_snapshot_def sample_delta_def sample_product_def book_new_def
  book_apply_snapshot_def load_levels_def sanity_check_def book_best_bid_def book_best_ask_def
  bt_first_def bt_last_def book_apply_delta_def change_side_def

lemma sample_run: "book_run (book_new sample_product) sample_events = Some sample_local_book"
  by (simp add: sample_events_def sample_local_book_def sample_msg_defs)

section \<open>The local order book\<close>

text \<open>C13. Replay.  Whatever snapshots, deltas and invalidations a new book receives, when it is synced it
  holds exactly the last snapshot of its product with every later delta of its product applied, in an
  unbroken run of sequence numbers and with no invalidation in between; its sequence number and time are
  those of the last of them.\<close>
theorem book_is_replay:
  assumes "book_run (book_new p) es = Some b" "is_synced b"
  shows "\<exists>pre s t post ds. es = pre @ EvSnapshot s t # post \<and> bs_product_id s = p \<and>
     list_all (Not \<circ> resets p) post \<and> ds = deltas_for p post \<and>
     consecutive (bs_seq s) (map fst ds) \<and>
     bk_last_seq b = Some (bs_seq s + of_nat (length ds)) \<and>
     bk_last_update_at b = Some (last (t # map snd ds)) \<and>
     map_of (bk_bids b) = foldl (delta_map BBuy) (snapshot_map (bs_bids s)) (map fst ds) \<and>
     map_of (bk_asks b) = foldl (delta_map BSell) (snapshot_map (bs_asks s)) (map fst ds)"
  using synced_replays [OF assms] unfolding replays_def by blast

theorem book_is_replay_witness:
  "\<exists>pre s t post ds. sample_events = pre @ EvSnapshot s t # post \<and> ds = deltas_for sample_product post \<and>
     map_of [(99, 3 :: dec)] = foldl (delta_map BBuy) (snapshot_map (bs_bids s)) (map fst ds)"
proof -
  have "is_synced sample_local_book" "bk_bids sample_local_book = [(99, 3)]"
    by (simp_all add: is_synced_def sample_local_book_def)
  with book_is_replay [OF sample_run] show ?thesis by auto
qed

text \<open>A book never panics, whatever messages arrive in whatever order, and every snapshot it exports
  to the checks is ordered: bids strictly descending, asks strictly ascending, at most the requested
  depth on each side, no level of zero quantity, and the first levels are the best prices of the book.\<close>
theorem book_export_ordered:
  "\<exists>b. book_run (book_new p) es = Some b \<and>
     (\<forall>depth now s. to_core_snapshot b depth now = Inr s \<longrightarrow>
        sorted_wrt (>) (map lv_price (ob_bids s)) \<and> sorted_wrt (<) (map lv_price (ob_asks s)) \<and>
        length (ob_bids s) \<le> depth \<and> length (ob_asks s) \<le> depth \<and>
        (\<forall>l \<in> set (ob_bids s) \<union> set (ob_asks s). lv_quantity l \<noteq> 0) \<and>
        (0 < depth \<longrightarrow> map_option lv_price (best_bid s) = map_option fst (book_best_bid b) \<and>
                       map_option lv_price (best_ask s) = map_option fst (book_best_ask b)))"
proof -
  obtain b where b: "book_run (book_new p) es = Some b" "book_inv b"
    using book_run_ok [OF book_new_inv] by blast
  have q: "\<forall>l \<in> set (ob_bids s) \<union> set (ob_asks s). lv_quantity l \<noteq> 0"
    if s: "to_core_snapshot b depth now = Inr s" for depth now s
  proof -
    have "clean (bk_bids b)" "clean (bk_asks b)" using b(2) by (simp_all add: book_inv_def)
    then show ?thesis using s
      by (fastforce simp: to_core_snapshot_def to_levels_def clean_def split: if_splits
          dest!: in_set_takeD)
  qed
  have best: "map_option lv_price (best_bid s) = map_option fst (book_best_bid b) \<and>
      map_option lv_price (best_ask s) = map_option fst (book_best_ask b)"
    if "to_core_snapshot b depth now = Inr s" "0 < depth" for depth now s
    using core_snapshot_best [OF that] by (auto simp: option.map_comp o_def case_prod_unfold)
  show ?thesis using b(1) core_snapshot_sorted [OF b(2)] q best by blast
qed

theorem book_export_ordered_witness:
  "to_core_snapshot sample_local_book 5 12 = Inr \<lparr> ob_bids = [\<lparr> lv_price = 99, lv_quantity = 3 \<rparr>],
     ob_asks = [\<lparr> lv_price = 101, lv_quantity = 2 \<rparr>, \<lparr> lv_price = 102, lv_quantity = 4 \<rparr>],
     ob_timestamp = 12 \<rparr> \<and> sorted_wrt (<) [101, 102 :: dec]"
proof -
  have "to_core_snapshot sample_local_book 5 12 = Inr \<lparr> ob_bids = [\<lparr> lv_price = 99, lv_quantity = 3 \<rparr>],
     ob_asks = [\<lparr> lv_price = 101, lv_quantity = 2 \<rparr>, \<lparr> lv_price = 102, lv_quantity = 4 \<rparr>],
     ob_timestamp = 12 \<rparr>" (is "?e = Inr ?s")
    by (simp add: to_core_snapshot_def sample_local_book_def is_synced_def to_levels_def)
  moreover have "sorted_wrt (<) (map lv_price (ob_asks ?s))"
    using book_export_ordered [of sample_product sample_events] sample_run calculation
    by (metis option.inject)
  ultimately show ?thesis by simp
qed

text \<open>A crossed snapshot is reported as an error and yet served.  After the error the book is still
  marked synced, so the crossed prices are exported to the checks, with the best ask at or below the
  best bid.\<close>
theorem crossed_snapshot_served:
  assumes "bs_product_id s = bk_product_id b" "book_apply_snapshot b s now = (b', Inl e)" "0 < depth"
  shows "\<exists>snap bid ask. to_core_snapshot b' depth now' = Inr snap \<and> best_bid snap = Some bid \<and>
     best_ask snap = Some ask \<and> lv_price ask \<le> lv_price bid \<and> e = Crossed (lv_price bid) (lv_price ask)"
proof -
  obtain p q a r where st: "is_synced b'" "book_best_bid b' = Some (p, q)"
      "book_best_ask b' = Some (a, r)" "a \<le> p" "e = Crossed p a"
    using crossed_snapshot_state [OF assms(1,2)] by blast
  obtain snap where snap: "to_core_snapshot b' depth now' = Inr snap"
    using st(1) by (simp add: to_core_snapshot_def)
  show ?thesis using core_snapshot_best [OF snap assms(3)] snap st(2-5) by auto
qed

theorem crossed_snapshot_served_witness:
  "\<exists>snap bid ask. to_core_snapshot (fst (book_apply_snapshot (book_new sample_product) crossed_snapshot 10)) 5 10
     = Inr snap \<and> best_bid snap = Some bid \<and> best_ask snap = Some ask \<and> lv_price ask \<le> lv_price bid"
proof -
  let ?r = "book_apply_snapshot (book_new sample_product) crossed_snapshot 10"
  have r: "?r = (fst ?r, Inl (Crossed 102 101))"
    by (simp add: crossed_snapshot_def sample_msg_defs)
  have "bs_product_id crossed_snapshot = bk_product_id (book_new sample_product)"
    by (simp add: crossed_snapshot_def sample_msg_defs)
  from crossed_snapshot_served [OF this r, of 5 10] show ?thesis by auto
qed

text \<open>A delta that crosses the book wedges it.  The error marks the book out of sync but is not fatal
  to the connection, so whatever else the connection delivers, the book stays unreadable until a new
  snapshot of its product arrives, which nothing requests.\<close>
theorem crossing_delta_wedges:
  assumes "feeds_inv fd" "fd_books fd p = Some b" "bd_product_id d = p"
    and "book_apply_delta b d now = Some (b', Inl (Crossed bid ask))"
    and "\<forall>i \<in> set its. no_snapshot_of p i"
    and "ws_loop cfg key (WText (Some (InFeed (BookDelta d))) now sgd # its) completed fd out
           = Some (fd', out', ex)"
  shows "(\<exists>b2. fd_books fd' p = Some b2 \<and> \<not> is_synced b2) \<and>
     ws_loop cfg key (WText (Some (InFeed (BookDelta d))) now sgd # its) completed fd out
       = ws_loop cfg key its completed
           (fd\<lparr> fd_text_counter := fd_text_counter fd + 1, fd_books := (fd_books fd)(p \<mapsto> b') \<rparr>) out"
proof -
  let ?fd1 = "fd\<lparr> fd_text_counter := fd_text_counter fd + 1, fd_books := (fd_books fd)(p \<mapsto> b') \<rparr>"
  have "handle_text (Some (InFeed (BookDelta d))) now fd
      = Some (?fd1, Inl (KBook (Crossed bid ask)))"
    using assms(2-4) by (simp add: handle_text_def handle_book_delta_def Let_def)
  then have run: "ws_loop cfg key (WText (Some (InFeed (BookDelta d))) now sgd # its) completed fd out
      = ws_loop cfg key its completed ?fd1 out"
    by (simp only: ws_loop_text) simp
  have "bk_state b' = OutOfSync" by (rule crossing_delta_blocks [OF assms(4)])
  moreover have "fd_books fd' p = Some b'"
    by (rule ws_loop_keeps_wedged [of ?fd1 p b' its cfg key completed out fd' out' ex])
      (use calculation assms(5,6) run in auto)
  ultimately show ?thesis using run by (simp add: is_synced_def)
qed

definition sample_feeds :: feeds where
  "sample_feeds = (feeds_new (ws_config_new [sample_product]))\<lparr>
     fd_books := [sample_product \<mapsto> sample_local_book] \<rparr>"

lemma sample_feeds_inv: "feeds_inv sample_feeds"
proof -
  have "book_inv sample_local_book"
    using book_run_ok [OF book_new_inv] sample_run by (metis option.inject)
  then show ?thesis
    by (simp add: feeds_inv_def sample_feeds_def feeds_new_def open_orders_new_def oo_inv_def
        sample_local_book_def)
qed

theorem crossing_delta_wedges_witness:
  "\<exists>b2. fd_books (fst (the (ws_loop (ws_config_new [sample_product]) None
     [WText (Some (InFeed (BookDelta (sample_delta 8 BBuy 105 1)))) 13 (Inr []), WPong] True
     sample_feeds []))) sample_product = Some b2 \<and> \<not> is_synced b2"
proof -
  let ?d = "sample_delta 8 BBuy 105 1"
  let ?its = "[WText (Some (InFeed (BookDelta ?d))) 13 (Inr []), WPong]"
  let ?l = "ws_loop (ws_config_new [sample_product]) None ?its True sample_feeds []"
  obtain fd' out' ex where l: "?l = Some (fd', out', ex)"
    using ws_loop_total [OF sample_feeds_inv] by blast
  have 1: "fd_books sample_feeds sample_product = Some sample_local_book"
    by (simp add: sample_feeds_def)
  have 2: "book_apply_delta sample_local_book ?d 13 = Some (sample_local_book\<lparr> bk_bids := [(99, 3), (105, 1)],
      bk_last_seq := Some 8, bk_last_update_at := Some 13, bk_state := OutOfSync \<rparr>, Inl (Crossed 105 101))"
    by (simp add: sample_local_book_def sample_msg_defs)
  have 3: "bd_product_id ?d = sample_product" "\<forall>i \<in> set [WPong]. no_snapshot_of sample_product i"
    by (simp_all add: sample_delta_def no_snapshot_of_def)
  from crossing_delta_wedges [OF sample_feeds_inv 1 3(1) 2 3(2) l] l show ?thesis by simp
qed

section \<open>The connection\<close>

text \<open>C36. The client never panics: from its initial stores, over any sequence of connections delivering any
  messages in any order, with any outcome of connecting, subscribing, signing and sending, the reconnect
  loop runs to the end of its script, and every book it keeps is filed under its own product.\<close>
theorem client_never_panics:
  "\<exists>fd' waits ex. ws_run cfg key b cs (feeds_new cfg) = Some (fd', waits, ex) \<and>
     (\<forall>p bk. fd_books fd' p = Some bk \<longrightarrow> bk_product_id bk = p)"
  using ws_run_total [OF feeds_inv_new] feeds_books by metis

definition lost :: connection where
  "lost = \<lparr> cn_shutdown_before = False, cn_connected = True, cn_public_ok = True, cn_items = [WClose],
     cn_shutdown_in_backoff = False \<rparr>"

theorem client_never_panics_witness:
  "ws_run (ws_config_new []) None 1000 [lost] (feeds_new (ws_config_new [])) \<noteq> None"
  using client_never_panics [of "ws_config_new []" None 1000 "[lost]"] by auto

text \<open>The backoff before the k-th reconnection doubles from the initial one and never exceeds the
  maximum; it is not reset by a connection that worked.\<close>
theorem backoff_doubles:
  assumes "ws_run cfg key (wc_initial_backoff cfg) cs fd = Some (fd', waits, ex)" "k < length waits"
    and "wc_initial_backoff cfg \<le> wc_max_backoff cfg"
  shows "waits ! k = min (wc_initial_backoff cfg * 2 ^ k) (wc_max_backoff cfg)"
  using ws_run_waits [OF assms(1,2)] assms(3) by simp

lemma ws_run_lost:
  "ws_run (ws_config_new []) None b (lost # cs) fd = map_option (\<lambda>(fd3, w, e). (fd3, b # w, e))
     (ws_run (ws_config_new []) None (min (b * 2) 30000) cs (invalidate_all fd))"
  by (simp add: lost_def run_once_def wants_private_def Let_def ws_config_new_def)
    (simp add: map_option_case Option.bind_eq_Some_conv case_prod_unfold split: option.split Option.bind_split)

definition lost_seven :: "connection list" where
  "lost_seven = [lost, lost, lost, lost, lost, lost, lost]"

theorem backoff_doubles_witness:
  "snd (the (ws_run (ws_config_new []) None 1000 lost_seven (feeds_new (ws_config_new [])))) =
     ([1000, 2000, 4000, 8000, 16000, 30000, 30000], StillRunning) \<and>
   [1000, 2000, 4000, 8000, 16000, 30000, 30000] ! 5 = min (1000 * 2 ^ 5) (30000 :: nat)"
proof -
  let ?cfg = "ws_config_new []"
  have r: "\<exists>fd'. ws_run ?cfg None 1000 lost_seven fd =
      Some (fd', [1000, 2000, 4000, 8000, 16000, 30000, 30000], StillRunning)" for fd
    unfolding lost_seven_def by (simp only: ws_run_lost) simp
  then obtain fd' where w: "ws_run ?cfg None 1000 lost_seven (feeds_new ?cfg) =
      Some (fd', [1000, 2000, 4000, 8000, 16000, 30000, 30000], StillRunning)" by blast
  have c: "wc_initial_backoff ?cfg = 1000" "wc_max_backoff ?cfg = 30000"
    by (simp_all add: ws_config_new_def)
  have "[1000, 2000, 4000, 8000, 16000, 30000, 30000] ! 5 = min (1000 * 2 ^ 5) (30000 :: nat)"
    using backoff_doubles [of ?cfg None lost_seven "feeds_new ?cfg" fd' _ _ 5] w
    unfolding c by simp
  then show ?thesis using w by simp
qed

section \<open>The private feeds\<close>

text \<open>C38. After a snapshot and any batches of fills the ring holds the last 200 of the snapshot's fills
  followed by the fills whose sequence number exceeds every one before them; those are strictly ordered,
  and a batch already delivered changes nothing and is reported as duplicates without a gap.\<close>
theorem fills_ring_is_tail:
  assumes r: "r = fills_apply_snapshot fs (fills_new fills_ring_capacity)"
    and again: "set gs \<subseteq> set (concat bs)"
  shows "fr_fills (fills_feed bs r) = last_n 200 (fs @ accepted (top_seq 0 fs) (concat bs)) \<and>
     length (fr_fills (fills_feed bs r)) \<le> 200 \<and>
     sorted_wrt (<) (map fe_seq (accepted (top_seq 0 fs) (concat bs))) \<and>
     fills_apply gs (fills_feed bs r) = (fills_feed bs r,
       \<lparr> fa_appended = 0, fa_duplicates = length gs, fa_gap_detected = False \<rparr>)"
proof -
  have cap: "0 < fr_capacity (fills_new fills_ring_capacity)"
    "fr_capacity (fills_new fills_ring_capacity) = 200"
    by (simp_all add: fills_new_def fills_ring_capacity_def)
  have "fr_fills (fills_feed bs r) = last_n 200 (fs @ accepted (top_seq 0 fs) (concat bs))"
    using fills_feed_spec [of r fs bs] fills_snapshot_spec [OF cap(1), of fs] cap(2) r by simp
  then show ?thesis using accepted_strict fills_apply_idem [OF again, of r] by simp
qed

definition sample_fill :: "64 word \<Rightarrow> fill_entry" where
  "sample_fill n = \<lparr> fe_instrument = sample_product, fe_time = 0, fe_price = 100, fe_seq = n,
     fe_buy = True, fe_qty = 1, fe_remaining_order_qty = None, fe_order_id = ''o'', fe_fill_id = ''f'',
     fe_fill_type = ''taker'', fe_fee_paid = 0, fe_fee_currency = ''BTC'', fe_cli_ord_id = None,
     fe_order_type = None, fe_taker_order_type = None \<rparr>"

theorem fills_ring_is_tail_witness:
  "fr_fills (fills_feed [[sample_fill 4, sample_fill 7], [sample_fill 7, sample_fill 8]]
     (fills_apply_snapshot [sample_fill 3, sample_fill 5] (fills_new fills_ring_capacity)))
     = [sample_fill 3, sample_fill 5, sample_fill 7, sample_fill 8]"
  using fills_ring_is_tail [OF refl, of "[]" "[[sample_fill 4, sample_fill 7], [sample_fill 7, sample_fill 8]]"
      "[sample_fill 3, sample_fill 5]"]
  by (simp add: sample_fill_def last_n_def)

text \<open>What an update says about an order: that it is gone, or what it now is.\<close>
fun says :: "open_orders_update \<Rightarrow> (string \<times> open_order_entry option) option" where
  "says u = (case (ou_is_cancel u, ou_order u, ou_order_id u) of
      (True, Some e, _) \<Rightarrow> Some (oe_order_id e, None)
    | (True, None, Some i) \<Rightarrow> Some (i, None)
    | (False, Some e, _) \<Rightarrow> Some (oe_order_id e, Some e)
    | _ \<Rightarrow> None)"

lemma update_says:
  "oo_get (oo_apply_update u t s) k
     = (case says u of Some (i, v) \<Rightarrow> if k = i then v else oo_get s k | None \<Rightarrow> oo_get s k)"
  by (auto simp: oo_update_get split: option.splits bool.splits)

lemma updates_say:
  "oo_get (foldl (\<lambda>s (u, t). oo_apply_update u t s) s us) k
     = (case map_of (rev (List.map_filter says (map fst us))) k of Some v \<Rightarrow> v | None \<Rightarrow> oo_get s k)"
  by (induction us rule: rev_induct)
    (auto simp: map_filter_def update_says split: option.splits simp del: says.simps)

lemma updates_inv: "oo_inv s \<Longrightarrow> oo_inv (foldl (\<lambda>s (u, t). oo_apply_update u t s) s us)"
  by (induction us arbitrary: s) (auto simp: oo_update_inv)

text \<open>The materialised open orders: after a snapshot and any updates an order is what the last update
  about it says, and otherwise what the snapshot says (its last entry for that id); every entry is filed
  under its own order id.\<close>
theorem open_orders_last_word:
  "oo_get (foldl (\<lambda>s (u, t). oo_apply_update u t s) (oo_apply_snapshot es t0 s0) us) k =
     (case map_of (rev (List.map_filter says (map fst us))) k of
        Some v \<Rightarrow> v
      | None \<Rightarrow> map_of (rev (map (\<lambda>e. (oe_order_id e, e)) es)) k) \<and>
   (\<forall>k e. oo_orders (foldl (\<lambda>s (u, t). oo_apply_update u t s) (oo_apply_snapshot es t0 s0) us) k
      = Some e \<longrightarrow> oe_order_id e = k)"
  using updates_inv [OF oo_snapshot_inv, of es t0 s0 us]
  by (simp add: updates_say oo_snapshot_get oo_inv_def cong: option.case_cong)

definition sample_entry :: "string \<Rightarrow> open_order_entry" where
  "sample_entry i = \<lparr> oe_instrument = sample_product, oe_time = 0, oe_last_update_time = None, oe_qty = 1,
     oe_filled = None, oe_limit_price = None, oe_stop_price = None, oe_order_type = None,
     oe_order_id = i, oe_cli_ord_id = None, oe_direction = 0, oe_reduce_only = None,
     oe_trigger_signal = None \<rparr>"

theorem open_orders_last_word_witness:
  "oo_get (oo_apply_update \<lparr> ou_order = None, ou_is_cancel = True, ou_order_id = Some ''a'', ou_reason = None \<rparr> 2
     (oo_apply_snapshot [sample_entry ''a'', sample_entry ''b''] 1 open_orders_new)) ''a'' = None"
  using open_orders_last_word [of "[sample_entry ''a'', sample_entry ''b'']" 1 open_orders_new
      "[(\<lparr> ou_order = None, ou_is_cancel = True, ou_order_id = Some ''a'', ou_reason = None \<rparr>, 2)]" "''a''"]
  by (simp add: map_filter_def)

section \<open>Nonces\<close>

text \<open>C39. Whatever way concurrent calls interleave their loads and compare-and-swaps, with any clock
  readings, the nonces are issued in strictly increasing order and no two are equal, as long as the
  counter never reaches the largest 64-bit value.\<close>
theorem nonces_strictly_increase:
  assumes "nonce_reach s" "- 1 \<notin> set (butlast (ns_issued s))"
  shows "sorted_wrt (<) (ns_issued s) \<and> distinct (ns_issued s)"
  using nonce_strict [OF assms] strict_sorted_iff by blast

theorem nonces_strictly_increase_witness:
  "sorted_wrt (<) [7, 8 :: 64 word] \<and> (\<exists>s. nonce_reach s \<and> ns_issued s = [7, 8])"
proof -
  let ?a = "nonce_init\<lparr> ns_calls := [0 \<mapsto> (7, 0)] \<rparr>"
  let ?b = "?a\<lparr> ns_calls := [0 \<mapsto> (7, 0), 1 \<mapsto> (7, 0)] \<rparr>"
  let ?c = "?b\<lparr> ns_calls := [1 \<mapsto> (7, 0)], ns_last := 7, ns_issued := [7] \<rparr>"
  let ?d = "?c\<lparr> ns_calls := [1 \<mapsto> (7, 7)] \<rparr>"
  let ?e = "?d\<lparr> ns_calls := Map.empty, ns_last := 8, ns_issued := [7, 8] \<rparr>"
  have "nonce_step nonce_init ?a" using load [of nonce_init 0 7] by (simp add: nonce_init_def)
  moreover have "nonce_step ?a ?b"
    using load [of ?a 1 7] by (simp add: nonce_init_def fun_upd_def)
  moreover have "nonce_step ?b ?c"
    using swap [of ?b 0 7 0] by (simp add: nonce_init_def nonce_candidate_def fun_upd_twist)
  moreover have "nonce_step ?c ?d" using retry [of ?c 1 7 0] by (simp add: nonce_init_def)
  moreover have "nonce_step ?d ?e"
    using swap [of ?d 1 7 7] by (simp add: nonce_init_def nonce_candidate_def)
  ultimately have r: "nonce_reach ?e" by (meson nonce_reach.intros)
  have "- 1 \<notin> set (butlast (ns_issued ?e))" by simp
  from nonces_strictly_increase [OF r this] r show ?thesis by auto
qed

end
