(* ===== verification/Effects.thy ===== *)
theory Effects
  imports Prelude
begin

text \<open>Stateful code.  An operation maps a state to a new state and a result: a value, an error (the
  \<^verbatim>\<open>Err\<close> of a Rust \<^verbatim>\<open>Result\<close>) or a panic.  The state survives an error and a panic, because what was
  written to the database before is still there.\<close>

datatype ('e, 'a) res = Ok 'a | Err 'e | Panic

type_synonym ('s, 'e, 'a) io = "'s \<Rightarrow> 's \<times> ('e, 'a) res"

definition ret :: "'a \<Rightarrow> ('s, 'e, 'a) io" where
  "ret a = (\<lambda>s. (s, Ok a))"

definition fail :: "'e \<Rightarrow> ('s, 'e, 'a) io" where
  "fail e = (\<lambda>s. (s, Err e))"

definition panic :: "('s, 'e, 'a) io" where
  "panic = (\<lambda>s. (s, Panic))"

text \<open>Sequencing with the \<^verbatim>\<open>?\<close> operator.\<close>
definition bnd :: "('s, 'e, 'a) io \<Rightarrow> ('a \<Rightarrow> ('s, 'e, 'b) io) \<Rightarrow> ('s, 'e, 'b) io" where
  "bnd m k = (\<lambda>s. case m s of (s', Ok a) \<Rightarrow> k a s' | (s', Err e) \<Rightarrow> (s', Err e) | (s', Panic) \<Rightarrow> (s', Panic))"

text \<open>An operation whose error the code handles itself instead of returning it.\<close>
definition catch :: "('s, 'e, 'a) io \<Rightarrow> ('e + 'a \<Rightarrow> ('s, 'f, 'b) io) \<Rightarrow> ('s, 'f, 'b) io" where
  "catch m k = (\<lambda>s. case m s of (s', Ok a) \<Rightarrow> k (Inr a) s' | (s', Err e) \<Rightarrow> k (Inl e) s' | (s', Panic) \<Rightarrow> (s', Panic))"

definition gets :: "('s \<Rightarrow> 'a) \<Rightarrow> ('s, 'e, 'a) io" where
  "gets f = (\<lambda>s. (s, Ok (f s)))"

definition modify :: "('s \<Rightarrow> 's) \<Rightarrow> ('s, 'e, unit) io" where
  "modify f = (\<lambda>s. (f s, Ok ()))"

text \<open>A pure computation that may panic.\<close>
definition or_panic :: "'a option \<Rightarrow> ('s, 'e, 'a) io" where
  "or_panic x = (case x of Some a \<Rightarrow> ret a | None \<Rightarrow> panic)"

text \<open>A pure computation that may fail.\<close>
definition or_fail :: "'e + 'a \<Rightarrow> ('s, 'e, 'a) io" where
  "or_fail x = (case x of Inr a \<Rightarrow> ret a | Inl e \<Rightarrow> fail e)"

definition whenM :: "bool \<Rightarrow> ('s, 'e, unit) io \<Rightarrow> ('s, 'e, unit) io" where
  "whenM b m = (if b then m else ret ())"

text \<open>A \<^verbatim>\<open>for\<close> loop whose body may return early with an error.\<close>
fun for_each :: "'a list \<Rightarrow> ('a \<Rightarrow> ('s, 'e, unit) io) \<Rightarrow> ('s, 'e, unit) io" where
  "for_each [] f = ret ()"
| "for_each (x # xs) f = bnd (f x) (\<lambda>_. for_each xs f)"

text \<open>An operation on a component of a larger state.\<close>
definition zoom :: "('w \<Rightarrow> 's) \<Rightarrow> ('s \<Rightarrow> 'w \<Rightarrow> 'w) \<Rightarrow> ('s, 'e, 'a) io \<Rightarrow> ('w, 'e, 'a) io" where
  "zoom get put m = (\<lambda>w. case m (get w) of (s', r) \<Rightarrow> (put s' w, r))"

section \<open>Rules\<close>

lemmas io_defs = ret_def fail_def panic_def gets_def modify_def or_panic_def or_fail_def whenM_def

lemma app_simps [simp]:
  "ret a s = (s, Ok a)" "fail e s = (s, Err e)" "panic s = (s, Panic)"
  "gets f s = (s, Ok (f s))" "modify g s = (g s, Ok ())"
  by (simp_all add: io_defs)

lemma bnd_ret [simp]: "bnd (ret a) k = k a"
  by (simp add: bnd_def ret_def)

lemma bnd_fail [simp]: "bnd (fail e) k = fail e"
  by (simp add: bnd_def fail_def)

lemma bnd_panic [simp]: "bnd panic k = panic"
  by (simp add: bnd_def panic_def)

lemma bnd_assoc: "bnd (bnd m k) l = bnd m (\<lambda>a. bnd (k a) l)"
  by (auto simp: bnd_def fun_eq_iff split: prod.splits res.splits)

lemma or_panic_simps [simp]: "or_panic (Some a) = ret a" "or_panic None = panic"
  by (simp_all add: or_panic_def)

lemma or_fail_simps [simp]: "or_fail (Inr a) = ret a" "or_fail (Inl e) = fail e"
  by (simp_all add: or_fail_def)

lemma bnd_eq: "m s = (s', Ok a) \<Longrightarrow> bnd m k s = k a s'"
  by (simp add: bnd_def)

lemma bnd_err: "m s = (s', Err e) \<Longrightarrow> bnd m k s = (s', Err e)"
  by (simp add: bnd_def)

lemma catch_ok: "m s = (s', Ok a) \<Longrightarrow> catch m k s = k (Inr a) s'"
  by (simp add: catch_def)

lemma catch_err: "m s = (s', Err e) \<Longrightarrow> catch m k s = k (Inl e) s'"
  by (simp add: catch_def)

text \<open>The ways a sequence can end.\<close>
lemma bnd_cases:
  assumes "bnd m k s = (s', r)"
  obtains (ok) s1 a where "m s = (s1, Ok a)" "k a s1 = (s', r)"
  | (err) e where "m s = (s', Err e)" "r = Err e"
  | (panic) "m s = (s', Panic)" "r = Panic"
  using assms by (auto simp: bnd_def split: prod.splits res.splits)

lemma bnd_OkE:
  assumes "bnd m k s = (s', Ok b)"
  obtains s1 a where "m s = (s1, Ok a)" "k a s1 = (s', Ok b)"
  using assms by (auto simp: bnd_def split: prod.splits res.splits)

lemma bnd_Ok_iff: "bnd m k s = (s', Ok b) \<longleftrightarrow> (\<exists>s1 a. m s = (s1, Ok a) \<and> k a s1 = (s', Ok b))"
  by (auto simp: bnd_def split: prod.splits res.splits)

text \<open>Invariants: \<^verbatim>\<open>keeps P m\<close> when \<^verbatim>\<open>m\<close> preserves \<^verbatim>\<open>P\<close>, whatever its result.\<close>
definition keeps :: "('s \<Rightarrow> bool) \<Rightarrow> ('s, 'e, 'a) io \<Rightarrow> bool" where
  "keeps P m \<longleftrightarrow> (\<forall>s. P s \<longrightarrow> P (fst (m s)))"

named_theorems keeps_intro "rules for preserved properties"

lemma keepsD: "keeps P m \<Longrightarrow> P s \<Longrightarrow> m s = (s', r) \<Longrightarrow> P s'"
  by (metis fst_conv keeps_def)

lemma keeps_ret [keeps_intro, simp]: "keeps P (ret a)"
  by (simp add: keeps_def ret_def)

lemma keeps_fail [keeps_intro, simp]: "keeps P (fail e)"
  by (simp add: keeps_def fail_def)

lemma keeps_panic [keeps_intro, simp]: "keeps P panic"
  by (simp add: keeps_def panic_def)

lemma keeps_gets [keeps_intro, simp]: "keeps P (gets f)"
  by (simp add: keeps_def gets_def)

lemma keeps_or_panic [keeps_intro, simp]: "keeps P (or_panic x)"
  by (cases x) simp_all

lemma keeps_or_fail [keeps_intro, simp]: "keeps P (or_fail x)"
  by (cases x) simp_all

lemma keeps_modify: "(\<And>s. P s \<Longrightarrow> P (f s)) \<Longrightarrow> keeps P (modify f)"
  by (simp add: keeps_def modify_def)

lemma keeps_bnd [keeps_intro]: "keeps P m \<Longrightarrow> (\<And>a. keeps P (k a)) \<Longrightarrow> keeps P (bnd m k)"
  by (auto simp: keeps_def bnd_def split: prod.splits res.splits)

lemma keeps_catch [keeps_intro]: "keeps P m \<Longrightarrow> (\<And>a. keeps P (k a)) \<Longrightarrow> keeps P (catch m k)"
  by (auto simp: keeps_def catch_def split: prod.splits res.splits)

lemma keeps_when [keeps_intro]: "(b \<Longrightarrow> keeps P m) \<Longrightarrow> keeps P (whenM b m)"
  by (simp add: whenM_def)

lemma keeps_if [keeps_intro]: "(b \<Longrightarrow> keeps P m) \<Longrightarrow> (\<not> b \<Longrightarrow> keeps P n) \<Longrightarrow> keeps P (if b then m else n)"
  by simp

lemma keeps_option [keeps_intro]:
  "keeps P m \<Longrightarrow> (\<And>a. keeps P (n a)) \<Longrightarrow> keeps P (case x of None \<Rightarrow> m | Some a \<Rightarrow> n a)"
  by (cases x) simp_all

lemma keeps_sum [keeps_intro]:
  "(\<And>e. keeps P (m e)) \<Longrightarrow> (\<And>a. keeps P (n a)) \<Longrightarrow> keeps P (case x of Inl e \<Rightarrow> m e | Inr a \<Rightarrow> n a)"
  by (cases x) simp_all

lemma keeps_prod [keeps_intro]: "(\<And>a b. keeps P (m a b)) \<Longrightarrow> keeps P (case x of (a, b) \<Rightarrow> m a b)"
  by (cases x) simp_all

lemma keeps_for_each [keeps_intro]: "(\<And>x. keeps P (f x)) \<Longrightarrow> keeps P (for_each xs f)"
  by (induction xs) (auto intro: keeps_bnd)

lemma keeps_zoom:
  "(\<And>w s'. P w \<Longrightarrow> Q (get w)) \<Longrightarrow> (\<And>w s'. P w \<Longrightarrow> Q s' \<Longrightarrow> P (put s' w)) \<Longrightarrow> keeps Q m \<Longrightarrow>
   keeps P (zoom get put m)"
  by (auto simp: keeps_def zoom_def split: prod.splits) (metis fst_conv)

end
