(* ===== verification/Store.thy ===== *)
theory Store
  imports Domain Effects
begin

text \<open>The SQLite store of \<^verbatim>\<open>crates/rt-persistence/src\<close> (\<^verbatim>\<open>models.rs\<close>, \<^verbatim>\<open>repo.rs\<close> and the migrations): one list
  of rows per table in insertion order, decimals and times as text.  Every SQL statement first asks the
  fault script whether it fails (an I\/O error, a busy timeout); with an empty script none does.  A JSON
  text the program writes is kept as the value it prints.  Foreign keys and the unique index on
  \<^verbatim>\<open>(broker, cli_ord_id)\<close> are checked as SQLite does.\<close>

section \<open>Rows\<close>

record signal_row =
  sr_id :: int
  sr_created_at :: string
  sr_instrument_symbol :: string
  sr_side :: string
  sr_signal_type :: string
  sr_sleeve :: string
  sr_notional_chf :: string
  sr_leverage :: string
  sr_metadata_json :: "string option"
  sr_status :: string
  sr_processed_at :: "string option"
  sr_rejection_reason :: "json option"
  sr_expires_at :: "string option"
  sr_retry_after_at :: "string option"

record order_row =
  od_id :: int
  od_signal_id :: "int option"
  od_broker :: string
  od_broker_order_id :: "string option"
  od_instrument_symbol :: string
  od_side :: string
  od_order_type :: string
  od_time_in_force :: string
  od_quantity :: string
  od_limit_price :: "string option"
  od_stop_price :: "string option"
  od_status :: string
  od_filled_quantity :: string
  od_avg_fill_price :: "string option"
  od_fees_paid :: string
  od_created_at :: string
  od_updated_at :: string
  od_error_message :: "string option"
  od_cli_ord_id :: "string option"

record position_row =
  pn_id :: int
  pn_instrument_symbol :: string
  pn_broker :: string
  pn_sleeve :: string
  pn_quantity :: string
  pn_avg_entry_price :: string
  pn_leverage :: string
  pn_liquidation_price :: "string option"
  pn_opened_at :: string
  pn_updated_at :: string
  pn_closed_at :: "string option"
  pn_realized_pnl_chf :: "string option"
  pn_realized_pnl_btc :: "string option"

record equity_row =
  eq_id :: int
  eq_timestamp :: string
  eq_total_equity_chf :: string
  eq_crypto_spot_value_chf :: string
  eq_etf_value_chf :: string
  eq_crypto_leverage_value_chf :: string
  eq_cash_chf :: string
  eq_realized_pnl_leverage_lifetime :: string
  eq_drawdown_fraction :: string
  eq_unrealized_pnl_leverage_chf :: string
  eq_nav_per_unit :: string
  eq_nav_hwm_per_unit :: string
  eq_total_units :: string

record capital_flow_row =
  cf_id :: int
  cf_timestamp :: string
  cf_amount_chf :: string
  cf_flow_type :: string
  cf_source :: "string option"
  cf_units_minted :: "string option"
  cf_nav_at_flow :: "string option"
  cf_note :: "string option"

record kill_event_row =
  ke_id :: int
  ke_triggered_at :: string
  ke_reason_kind :: string
  ke_reason_detail :: json
  ke_portfolio_snapshot :: json
  ke_resolved_at :: "string option"
  ke_resolved_by :: "string option"
  ke_resolved_note :: "string option"

record checklist_row =
  ce_id :: int
  ce_signal_id :: int
  ce_evaluated_at :: string
  ce_approved :: bool
  ce_outcomes :: json

record audit_row =
  au_timestamp :: string
  au_level :: string
  au_event_type :: string
  au_message :: string
  au_data :: "json option"

record dry_run_row =
  dr_id :: int
  dr_signal_id :: int
  dr_recorded_at :: string
  dr_instrument_symbol :: string
  dr_side :: string
  dr_sleeve :: string
  dr_broker_hint :: string
  dr_notional_chf :: string
  dr_estimated_price :: "string option"
  dr_estimated_quantity :: "string option"
  dr_intent :: json

record applied_fill_row =
  af_broker :: string
  af_fill_id :: string
  af_applied_at :: string

record db =
  db_signals :: "signal_row list"
  db_orders :: "order_row list"
  db_positions :: "position_row list"
  db_equity :: "equity_row list"
  db_flows :: "capital_flow_row list"
  db_kill_events :: "kill_event_row list"
  db_checklists :: "checklist_row list"
  db_audit :: "audit_row list"
  db_dry_runs :: "dry_run_row list"
  db_applied :: "applied_fill_row list"
  db_faults :: "bool list"

definition db_empty :: db where
  "db_empty = \<lparr> db_signals = [], db_orders = [], db_positions = [], db_equity = [], db_flows = [],
     db_kill_events = [], db_checklists = [], db_audit = [], db_dry_runs = [], db_applied = [],
     db_faults = [] \<rparr>"

datatype perr =
    PSql sql_error
  | PDecimal string
  | PJson
  | PInvalidEnum string string

type_synonym 'a dbio = "(db, perr, 'a) io"

section \<open>Statements and transactions\<close>

text \<open>One statement: consume the next fault.\<close>
definition stmt :: "'a dbio \<Rightarrow> 'a dbio" where
  "stmt m = (\<lambda>d. case db_faults d of
      True # fs \<Rightarrow> (d\<lparr> db_faults := fs \<rparr>, Err (PSql SqlIo))
    | False # fs \<Rightarrow> m (d\<lparr> db_faults := fs \<rparr>)
    | [] \<Rightarrow> m d)"

text \<open>A transaction: \<^verbatim>\<open>begin\<close>, the body, \<^verbatim>\<open>commit\<close>.  On an early return, a panic or a failed commit the
  tables are what they were.\<close>
definition transaction :: "'a dbio \<Rightarrow> 'a dbio" where
  "transaction m = bnd (stmt (ret ())) (\<lambda>_ d.
     (case bnd m (\<lambda>a. bnd (stmt (ret ())) (\<lambda>_. ret a)) d of
        (d', Ok a) \<Rightarrow> (d', Ok a)
      | (d', r) \<Rightarrow> (d\<lparr> db_faults := db_faults d' \<rparr>, r)))"

definition update_where :: "('r \<Rightarrow> bool) \<Rightarrow> ('r \<Rightarrow> 'r) \<Rightarrow> 'r list \<Rightarrow> 'r list" where
  "update_where P f rs = map (\<lambda>r. if P r then f r else r) rs"

text \<open>\<^verbatim>\<open>AUTOINCREMENT\<close>: one more than the greatest id used (rows are never deleted).\<close>
definition next_id :: "int list \<Rightarrow> int" where
  "next_id ids = foldl max 0 ids + 1"

definition exec :: "(db \<Rightarrow> db) \<Rightarrow> unit dbio" where
  "exec f = stmt (modify f)"

definition query :: "(db \<Rightarrow> 'a) \<Rightarrow> 'a dbio" where
  "query f = stmt (gets f)"

section \<open>Signals\<close>

definition pollable :: "string \<Rightarrow> signal_row \<Rightarrow> bool" where
  "pollable now_iso s \<longleftrightarrow> sr_status s = ''pending'' \<and>
     (case sr_retry_after_at s of None \<Rightarrow> True | Some t \<Rightarrow> t \<le> now_iso)"

definition sql_limit :: "int \<Rightarrow> 'a list \<Rightarrow> 'a list" where
  "sql_limit n xs = (if n < 0 then xs else take (nat n) xs)"

definition pending_signals :: "int \<Rightarrow> string \<Rightarrow> signal_row list dbio" where
  "pending_signals limit now_iso = query (\<lambda>d.
     sql_limit limit (sort_key sr_created_at (filter (pollable now_iso) (db_signals d))))"

definition update_signal :: "int \<Rightarrow> (signal_row \<Rightarrow> signal_row) \<Rightarrow> unit dbio" where
  "update_signal i f = exec (\<lambda>d. d\<lparr> db_signals := update_where (\<lambda>s. sr_id s = i) f (db_signals d) \<rparr>)"

definition mark_signal_processed :: "int \<Rightarrow> string \<Rightarrow> unit dbio" where
  "mark_signal_processed i now_iso =
     update_signal i (\<lambda>s. s\<lparr> sr_status := ''processed'', sr_processed_at := Some now_iso \<rparr>)"

definition mark_signal_rejected :: "int \<Rightarrow> string \<Rightarrow> json \<Rightarrow> unit dbio" where
  "mark_signal_rejected i now_iso reason =
     update_signal i (\<lambda>s. s\<lparr> sr_status := ''rejected'', sr_processed_at := Some now_iso,
       sr_rejection_reason := Some reason \<rparr>)"

definition set_signal_retry_after :: "int \<Rightarrow> string \<Rightarrow> unit dbio" where
  "set_signal_retry_after i retry_after_iso =
     update_signal i (\<lambda>s. s\<lparr> sr_retry_after_at := Some retry_after_iso \<rparr>)"

definition clear_signal_retry_after :: "int \<Rightarrow> unit dbio" where
  "clear_signal_retry_after i = update_signal i (\<lambda>s. s\<lparr> sr_retry_after_at := None \<rparr>)"

section \<open>Audit tables\<close>

definition signal_exists :: "db \<Rightarrow> int \<Rightarrow> bool" where
  "signal_exists d i \<longleftrightarrow> i \<in> set (map sr_id (db_signals d))"

definition record_checklist_evaluation :: "int \<Rightarrow> string \<Rightarrow> bool \<Rightarrow> json \<Rightarrow> unit dbio" where
  "record_checklist_evaluation i evaluated_at approved outcomes = stmt (\<lambda>d.
     if \<not> signal_exists d i then (d, Err (PSql SqlForeignKey))
     else (d\<lparr> db_checklists := db_checklists d @
        [\<lparr> ce_id = next_id (map ce_id (db_checklists d)), ce_signal_id = i,
           ce_evaluated_at = evaluated_at, ce_approved = approved, ce_outcomes = outcomes \<rparr>] \<rparr>, Ok ()))"

definition audit :: "string \<Rightarrow> string \<Rightarrow> string \<Rightarrow> string \<Rightarrow> json option \<Rightarrow> unit dbio" where
  "audit timestamp level event_type message data = exec (\<lambda>d. d\<lparr> db_audit := db_audit d @
     [\<lparr> au_timestamp = timestamp, au_level = level, au_event_type = event_type,
        au_message = message, au_data = data \<rparr>] \<rparr>)"

definition record_dry_run_order ::
    "int \<Rightarrow> string \<Rightarrow> string \<Rightarrow> string \<Rightarrow> string \<Rightarrow> string \<Rightarrow> string \<Rightarrow> string option \<Rightarrow> string option \<Rightarrow> json
     \<Rightarrow> int dbio" where
  "record_dry_run_order i recorded_at instrument sd slv hint notional price quantity intent = stmt (\<lambda>d.
     if \<not> signal_exists d i then (d, Err (PSql SqlForeignKey))
     else let n = next_id (map dr_id (db_dry_runs d)) in
       (d\<lparr> db_dry_runs := db_dry_runs d @
          [\<lparr> dr_id = n, dr_signal_id = i, dr_recorded_at = recorded_at,
             dr_instrument_symbol = instrument, dr_side = sd, dr_sleeve = slv, dr_broker_hint = hint,
             dr_notional_chf = notional, dr_estimated_price = price,
             dr_estimated_quantity = quantity, dr_intent = intent \<rparr>] \<rparr>, Ok n))"

section \<open>Kill-switch events\<close>

definition record_kill_switch :: "string \<Rightarrow> string \<Rightarrow> json \<Rightarrow> json \<Rightarrow> int dbio" where
  "record_kill_switch triggered_at kind detail snapshot = stmt (\<lambda>d.
     let n = next_id (map ke_id (db_kill_events d)) in
     (d\<lparr> db_kill_events := db_kill_events d @
        [\<lparr> ke_id = n, ke_triggered_at = triggered_at, ke_reason_kind = kind, ke_reason_detail = detail,
           ke_portfolio_snapshot = snapshot, ke_resolved_at = None, ke_resolved_by = None,
           ke_resolved_note = None \<rparr>] \<rparr>, Ok n))"

definition unresolved :: "kill_event_row \<Rightarrow> bool" where
  "unresolved e \<longleftrightarrow> ke_resolved_at e = None"

definition kill_switch_active :: "bool dbio" where
  "kill_switch_active = query (\<lambda>d. list_ex unresolved (db_kill_events d))"

text \<open>\<^verbatim>\<open>LIKE 'hard_%'\<close>: SQLite ignores ASCII case, and the underscore stands for any character.\<close>
definition ascii_lower :: "char \<Rightarrow> char" where
  "ascii_lower c = (if CHR ''A'' \<le> c \<and> c \<le> CHR ''Z'' then char_of (of_char c + 32 :: nat) else c)"

definition like_hard :: "string \<Rightarrow> bool" where
  "like_hard s \<longleftrightarrow> 5 \<le> length s \<and> map ascii_lower (take 4 s) = ''hard''"

definition has_active_hard_trigger :: "bool dbio" where
  "has_active_hard_trigger =
     query (\<lambda>d. list_ex (\<lambda>e. unresolved e \<and> like_hard (ke_reason_kind e)) (db_kill_events d))"

section \<open>Orders\<close>

definition insert_pending_order ::
    "int option \<Rightarrow> string \<Rightarrow> string \<Rightarrow> string \<Rightarrow> string \<Rightarrow> string \<Rightarrow> string \<Rightarrow> string option \<Rightarrow> string option
     \<Rightarrow> string \<Rightarrow> string option \<Rightarrow> int dbio" where
  "insert_pending_order signal_id brk instrument sd otype tif quantity limit stop created_at cli =
     stmt (\<lambda>d.
       if (\<exists>o' \<in> set (db_orders d). cli \<noteq> None \<and> od_broker o' = brk \<and> od_cli_ord_id o' = cli)
       then (d, Err (PSql (SqlUnique ''orders.broker, orders.cli_ord_id'')))
       else if (case signal_id of Some i \<Rightarrow> \<not> signal_exists d i | None \<Rightarrow> False)
       then (d, Err (PSql SqlForeignKey))
       else let n = next_id (map od_id (db_orders d)) in
         (d\<lparr> db_orders := db_orders d @
            [\<lparr> od_id = n, od_signal_id = signal_id, od_broker = brk, od_broker_order_id = None,
               od_instrument_symbol = instrument, od_side = sd, od_order_type = otype,
               od_time_in_force = tif, od_quantity = quantity, od_limit_price = limit,
               od_stop_price = stop, od_status = ''pending_submission'', od_filled_quantity = ''0'',
               od_avg_fill_price = None, od_fees_paid = ''0'', od_created_at = created_at,
               od_updated_at = created_at, od_error_message = None, od_cli_ord_id = cli \<rparr>] \<rparr>, Ok n))"

definition find_order_id_by_cli_ord_id :: "string \<Rightarrow> string \<Rightarrow> int option dbio" where
  "find_order_id_by_cli_ord_id brk cli = query (\<lambda>d.
     map_option od_id (find (\<lambda>o'. od_broker o' = brk \<and> od_cli_ord_id o' = Some cli) (db_orders d)))"

definition update_order :: "(order_row \<Rightarrow> bool) \<Rightarrow> (order_row \<Rightarrow> order_row) \<Rightarrow> unit dbio" where
  "update_order P f = exec (\<lambda>d. d\<lparr> db_orders := update_where P f (db_orders d) \<rparr>)"

definition backfill_broker_order_id :: "int \<Rightarrow> string \<Rightarrow> string \<Rightarrow> unit dbio" where
  "backfill_broker_order_id order_id broker_order_id updated_at =
     update_order (\<lambda>o'. od_id o' = order_id \<and> od_broker_order_id o' = None)
       (\<lambda>o'. o'\<lparr> od_broker_order_id := Some broker_order_id,
                 od_status := (if od_status o' \<in> {''pending_submission'', ''uncertain''}
                               then ''acknowledged'' else od_status o'),
                 od_updated_at := updated_at \<rparr>)"

definition mark_order_submitted :: "int \<Rightarrow> string \<Rightarrow> string \<Rightarrow> string \<Rightarrow> unit dbio" where
  "mark_order_submitted order_id broker_order_id status updated_at =
     update_order (\<lambda>o'. od_id o' = order_id)
       (\<lambda>o'. o'\<lparr> od_broker_order_id := Some broker_order_id, od_status := status,
                 od_updated_at := updated_at \<rparr>)"

definition mark_order_failed :: "int \<Rightarrow> string \<Rightarrow> string \<Rightarrow> unit dbio" where
  "mark_order_failed order_id msg updated_at =
     update_order (\<lambda>o'. od_id o' = order_id)
       (\<lambda>o'. o'\<lparr> od_status := ''failed'', od_error_message := Some msg, od_updated_at := updated_at \<rparr>)"

definition mark_order_uncertain :: "int \<Rightarrow> string \<Rightarrow> string \<Rightarrow> unit dbio" where
  "mark_order_uncertain order_id msg updated_at =
     update_order (\<lambda>o'. od_id o' = order_id)
       (\<lambda>o'. o'\<lparr> od_status := ''uncertain'', od_error_message := Some msg, od_updated_at := updated_at \<rparr>)"

definition pending_statuses :: "string list" where
  "pending_statuses = [''pending_submission'', ''uncertain'', ''acknowledged'', ''submitted'',
     ''partially_filled'']"

text \<open>\<^verbatim>\<open>ORDER BY id DESC LIMIT 1\<close>: ids ascend in the table.\<close>
definition pending_order_for_signal :: "int \<Rightarrow> (int \<times> string \<times> string option) option dbio" where
  "pending_order_for_signal signal_id = query (\<lambda>d.
     map_option (\<lambda>o'. (od_id o', od_status o', od_cli_ord_id o'))
       (find (\<lambda>o'. od_signal_id o' = Some signal_id \<and> od_status o' \<in> set pending_statuses)
          (rev (db_orders d))))"

definition list_live_orders :: "order_row list dbio" where
  "list_live_orders =
     query (\<lambda>d. rev (filter (\<lambda>o'. od_status o' \<in> set pending_statuses) (db_orders d)))"

section \<open>Positions, fills, equity\<close>

definition list_open_leverage_positions :: "lib \<Rightarrow> (string \<times> string \<times> string \<times> string) list dbio" where
  "list_open_leverage_positions L = query (\<lambda>d.
     map (\<lambda>p. (pn_instrument_symbol p, pn_broker p, pn_sleeve p, pn_quantity p))
       (filter (\<lambda>p. pn_closed_at p = None \<and> pn_sleeve p = ''crypto_leverage''
                    \<and> l_real_nonzero L (pn_quantity p)) (db_positions d)))"

definition position_key :: "position_row \<Rightarrow> string \<times> string" where
  "position_key p = (pn_sleeve p, pn_instrument_symbol p)"

text \<open>The query leaves out \<^verbatim>\<open>realized_pnl_btc\<close>, which the row type asks for without a default.\<close>
definition open_positions :: "position_row list dbio" where
  "open_positions = stmt (\<lambda>d.
     let rows = sort_key pn_sleeve (sort_key pn_instrument_symbol
           (filter (\<lambda>p. pn_closed_at p = None) (db_positions d))) in
     (d, if rows = [] then Ok [] else Err (PSql (SqlNoColumn ''realized_pnl_btc''))))"

definition has_fill_been_applied :: "string \<Rightarrow> string \<Rightarrow> bool dbio" where
  "has_fill_been_applied brk fill_id =
     query (\<lambda>d. list_ex (\<lambda>a. af_broker a = brk \<and> af_fill_id a = fill_id) (db_applied d))"

text \<open>\<^verbatim>\<open>INSERT OR IGNORE\<close> on the primary key \<^verbatim>\<open>(broker, fill_id)\<close>.\<close>
definition record_fill_applied :: "string \<Rightarrow> string \<Rightarrow> string \<Rightarrow> unit dbio" where
  "record_fill_applied brk fill_id applied_at = exec (\<lambda>d.
     if list_ex (\<lambda>a. af_broker a = brk \<and> af_fill_id a = fill_id) (db_applied d) then d
     else d\<lparr> db_applied := db_applied d @
        [\<lparr> af_broker = brk, af_fill_id = fill_id, af_applied_at = applied_at \<rparr>] \<rparr>)"

text \<open>\<^verbatim>\<open>fetch_all\<close> decodes every row before the sum starts; a NULL does not decode.\<close>
fun sum_texts :: "lib \<Rightarrow> dec \<Rightarrow> string list \<Rightarrow> dec dbio" where
  "sum_texts L acc [] = ret acc"
| "sum_texts L acc (raw # rest) =
     (case l_parse L raw of
        None \<Rightarrow> fail (PDecimal (''parsing realized_pnl_btc '' @ l_debug L raw @ '': '' @ l_parse_err L raw))
      | Some v \<Rightarrow> bnd (or_panic (dadd L acc v)) (\<lambda>t. sum_texts L t rest))"

definition sum_realized_pnl_btc_by_sleeve :: "lib \<Rightarrow> string \<Rightarrow> dec dbio" where
  "sum_realized_pnl_btc_by_sleeve L slv =
     bnd (stmt (\<lambda>d. (d, let rows = map pn_realized_pnl_btc (filter (\<lambda>p. pn_sleeve p = slv) (db_positions d))
            in if None \<in> set rows then Err (PSql (SqlNull ''realized_pnl_btc'')) else Ok (map the rows))))
       (sum_texts L 0)"

text \<open>\<^verbatim>\<open>ORDER BY timestamp DESC, id DESC LIMIT 1\<close>: the last row of a stable ascending sort.\<close>
definition latest_equity_snapshot :: "equity_row option dbio" where
  "latest_equity_snapshot = query (\<lambda>d.
     (case rev (sort_key eq_timestamp (db_equity d)) of [] \<Rightarrow> None | r # _ \<Rightarrow> Some r))"

text \<open>A decimal as the \<^verbatim>\<open>TEXT\<close> column holds it.\<close>
type_synonym decimal_text = string

definition insert_equity_snapshot ::
    "string \<Rightarrow> decimal_text \<Rightarrow> decimal_text \<Rightarrow> decimal_text \<Rightarrow> decimal_text \<Rightarrow> 
     decimal_text \<Rightarrow> decimal_text \<Rightarrow> decimal_text \<Rightarrow> decimal_text \<Rightarrow> 
     decimal_text \<Rightarrow> decimal_text \<Rightarrow> decimal_text \<Rightarrow> int dbio" where
  "insert_equity_snapshot ts tot spot etf lev cash realized dd unrealized nav hwm units = stmt (\<lambda>d.
     let n = next_id (map eq_id (db_equity d)) in
     (d\<lparr> db_equity := db_equity d @
        [\<lparr> eq_id = n, eq_timestamp = ts, eq_total_equity_chf = tot, eq_crypto_spot_value_chf = spot,
           eq_etf_value_chf = etf, eq_crypto_leverage_value_chf = lev, eq_cash_chf = cash,
           eq_realized_pnl_leverage_lifetime = realized, eq_drawdown_fraction = dd,
           eq_unrealized_pnl_leverage_chf = unrealized, eq_nav_per_unit = nav,
           eq_nav_hwm_per_unit = hwm, eq_total_units = units \<rparr>] \<rparr>, Ok n))"

definition capital_flows :: "capital_flow_row list dbio" where
  "capital_flows = query (\<lambda>d. sort_key cf_timestamp (db_flows d))"

definition write_bootstrap_equity_snapshot :: "string \<Rightarrow> int dbio" where
  "write_bootstrap_equity_snapshot ts =
     insert_equity_snapshot ts ''0'' ''0'' ''0'' ''0'' ''0'' ''0'' ''0'' ''0'' ''1'' ''1'' ''1''"

section \<open>Statements without faults\<close>

definition no_faults :: "db \<Rightarrow> bool" where
  "no_faults d \<longleftrightarrow> db_faults d = []"

lemma stmt_ok [simp]: "no_faults d \<Longrightarrow> stmt m d = m d"
  by (simp add: stmt_def no_faults_def)

lemma exec_ok [simp]: "no_faults d \<Longrightarrow> exec f d = (f d, Ok ())"
  by (simp add: exec_def modify_def)

lemma query_ok [simp]: "no_faults d \<Longrightarrow> query f d = (d, Ok (f d))"
  by (simp add: query_def gets_def)

lemma no_faults_simps [simp]:
  "no_faults (d\<lparr> db_signals := a \<rparr>) = no_faults d" "no_faults (d\<lparr> db_orders := b \<rparr>) = no_faults d"
  "no_faults (d\<lparr> db_positions := c \<rparr>) = no_faults d" "no_faults (d\<lparr> db_equity := e \<rparr>) = no_faults d"
  "no_faults (d\<lparr> db_kill_events := f \<rparr>) = no_faults d" "no_faults (d\<lparr> db_checklists := g \<rparr>) = no_faults d"
  "no_faults (d\<lparr> db_audit := h \<rparr>) = no_faults d" "no_faults (d\<lparr> db_dry_runs := i \<rparr>) = no_faults d"
  "no_faults (d\<lparr> db_applied := j \<rparr>) = no_faults d"
  by (simp_all add: no_faults_def)

text \<open>A statement either fails and only uses up its fault, or runs.\<close>
lemma stmt_cases:
  assumes "stmt m d = (d', r)"
  obtains (fault) fs where "db_faults d = True # fs" "d' = d\<lparr> db_faults := fs \<rparr>" "r = Err (PSql SqlIo)"
  | (run) fs where "m (d\<lparr> db_faults := fs \<rparr>) = (d', r)"
proof (cases "db_faults d")
  case Nil
  then have same: "d\<lparr> db_faults := [] \<rparr> = d" by simp
  have "m (d\<lparr> db_faults := [] \<rparr>) = (d', r)" unfolding same using assms Nil by (simp add: stmt_def)
  then show ?thesis by (rule run)
next
  case (Cons b fs)
  then show ?thesis using assms fault run by (cases b) (auto simp: stmt_def)
qed

section \<open>Invariants of the tables\<close>

text \<open>What the fault script does not touch.\<close>
definition fault_blind :: "(db \<Rightarrow> bool) \<Rightarrow> bool" where
  "fault_blind P \<longleftrightarrow> (\<forall>d fs. P (d\<lparr> db_faults := fs \<rparr>) = P d)"

lemma keeps_stmt [keeps_intro]: "fault_blind P \<Longrightarrow> keeps P m \<Longrightarrow> keeps P (stmt m)"
  by (auto simp: keeps_def stmt_def fault_blind_def split: list.splits bool.splits)

lemma keeps_exec: "fault_blind P \<Longrightarrow> (\<And>d. P d \<Longrightarrow> P (f d)) \<Longrightarrow> keeps P (exec f)"
  unfolding exec_def by (intro keeps_stmt keeps_modify)

lemma keeps_query [keeps_intro]: "fault_blind P \<Longrightarrow> keeps P (query f)"
  unfolding query_def by (intro keeps_stmt keeps_gets)

lemma keeps_transaction [keeps_intro]:
  assumes "fault_blind P" "keeps P m"
  shows "keeps P (transaction m)"
proof -
  have "keeps P (\<lambda>d. case bnd m (\<lambda>a. bnd (stmt (ret ())) (\<lambda>_. ret a)) d of
        (d', Ok a) \<Rightarrow> (d', Ok a) | (d', r) \<Rightarrow> (d\<lparr> db_faults := db_faults d' \<rparr>, r))"
  proof -
    have "keeps P (bnd m (\<lambda>a. bnd (stmt (ret ())) (\<lambda>_. ret a)))"
      using assms by (intro keeps_bnd keeps_stmt keeps_ret)
    then show ?thesis using assms(1)
      unfolding keeps_def fault_blind_def by (auto split: prod.splits res.splits)
  qed
  then show ?thesis
    unfolding transaction_def using assms(1) by (intro keeps_bnd keeps_stmt keeps_ret)
qed

text \<open>\<^verbatim>\<open>(broker, cli_ord_id)\<close> identifies an order, ids ascend, and a fill is recorded once.\<close>
definition cli_unique :: "order_row list \<Rightarrow> bool" where
  "cli_unique os \<longleftrightarrow> distinct (map (\<lambda>o'. (od_broker o', od_cli_ord_id o'))
     (filter (\<lambda>o'. od_cli_ord_id o' \<noteq> None) os))"

definition store_inv :: "db \<Rightarrow> bool" where
  "store_inv d \<longleftrightarrow> cli_unique (db_orders d) \<and> sorted_wrt (<) (map od_id (db_orders d)) \<and>
     sorted_wrt (<) (map pn_id (db_positions d)) \<and>
     distinct (map (\<lambda>a. (af_broker a, af_fill_id a)) (db_applied d))"

lemma store_inv_blind [simp]: "fault_blind store_inv"
  by (simp add: fault_blind_def store_inv_def)

lemma store_inv_empty: "store_inv db_empty"
  by (simp add: store_inv_def db_empty_def cli_unique_def)

lemma foldl_max_ge: "m \<le> foldl max m xs" for m :: int
proof (induction xs arbitrary: m)
  case (Cons x xs)
  show ?case using Cons.IH [of "max m x"] by simp
qed simp

lemma foldl_max_member: "x \<in> set xs \<Longrightarrow> x \<le> foldl max m xs" for m :: int
proof (induction xs arbitrary: m)
  case (Cons y ys)
  then show ?case using foldl_max_ge [of "max m y" ys] by auto
qed simp

lemma next_id_greater: "i \<in> set ids \<Longrightarrow> i < next_id ids"
  using foldl_max_member [of i ids 0] by (simp add: next_id_def)

lemma update_where_map:
  "(\<And>r. g (f r) = g r) \<Longrightarrow> map g (update_where P f rs) = map g rs"
  by (induction rs) (auto simp: update_where_def)

lemma update_where_filter_map:
  assumes "\<And>r. g (f r) = g r" "\<And>r. Q (f r) = Q r"
  shows "map g (filter Q (update_where P f rs)) = map g (filter Q rs)"
  by (induction rs) (auto simp: update_where_def assms)

lemma update_order_inv:
  assumes "\<And>o'. od_id (f o') = od_id o'" "\<And>o'. od_broker (f o') = od_broker o'"
    "\<And>o'. od_cli_ord_id (f o') = od_cli_ord_id o'" "store_inv d"
  shows "store_inv (d\<lparr> db_orders := update_where P f (db_orders d) \<rparr>)"
proof -
  have "map od_id (update_where P f (db_orders d)) = map od_id (db_orders d)"
    by (rule update_where_map) (rule assms)
  moreover have "cli_unique (update_where P f (db_orders d)) = cli_unique (db_orders d)"
    unfolding cli_unique_def by (subst update_where_filter_map) (simp_all add: assms)
  ultimately show ?thesis using assms(4) by (simp add: store_inv_def)
qed

lemma keeps_update_order [keeps_intro]:
  assumes "\<And>o'. od_id (f o') = od_id o'" "\<And>o'. od_broker (f o') = od_broker o'"
    "\<And>o'. od_cli_ord_id (f o') = od_cli_ord_id o'"
  shows "keeps store_inv (update_order P f)"
  unfolding update_order_def by (rule keeps_exec) (auto intro: update_order_inv assms)

lemma keeps_orders_ops [keeps_intro]:
  "keeps store_inv (backfill_broker_order_id i b t)"
  "keeps store_inv (mark_order_submitted i b st t)"
  "keeps store_inv (mark_order_failed i msg t)"
  "keeps store_inv (mark_order_uncertain i msg t)"
  unfolding backfill_broker_order_id_def mark_order_submitted_def mark_order_failed_def
    mark_order_uncertain_def
  by (rule keeps_update_order; simp)+

lemma keeps_insert_order [keeps_intro]:
  "keeps store_inv (insert_pending_order sid brk ins sd ot tif q lm stp t cli)"
  unfolding insert_pending_order_def
proof (rule keeps_stmt)
  show "keeps store_inv (\<lambda>d.
     if \<exists>o' \<in> set (db_orders d). cli \<noteq> None \<and> od_broker o' = brk \<and> od_cli_ord_id o' = cli
     then (d, Err (PSql (SqlUnique ''orders.broker, orders.cli_ord_id'')))
     else if case sid of Some i \<Rightarrow> \<not> signal_exists d i | None \<Rightarrow> False
     then (d, Err (PSql SqlForeignKey))
     else let n = next_id (map od_id (db_orders d)) in
         (d\<lparr> db_orders := db_orders d @
            [\<lparr> od_id = n, od_signal_id = sid, od_broker = brk, od_broker_order_id = None,
               od_instrument_symbol = ins, od_side = sd, od_order_type = ot,
               od_time_in_force = tif, od_quantity = q, od_limit_price = lm,
               od_stop_price = stp, od_status = ''pending_submission'', od_filled_quantity = ''0'',
               od_avg_fill_price = None, od_fees_paid = ''0'', od_created_at = t,
               od_updated_at = t, od_error_message = None, od_cli_ord_id = cli \<rparr>] \<rparr>, Ok n))"
    using next_id_greater
    by (auto simp: keeps_def store_inv_def cli_unique_def Let_def sorted_wrt_append)
qed simp

lemma keeps_record_fill [keeps_intro]: "keeps store_inv (record_fill_applied brk i t)"
  unfolding record_fill_applied_def
  by (rule keeps_exec) (auto simp: store_inv_def list_ex_iff)

section \<open>Running without faults\<close>

lemma bnd_query [simp]: "no_faults d \<Longrightarrow> bnd (query f) k d = k (f d) d"
  by (simp add: bnd_def)

lemma bnd_exec [simp]: "no_faults d \<Longrightarrow> bnd (exec f) k d = k () (f d)"
  by (simp add: bnd_def)

lemma bnd_or_fail_Ok: "bnd (or_fail x) k s = (s', Ok b) \<longleftrightarrow> (\<exists>a. x = Inr a \<and> k a s = (s', Ok b))"
  by (cases x) simp_all

lemma bnd_or_panic_Ok: "bnd (or_panic x) k s = (s', Ok b) \<longleftrightarrow> (\<exists>a. x = Some a \<and> k a s = (s', Ok b))"
  by (cases x) simp_all

lemmas run_simps = bnd_or_fail_Ok bnd_or_panic_Ok

lemma keeps_no_faults_stmt: "keeps no_faults m \<Longrightarrow> keeps no_faults (stmt m)"
  by (simp add: keeps_def)

lemma keeps_no_faults_exec: "(\<And>d. db_faults (f d) = db_faults d) \<Longrightarrow> keeps no_faults (exec f)"
  by (simp add: keeps_def no_faults_def exec_def stmt_def modify_def)

lemma keeps_no_faults_query: "keeps no_faults (query f)"
  by (simp add: keeps_def)

lemma transaction_no_faults:
  assumes "no_faults d" "keeps no_faults m"
  shows "transaction m d = (case m d of (d', Ok a) \<Rightarrow> (d', Ok a) | (d', r) \<Rightarrow> (d, r))"
proof -
  obtain d' r where m: "m d = (d', r)" by (cases "m d")
  then have "no_faults d'" using assms keepsD by metis
  then show ?thesis
    using assms(1) m by (cases r) (auto simp: transaction_def bnd_def ret_def no_faults_def stmt_def)
qed

lemma transaction_Ok:
  "no_faults d \<Longrightarrow> keeps no_faults m \<Longrightarrow> transaction m d = (d', Ok a) \<longleftrightarrow> m d = (d', Ok a)"
  by (auto simp: transaction_no_faults split: prod.splits res.splits)

text \<open>All or nothing, whatever statement fails.\<close>
lemma transaction_atomic:
  assumes "transaction m d = (d', r)" "\<forall>a. r \<noteq> Ok a"
  shows "d' = d\<lparr> db_faults := db_faults d' \<rparr>"
proof -
  have st: "stmt (ret ()) d = (d1, r1) \<Longrightarrow> d1 = d\<lparr> db_faults := db_faults d1 \<rparr>" for d1 r1
    by (auto simp: stmt_def ret_def split: list.splits bool.splits)
  show ?thesis
    using assms st
    by (auto simp: transaction_def bnd_def [of "stmt (ret ())"] split: prod.splits res.splits)
      (metis (no_types, lifting) db.surjective db.update_convs(11) db.select_convs(11))+
qed

end
