(* ===== verification/Fill_Accounting.thy ===== *)
theory Fill_Accounting
  imports Store
begin

text \<open>Fills: \<^verbatim>\<open>Database::apply_fill_to_order\<close> and \<^verbatim>\<open>Database::apply_fill_to_position\<close> of
  \<^verbatim>\<open>crates/rt-persistence/src/repo.rs\<close>, with their outcome types.  The abstract view of the positions table
  is the net signed quantity per instrument and broker.\<close>

section \<open>Outcomes\<close>

record order_fill_outcome =
  fo_order_id :: int
  fo_sleeve :: "string option"
  fo_broker :: string
  fo_instrument_symbol :: string
  fo_is_buy :: bool
  fo_new_filled_quantity :: dec
  fo_new_avg_fill_price :: dec
  fo_new_fees_paid :: dec
  fo_new_status :: string
  fo_is_fully_filled :: bool

datatype position_transition = Opened | Added | Reduced | Closed | Flipped

record position_fill_outcome =
  po_position_id :: int
  po_new_quantity :: dec
  po_new_avg_entry_price :: "dec option"
  po_realized_pnl_btc :: dec
  po_transition :: position_transition

section \<open>A fill on an order\<close>

definition parse_col :: "lib \<Rightarrow> string \<Rightarrow> string \<Rightarrow> perr + dec" where
  "parse_col L col s = (case l_parse L s of
      Some x \<Rightarrow> Inr x | None \<Rightarrow> Inl (PDecimal (col @ '': '' @ l_parse_err L s)))"

definition parse_opt_col :: "lib \<Rightarrow> string \<Rightarrow> string option \<Rightarrow> perr + dec option" where
  "parse_opt_col L col v = (case v of
      None \<Rightarrow> Inr None
    | Some s \<Rightarrow> (case parse_col L col s of Inl e \<Rightarrow> Inl e | Inr x \<Rightarrow> Inr (Some x)))"

definition side_is_buy :: "string \<Rightarrow> perr + bool" where
  "side_is_buy s = (if s = ''buy'' then Inr True else if s = ''sell'' then Inr False
     else Inl (PInvalidEnum ''orders.side'' s))"

definition fill_average :: "lib \<Rightarrow> dec \<Rightarrow> dec option \<Rightarrow> dec \<Rightarrow> dec \<Rightarrow> dec \<Rightarrow> dec option" where
  "fill_average L old_filled old_avg fill_qty fill_price new_filled =
     (case old_avg of
        None \<Rightarrow> Some fill_price
      | Some avg \<Rightarrow>
          if old_filled = 0 then Some fill_price
          else do {
            a \<leftarrow> dmul L old_filled avg;
            b \<leftarrow> dmul L fill_qty fill_price;
            s \<leftarrow> dadd L a b;
            ddiv L s new_filled })"

definition order_with_sleeve :: "db \<Rightarrow> string \<Rightarrow> (order_row \<times> string option) option" where
  "order_with_sleeve d broker_order_id =
     map_option (\<lambda>o'. (o', case od_signal_id o' of
         None \<Rightarrow> None
       | Some i \<Rightarrow> map_option sr_sleeve (find (\<lambda>s. sr_id s = i) (db_signals d))))
       (find (\<lambda>o'. od_broker_order_id o' = Some broker_order_id) (db_orders d))"

definition write_fill :: "int \<Rightarrow> string \<Rightarrow> string \<Rightarrow> string \<Rightarrow> string \<Rightarrow> string \<Rightarrow> unit dbio" where
  "write_fill order_id filled avg fees status now_iso =
     update_order (\<lambda>o'. od_id o' = order_id)
       (\<lambda>o'. o'\<lparr> od_filled_quantity := filled, od_avg_fill_price := Some avg, od_fees_paid := fees,
                 od_status := status, od_updated_at := now_iso \<rparr>)"

definition order_fill_body ::
    "lib \<Rightarrow> string \<Rightarrow> dec \<Rightarrow> dec \<Rightarrow> dec \<Rightarrow> string \<Rightarrow> order_fill_outcome option dbio" where
  "order_fill_body L broker_order_id fill_qty fill_price fee now_iso =
     bnd (query (\<lambda>d. order_with_sleeve d broker_order_id)) (\<lambda>row.
     case row of
       None \<Rightarrow> ret None
     | Some (o', slv) \<Rightarrow>
         bnd (or_fail (side_is_buy (od_side o'))) (\<lambda>is_buy.
         bnd (or_fail (parse_col L ''orders.quantity'' (od_quantity o'))) (\<lambda>quantity.
         bnd (or_fail (parse_col L ''orders.filled_quantity'' (od_filled_quantity o'))) (\<lambda>old_filled.
         bnd (or_fail (parse_col L ''orders.fees_paid'' (od_fees_paid o'))) (\<lambda>old_fees.
         bnd (or_fail (parse_opt_col L ''orders.avg_fill_price'' (od_avg_fill_price o'))) (\<lambda>old_avg.
         bnd (or_panic (dadd L old_filled fill_qty)) (\<lambda>new_filled.
         bnd (or_panic (fill_average L old_filled old_avg fill_qty fill_price new_filled)) (\<lambda>new_avg.
         bnd (or_panic (dadd L old_fees fee)) (\<lambda>new_fees.
         let full = quantity \<le> new_filled;
             new_status = (if od_status o' = ''filled'' \<or> full then ''filled'' else ''partially_filled'')
         in bnd (write_fill (od_id o') (l_show L new_filled) (l_show L new_avg) (l_show L new_fees)
                   new_status now_iso) (\<lambda>_.
            ret (Some \<lparr> fo_order_id = od_id o', fo_sleeve = slv, fo_broker = od_broker o',
                  fo_instrument_symbol = od_instrument_symbol o', fo_is_buy = is_buy,
                  fo_new_filled_quantity = new_filled, fo_new_avg_fill_price = new_avg,
                  fo_new_fees_paid = new_fees, fo_new_status = new_status,
                  fo_is_fully_filled = full \<rparr>)))))))))))"

definition apply_fill_to_order ::
    "lib \<Rightarrow> string \<Rightarrow> dec \<Rightarrow> dec \<Rightarrow> dec \<Rightarrow> string \<Rightarrow> order_fill_outcome option dbio" where
  "apply_fill_to_order L broker_order_id fill_qty fill_price fee now_iso =
     transaction (order_fill_body L broker_order_id fill_qty fill_price fee now_iso)"

section \<open>A fill on a position\<close>

definition inverse_pnl_per_contract :: "lib \<Rightarrow> dec \<Rightarrow> dec \<Rightarrow> dec option" where
  "inverse_pnl_per_contract L entry exit = do {
     a \<leftarrow> ddiv L 1 entry; b \<leftarrow> ddiv L 1 exit; dsub L a b }"

text \<open>\<^verbatim>\<open>is_sign_positive\<close> and \<^verbatim>\<open>is_sign_negative\<close>; zero counts as positive.\<close>
definition sign_positive :: "dec \<Rightarrow> bool" where
  "sign_positive x \<longleftrightarrow> 0 \<le> x"

definition insert_position ::
    "string \<Rightarrow> string \<Rightarrow> string \<Rightarrow> string \<Rightarrow> string \<Rightarrow> string \<Rightarrow> int dbio" where
  "insert_position instrument brk slv quantity entry now_iso = stmt (\<lambda>d.
     let n = next_id (map pn_id (db_positions d)) in
     (d\<lparr> db_positions := db_positions d @
        [\<lparr> pn_id = n, pn_instrument_symbol = instrument, pn_broker = brk, pn_sleeve = slv,
           pn_quantity = quantity, pn_avg_entry_price = entry, pn_leverage = ''1'',
           pn_liquidation_price = None, pn_opened_at = now_iso, pn_updated_at = now_iso,
           pn_closed_at = None, pn_realized_pnl_chf = None, pn_realized_pnl_btc = Some ''0'' \<rparr>] \<rparr>, Ok n))"

definition update_position :: "int \<Rightarrow> (position_row \<Rightarrow> position_row) \<Rightarrow> unit dbio" where
  "update_position i f = exec (\<lambda>d. d\<lparr> db_positions := update_where (\<lambda>p. pn_id p = i) f (db_positions d) \<rparr>)"

text \<open>The row rewrites of the four \<^verbatim>\<open>UPDATE\<close> statements.\<close>
definition added_row :: "lib \<Rightarrow> dec \<Rightarrow> dec \<Rightarrow> string \<Rightarrow> position_row \<Rightarrow> position_row" where
  "added_row L new_qty new_entry now_iso p = p\<lparr> pn_quantity := l_show L new_qty,
     pn_avg_entry_price := l_show L new_entry, pn_updated_at := now_iso \<rparr>"

definition reduced_row :: "lib \<Rightarrow> dec \<Rightarrow> dec \<Rightarrow> string \<Rightarrow> position_row \<Rightarrow> position_row" where
  "reduced_row L new_qty new_realized now_iso p = p\<lparr> pn_quantity := l_show L new_qty,
     pn_realized_pnl_btc := Some (l_show L new_realized), pn_updated_at := now_iso \<rparr>"

definition closed_row :: "lib \<Rightarrow> dec \<Rightarrow> string \<Rightarrow> position_row \<Rightarrow> position_row" where
  "closed_row L new_realized now_iso p = p\<lparr> pn_quantity := ''0'', pn_closed_at := Some now_iso,
     pn_updated_at := now_iso, pn_realized_pnl_btc := Some (l_show L new_realized) \<rparr>"

definition open_row :: "string \<Rightarrow> string \<Rightarrow> position_row \<Rightarrow> bool" where
  "open_row instrument brk p \<longleftrightarrow>
     pn_instrument_symbol p = instrument \<and> pn_broker p = brk \<and> pn_closed_at p = None"

definition parse_realized :: "lib \<Rightarrow> string option \<Rightarrow> perr + dec" where
  "parse_realized L v = (case v of
      Some s \<Rightarrow> if s \<noteq> [] then parse_col L ''positions.realized_pnl_btc'' s else Inr 0
    | None \<Rightarrow> Inr 0)"

definition add_to_position ::
    "lib \<Rightarrow> int \<Rightarrow> dec \<Rightarrow> dec \<Rightarrow> dec \<Rightarrow> dec \<Rightarrow> dec \<Rightarrow> string \<Rightarrow> position_fill_outcome dbio" where
  "add_to_position L pos_id old_qty old_entry fill_signed fill_qty fill_price now_iso =
     bnd (or_panic (dadd L old_qty fill_signed)) (\<lambda>new_qty.
     bnd (or_panic (do { a \<leftarrow> dmul L \<bar>old_qty\<bar> old_entry; b \<leftarrow> dmul L fill_qty fill_price;
                         s \<leftarrow> dadd L a b; ddiv L s \<bar>new_qty\<bar> })) (\<lambda>new_entry.
     bnd (update_position pos_id (added_row L new_qty new_entry now_iso)) (\<lambda>_.
     ret \<lparr> po_position_id = pos_id, po_new_quantity = new_qty, po_new_avg_entry_price = Some new_entry,
           po_realized_pnl_btc = 0, po_transition = Added \<rparr>)))"

definition reduce_position ::
    "lib \<Rightarrow> int \<Rightarrow> dec \<Rightarrow> dec \<Rightarrow> dec \<Rightarrow> dec \<Rightarrow> dec \<Rightarrow> dec \<Rightarrow> string \<Rightarrow> position_fill_outcome dbio" where
  "reduce_position L pos_id old_qty old_entry old_realized fill_signed fill_qty pnl now_iso =
     bnd (or_panic (dmul L (if sign_positive old_qty then fill_qty else - fill_qty) pnl)) (\<lambda>realized.
     bnd (or_panic (dadd L old_qty fill_signed)) (\<lambda>new_qty.
     bnd (or_panic (dadd L old_realized realized)) (\<lambda>new_realized.
     bnd (update_position pos_id (reduced_row L new_qty new_realized now_iso)) (\<lambda>_.
     ret \<lparr> po_position_id = pos_id, po_new_quantity = new_qty, po_new_avg_entry_price = Some old_entry,
           po_realized_pnl_btc = realized, po_transition = Reduced \<rparr>))))"

definition signed_fill :: "bool \<Rightarrow> dec \<Rightarrow> dec" where
  "signed_fill is_buy q = (if is_buy then q else - q)"

definition flat_position ::
    "lib \<Rightarrow> int \<Rightarrow> dec \<Rightarrow> dec \<Rightarrow> dec \<Rightarrow> string \<Rightarrow> dec dbio" where
  "flat_position L pos_id old_qty old_realized pnl now_iso =
     bnd (or_panic (dmul L old_qty pnl)) (\<lambda>realized.
     bnd (or_panic (dadd L old_realized realized)) (\<lambda>new_realized.
     bnd (update_position pos_id (closed_row L new_realized now_iso)) (\<lambda>_.
     ret realized)))"

definition position_fill_body ::
    "lib \<Rightarrow> string \<Rightarrow> string \<Rightarrow> string \<Rightarrow> bool \<Rightarrow> dec \<Rightarrow> dec \<Rightarrow> string \<Rightarrow> position_fill_outcome dbio" where
  "position_fill_body L instrument brk slv is_buy fill_qty fill_price now_iso =
     bnd (query (\<lambda>d. find (open_row instrument brk) (rev (db_positions d)))) (\<lambda>existing.
     case existing of
       None \<Rightarrow>
         bnd (insert_position instrument brk slv (l_show L (signed_fill is_buy fill_qty))
                (l_show L fill_price) now_iso)
           (\<lambda>n. ret \<lparr> po_position_id = n, po_new_quantity = signed_fill is_buy fill_qty,
                      po_new_avg_entry_price = Some fill_price, po_realized_pnl_btc = 0,
                      po_transition = Opened \<rparr>)
     | Some p \<Rightarrow>
         bnd (or_fail (parse_col L ''positions.quantity'' (pn_quantity p))) (\<lambda>old_qty.
         bnd (or_fail (parse_col L ''positions.avg_entry_price'' (pn_avg_entry_price p))) (\<lambda>old_entry.
         bnd (or_fail (parse_realized L (pn_realized_pnl_btc p))) (\<lambda>old_realized.
         if (sign_positive old_qty \<and> is_buy) \<or> (\<not> sign_positive old_qty \<and> \<not> is_buy) then
           add_to_position L (pn_id p) old_qty old_entry (signed_fill is_buy fill_qty) fill_qty
             fill_price now_iso
         else
           bnd (or_panic (inverse_pnl_per_contract L old_entry fill_price)) (\<lambda>pnl.
           if fill_qty < \<bar>old_qty\<bar> then
             reduce_position L (pn_id p) old_qty old_entry old_realized
               (signed_fill is_buy fill_qty) fill_qty pnl now_iso
           else if fill_qty = \<bar>old_qty\<bar> then
             bnd (flat_position L (pn_id p) old_qty old_realized pnl now_iso) (\<lambda>realized.
             ret \<lparr> po_position_id = pn_id p, po_new_quantity = 0, po_new_avg_entry_price = None,
                   po_realized_pnl_btc = realized, po_transition = Closed \<rparr>)
           else
             bnd (flat_position L (pn_id p) old_qty old_realized pnl now_iso) (\<lambda>realized.
             bnd (or_panic (dsub L fill_qty \<bar>old_qty\<bar>)) (\<lambda>residual_qty.
             bnd (insert_position instrument brk slv (l_show L (signed_fill is_buy residual_qty))
                    (l_show L fill_price) now_iso) (\<lambda>n.
             ret \<lparr> po_position_id = n, po_new_quantity = signed_fill is_buy residual_qty,
                   po_new_avg_entry_price = Some fill_price, po_realized_pnl_btc = realized,
                   po_transition = Flipped \<rparr>))))))))"

definition apply_fill_to_position ::
    "lib \<Rightarrow> string \<Rightarrow> string \<Rightarrow> string \<Rightarrow> bool \<Rightarrow> dec \<Rightarrow> dec \<Rightarrow> string \<Rightarrow> position_fill_outcome dbio" where
  "apply_fill_to_position L instrument brk slv is_buy fill_qty fill_price now_iso =
     transaction (position_fill_body L instrument brk slv is_buy fill_qty fill_price now_iso)"

section \<open>What a fill does to an order\<close>

lemma parse_col_Inr: "parse_col L col s = Inr x \<longleftrightarrow> l_parse L s = Some x"
  by (simp add: parse_col_def split: option.splits)

lemma parse_opt_col_Inr:
  "parse_opt_col L col v = Inr x \<longleftrightarrow>
     (v = None \<and> x = None) \<or> (\<exists>s y. v = Some s \<and> l_parse L s = Some y \<and> x = Some y)"
  by (cases v) (auto simp: parse_opt_col_def parse_col_def split: option.splits)

lemma side_is_buy_Inr: "side_is_buy s = Inr b \<longleftrightarrow> s = (if b then ''buy'' else ''sell'')"
  by (auto simp: side_is_buy_def)

lemma keeps_no_faults_update_order: "keeps no_faults (update_order P f)"
  unfolding update_order_def by (rule keeps_no_faults_exec) simp

lemma keeps_no_faults_update_position: "keeps no_faults (update_position i f)"
  unfolding update_position_def by (rule keeps_no_faults_exec) simp

lemma keeps_no_faults_insert_position: "keeps no_faults (insert_position i b s q e t)"
  unfolding insert_position_def
  by (rule keeps_no_faults_stmt) (simp add: keeps_def Let_def no_faults_def)

lemmas no_faults_intro = keeps_intro(1-5) keeps_or_panic keeps_or_fail keeps_bnd keeps_if keeps_option
  keeps_prod keeps_no_faults_query keeps_no_faults_update_order keeps_no_faults_update_position
  keeps_no_faults_insert_position

text \<open>The row a fill rewrites.\<close>
definition filled_row :: "lib \<Rightarrow> order_fill_outcome \<Rightarrow> string \<Rightarrow> order_row \<Rightarrow> order_row" where
  "filled_row L out now_iso o' = o'\<lparr> od_filled_quantity := l_show L (fo_new_filled_quantity out),
     od_avg_fill_price := Some (l_show L (fo_new_avg_fill_price out)),
     od_fees_paid := l_show L (fo_new_fees_paid out), od_status := fo_new_status out,
     od_updated_at := now_iso \<rparr>"

lemma keeps_no_faults_order_body:
  "keeps no_faults (order_fill_body L boid qty price fee t)"
  unfolding order_fill_body_def write_fill_def Let_def by (intro no_faults_intro)

lemma apply_order_body:
  "no_faults d \<Longrightarrow> apply_fill_to_order L boid qty price fee t d = (d', Ok out) \<Longrightarrow>
   order_fill_body L boid qty price fee t d = (d', Ok out)"
  unfolding apply_fill_to_order_def by (simp add: transaction_Ok keeps_no_faults_order_body)

lemma apply_fill_to_order_run:
  "no_faults d \<Longrightarrow> order_fill_body L boid qty price fee t d = (d', Ok out) \<Longrightarrow>
   apply_fill_to_order L boid qty price fee t d = (d', Ok out)"
  unfolding apply_fill_to_order_def by (simp add: transaction_Ok keeps_no_faults_order_body)

lemma apply_fill_to_order_spec:
  assumes nf: "no_faults d"
    and run: "apply_fill_to_order L boid qty price fee now_iso d = (d', Ok (Some out))"
  obtains o' quantity old_filled old_fees old_avg where
    "order_with_sleeve d boid = Some (o', fo_sleeve out)"
    "l_parse L (od_quantity o') = Some quantity"
    "l_parse L (od_filled_quantity o') = Some old_filled"
    "l_parse L (od_fees_paid o') = Some old_fees"
    "case od_avg_fill_price o' of None \<Rightarrow> old_avg = None
       | Some s \<Rightarrow> old_avg = l_parse L s \<and> old_avg \<noteq> None"
    "dadd L old_filled qty = Some (fo_new_filled_quantity out)"
    "fill_average L old_filled old_avg qty price (fo_new_filled_quantity out)
       = Some (fo_new_avg_fill_price out)"
    "dadd L old_fees fee = Some (fo_new_fees_paid out)"
    "fo_is_fully_filled out \<longleftrightarrow> quantity \<le> fo_new_filled_quantity out"
    "fo_new_status out = (if od_status o' = ''filled'' \<or> fo_is_fully_filled out then ''filled''
       else ''partially_filled'')"
    "fo_order_id out = od_id o'" "fo_broker out = od_broker o'"
    "fo_instrument_symbol out = od_instrument_symbol o'"
    "od_side o' = (if fo_is_buy out then ''buy'' else ''sell'')"
    "d' = d\<lparr> db_orders := update_where (\<lambda>r. od_id r = od_id o') (filled_row L out now_iso) (db_orders d) \<rparr>"
  using apply_order_body [OF nf run] that nf
  unfolding order_fill_body_def write_fill_def
  by (auto simp: run_simps Let_def update_order_def parse_col_Inr parse_opt_col_Inr
      side_is_buy_Inr filled_row_def [abs_def] split: option.splits)

text \<open>With no rounding in the intermediate results the new average lies between the old average and
  the fill price.\<close>
lemma fill_average_bounds:
  assumes L: "dec_laws L" and avg: "fill_average L old (Some a) q p (old + q) = Some r"
    and pos: "0 \<le> old" "0 < q" and dec: "isdec L a" "isdec L p"
    and exact: "isdec L (old * a)" "isdec L (q * p)" "isdec L (old * a + q * p)"
  shows "min a p \<le> r \<and> r \<le> max a p"
proof (cases "old = 0")
  case True
  then show ?thesis using avg by (auto simp: fill_average_def)
next
  case False
  then have r: "l_rnd L ((old * a + q * p) / (old + q)) = Some r"
    using avg exact by (auto simp: fill_average_def dec_ops isdec_def split: if_splits)
  have n: "0 < old + q" "0 \<le> q" using pos by simp_all
  have "min a p * old \<le> a * old" "min a p * q \<le> p * q" "a * old \<le> max a p * old"
    "p * q \<le> max a p * q"
    using pos n(2) by (simp_all add: mult_right_mono)
  then have "min a p * (old + q) \<le> old * a + q * p" "old * a + q * p \<le> max a p * (old + q)"
    by (simp_all add: algebra_simps)
  then have "min a p \<le> (old * a + q * p) / (old + q)"
    "(old * a + q * p) / (old + q) \<le> max a p"
    using n(1) by (simp_all add: le_divide_eq divide_le_eq)
  moreover have "isdec L (min a p)" "isdec L (max a p)" using dec by (auto simp: min_def max_def)
  ultimately show ?thesis using rnd_bounds [OF L r] by blast
qed

section \<open>What a fill does to the positions\<close>

text \<open>The net signed quantity an instrument and broker hold open.\<close>
definition qty_of :: "lib \<Rightarrow> position_row \<Rightarrow> dec" where
  "qty_of L p = (case l_parse L (pn_quantity p) of Some q \<Rightarrow> q | None \<Rightarrow> 0)"

definition open_rows :: "string \<Rightarrow> string \<Rightarrow> db \<Rightarrow> position_row list" where
  "open_rows instrument brk d = filter (open_row instrument brk) (db_positions d)"

definition net :: "lib \<Rightarrow> string \<Rightarrow> string \<Rightarrow> db \<Rightarrow> dec" where
  "net L instrument brk d = sum_list (map (qty_of L) (open_rows instrument brk d))"

definition one_open :: "db \<Rightarrow> bool" where
  "one_open d \<longleftrightarrow> (\<forall>i b. length (open_rows i b d) \<le> 1)"

lemma find_filter: "find P xs = (case filter P xs of [] \<Rightarrow> None | x # _ \<Rightarrow> Some x)"
  by (induction xs) auto

lemma find_someD: "find P xs = Some x \<Longrightarrow> P x \<and> x \<in> set xs"
  by (induction xs) (auto split: if_splits)

lemma find_rev_none: "filter P xs = [] \<Longrightarrow> find P (rev xs) = None"
  by (simp add: find_filter flip: rev_filter)

lemma find_rev_one: "filter P xs = [x] \<Longrightarrow> find P (rev xs) = Some x"
  by (simp add: find_filter flip: rev_filter)

lemma filter_update_one:
  assumes "filter Q rs = [p]" "distinct (map g rs)"
  shows "filter Q (update_where (\<lambda>r. g r = g p) f rs) = (if Q (f p) then [f p] else [])"
proof -
  obtain us vs where rs: "rs = us @ p # vs" "\<forall>u \<in> set us. \<not> Q u" "filter Q vs = []"
    using assms(1) by (metis filter_eq_Cons_iff)
  have "update_where (\<lambda>r. g r = g p) f us = us" "update_where (\<lambda>r. g r = g p) f vs = vs"
    using assms(2) unfolding rs(1) update_where_def by (auto intro!: map_idI) (metis image_eqI)+
  then show ?thesis using rs(2,3) by (simp add: rs(1) update_where_def)
qed

lemma filter_update_other:
  assumes "\<And>r. r \<in> set rs \<Longrightarrow> P r \<Longrightarrow> \<not> Q r \<and> \<not> Q (f r)"
  shows "filter Q (update_where P f rs) = filter Q rs"
  using assms by (induction rs) (auto simp: update_where_def)

lemma store_ids: "store_inv d \<Longrightarrow> distinct (map pn_id (db_positions d))"
  by (simp add: store_inv_def strict_sorted_iff)

lemma open_rows_update:
  assumes "store_inv d" "open_rows i b d = [p]"
  shows "open_rows i b (d\<lparr> db_positions := update_where (\<lambda>r. pn_id r = pn_id p) f (db_positions d) \<rparr>)
     = (if open_row i b (f p) then [f p] else [])"
  using filter_update_one [OF assms(2) [unfolded open_rows_def] store_ids [OF assms(1)], of f]
  by (simp add: open_rows_def)

lemma open_rows_insert:
  "insert_position i b slv q e t d = (d', Ok n) \<Longrightarrow> no_faults d \<Longrightarrow>
   open_rows i' b' d' = open_rows i' b' d @ (if i' = i \<and> b' = b
      then [\<lparr> pn_id = n, pn_instrument_symbol = i, pn_broker = b, pn_sleeve = slv,
           pn_quantity = q, pn_avg_entry_price = e, pn_leverage = ''1'',
           pn_liquidation_price = None, pn_opened_at = t, pn_updated_at = t,
           pn_closed_at = None, pn_realized_pnl_chf = None, pn_realized_pnl_btc = Some ''0'' \<rparr>] else [])"
  by (auto simp: insert_position_def Let_def open_rows_def open_row_def)

lemma insert_position_others:
  "insert_position i b slv q e t d = (d', r) \<Longrightarrow>
   db_orders d' = db_orders d \<and> db_signals d' = db_signals d \<and> db_applied d' = db_applied d"
  by (auto simp: insert_position_def Let_def stmt_def split: list.splits bool.splits)

lemma keeps_no_faults_position_body:
  "keeps no_faults (position_fill_body L i b slv is_buy q price t)"
  unfolding position_fill_body_def add_to_position_def reduce_position_def flat_position_def
  by (intro no_faults_intro)

lemma apply_position_body:
  "no_faults d \<Longrightarrow> apply_fill_to_position L i b slv is_buy q price t d = (d', Ok out) \<Longrightarrow>
   position_fill_body L i b slv is_buy q price t d = (d', Ok out)"
  unfolding apply_fill_to_position_def by (simp add: transaction_Ok keeps_no_faults_position_body)

text \<open>Each branch, without faults.\<close>
lemma add_to_position_Ok:
  assumes "no_faults d" "add_to_position L pid old_qty old_entry sf q price t d = (d', Ok out)"
  shows "\<exists>e. d' = d\<lparr> db_positions := update_where (\<lambda>r. pn_id r = pid)
        (added_row L (po_new_quantity out) e t) (db_positions d) \<rparr> \<and>
     po_new_avg_entry_price out = Some e \<and>
     dadd L old_qty sf = Some (po_new_quantity out) \<and> po_transition out = Added \<and>
     po_realized_pnl_btc out = 0"
  using assms by (auto simp: add_to_position_def run_simps update_position_def)

lemma reduce_position_Ok:
  assumes "no_faults d"
    "reduce_position L pid old_qty old_entry old_realized sf q pnl t d = (d', Ok out)"
  shows "\<exists>r. d' = d\<lparr> db_positions := update_where (\<lambda>r. pn_id r = pid)
        (reduced_row L (po_new_quantity out) r t) (db_positions d) \<rparr> \<and>
     dadd L old_realized (po_realized_pnl_btc out) = Some r \<and>
     po_new_avg_entry_price out = Some old_entry \<and>
     dadd L old_qty sf = Some (po_new_quantity out) \<and> po_transition out = Reduced \<and>
     dmul L (if sign_positive old_qty then q else - q) pnl = Some (po_realized_pnl_btc out)"
  using assms by (auto simp: reduce_position_def run_simps update_position_def)

lemma flat_position_Ok:
  assumes "no_faults d" "flat_position L pid old_qty old_realized pnl t d = (d', Ok realized)"
  shows "\<exists>r. d' = d\<lparr> db_positions := update_where (\<lambda>r. pn_id r = pid)
        (closed_row L r t) (db_positions d) \<rparr> \<and>
     dadd L old_realized realized = Some r \<and> dmul L old_qty pnl = Some realized"
  using assms by (auto simp: flat_position_def run_simps update_position_def)

lemma row_rewrites [simp]:
  "open_row i b (added_row L x y t p) = open_row i b p"
  "open_row i b (reduced_row L x y t p) = open_row i b p"
  "\<not> open_row i b (closed_row L y t p)"
  "qty_of L (added_row L x y t p) = (case l_parse L (l_show L x) of Some q \<Rightarrow> q | None \<Rightarrow> 0)"
  "qty_of L (reduced_row L x y t p) = (case l_parse L (l_show L x) of Some q \<Rightarrow> q | None \<Rightarrow> 0)"
  by (simp_all add: added_row_def reduced_row_def closed_row_def open_row_def qty_of_def)

lemma parse_show: "text_laws L \<Longrightarrow> isdec L x \<Longrightarrow> l_parse L (l_show L x) = Some x"
  by (simp add: text_laws_def)

definition same_side :: "dec \<Rightarrow> bool \<Rightarrow> bool" where
  "same_side old_qty is_buy \<longleftrightarrow> (0 \<le> old_qty) = is_buy"

text \<open>What is left of a fill once the open row is read.\<close>
lemma position_fill_on_row:
  assumes "no_faults d" "apply_fill_to_position L i b slv is_buy q price t d = (d', Ok out)"
    and "find (open_row i b) (rev (db_positions d)) = Some p"
  obtains old_qty old_entry old_realized where "l_parse L (pn_quantity p) = Some old_qty"
    "l_parse L (pn_avg_entry_price p) = Some old_entry"
    "(if same_side old_qty is_buy then
           add_to_position L (pn_id p) old_qty old_entry (signed_fill is_buy q) q price t
         else
           bnd (or_panic (inverse_pnl_per_contract L old_entry price)) (\<lambda>pnl.
           if q < \<bar>old_qty\<bar> then
             reduce_position L (pn_id p) old_qty old_entry old_realized (signed_fill is_buy q) q pnl t
           else if q = \<bar>old_qty\<bar> then
             bnd (flat_position L (pn_id p) old_qty old_realized pnl t) (\<lambda>realized.
             ret \<lparr> po_position_id = pn_id p, po_new_quantity = 0, po_new_avg_entry_price = None,
                   po_realized_pnl_btc = realized, po_transition = Closed \<rparr>)
           else
             bnd (flat_position L (pn_id p) old_qty old_realized pnl t) (\<lambda>realized.
             bnd (or_panic (dsub L q \<bar>old_qty\<bar>)) (\<lambda>residual_qty.
             bnd (insert_position i b slv (l_show L (signed_fill is_buy residual_qty))
                    (l_show L price) t) (\<lambda>n.
             ret \<lparr> po_position_id = n, po_new_quantity = signed_fill is_buy residual_qty,
                   po_new_avg_entry_price = Some price, po_realized_pnl_btc = realized,
                   po_transition = Flipped \<rparr>))))) d = (d', Ok out)"
proof -
  have side: "(sign_positive x \<and> is_buy \<or> \<not> sign_positive x \<and> \<not> is_buy) = same_side x is_buy" for x
    by (auto simp: sign_positive_def same_side_def)
  show ?thesis
    using apply_position_body [OF assms(1,2)] assms(1,3) that
    by (auto simp: position_fill_body_def run_simps parse_col_Inr side)
qed

text \<open>The five transitions.\<close>
lemma position_fill_cases:
  assumes nf: "no_faults d"
    and run: "apply_fill_to_position L i b slv is_buy q price t d = (d', Ok out)"
  obtains
    (opened) n where "find (open_row i b) (rev (db_positions d)) = None"
      "insert_position i b slv (l_show L (signed_fill is_buy q)) (l_show L price) t d = (d', Ok n)"
      "po_new_quantity out = signed_fill is_buy q" "po_transition out = Opened"
      "po_realized_pnl_btc out = 0"
  | (added) p old_qty e where "find (open_row i b) (rev (db_positions d)) = Some p"
      "l_parse L (pn_quantity p) = Some old_qty" "same_side old_qty is_buy"
      "d' = d\<lparr> db_positions := update_where (\<lambda>r. pn_id r = pn_id p)
          (added_row L (po_new_quantity out) e t) (db_positions d) \<rparr>"
      "dadd L old_qty (signed_fill is_buy q) = Some (po_new_quantity out)"
      "po_transition out = Added" "po_realized_pnl_btc out = 0"
  | (reduced) p old_qty old_entry pnl x where "find (open_row i b) (rev (db_positions d)) = Some p"
      "l_parse L (pn_quantity p) = Some old_qty" "l_parse L (pn_avg_entry_price p) = Some old_entry"
      "\<not> same_side old_qty is_buy" "q < \<bar>old_qty\<bar>"
      "inverse_pnl_per_contract L old_entry price = Some pnl"
      "d' = d\<lparr> db_positions := update_where (\<lambda>r. pn_id r = pn_id p)
          (reduced_row L (po_new_quantity out) x t) (db_positions d) \<rparr>"
      "dadd L old_qty (signed_fill is_buy q) = Some (po_new_quantity out)"
      "po_transition out = Reduced"
      "dmul L (if sign_positive old_qty then q else - q) pnl = Some (po_realized_pnl_btc out)"
  | (closed) p old_qty old_entry pnl x where "find (open_row i b) (rev (db_positions d)) = Some p"
      "l_parse L (pn_quantity p) = Some old_qty" "l_parse L (pn_avg_entry_price p) = Some old_entry"
      "\<not> same_side old_qty is_buy" "q = \<bar>old_qty\<bar>"
      "inverse_pnl_per_contract L old_entry price = Some pnl"
      "d' = d\<lparr> db_positions := update_where (\<lambda>r. pn_id r = pn_id p) (closed_row L x t) (db_positions d) \<rparr>"
      "po_new_quantity out = 0" "po_transition out = Closed"
      "dmul L old_qty pnl = Some (po_realized_pnl_btc out)"
  | (flipped) p old_qty old_entry pnl x residual n where
      "find (open_row i b) (rev (db_positions d)) = Some p"
      "l_parse L (pn_quantity p) = Some old_qty" "l_parse L (pn_avg_entry_price p) = Some old_entry"
      "\<not> same_side old_qty is_buy" "\<bar>old_qty\<bar> < q"
      "inverse_pnl_per_contract L old_entry price = Some pnl"
      "dsub L q \<bar>old_qty\<bar> = Some residual"
      "insert_position i b slv (l_show L (signed_fill is_buy residual)) (l_show L price) t
         (d\<lparr> db_positions := update_where (\<lambda>r. pn_id r = pn_id p) (closed_row L x t) (db_positions d) \<rparr>)
         = (d', Ok n)"
      "po_new_quantity out = signed_fill is_buy residual" "po_transition out = Flipped"
      "dmul L old_qty pnl = Some (po_realized_pnl_btc out)"
proof (cases "find (open_row i b) (rev (db_positions d))")
  case None
  then show ?thesis
    using apply_position_body [OF nf run] nf opened
    by (auto simp: position_fill_body_def bnd_Ok_iff)
next
  case (Some p)
  then show ?thesis
  proof (rule position_fill_on_row [OF nf run], goal_cases)
    case (1 old_qty old_entry old_realized)
    note p = 1(1,2) and rest = 1(3)
    show ?case
    proof (cases "same_side old_qty is_buy")
      case True
      then show ?thesis using rest add_to_position_Ok [OF nf] added [OF Some p(1)] by force
    next
      case False
      then obtain pnl where pnl: "inverse_pnl_per_contract L old_entry price = Some pnl"
        using rest by (auto simp: run_simps)
      consider "q < \<bar>old_qty\<bar>" | "q = \<bar>old_qty\<bar>" | "\<bar>old_qty\<bar> < q" by linarith
      then show ?thesis
      proof cases
        case 1
        then show ?thesis
          using rest False pnl reduce_position_Ok [OF nf] reduced [OF Some p False 1 pnl] by force
      next
        case 2
        then show ?thesis
          using rest False pnl flat_position_Ok [OF nf] closed [OF Some p False 2 pnl]
          by (force simp: bnd_Ok_iff)
      next
        case 3
        then obtain d1 realized residual n where
          "flat_position L (pn_id p) old_qty old_realized pnl t d = (d1, Ok realized)"
          "dsub L q \<bar>old_qty\<bar> = Some residual"
          "insert_position i b slv (l_show L (signed_fill is_buy residual)) (l_show L price) t d1 = (d', Ok n)"
          "out = \<lparr> po_position_id = n, po_new_quantity = signed_fill is_buy residual,
                     po_new_avg_entry_price = Some price, po_realized_pnl_btc = realized,
                     po_transition = Flipped \<rparr>"
          using rest False pnl by (auto simp: bnd_Ok_iff [of "flat_position _ _ _ _ _ _"] run_simps
              bnd_Ok_iff [of "insert_position _ _ _ _ _ _"])
        then show ?thesis
          using flat_position_Ok [OF nf] flipped [OF Some p False 3 pnl] by force
      qed
    qed
  qed
qed

lemma find_one_row:
  assumes "length (open_rows i b d) \<le> 1"
  shows "find (open_row i b) (rev (db_positions d)) = None \<and> open_rows i b d = [] \<or>
    (\<exists>p. find (open_row i b) (rev (db_positions d)) = Some p \<and> open_rows i b d = [p])"
  using assms find_rev_none [of "open_row i b" "db_positions d"]
    find_rev_one [of "open_row i b" "db_positions d"]
  by (cases "open_rows i b d") (auto simp: open_rows_def)

text \<open>The positions table implements the net position: a fill moves the net by its signed quantity
  and leaves at most one open row, which holds it.\<close>
lemma position_fill_net:
  assumes L: "dec_laws L" "text_laws L" and nf: "no_faults d" and inv: "store_inv d"
    and one: "length (open_rows i b d) \<le> 1"
    and run: "apply_fill_to_position L i b slv is_buy q price t d = (d', Ok out)"
    and exact: "isdec L (net L i b d + signed_fill is_buy q)"
  shows "net L i b d' = net L i b d + signed_fill is_buy q \<and> length (open_rows i b d') \<le> 1 \<and>
     po_new_quantity out = net L i b d'"
  using nf run
proof (cases rule: position_fill_cases)
  case (opened n)
  then have Nil: "open_rows i b d = []" using find_one_row [OF one] by auto
  then have "isdec L (signed_fill is_buy q)" using exact by (simp add: net_def)
  then show ?thesis
    using opened Nil open_rows_insert [OF opened(2) nf, of i b]
    by (simp add: net_def qty_of_def parse_show [OF L(2)])
next
  case (added p old e)
  then have rows: "open_rows i b d = [p]" "open_row i b p"
    using find_one_row [OF one] find_someD [of "open_row i b" "rev (db_positions d)" p] by auto
  then have n: "net L i b d = old" using added(2) by (simp add: net_def qty_of_def)
  then have "po_new_quantity out = old + signed_fill is_buy q" "isdec L (po_new_quantity out)"
    using added(5) exact by (auto simp: dadd_def isdec_def)
  then show ?thesis
    using n rows open_rows_update [OF inv rows(1)] added(4)
    by (simp add: net_def parse_show [OF L(2)])
next
  case (reduced p old entry pnl x)
  then have rows: "open_rows i b d = [p]" "open_row i b p"
    using find_one_row [OF one] find_someD [of "open_row i b" "rev (db_positions d)" p] by auto
  then have n: "net L i b d = old" using reduced(2) by (simp add: net_def qty_of_def)
  then have "po_new_quantity out = old + signed_fill is_buy q" "isdec L (po_new_quantity out)"
    using reduced(8) exact by (auto simp: dadd_def isdec_def)
  then show ?thesis
    using n rows open_rows_update [OF inv rows(1)] reduced(7)
    by (simp add: net_def parse_show [OF L(2)])
next
  case (closed p old entry pnl x)
  then have rows: "open_rows i b d = [p]" using find_one_row [OF one] by auto
  then have n: "net L i b d = old" using closed(2) by (simp add: net_def qty_of_def)
  have "old + signed_fill is_buy q = 0"
    using closed(4,5) by (auto simp: same_side_def signed_fill_def split: if_splits)
  then show ?thesis
    using n open_rows_update [OF inv rows] closed(7,8) by (simp add: net_def)
next
  case (flipped p old entry pnl x residual n)
  then have rows: "open_rows i b d = [p]" using find_one_row [OF one] by auto
  then have n: "net L i b d = old" using flipped(2) by (simp add: net_def qty_of_def)
  have sum: "signed_fill is_buy (q - \<bar>old\<bar>) = old + signed_fill is_buy q"
    using flipped(4) by (auto simp: same_side_def signed_fill_def split: if_splits)
  then have "isdec L (signed_fill is_buy (q - \<bar>old\<bar>))" using exact n by simp
  then have "isdec L (q - \<bar>old\<bar>)"
    by (cases is_buy) (simp_all only: signed_fill_def if_True if_False isdec_neg [OF L(1)])
  then have "residual = q - \<bar>old\<bar>" using flipped(7) by (simp add: dsub_def isdec_def)
  then show ?thesis
    using flipped(9) n sum open_rows_update [OF inv rows] open_rows_insert [OF flipped(8), of i b] nf
      \<open>isdec L (signed_fill is_buy (q - \<bar>old\<bar>))\<close>
    by (simp add: net_def qty_of_def parse_show [OF L(2)])
qed

text \<open>Other instruments and brokers are untouched.\<close>
lemma position_fill_frame:
  assumes nf: "no_faults d" and inv: "store_inv d" and other: "(i', b') \<noteq> (i, b)"
    and run: "apply_fill_to_position L i b slv is_buy q price t d = (d', Ok out)"
  shows "open_rows i' b' d' = open_rows i' b' d"
proof -
  have upd: "open_rows i' b' (d\<lparr> db_positions := update_where (\<lambda>r. pn_id r = pn_id p) f (db_positions d) \<rparr>)
      = open_rows i' b' d"
    if f: "find (open_row i b) (rev (db_positions d)) = Some p"
      and g: "\<And>r. pn_instrument_symbol (f r) = pn_instrument_symbol r"
             "\<And>r. pn_broker (f r) = pn_broker r" for p f
  proof -
    have p: "p \<in> set (db_positions d)" "open_row i b p" using find_someD [OF f] by auto
    have "r = p" if "r \<in> set (db_positions d)" "pn_id r = pn_id p" for r
      using store_ids [OF inv] that p(1) by (meson inj_onD distinct_map)
    then have "\<not> open_row i' b' r \<and> \<not> open_row i' b' (f r)"
      if "r \<in> set (db_positions d)" "pn_id r = pn_id p" for r
      using that p(2) other g by (auto simp: open_row_def)
    then show ?thesis unfolding open_rows_def by (simp add: filter_update_other)
  qed
  show ?thesis
    using nf run
  proof (cases rule: position_fill_cases)
    case (opened n)
    show ?thesis using open_rows_insert [OF opened(2) nf, of i' b'] other by simp
  next
    case (added p old e)
    show ?thesis unfolding added(4) by (rule upd [OF added(1)]) (simp_all add: added_row_def)
  next
    case (reduced p old entry pnl x)
    show ?thesis unfolding reduced(7) by (rule upd [OF reduced(1)]) (simp_all add: reduced_row_def)
  next
    case (closed p old entry pnl x)
    show ?thesis unfolding closed(7) by (rule upd [OF closed(1)]) (simp_all add: closed_row_def)
  next
    case (flipped p old entry pnl x residual n)
    then show ?thesis
      using open_rows_insert [OF flipped(8), of i' b'] other nf upd [OF flipped(1), of "closed_row L x t"]
      by (simp add: closed_row_def [abs_def])
  qed
qed

subsection \<open>The sign of realised profit\<close>

lemma inverse_pnl_mono:
  assumes L: "dec_laws L" and pnl: "inverse_pnl_per_contract L entry exit = Some r"
    and pos: "0 < entry" "0 < exit"
  shows "(entry \<le> exit \<longrightarrow> 0 \<le> r) \<and> (exit \<le> entry \<longrightarrow> r \<le> 0)"
proof -
  obtain a b where a: "l_rnd L (1 / entry) = Some a" and b: "l_rnd L (1 / exit) = Some b"
    and r: "l_rnd L (a - b) = Some r"
    using pnl pos by (auto simp: inverse_pnl_per_contract_def dec_ops do_Some_conv)
  show ?thesis
  proof (intro conjI impI)
    assume "entry \<le> exit"
    then have "b \<le> a" using rnd_mono [OF L b a] pos by (simp add: frac_le)
    then show "0 \<le> r" using rnd_nonneg [OF L r] by simp
  next
    assume "exit \<le> entry"
    then have "a \<le> b" using rnd_mono [OF L a b] pos by (simp add: frac_le)
    then show "r \<le> 0" using rnd_nonpos [OF L r] by simp
  qed
qed

text \<open>A closed long gains when it exits above its entry and a closed short when it exits below;
  opening and adding realise nothing.\<close>
definition gain_sign_ok :: "dec \<Rightarrow> dec \<Rightarrow> dec \<Rightarrow> dec \<Rightarrow> bool" where
  "gain_sign_ok old_qty entry exit realized \<longleftrightarrow>
     (if 0 \<le> old_qty
      then (entry \<le> exit \<longrightarrow> 0 \<le> realized) \<and> (exit \<le> entry \<longrightarrow> realized \<le> 0)
      else (entry \<le> exit \<longrightarrow> realized \<le> 0) \<and> (exit \<le> entry \<longrightarrow> 0 \<le> realized))"

lemma gain_sign_mult:
  assumes L: "dec_laws L" and pnl: "inverse_pnl_per_contract L entry exit = Some pnl"
    and pos: "0 < entry" "0 < exit" and r: "dmul L c pnl = Some realized"
    and c: "if 0 \<le> old_qty then 0 \<le> c else c \<le> 0"
  shows "gain_sign_ok old_qty entry exit realized"
  using inverse_pnl_mono [OF L pnl pos] c r rnd_nonneg [OF L, of "c * pnl" realized]
    rnd_nonpos [OF L, of "c * pnl" realized]
  by (auto simp: gain_sign_ok_def dmul_def mult_nonneg_nonneg mult_nonpos_nonpos
      mult_nonneg_nonpos mult_nonpos_nonneg split: if_splits)

end
