(* ===== verification/Fill_Properties.thy ===== *)
theory Fill_Properties
  imports Fill_Accounting
begin

text \<open>The properties of the fill accounting, over the lemmas of \<^verbatim>\<open>Store\<close> and \<^verbatim>\<open>Fill_Accounting\<close>, with the
  rows their witnesses run on.\<close>

section \<open>Sample rows\<close>

definition sample_order_row :: order_row where
  "sample_order_row = \<lparr> od_id = 1, od_signal_id = None, od_broker = ''k'', od_broker_order_id = Some ''B1'',
     od_instrument_symbol = ''P'', od_side = ''buy'', od_order_type = ''market'',
     od_time_in_force = ''immediate_or_cancel'', od_quantity = show_dec 10, od_limit_price = None,
     od_stop_price = None, od_status = ''submitted'', od_filled_quantity = show_dec 4,
     od_avg_fill_price = Some (show_dec 100), od_fees_paid = show_dec 0, od_created_at = ''t'',
     od_updated_at = ''t'', od_error_message = None, od_cli_ord_id = Some ''c'' \<rparr>"

definition sample_order_db :: db where
  "sample_order_db = db_empty\<lparr> db_orders := [sample_order_row] \<rparr>"

definition sample_position_row :: "dec \<Rightarrow> position_row" where
  "sample_position_row q = \<lparr> pn_id = 1, pn_instrument_symbol = ''P'', pn_broker = ''k'',
     pn_sleeve = ''crypto_leverage'', pn_quantity = show_dec q, pn_avg_entry_price = show_dec 100,
     pn_leverage = ''1'', pn_liquidation_price = None, pn_opened_at = ''t'', pn_updated_at = ''t'',
     pn_closed_at = None, pn_realized_pnl_chf = None, pn_realized_pnl_btc = Some (show_dec 0) \<rparr>"

definition sample_position_db :: "dec \<Rightarrow> db" where
  "sample_position_db q = db_empty\<lparr> db_positions := [sample_position_row q] \<rparr>"

lemma empty_no_faults [simp]: "no_faults db_empty"
  by (simp add: no_faults_def db_empty_def)

lemma lib0_parse_show [simp]: "l_parse lib0 (l_show lib0 x) = Some x"
  using parse_show [OF lib0_text_laws] by (simp add: isdec_def)


section \<open>Orders\<close>

text \<open>C17. A fill on an order, without a database fault: it adds the fill's quantity and fee to the stored ones.
  The price of the order becomes the fill's price when the row has no average or nothing filled, and otherwise
  the average of the stored average and the fill's price, weighted by the two quantities.  The order is
  filled exactly when it was filled already or the total reaches its quantity, otherwise partially filled.
  Exactly these columns of this row are rewritten; no other order and no other table changes, and the
  outcome carries the row's own broker, instrument and side.\<close>
theorem order_fill_effect:
  assumes "no_faults d" "apply_fill_to_order L boid qty price fee now_iso d = (d', Ok (Some out))"
  shows "\<exists>o' quantity filled fees.
     find (\<lambda>r. od_broker_order_id r = Some boid) (db_orders d) = Some o' \<and>
     l_parse L (od_quantity o') = Some quantity \<and> l_parse L (od_filled_quantity o') = Some filled \<and>
     l_parse L (od_fees_paid o') = Some fees \<and>
     dadd L filled qty = Some (fo_new_filled_quantity out) \<and> dadd L fees fee = Some (fo_new_fees_paid out) \<and>
     (case od_avg_fill_price o' of
        None \<Rightarrow> fo_new_avg_fill_price out = price
      | Some text \<Rightarrow> \<exists>avg. l_parse L text = Some avg \<and>
          (if filled = 0 then fo_new_avg_fill_price out = price
           else \<exists>x y s. dmul L filled avg = Some x \<and> dmul L qty price = Some y \<and> dadd L x y = Some s \<and>
                 ddiv L s (fo_new_filled_quantity out) = Some (fo_new_avg_fill_price out))) \<and>
     (fo_is_fully_filled out \<longleftrightarrow> quantity \<le> fo_new_filled_quantity out) \<and>
     fo_new_status out = (if od_status o' = ''filled'' \<or> quantity \<le> fo_new_filled_quantity out then ''filled''
       else ''partially_filled'') \<and>
     fo_order_id out = od_id o' \<and> fo_broker out = od_broker o' \<and> fo_instrument_symbol out = od_instrument_symbol o' \<and>
     od_side o' = (if fo_is_buy out then ''buy'' else ''sell'') \<and>
     d' = d\<lparr> db_orders := map (\<lambda>r. if od_id r = od_id o' then r\<lparr> od_filled_quantity := l_show L (fo_new_filled_quantity out),
         od_avg_fill_price := Some (l_show L (fo_new_avg_fill_price out)), od_fees_paid := l_show L (fo_new_fees_paid out),
         od_status := fo_new_status out, od_updated_at := now_iso \<rparr> else r) (db_orders d) \<rparr>"
proof (rule apply_fill_to_order_spec [OF assms])
  fix o' quantity filled fees avg
  assume row: "order_with_sleeve d boid = Some (o', fo_sleeve out)"
    and parsed: "l_parse L (od_quantity o') = Some quantity" "l_parse L (od_filled_quantity o') = Some filled"
      "l_parse L (od_fees_paid o') = Some fees"
    and avg: "case od_avg_fill_price o' of None \<Rightarrow> avg = None | Some s \<Rightarrow> avg = l_parse L s \<and> avg \<noteq> None"
    and sums: "dadd L filled qty = Some (fo_new_filled_quantity out)"
      "fill_average L filled avg qty price (fo_new_filled_quantity out) = Some (fo_new_avg_fill_price out)"
      "dadd L fees fee = Some (fo_new_fees_paid out)"
    and verdict: "fo_is_fully_filled out \<longleftrightarrow> quantity \<le> fo_new_filled_quantity out"
      "fo_new_status out = (if od_status o' = ''filled'' \<or> fo_is_fully_filled out then ''filled'' else ''partially_filled'')"
    and row_of: "fo_order_id out = od_id o'" "fo_broker out = od_broker o'"
      "fo_instrument_symbol out = od_instrument_symbol o'" "od_side o' = (if fo_is_buy out then ''buy'' else ''sell'')"
    and d': "d' = d\<lparr> db_orders := update_where (\<lambda>r. od_id r = od_id o') (filled_row L out now_iso) (db_orders d) \<rparr>"
  have found: "find (\<lambda>r. od_broker_order_id r = Some boid) (db_orders d) = Some o'"
    using row by (auto simp: order_with_sleeve_def)
  have "case od_avg_fill_price o' of
        None \<Rightarrow> fo_new_avg_fill_price out = price
      | Some text \<Rightarrow> \<exists>avg. l_parse L text = Some avg \<and>
          (if filled = 0 then fo_new_avg_fill_price out = price
           else \<exists>x y s. dmul L filled avg = Some x \<and> dmul L qty price = Some y \<and> dadd L x y = Some s \<and>
                 ddiv L s (fo_new_filled_quantity out) = Some (fo_new_avg_fill_price out))"
    using avg sums(2) by (auto simp: fill_average_def bind_eq_Some_conv split: option.splits if_splits)
  then show ?thesis
    using found parsed sums(1,3) verdict row_of unfolding d' update_where_def filled_row_def
    by (intro exI [of _ o'] exI [of _ quantity] exI [of _ filled] exI [of _ fees] conjI) (assumption | simp only: simp_thms)+
qed

lemma sample_fill_run: "\<exists>d' out. apply_fill_to_order lib0 ''B1'' 6 110 1 t sample_order_db = (d', Ok (Some out)) \<and>
    fo_new_filled_quantity out = 10 \<and> fo_new_avg_fill_price out = 106 \<and> fo_new_status out = ''filled''"
proof -
  have row: "order_with_sleeve sample_order_db ''B1'' = Some (sample_order_row, None)"
    by (simp add: order_with_sleeve_def sample_order_db_def sample_order_row_def)
  have nf: "no_faults sample_order_db" by (simp add: sample_order_db_def)
  have "\<exists>d' out. order_fill_body lib0 ''B1'' 6 110 1 t sample_order_db = (d', Ok (Some out)) \<and>
    fo_new_filled_quantity out = 10 \<and> fo_new_avg_fill_price out = 106 \<and> fo_new_status out = ''filled''"
    by (simp add: order_fill_body_def row nf write_fill_def sample_order_row_def side_is_buy_def
        parse_col_def parse_opt_col_def fill_average_def dec_ops update_order_def Let_def)
  then show ?thesis using apply_fill_to_order_run [OF nf] by blast
qed

theorem order_fill_effect_witness:
  "\<exists>d' out. apply_fill_to_order lib0 ''B1'' 6 110 1 ''u'' sample_order_db = (d', Ok (Some out)) \<and>
     fo_new_filled_quantity out = 10 \<and> fo_new_status out = ''filled''"
proof -
  obtain d' out where r: "apply_fill_to_order lib0 ''B1'' 6 110 1 ''u'' sample_order_db = (d', Ok (Some out))"
    using sample_fill_run by blast
  have nf: "no_faults sample_order_db" by (simp add: sample_order_db_def)
  have "fo_new_filled_quantity out = 10 \<and> fo_new_status out = ''filled''"
    using order_fill_effect [OF nf r]
    by (auto simp: sample_order_db_def sample_order_row_def dadd_def)
  then show ?thesis using r by blast
qed

text \<open>The average fill price stays between the old average and the price of the fill, when the products
  and their sum are representable exactly (only the division may round).\<close>
theorem fill_average_between:
  assumes "dec_laws L" "fill_average L old (Some a) q p (old + q) = Some r" "0 \<le> old" "0 < q"
    and "isdec L a" "isdec L p" "isdec L (old * a)" "isdec L (q * p)" "isdec L (old * a + q * p)"
  shows "min a p \<le> r \<and> r \<le> max a p"
  by (rule fill_average_bounds [OF assms])

theorem fill_average_between_witness: "fill_average lib0 4 (Some 100) 6 110 10 = Some 106 \<and> (106::dec) \<le> max 100 110"
proof -
  have r: "fill_average lib0 4 (Some 100) 6 110 (4 + 6) = Some 106"
    by (simp add: fill_average_def dec_ops)
  show ?thesis
    using fill_average_between [OF lib0_dec_laws r] r by (simp add: isdec_def)
qed

section \<open>Positions\<close>

text \<open>C8. The net position is conserved.  With at most one open row for the instrument and broker, a fill
  moves the net signed quantity by exactly its own signed quantity, in all five transitions, leaves at
  most one open row and reports the new net.\<close>
theorem position_net_conserved:
  assumes "dec_laws L" "text_laws L" "no_faults d" "store_inv d" "length (open_rows i b d) \<le> 1"
    and "apply_fill_to_position L i b slv is_buy q price t d = (d', Ok out)"
    and "isdec L (net L i b d + signed_fill is_buy q)"
  shows "net L i b d' = net L i b d + (if is_buy then q else - q) \<and> length (open_rows i b d') \<le> 1 \<and>
     po_new_quantity out = net L i b d'"
  using position_fill_net [OF assms] by (simp add: signed_fill_def)

lemma sample_position_facts:
  "no_faults (sample_position_db q)" "store_inv (sample_position_db q)"
  "open_rows ''P'' ''k'' (sample_position_db q) = [sample_position_row q]"
  "net lib0 ''P'' ''k'' (sample_position_db q) = q"
  by (simp_all add: sample_position_db_def store_inv_def db_empty_def no_faults_def cli_unique_def
      open_rows_def open_row_def sample_position_row_def net_def qty_of_def)

lemma apply_position_run:
  "no_faults d \<Longrightarrow> position_fill_body L i b slv is_buy q price t d = (d', Ok out) \<Longrightarrow>
   apply_fill_to_position L i b slv is_buy q price t d = (d', Ok out)"
  unfolding apply_fill_to_position_def by (simp add: transaction_Ok keeps_no_faults_position_body)

text \<open>A long of 10 hit by a sale of 15 at 125 closes and reopens short 5.\<close>
lemma sample_flip:
  "\<exists>d' out. apply_fill_to_position lib0 ''P'' ''k'' ''crypto_leverage'' False 15 125 ''u'' (sample_position_db 10)
     = (d', Ok out) \<and> po_transition out = Flipped \<and> po_realized_pnl_btc out = 1 / 50"
proof -
  let ?d = "sample_position_db 10"
  have nf: "no_faults ?d" by (rule sample_position_facts)
  have ex: "find (open_row ''P'' ''k'') (rev (db_positions ?d)) = Some (sample_position_row 10)"
    by (simp add: sample_position_db_def open_row_def sample_position_row_def)
  have row: "pn_quantity (sample_position_row 10) = show_dec 10" "pn_id (sample_position_row 10) = 1"
    "pn_avg_entry_price (sample_position_row 10) = show_dec 100"
    "parse_realized lib0 (pn_realized_pnl_btc (sample_position_row 10)) = Inr 0"
    by (simp_all add: sample_position_row_def parse_realized_def parse_col_def)
  have pnl: "inverse_pnl_per_contract lib0 100 125 = Some (1 / 500)"
    by (simp add: inverse_pnl_per_contract_def dec_ops)
  obtain d1 where f: "flat_position lib0 1 10 0 (1 / 500) ''u'' ?d = (d1, Ok (1 / 50))" "no_faults d1"
    using nf by (auto simp: flat_position_def update_position_def dec_ops)
  have "\<exists>d' out. position_fill_body lib0 ''P'' ''k'' ''crypto_leverage'' False 15 125 ''u'' ?d
     = (d', Ok out) \<and> po_transition out = Flipped \<and> po_realized_pnl_btc out = 1 / 50"
    by (simp add: position_fill_body_def nf ex row pnl parse_col_def sign_positive_def
        bnd_eq [of "flat_position lib0 1 10 0 (1 / 500) ''u''", OF f(1)] dec_ops
        bnd_def [of "insert_position _ _ _ _ _ _"])
      (simp add: insert_position_def Let_def f(2))
  then show ?thesis using apply_position_run [OF sample_position_facts(1)] by blast
qed

theorem position_net_conserved_witness:
  "\<exists>d' out. apply_fill_to_position lib0 ''P'' ''k'' ''crypto_leverage'' False 15 125 ''u'' (sample_position_db 10)
     = (d', Ok out) \<and> net lib0 ''P'' ''k'' d' = - 5 \<and> po_new_quantity out = - 5"
proof -
  obtain d' out where r: "apply_fill_to_position lib0 ''P'' ''k'' ''crypto_leverage'' False 15 125 ''u''
      (sample_position_db 10) = (d', Ok out)" using sample_flip by blast
  have "length (open_rows ''P'' ''k'' (sample_position_db 10)) \<le> 1" by (simp add: sample_position_facts)
  from position_net_conserved [OF lib0_dec_laws lib0_text_laws sample_position_facts(1,2) this r]
  show ?thesis using r by (simp add: sample_position_facts isdec_def signed_fill_def)
qed

text \<open>A fill leaves every other instrument and broker alone: their open rows are the same.\<close>
theorem position_fill_isolated:
  assumes "no_faults d" "store_inv d" "i' \<noteq> i \<or> b' \<noteq> b"
    and "apply_fill_to_position L i b slv is_buy q price t d = (d', Ok out)"
  shows "open_rows i' b' d' = open_rows i' b' d \<and> db_orders d' = db_orders d \<and>
     db_signals d' = db_signals d \<and> db_applied d' = db_applied d"
proof -
  have "db_orders d' = db_orders d \<and> db_signals d' = db_signals d \<and> db_applied d' = db_applied d"
    using assms(1,4)
    by (cases rule: position_fill_cases) (auto dest: insert_position_others)
  then show ?thesis using position_fill_frame [OF assms(1,2) _ assms(4)] assms(3) by blast
qed

theorem position_fill_isolated_witness:
  "\<exists>d' out. apply_fill_to_position lib0 ''P'' ''k'' ''crypto_leverage'' False 15 125 ''u'' (sample_position_db 10)
     = (d', Ok out) \<and> open_rows ''Q'' ''k'' d' = []"
proof -
  obtain d' out where r: "apply_fill_to_position lib0 ''P'' ''k'' ''crypto_leverage'' False 15 125 ''u''
      (sample_position_db 10) = (d', Ok out)" using sample_flip by blast
  have "open_rows ''Q'' ''k'' (sample_position_db 10) = []"
    by (simp add: open_rows_def sample_position_db_def open_row_def sample_position_row_def)
  then show ?thesis
    using position_fill_isolated [OF sample_position_facts(1,2) _ r, of "''Q''" "''k''"] r by auto
qed

text \<open>The sign of realised profit: closing any part of a long gains when it exits above its entry
  price and loses below, closing a short the other way round, and opening or adding realises nothing.\<close>
theorem realised_profit_sign:
  assumes "dec_laws L" "no_faults d" "0 \<le> q" "0 < price"
    and "apply_fill_to_position L i b slv is_buy q price t d = (d', Ok out)"
  shows "po_transition out \<in> {Opened, Added} \<and> po_realized_pnl_btc out = 0 \<or>
     (\<exists>p \<in> set (db_positions d). \<exists>old_qty entry. open_row i b p \<and>
        l_parse L (pn_quantity p) = Some old_qty \<and> l_parse L (pn_avg_entry_price p) = Some entry \<and>
        (0 < entry \<longrightarrow> gain_sign_ok old_qty entry price (po_realized_pnl_btc out)))"
  using assms(2,5)
proof (cases rule: position_fill_cases)
  case (reduced p old entry pnl x)
  have "gain_sign_ok old entry price (po_realized_pnl_btc out)" if "0 < entry"
    using gain_sign_mult [OF assms(1) reduced(6) that assms(4) reduced(10)] assms(3)
    by (simp add: sign_positive_def)
  then show ?thesis using reduced(1-3) find_someD [OF reduced(1)] by auto
next
  case (closed p old entry pnl x)
  have "gain_sign_ok old entry price (po_realized_pnl_btc out)" if "0 < entry"
    using gain_sign_mult [OF assms(1) closed(6) that assms(4) closed(10)] by simp
  then show ?thesis using closed(1-3) find_someD [OF closed(1)] by auto
next
  case (flipped p old entry pnl x residual n)
  have "gain_sign_ok old entry price (po_realized_pnl_btc out)" if "0 < entry"
    using gain_sign_mult [OF assms(1) flipped(6) that assms(4) flipped(11)] by simp
  then show ?thesis using flipped(1-3) find_someD [OF flipped(1)] by auto
qed simp_all

theorem realised_profit_sign_witness:
  "\<exists>d' out. apply_fill_to_position lib0 ''P'' ''k'' ''crypto_leverage'' False 15 125 ''u'' (sample_position_db 10)
     = (d', Ok out) \<and> gain_sign_ok 10 100 125 (po_realized_pnl_btc out)"
proof -
  obtain d' out where r: "apply_fill_to_position lib0 ''P'' ''k'' ''crypto_leverage'' False 15 125 ''u''
      (sample_position_db 10) = (d', Ok out)" "po_transition out = Flipped" using sample_flip by blast
  have "db_positions (sample_position_db 10) = [sample_position_row 10]"
    by (simp add: sample_position_db_def)
  then show ?thesis
    using realised_profit_sign [OF lib0_dec_laws sample_position_facts(1) _ _ r(1)] r
    by (auto simp: sample_position_row_def)
qed

section \<open>Transactions\<close>

text \<open>The same tables when no statement fails, and the operations that swallow no failure: what reports success
  has done all that it does when nothing fails.\<close>
definition faultless :: "db \<Rightarrow> db" where
  "faultless d = d\<lparr> db_faults := [] \<rparr>"

definition no_swallow :: "'a dbio \<Rightarrow> bool" where
  "no_swallow m \<longleftrightarrow> (\<forall>d d' a. m d = (d', Ok a) \<longrightarrow> m (faultless d) = (faultless d', Ok a))"

lemma no_swallowD: "no_swallow m \<Longrightarrow> m d = (d', Ok a) \<Longrightarrow> m (faultless d) = (faultless d', Ok a)"
  by (simp add: no_swallow_def)

lemma no_swallow_pure: "no_swallow (ret a)" "no_swallow (or_panic x)" "no_swallow (or_fail y)"
  by (auto simp: no_swallow_def or_panic_def or_fail_def split: option.splits sum.splits)

lemma no_swallow_bnd: "no_swallow m \<Longrightarrow> (\<And>a. no_swallow (k a)) \<Longrightarrow> no_swallow (bnd m k)"
  unfolding no_swallow_def bnd_Ok_iff by blast

lemma faultless_reads: "db_orders (faultless d) = db_orders d" "db_positions (faultless d) = db_positions d"
  "db_signals (faultless d) = db_signals d" "order_with_sleeve (faultless d) i = order_with_sleeve d i"
  by (simp_all add: faultless_def order_with_sleeve_def cong: option.case_cong)

lemma no_swallow_stmt:
  assumes "no_swallow m"
  shows "no_swallow (stmt m)"
  unfolding no_swallow_def
proof (intro allI impI)
  fix d d' a
  assume run: "stmt m d = (d', Ok a)"
  then obtain fs where "m (d\<lparr> db_faults := fs \<rparr>) = (d', Ok a)"
  proof (cases "db_faults d")
    case Nil
    then show ?thesis using run that [of "[]"] by (simp add: stmt_def) (metis db.surjective db.update_convs(11))
  next
    case (Cons failing fs)
    then show ?thesis using run that [of fs] by (cases failing) (simp_all add: stmt_def)
  qed
  from no_swallowD [OF assms this] have "m (faultless d) = (faultless d', Ok a)" by (simp add: faultless_def)
  then show "stmt m (faultless d) = (faultless d', Ok a)" by (simp add: stmt_def faultless_def)
qed

lemma no_swallow_query: "(\<And>d. f (faultless d) = f d) \<Longrightarrow> no_swallow (query f)"
  unfolding query_def by (rule no_swallow_stmt) (simp add: no_swallow_def gets_def)

lemma no_swallow_exec: "(\<And>d. f (faultless d) = faultless (f d)) \<Longrightarrow> no_swallow (exec f)"
  unfolding exec_def by (rule no_swallow_stmt) (simp add: no_swallow_def modify_def)

lemma no_swallow_transaction:
  assumes "no_swallow m"
  shows "no_swallow (transaction m)"
proof -
  let ?c = "bnd m (\<lambda>a. bnd (stmt (ret ())) (\<lambda>_. ret a))"
  have c: "no_swallow ?c" by (intro no_swallow_bnd no_swallow_pure no_swallow_stmt assms)
  have "no_swallow (\<lambda>d. case ?c d of (d', Ok a) \<Rightarrow> (d', Ok a) | (d', r) \<Rightarrow> (d\<lparr> db_faults := db_faults d' \<rparr>, r))"
    unfolding no_swallow_def by (auto split: prod.splits res.splits dest: no_swallowD [OF c])
  then show ?thesis
    unfolding transaction_def by (intro no_swallow_bnd no_swallow_stmt no_swallow_pure)
qed

lemma no_swallow_if: "no_swallow m \<Longrightarrow> no_swallow n \<Longrightarrow> no_swallow (if b then m else n)"
  by simp

lemma no_swallow_option: "no_swallow m \<Longrightarrow> (\<And>a. no_swallow (k a)) \<Longrightarrow> no_swallow (case x of None \<Rightarrow> m | Some a \<Rightarrow> k a)"
  by (cases x) simp_all

lemma no_swallow_prod: "(\<And>a b. no_swallow (k a b)) \<Longrightarrow> no_swallow (case x of (a, b) \<Rightarrow> k a b)"
  by (cases x) simp

lemma no_swallow_rows:
  "no_swallow (update_order P f)" "no_swallow (update_position i g)" "no_swallow (insert_position i' b s q e t)"
  unfolding update_order_def update_position_def insert_position_def
  by (rule no_swallow_exec, simp add: faultless_def)+
    (rule no_swallow_stmt, simp add: no_swallow_def faultless_def Let_def)

lemmas no_swallow_intro = no_swallow_pure no_swallow_bnd no_swallow_if no_swallow_option no_swallow_prod no_swallow_rows
  no_swallow_query no_swallow_transaction

lemma no_swallow_fills:
  "no_swallow (apply_fill_to_order L boid qty price fee t)"
  "no_swallow (apply_fill_to_position L i b slv is_buy qty price t)"
  unfolding apply_fill_to_order_def order_fill_body_def write_fill_def Let_def
    apply_fill_to_position_def position_fill_body_def add_to_position_def reduce_position_def flat_position_def
  by (intro no_swallow_intro; simp add: faultless_reads)+

text \<open>C35. A fill takes effect in full or not at all, whichever of its statements fail.  When applying it to an
  order or to a position reports success, the tables and the outcome are those of a run in which no statement
  fails: no statement of the body fails unnoticed, so a position is never closed without its residue being
  opened.  In every other case, also when a column does not parse or the arithmetic panics, no table has
  changed; that a transaction that is not committed leaves nothing is what SQLite promises.\<close>
theorem fill_all_or_nothing:
  assumes "apply_fill_to_order L boid qty price fee t d = (d1, r1)"
    and "apply_fill_to_position L i b slv is_buy qty price t d = (d2, r2)"
  shows "(\<forall>out. r1 = Ok out \<longrightarrow>
      apply_fill_to_order L boid qty price fee t (d\<lparr> db_faults := [] \<rparr>) = (d1\<lparr> db_faults := [] \<rparr>, Ok out)) \<and>
    (\<forall>out. r2 = Ok out \<longrightarrow>
      apply_fill_to_position L i b slv is_buy qty price t (d\<lparr> db_faults := [] \<rparr>) = (d2\<lparr> db_faults := [] \<rparr>, Ok out)) \<and>
    ((\<forall>out. r1 \<noteq> Ok out) \<longrightarrow> d1 = d\<lparr> db_faults := db_faults d1 \<rparr>) \<and>
    ((\<forall>out. r2 \<noteq> Ok out) \<longrightarrow> d2 = d\<lparr> db_faults := db_faults d2 \<rparr>)"
proof (intro conjI impI allI)
  show "apply_fill_to_order L boid qty price fee t (d\<lparr> db_faults := [] \<rparr>) = (d1\<lparr> db_faults := [] \<rparr>, Ok out)"
    if "r1 = Ok out" for out
    using no_swallowD [OF no_swallow_fills(1), of _ _ _ _ _ _ d d1 out] assms(1) that by (simp add: faultless_def)
  show "apply_fill_to_position L i b slv is_buy qty price t (d\<lparr> db_faults := [] \<rparr>) = (d2\<lparr> db_faults := [] \<rparr>, Ok out)"
    if "r2 = Ok out" for out
    using no_swallowD [OF no_swallow_fills(2), of _ _ _ _ _ _ _ _ d d2 out] assms(2) that by (simp add: faultless_def)
  show "d1 = d\<lparr> db_faults := db_faults d1 \<rparr>" if "\<forall>out. r1 \<noteq> Ok out"
    using assms(1) that unfolding apply_fill_to_order_def by (rule transaction_atomic)
  show "d2 = d\<lparr> db_faults := db_faults d2 \<rparr>" if "\<forall>out. r2 \<noteq> Ok out"
    using assms(2) that unfolding apply_fill_to_position_def by (rule transaction_atomic)
qed

text \<open>A sale of 15 against a long of 10 closes the position, and the opening of the short of 5 fails.\<close>
definition half_flip_db :: db where
  "half_flip_db = (sample_position_db 10)\<lparr> db_faults := [False, False, False, True] \<rparr>"

theorem fill_all_or_nothing_witness:
  "\<exists>d2. apply_fill_to_position lib0 ''P'' ''k'' ''crypto_leverage'' False 15 125 ''u'' half_flip_db
     = (d2, Err (PSql SqlIo)) \<and> db_positions d2 = [sample_position_row 10]"
proof -
  let ?d = "sample_position_db 10"
  have step: "db_faults e = False # fs \<Longrightarrow> bnd (stmt m) k e = bnd m k (e\<lparr> db_faults := fs \<rparr>)"
    "db_faults e = True # fs \<Longrightarrow> bnd (stmt m) k e = (e\<lparr> db_faults := fs \<rparr>, Err (PSql SqlIo))"
    "bnd (gets f) l e = l (f e) e" "bnd (modify g) n e = n () (g e)"
    for m :: "'x dbio" and k :: "'x \<Rightarrow> 'y dbio" and e fs f and l :: "'z \<Rightarrow> 'y dbio" and g and n :: "unit \<Rightarrow> 'y dbio"
    by (simp_all add: bnd_def stmt_def)
  have ex: "find (open_row ''P'' ''k'') (rev (db_positions ?d)) = Some (sample_position_row 10)"
    by (simp add: sample_position_db_def open_row_def sample_position_row_def)
  have row: "pn_quantity (sample_position_row 10) = show_dec 10" "pn_id (sample_position_row 10) = 1"
    "pn_avg_entry_price (sample_position_row 10) = show_dec 100"
    "parse_realized lib0 (pn_realized_pnl_btc (sample_position_row 10)) = Inr 0"
    by (simp_all add: sample_position_row_def parse_realized_def parse_col_def)
  have pnl: "inverse_pnl_per_contract lib0 100 125 = Some (1 / 500)"
    by (simp add: inverse_pnl_per_contract_def dec_ops)
  have "\<exists>d'. position_fill_body lib0 ''P'' ''k'' ''crypto_leverage'' False 15 125 ''u''
      (?d\<lparr> db_faults := [False, False, True] \<rparr>) = (d', Err (PSql SqlIo))"
    by (simp add: position_fill_body_def query_def flat_position_def update_position_def exec_def insert_position_def
        step bnd_assoc ex row pnl parse_col_def sign_positive_def dec_ops)
  then obtain d2 where r: "apply_fill_to_position lib0 ''P'' ''k'' ''crypto_leverage'' False 15 125 ''u'' half_flip_db
      = (d2, Err (PSql SqlIo))"
    unfolding half_flip_db_def apply_fill_to_position_def transaction_def by (auto simp: step bnd_assoc) (auto simp: bnd_def half_flip_db_def stmt_def)
  obtain d1 r1 where "apply_fill_to_order lib0 [] 15 125 0 ''u'' half_flip_db = (d1, r1)" by fastforce
  from fill_all_or_nothing [OF this r] have "d2 = half_flip_db\<lparr> db_faults := db_faults d2 \<rparr>" by blast
  then have "db_positions d2 = db_positions half_flip_db"
    by (metis (no_types, lifting) db.select_convs(3) db.surjective db.update_convs(11))
  with r show ?thesis by (simp add: half_flip_db_def sample_position_db_def)
qed

text \<open>Reading the open positions fails as soon as there is one: the query leaves out a column the row
  type needs, so \<^verbatim>\<open>Database::open_positions\<close> succeeds only on an empty result.\<close>
theorem open_positions_unusable:
  assumes "no_faults d"
  shows "snd (open_positions d) = (if \<forall>p \<in> set (db_positions d). pn_closed_at p \<noteq> None then Ok []
     else Err (PSql (SqlNoColumn ''realized_pnl_btc'')))"
proof -
  have "sort_key pn_sleeve (sort_key pn_instrument_symbol (filter (\<lambda>p. pn_closed_at p = None) (db_positions d))) = []
      \<longleftrightarrow> (\<forall>p \<in> set (db_positions d). pn_closed_at p \<noteq> None)"
    by (metis (mono_tags, lifting) filter_empty_conv set_empty set_sort)
  then show ?thesis using assms by (simp add: open_positions_def Let_def)
qed

theorem open_positions_unusable_witness:
  "snd (open_positions (sample_position_db 10)) = Err (PSql (SqlNoColumn ''realized_pnl_btc''))"
  using open_positions_unusable [OF sample_position_facts(1), of 10]
  by (simp add: sample_position_db_def sample_position_row_def)

end
