(* ===== verification/Json_Encoding.thy ===== *)
theory Json_Encoding
  imports Checklist Kill_Switch
begin

text \<open>The text forms the daemon stores: the snake-case names of the enums (\<^verbatim>\<open>serde(rename_all)\<close>,
  \<^verbatim>\<open>enum_to_snake_case\<close> of \<^verbatim>\<open>crates/rt-daemon/src/signal_processor.rs\<close>) and the JSON values of check
  outcomes, kill-switch reasons and portfolios (\<^verbatim>\<open>derive(Serialize)\<close>; a decimal is a string, an object of
  \<^verbatim>\<open>json!\<close> has its keys sorted).\<close>

section \<open>Enum names\<close>

fun side_text :: "side \<Rightarrow> string" where
  "side_text Buy = ''buy''"
| "side_text Sell = ''sell''"

fun sleeve_text :: "sleeve \<Rightarrow> string" where
  "sleeve_text CryptoSpot = ''crypto_spot''"
| "sleeve_text Etf = ''etf''"
| "sleeve_text CryptoLeverage = ''crypto_leverage''"
| "sleeve_text CashYield = ''cash_yield''"

fun signal_type_text :: "signal_type \<Rightarrow> string" where
  "signal_type_text SpotAccumulation = ''spot_accumulation''"
| "signal_type_text TrendEntry = ''trend_entry''"
| "signal_type_text TrendExit = ''trend_exit''"
| "signal_type_text Rebalance = ''rebalance''"

fun signal_status_text :: "signal_status \<Rightarrow> string" where
  "signal_status_text SPending = ''pending''"
| "signal_status_text SProcessed = ''processed''"
| "signal_status_text SRejected = ''rejected''"
| "signal_status_text SFailed = ''failed''"
| "signal_status_text SCancelled = ''cancelled''"

fun mode_text :: "execution_mode \<Rightarrow> string" where
  "mode_text DryRun = ''dry_run''"
| "mode_text Paper = ''paper''"
| "mode_text Live = ''live''"

fun order_type_text :: "order_type \<Rightarrow> string" where
  "order_type_text Market = ''market''"
| "order_type_text Limit = ''limit''"
| "order_type_text PostOnly = ''post_only''"
| "order_type_text StopMarket = ''stop_market''"
| "order_type_text StopLimit = ''stop_limit''"

text \<open>\<^verbatim>\<open>GoodForSeconds(n)\<close> is an object; trimming quotes off its text changes nothing.\<close>
fun tif_text :: "time_in_force \<Rightarrow> string" where
  "tif_text Gtc = ''gtc''"
| "tif_text Ioc = ''ioc''"
| "tif_text Fok = ''fok''"
| "tif_text (GoodForSeconds n) =
     CHR ''{'' # CHR 0x22 # ''good_for_seconds'' @ [CHR 0x22, CHR '':''] @ show_nat (unat n) @ ''}''"

text \<open>Reading an enum from a column: \<^verbatim>\<open>None\<close> when no variant has the name.\<close>
definition variant_of :: "('a \<Rightarrow> string) \<Rightarrow> 'a list \<Rightarrow> string \<Rightarrow> 'a option" where
  "variant_of name vs s = find (\<lambda>v. name v = s) vs"

definition parse_signal_type :: "string \<Rightarrow> signal_type option" where
  "parse_signal_type = variant_of signal_type_text [SpotAccumulation, TrendEntry, TrendExit, Rebalance]"

definition parse_sleeve :: "string \<Rightarrow> sleeve option" where
  "parse_sleeve = variant_of sleeve_text [CryptoSpot, Etf, CryptoLeverage, CashYield]"

definition parse_signal_status :: "string \<Rightarrow> signal_status option" where
  "parse_signal_status =
     variant_of signal_status_text [SPending, SProcessed, SRejected, SFailed, SCancelled]"

lemma parse_signal_type_text [simp]: "parse_signal_type (signal_type_text t) = Some t"
  by (cases t) (simp_all add: parse_signal_type_def variant_of_def)

lemma parse_sleeve_text [simp]: "parse_sleeve (sleeve_text s) = Some s"
  by (cases s) (simp_all add: parse_sleeve_def variant_of_def)

lemma parse_signal_status_text [simp]: "parse_signal_status (signal_status_text st) = Some st"
  by (cases st) (simp_all add: parse_signal_status_def variant_of_def)

lemma variant_of_Some: "variant_of name vs s = Some v \<Longrightarrow> name v = s"
  by (induction vs) (auto simp: variant_of_def split: if_splits)

section \<open>JSON values\<close>

definition dec_json :: "lib \<Rightarrow> dec \<Rightarrow> json" where
  "dec_json L x = JStr (l_show L x)"

definition opt_json :: "('a \<Rightarrow> json) \<Rightarrow> 'a option \<Rightarrow> json" where
  "opt_json f x = (case x of None \<Rightarrow> JNull | Some a \<Rightarrow> f a)"

definition kinded :: "string \<Rightarrow> (string \<times> json) list \<Rightarrow> json" where
  "kinded k kvs = JObj ((''kind'', JStr k) # kvs)"

fun reason_json :: "lib \<Rightarrow> rejection_reason \<Rightarrow> json" where
  "reason_json L (StaleMarketData age limit) = kinded ''stale_market_data''
     [(''last_tick_age_ms'', JNum (show_u64 age)), (''limit_ms'', JNum (show_u64 limit))]"
| "reason_json L (SpreadTooWide b limit) = kinded ''spread_too_wide''
     [(''spread_bps'', dec_json L b), (''limit_bps'', dec_json L limit)]"
| "reason_json L (InsufficientLiquidity req av sd) = kinded ''insufficient_liquidity''
     [(''required_qty'', dec_json L req), (''available_qty'', dec_json L av), (''side'', JStr sd)]"
| "reason_json L (VolatilityTooHighForLeverage a limit) = kinded ''volatility_too_high_for_leverage''
     [(''atr_pct'', dec_json L a), (''limit_pct'', dec_json L limit)]"
| "reason_json L (VolatilityAbsoluteHalt a limit) = kinded ''volatility_absolute_halt''
     [(''atr_pct'', dec_json L a), (''limit_pct'', dec_json L limit)]"
| "reason_json L (LeverageEffectivePnlBudgetExhausted e r u b) =
     kinded ''leverage_effective_pnl_budget_exhausted''
     [(''effective_pnl_chf'', dec_json L e), (''realized_pnl_chf'', dec_json L r),
      (''unrealized_pnl_chf'', dec_json L u), (''budget_chf'', dec_json L b)]"
| "reason_json L (PortfolioDrawdownExceeded d limit) = kinded ''portfolio_drawdown_exceeded''
     [(''drawdown_fraction'', dec_json L d), (''limit_fraction'', dec_json L limit)]"
| "reason_json L (WorstCaseLossWouldExhaustBudget p r) = kinded ''worst_case_loss_would_exhaust_budget''
     [(''projected_loss_chf'', dec_json L p), (''remaining_budget_chf'', dec_json L r)]"
| "reason_json L (FundingRateTooExpensive r limit) = kinded ''funding_rate_too_expensive''
     [(''rate_per_8h'', dec_json L r), (''limit_per_8h'', dec_json L limit)]"
| "reason_json L (LeverageCapExceeded q cap) = kinded ''leverage_cap_exceeded''
     [(''requested'', dec_json L q), (''cap'', dec_json L cap)]"
| "reason_json L (NotionalTooLarge n limit) = kinded ''notional_too_large''
     [(''notional_chf'', dec_json L n), (''limit_chf'', dec_json L limit)]"
| "reason_json L (DuplicatePositionOpen i sd q) = kinded ''duplicate_position_open''
     [(''instrument_symbol'', JStr i), (''side'', JStr sd), (''existing_quantity'', dec_json L q)]"
| "reason_json L (LiquidationTooClose i d m) = kinded ''liquidation_too_close''
     [(''instrument_symbol'', JStr i), (''distance_atrs'', dec_json L d),
      (''min_required_atrs'', dec_json L m)]"
| "reason_json L KillSwitchActive = kinded ''kill_switch_active'' []"
| "reason_json L (InvalidSignal d) = kinded ''invalid_signal'' [(''detail'', JStr d)]"

fun outcome_json :: "lib \<Rightarrow> check_outcome \<Rightarrow> json" where
  "outcome_json L Approved = JStr ''Approved''"
| "outcome_json L (Rejected r) = JObj [(''Rejected'', reason_json L r)]"
| "outcome_json L NotApplicable = JStr ''NotApplicable''"

definition outcomes_json :: "lib \<Rightarrow> (string \<times> check_outcome) list \<Rightarrow> json" where
  "outcomes_json L os = JArr (map (\<lambda>(i, o'). JArr [JStr i, outcome_json L o']) os)"

fun kill_reason_json :: "lib \<Rightarrow> kill_switch_reason \<Rightarrow> json" where
  "kill_reason_json L (LifetimeRealisedLossBudgetExhausted p b) =
     kinded ''lifetime_realised_loss_budget_exhausted''
     [(''realized_pnl_chf'', dec_json L p), (''budget_chf'', dec_json L b)]"
| "kill_reason_json L (EffectivePnlBudgetExhausted e t) = kinded ''effective_pnl_budget_exhausted''
     [(''effective_pnl_chf'', dec_json L e), (''threshold_chf'', dec_json L t)]"
| "kill_reason_json L (PortfolioDrawdown d limit) = kinded ''portfolio_drawdown''
     [(''drawdown_fraction'', dec_json L d), (''limit_fraction'', dec_json L limit)]"
| "kill_reason_json L (ManualTrigger who) = kinded ''manual_trigger'' [(''operator'', JStr who)]"

definition sleeve_state_json :: "lib \<Rightarrow> sleeve_state \<Rightarrow> json" where
  "sleeve_state_json L s = JObj [(''sleeve'', JStr (sleeve_text (ss_sleeve s))),
     (''market_value_chf'', dec_json L (ss_market_value_chf s)), (''cash_chf'', dec_json L (ss_cash_chf s)),
     (''realized_pnl_lifetime_chf'', dec_json L (ss_realized_pnl_lifetime_chf s)),
     (''unrealized_pnl_chf'', dec_json L (ss_unrealized_pnl_chf s))]"

definition open_position_json :: "lib \<Rightarrow> open_position \<Rightarrow> json" where
  "open_position_json L p = JObj [(''instrument_symbol'', JStr (op_instrument_symbol p)),
     (''sleeve'', JStr (sleeve_text (op_sleeve p))), (''quantity'', dec_json L (op_quantity p)),
     (''avg_entry_price'', opt_json (dec_json L) (op_avg_entry_price p)),
     (''liquidation_price'', opt_json (dec_json L) (op_liquidation_price p)),
     (''leverage'', opt_json (dec_json L) (op_leverage p))]"

definition portfolio_json :: "lib \<Rightarrow> portfolio \<Rightarrow> json" where
  "portfolio_json L pf = JObj [(''snapshot_at'', JStr (l_serde_time L (pf_snapshot_at pf))),
     (''sleeves'', JArr (map (sleeve_state_json L) (pf_sleeves pf))),
     (''nav_per_unit'', dec_json L (pf_nav_per_unit pf)),
     (''nav_hwm_per_unit'', dec_json L (pf_nav_hwm_per_unit pf)),
     (''total_units'', dec_json L (pf_total_units pf)),
     (''kill_switch_active'', JBool (pf_kill_switch_active pf)),
     (''open_positions'', JArr (map (open_position_json L) (pf_open_positions pf)))]"

end
