(* ===== verification/World.thy ===== *)
theory World
  imports Store Feeds Json_Encoding
begin

text \<open>What the tasks of the daemon share: the database, the feeds, the clock and the broker.  The broker
  (\<^verbatim>\<open>crates/rt-execution/src/lib.rs\<close> gives its interface) is outside the program: each of its calls
  returns the next answer of a script, together with the time the call took, and every order handed to
  it is recorded.  The watermark of the fill reconciler lives here too.  A script that has run out answers with a timeout.  Time passes only during calls to
  the broker.  The operations of the tasks run one after another.\<close>

section \<open>The interface of the broker\<close>

datatype exec_error =
    ERejected string
  | EInvalidResponse string
  | ENetwork string
  | ETimeout "64 word"
  | ERateLimited "64 word"
  | EAuthentication string
  | EInsufficientMargin string
  | EUnsupported string

fun exec_error_text :: "exec_error \<Rightarrow> string" where
  "exec_error_text (ERejected m) = ''broker rejected order: '' @ m"
| "exec_error_text (EInvalidResponse m) = ''broker returned invalid data: '' @ m"
| "exec_error_text (ENetwork m) = ''network error: '' @ m"
| "exec_error_text (ETimeout s) = ''timeout after '' @ show_u64 s @ ''s''"
| "exec_error_text (ERateLimited ms) = ''broker rate-limited us: retry after '' @ show_u64 ms @ '' ms''"
| "exec_error_text (EAuthentication m) = ''authentication failed: '' @ m"
| "exec_error_text (EInsufficientMargin m) = ''insufficient margin: '' @ m"
| "exec_error_text (EUnsupported m) = ''operation not supported by this broker: '' @ m"

record submission_result =
  sb_broker_order_id :: string
  sb_status :: order_status
  sb_submitted_at :: time

record open_order_summary =
  os_broker_order_id :: string
  os_instrument_symbol :: string
  os_status :: order_status
  os_quantity :: dec
  os_filled_quantity :: dec
  os_limit_price :: "dec option"
  os_cli_ord_id :: "string option"

type_synonym 'a answer = "nat \<times> (exec_error + 'a)"

section \<open>The world\<close>

record world =
  w_db :: db
  w_feeds :: feeds
  w_now :: time
  w_submits :: "submission_result answer list"
  w_lookups :: "open_order_summary option answer list"
  w_listings :: "open_order_summary list answer list"
  w_sent :: "order list"
  w_applied_seq :: "64 word"

text \<open>\<^verbatim>\<open>anyhow::Error\<close>: a message, or an error of the store or broker passed on.\<close>
datatype derr = EText string | EStore perr | EBroker exec_error

type_synonym 'a dio = "(world, derr, 'a) io"

fun perr_text :: "lib \<Rightarrow> perr \<Rightarrow> string" where
  "perr_text L (PSql e) = ''SQL error: '' @ l_sql_err L e"
| "perr_text L (PDecimal m) = ''Decimal parse error: '' @ m"
| "perr_text L PJson = ''JSON decode error: ''"
| "perr_text L (PInvalidEnum c v) = ''Invalid enum value for column '' @ c @ '': '' @ v"

fun derr_text :: "lib \<Rightarrow> derr \<Rightarrow> string" where
  "derr_text L (EText m) = m"
| "derr_text L (EStore e) = perr_text L e"
| "derr_text L (EBroker e) = exec_error_text e"

text \<open>A call to the database, with the \<^verbatim>\<open>?\<close> that converts its error.\<close>
definition lift_with :: "(perr \<Rightarrow> derr) \<Rightarrow> 'a dbio \<Rightarrow> 'a dio" where
  "lift_with f m = (\<lambda>w. case m (w_db w) of
      (d, Ok a) \<Rightarrow> (w\<lparr> w_db := d \<rparr>, Ok a)
    | (d, Err e) \<Rightarrow> (w\<lparr> w_db := d \<rparr>, Err (f e))
    | (d, Panic) \<Rightarrow> (w\<lparr> w_db := d \<rparr>, Panic))"

definition sql :: "'a dbio \<Rightarrow> 'a dio" where
  "sql m = lift_with EStore m"

text \<open>\<^verbatim>\<open>.context(message)\<close>\<close>
definition sql_context :: "string \<Rightarrow> 'a dbio \<Rightarrow> 'a dio" where
  "sql_context msg m = lift_with (\<lambda>e. EText msg) m"

definition clock :: "time dio" where
  "clock = gets w_now"

definition now_iso :: "lib \<Rightarrow> string dio" where
  "now_iso L = gets (\<lambda>w. canonical_iso L (w_now w))"

definition seconds :: "int \<Rightarrow> int" where
  "seconds n = n * 1000000000"

section \<open>Calls to the broker\<close>

definition next_answer :: "'a answer list \<Rightarrow> 'a answer \<times> 'a answer list" where
  "next_answer script = (case script of [] \<Rightarrow> ((0, Inl (ETimeout 10)), []) | a # rest \<Rightarrow> (a, rest))"

text \<open>A call never fails as an operation: its \<^verbatim>\<open>Result\<close> is handed to the code.\<close>
definition submit_order :: "order \<Rightarrow> (exec_error + submission_result) dio" where
  "submit_order o' = (\<lambda>w. case next_answer (w_submits w) of ((t, r), rest) \<Rightarrow>
     (w\<lparr> w_submits := rest, w_sent := w_sent w @ [o'], w_now := w_now w + int t \<rparr>, Ok r))"

definition get_order_by_cli_ord_id :: "string \<Rightarrow> (exec_error + open_order_summary option) dio" where
  "get_order_by_cli_ord_id cli = (\<lambda>w. case next_answer (w_lookups w) of ((t, r), rest) \<Rightarrow>
     (w\<lparr> w_lookups := rest, w_now := w_now w + int t \<rparr>, Ok r))"

definition open_orders :: "(exec_error + open_order_summary list) dio" where
  "open_orders = (\<lambda>w. case next_answer (w_listings w) of ((t, r), rest) \<Rightarrow>
     (w\<lparr> w_listings := rest, w_now := w_now w + int t \<rparr>, Ok r))"

section \<open>Rules\<close>

lemma lift_with_eq: "m (w_db w) = (d, Ok a) \<Longrightarrow> lift_with f m w = (w\<lparr> w_db := d \<rparr>, Ok a)"
  by (simp add: lift_with_def)

lemma sql_Ok: "sql m w = (w', Ok a) \<longleftrightarrow> (\<exists>d. m (w_db w) = (d, Ok a) \<and> w' = w\<lparr> w_db := d \<rparr>)"
  by (auto simp: sql_def lift_with_def split: prod.splits res.splits)

lemma sql_run: "m (w_db w) = (d, Ok a) \<Longrightarrow> sql m w = (w\<lparr> w_db := d \<rparr>, Ok a)"
  by (simp add: sql_def lift_with_def)

lemma bnd_sql: "m (w_db w) = (d, Ok a) \<Longrightarrow> bnd (sql m) k w = k a (w\<lparr> w_db := d \<rparr>)"
  by (rule bnd_eq) (rule sql_run)

lemma world_same [simp]: "w\<lparr> w_db := w_db w \<rparr> = w"
  by simp

text \<open>Queries and statements without a fault.\<close>
definition calm :: "world \<Rightarrow> bool" where
  "calm w \<longleftrightarrow> no_faults (w_db w)"

lemma lift_query [simp]:
  assumes "calm w"
  shows "lift_with f (query q) w = (w, Ok (q (w_db w)))" "sql (query q) w = (w, Ok (q (w_db w)))"
    "sql_context msg (query q) w = (w, Ok (q (w_db w)))"
  using assms by (simp_all add: lift_with_def sql_def sql_context_def calm_def)

lemma lift_exec [simp]:
  assumes "calm w"
  shows "sql (exec g) w = (w\<lparr> w_db := g (w_db w) \<rparr>, Ok ())"
  using assms by (simp add: lift_with_def sql_def calm_def)

lemma bnd_lift_query [simp]:
  assumes "calm w"
  shows "bnd (sql (query q)) k w = k (q (w_db w)) w" "bnd (sql_context msg (query q)) k w = k (q (w_db w)) w"
  using assms by (simp_all add: bnd_def)

lemma bnd_lift_exec [simp]: "calm w \<Longrightarrow> bnd (sql (exec g)) k w = k () (w\<lparr> w_db := g (w_db w) \<rparr>)"
  by (simp add: bnd_def)

lemma calm_db [simp]: "calm (w\<lparr> w_db := d \<rparr>) = no_faults d"
  by (simp add: calm_def)

lemma bnd_clock [simp]: "bnd clock k w = k (w_now w) w"
  by (simp add: clock_def bnd_def)

lemma bnd_now_iso [simp]: "bnd (now_iso L) k w = k (canonical_iso L (w_now w)) w"
  by (simp add: now_iso_def bnd_def)

text \<open>A property of the database is kept by a task whose database calls keep it.\<close>
definition on_db :: "(db \<Rightarrow> bool) \<Rightarrow> world \<Rightarrow> bool" where
  "on_db P w \<longleftrightarrow> P (w_db w)"

lemma keeps_lift [keeps_intro]: "keeps P m \<Longrightarrow> keeps (on_db P) (lift_with f m)"
  by (auto simp: keeps_def on_db_def lift_with_def split: prod.splits res.splits)

lemma keeps_sql [keeps_intro]: "keeps P m \<Longrightarrow> keeps (on_db P) (sql m)"
  unfolding sql_def by (rule keeps_lift)

lemma keeps_sql_context [keeps_intro]: "keeps P m \<Longrightarrow> keeps (on_db P) (sql_context msg m)"
  unfolding sql_context_def by (rule keeps_lift)

lemma keeps_clock [keeps_intro]: "keeps P clock" "keeps P (now_iso L)"
  by (simp_all add: clock_def now_iso_def)

lemma keeps_broker [keeps_intro]:
  "keeps (on_db P) (submit_order o')" "keeps (on_db P) (get_order_by_cli_ord_id cli)"
  "keeps (on_db P) open_orders"
  by (auto simp: keeps_def on_db_def submit_order_def get_order_by_cli_ord_id_def open_orders_def
      split: prod.splits)

text \<open>What only \<^verbatim>\<open>submit_order\<close> changes.\<close>
definition sent_is :: "order list \<Rightarrow> world \<Rightarrow> bool" where
  "sent_is os w \<longleftrightarrow> w_sent w = os"

lemma keeps_sent_lift [keeps_intro]: "keeps (sent_is os) (lift_with f m)"
  by (auto simp: keeps_def sent_is_def lift_with_def split: prod.splits res.splits)

lemma keeps_sent_sql [keeps_intro]: "keeps (sent_is os) (sql m)" "keeps (sent_is os) (sql_context msg m)"
  unfolding sql_def sql_context_def by (rule keeps_sent_lift)+

lemma keeps_sent_broker [keeps_intro]:
  "keeps (sent_is os) (get_order_by_cli_ord_id cli)" "keeps (sent_is os) open_orders"
  by (auto simp: keeps_def sent_is_def get_order_by_cli_ord_id_def open_orders_def split: prod.splits)

text \<open>Where an order was sent in a sequence whose first step sends none.\<close>
lemma kept_sent: "keeps (sent_is (w_sent w)) m \<Longrightarrow> m w = (w', r) \<Longrightarrow> w_sent w' = w_sent w"
  by (auto simp: keeps_def sent_is_def)

lemma sent_through:
  assumes "bnd m k w = (w', r)" "w_sent w' \<noteq> w_sent w" "keeps (sent_is (w_sent w)) m"
  obtains w1 a where "m w = (w1, Ok a)" "k a w1 = (w', r)" "w_sent w1 = w_sent w"
  using assms(1)
proof (cases rule: bnd_cases)
  case (ok w1 a)
  then show ?thesis using that kept_sent [OF assms(3)] by blast
qed (use assms kept_sent [OF assms(3)] in auto)

lemma sent_catch:
  assumes "catch m k w = (w', r)" "w_sent w' \<noteq> w_sent w" "keeps (sent_is (w_sent w)) m"
  obtains w1 x where "k x w1 = (w', r)" "w_sent w1 = w_sent w"
    "m w = (w1, case x of Inl e \<Rightarrow> Err e | Inr a \<Rightarrow> Ok a)"
proof -
  obtain w1 q where m: "m w = (w1, q)" by (cases "m w")
  have s: "w_sent w1 = w_sent w" by (rule kept_sent [OF assms(3) m])
  show thesis
  proof (cases q)
    case (Ok a)
    then show thesis using that [of "Inr a" w1] assms(1) m s by (simp add: catch_def)
  next
    case (Err e)
    then show thesis using that [of "Inl e" w1] assms(1) m s by (simp add: catch_def)
  next
    case Panic
    then show thesis using assms(1,2) m s by (simp add: catch_def)
  qed
qed

end
