(* ===== verification/Triples.thy ===== *)
theory Triples
  imports World
begin

text \<open>Hoare triples over the operations, with one postcondition for success and one for errors and panics,
  for the places where an operation needs what an earlier one established.  \<^verbatim>\<open>keeps\<close> is the special case
  of an invariant.\<close>

definition triple ::
    "('s \<Rightarrow> bool) \<Rightarrow> ('s, 'e, 'a) io \<Rightarrow> ('a \<Rightarrow> 's \<Rightarrow> bool) \<Rightarrow> ('s \<Rightarrow> bool) \<Rightarrow> bool" where
  "triple P m Q R \<longleftrightarrow> (\<forall>s. P s \<longrightarrow> (case m s of (s', Ok a) \<Rightarrow> Q a s' | (s', _) \<Rightarrow> R s'))"

named_theorems triple_intro "rules for triples"

lemma keeps_triple: "triple P m (\<lambda>_. P) P \<Longrightarrow> keeps P m"
proof -
  assume t: "triple P m (\<lambda>_. P) P"
  have "P (fst (m s))" if "P s" for s
    using t that by (cases "m s"; cases "snd (m s)") (auto simp: triple_def)
  then show ?thesis by (simp add: keeps_def)
qed

lemma triple_keeps: "keeps P m \<Longrightarrow> triple P m (\<lambda>_. P) P"
  by (auto simp: triple_def keeps_def split: prod.splits res.splits)

lemma triple_Ok: "triple P m Q R \<Longrightarrow> P s \<Longrightarrow> m s = (s', Ok a) \<Longrightarrow> Q a s'"
  unfolding triple_def by fastforce

lemma triple_mono:
  "triple P m Q R \<Longrightarrow> (\<And>s. P' s \<Longrightarrow> P s) \<Longrightarrow> (\<And>a s. Q a s \<Longrightarrow> Q' a s) \<Longrightarrow> (\<And>s. R s \<Longrightarrow> R' s) \<Longrightarrow>
   triple P' m Q' R'"
  unfolding triple_def by (fastforce split: prod.splits res.splits)

lemma triple_assume: "(\<And>s. P s \<Longrightarrow> triple (\<lambda>s'. s' = s) m Q R) \<Longrightarrow> triple P m Q R"
  by (auto simp: triple_def)

lemma triple_and:
  "triple P m Q R \<Longrightarrow> triple P' m Q' R' \<Longrightarrow>
   triple (\<lambda>s. P s \<and> P' s) m (\<lambda>a s. Q a s \<and> Q' a s) (\<lambda>s. R s \<and> R' s)"
  unfolding triple_def by (fastforce split: prod.splits res.splits)

lemma triple_const: "triple P m Q R \<Longrightarrow> (\<And>s. R s \<Longrightarrow> R' s) \<Longrightarrow> triple (\<lambda>s. P s \<and> C) m (\<lambda>a s. Q a s \<and> C) R'"
  unfolding triple_def by (fastforce split: prod.splits res.splits)

lemma keeps_and: "keeps P m \<Longrightarrow> keeps Q m \<Longrightarrow> keeps (\<lambda>s. P s \<and> Q s) m"
  by (simp add: keeps_def)

lemma triple_bnd:
  "triple P m Q R \<Longrightarrow> (\<And>a. triple (Q a) (k a) Q' R) \<Longrightarrow> triple P (bnd m k) Q' R"
  unfolding triple_def bnd_def by (fastforce split: prod.splits res.splits)

lemma triple_catch:
  "triple P m Q R \<Longrightarrow> (\<And>e. triple R (k (Inl e)) Q' R) \<Longrightarrow> (\<And>a. triple (Q a) (k (Inr a)) Q' R) \<Longrightarrow>
   triple P (catch m k) Q' R"
  unfolding triple_def catch_def by (fastforce split: prod.splits res.splits)

lemma triple_bnd_panic [triple_intro]:
  "(\<And>s. P s \<Longrightarrow> R s) \<Longrightarrow> (\<And>a. x = Some a \<Longrightarrow> triple P (k a) Q R) \<Longrightarrow> triple P (bnd (or_panic x) k) Q R"
  by (cases x) (simp_all add: triple_def)

lemma triple_bnd_fail [triple_intro]:
  "(\<And>s. P s \<Longrightarrow> R s) \<Longrightarrow> (\<And>a. x = Inr a \<Longrightarrow> triple P (k a) Q R) \<Longrightarrow> triple P (bnd (or_fail x) k) Q R"
  by (cases x) (simp_all add: triple_def)

lemma triple_ret [triple_intro]: "(\<And>s. P s \<Longrightarrow> Q a s) \<Longrightarrow> triple P (ret a) Q R"
  by (simp add: triple_def)

lemma triple_fail [triple_intro]: "(\<And>s. P s \<Longrightarrow> R s) \<Longrightarrow> triple P (fail e) Q R"
  by (simp add: triple_def)

lemma triple_panic [triple_intro]: "(\<And>s. P s \<Longrightarrow> R s) \<Longrightarrow> triple P panic Q R"
  by (simp add: triple_def)

lemma triple_gets: "(\<And>s. P s \<Longrightarrow> Q (f s) s) \<Longrightarrow> triple P (gets f) Q R"
  by (simp add: triple_def)

lemma triple_or_panic:
  "(\<And>s. P s \<Longrightarrow> R s) \<Longrightarrow> (\<And>a s. x = Some a \<Longrightarrow> P s \<Longrightarrow> Q a s) \<Longrightarrow> triple P (or_panic x) Q R"
  by (cases x) (simp_all add: triple_def)

lemma triple_or_fail:
  "(\<And>s. P s \<Longrightarrow> R s) \<Longrightarrow> (\<And>a s. x = Inr a \<Longrightarrow> P s \<Longrightarrow> Q a s) \<Longrightarrow> triple P (or_fail x) Q R"
  by (cases x) (simp_all add: triple_def)

lemma triple_if [triple_intro]:
  "(b \<Longrightarrow> triple P m Q R) \<Longrightarrow> (\<not> b \<Longrightarrow> triple P n Q R) \<Longrightarrow> triple P (if b then m else n) Q R"
  by simp

lemma triple_option:
  "(x = None \<Longrightarrow> triple P m Q R) \<Longrightarrow> (\<And>a. x = Some a \<Longrightarrow> triple P (n a) Q R) \<Longrightarrow>
   triple P (case x of None \<Rightarrow> m | Some a \<Rightarrow> n a) Q R"
  by (cases x) simp_all

lemma triple_for_each:
  "(\<And>x. x \<in> set xs \<Longrightarrow> triple P (f x) (\<lambda>_. P) P) \<Longrightarrow> triple P (for_each xs f) (\<lambda>_. P) P"
proof (induction xs)
  case (Cons x xs)
  then show ?case by (auto intro!: triple_bnd [where Q = "\<lambda>_. P"])
qed (auto intro: triple_ret)

lemma triple_stmt:
  "fault_blind P \<Longrightarrow> (\<And>d. P d \<Longrightarrow> R d) \<Longrightarrow> fault_blind R \<Longrightarrow> triple P m Q R \<Longrightarrow> triple P (stmt m) Q R"
  unfolding triple_def fault_blind_def stmt_def by (auto split: list.splits bool.splits)

lemma triple_query:
  "fault_blind P \<Longrightarrow> fault_blind R \<Longrightarrow> (\<And>d. P d \<Longrightarrow> R d) \<Longrightarrow> (\<And>d. P d \<Longrightarrow> Q (f d) d) \<Longrightarrow> triple P (query f) Q R"
  unfolding query_def by (intro triple_stmt triple_gets)

lemma triple_exec:
  "fault_blind P \<Longrightarrow> fault_blind R \<Longrightarrow> (\<And>d. P d \<Longrightarrow> R d) \<Longrightarrow> (\<And>d. P d \<Longrightarrow> Q () (f d)) \<Longrightarrow> triple P (exec f) Q R"
  unfolding exec_def by (intro triple_stmt) (simp_all add: triple_def)

lemma triple_transaction:
  assumes "fault_blind P" "\<And>a. fault_blind (Q a)" "triple P m Q R"
  shows "triple P (transaction m) Q P"
proof -
  have commit: "triple (Q a) (bnd (stmt (ret ())) (\<lambda>_. ret a)) Q (\<lambda>_. True)" for a
    using assms(2) by (intro triple_bnd [where Q = "\<lambda>_. Q a"] triple_stmt triple_ret) (simp_all add: fault_blind_def)
  have body: "triple P (bnd m (\<lambda>a. bnd (stmt (ret ())) (\<lambda>_. ret a))) Q (\<lambda>_. True)"
    by (rule triple_bnd [OF triple_mono [OF assms(3)] commit]) simp_all
  have "triple P (\<lambda>d. case bnd m (\<lambda>a. bnd (stmt (ret ())) (\<lambda>_. ret a)) d of
        (d', Ok a) \<Rightarrow> (d', Ok a) | (d', r) \<Rightarrow> (d\<lparr> db_faults := db_faults d' \<rparr>, r)) Q P"
    using body assms(1) unfolding triple_def fault_blind_def by (fastforce split: prod.splits res.splits)
  moreover have "triple P (stmt (ret ())) (\<lambda>_. P) P"
    using assms(1) by (intro triple_stmt triple_ret) simp_all
  ultimately show ?thesis unfolding transaction_def by (intro triple_bnd)
qed

lemma triple_lift [triple_intro]:
  "triple P m Q R \<Longrightarrow> triple (on_db P) (lift_with f m) (\<lambda>a. on_db (Q a)) (on_db R)"
  unfolding triple_def on_db_def lift_with_def by (fastforce split: prod.splits res.splits)

lemma triple_sql [triple_intro]: "triple P m Q R \<Longrightarrow> triple (on_db P) (sql m) (\<lambda>a. on_db (Q a)) (on_db R)"
  unfolding sql_def by (rule triple_lift)

end
