(* ===== verification/Market_Data.thy ===== *)
theory Market_Data
  imports World
begin

text \<open>The market-data service of \<^verbatim>\<open>crates/rt-daemon/src/market_data.rs\<close>: the snapshot the checklist sees,
  from the order book and ticker of the feeds and the volatility and exchange rate in the signal's
  metadata.  \<^verbatim>\<open>None\<close> is the panic of the funding-rate multiplication.\<close>

datatype market_error =
    NoBook string
  | MarketOutOfSync string
  | NoTicker string
  | MissingMetadata string
  | InvalidMetadata string string
  | MarketBook book_error

fun book_error_text :: "lib \<Rightarrow> book_error \<Rightarrow> string" where
  "book_error_text L (SequenceGap p e g) = ''sequence gap on '' @ p @ '': expected '' @ show_u64 e
     @ '', got '' @ show_u64 g"
| "book_error_text L (BOutOfSync p r) = ''book for '' @ p @ '' is out-of-sync: '' @ r"
| "book_error_text L (NotInitialised p) = ''book for '' @ p @ '' is not yet initialised''"
| "book_error_text L (Crossed b a) = ''crossed book detected: bid '' @ l_show L b @ '' >= ask '' @ l_show L a"
| "book_error_text L (ProductMismatch e g) = ''product mismatch: expected '' @ e @ '', got '' @ g"

fun market_error_text :: "lib \<Rightarrow> market_error \<Rightarrow> string" where
  "market_error_text L (NoBook s) = ''no book available for '' @ s"
| "market_error_text L (MarketOutOfSync s) = ''book for '' @ s @ '' is out of sync''"
| "market_error_text L (NoTicker s) = ''no ticker available for '' @ s"
| "market_error_text L (MissingMetadata f) = ''signal metadata missing required field: '' @ f"
| "market_error_text L (InvalidMetadata f r) =
     ''signal metadata field '' @ f @ '' has invalid value: '' @ r"
| "market_error_text L (MarketBook e) = ''orderbook error: '' @ book_error_text L e"

definition snapshot_depth :: nat where
  "snapshot_depth = 5"

text \<open>The value of a decimal field, written as a string or a number.\<close>
fun metadata_decimal :: "lib \<Rightarrow> string \<Rightarrow> json \<Rightarrow> market_error + dec" where
  "metadata_decimal L field (JStr s) = (case l_parse L s of
      Some x \<Rightarrow> Inr x | None \<Rightarrow> Inl (InvalidMetadata field (''parse decimal: '' @ l_parse_err L s)))"
| "metadata_decimal L field (JNum s) = (case l_parse L s of
      Some x \<Rightarrow> Inr x
    | None \<Rightarrow> Inl (InvalidMetadata field (''parse decimal from number: '' @ l_parse_err L s)))"
| "metadata_decimal L field _ = Inl (InvalidMetadata field ''expected string or number'')"

definition metadata_field :: "json option \<Rightarrow> string \<Rightarrow> market_error + json" where
  "metadata_field meta field = (case meta of
      None \<Rightarrow> Inl (MissingMetadata ''metadata'')
    | Some obj \<Rightarrow> (case json_get field obj of None \<Rightarrow> Inl (MissingMetadata field) | Some v \<Rightarrow> Inr v))"

definition extract_atr :: "lib \<Rightarrow> json option \<Rightarrow> market_error + dec \<times> dec" where
  "extract_atr L meta =
     rbind (metadata_field meta ''atr_absolute'') (\<lambda>a.
     rbind (metadata_field meta ''atr_pct'') (\<lambda>p.
     rbind (metadata_decimal L ''atr_absolute'' a) (\<lambda>atr_abs.
     rbind (metadata_decimal L ''atr_pct'' p) (\<lambda>atr_pct. Inr (atr_abs, atr_pct)))))"

definition extract_fx :: "lib \<Rightarrow> json option \<Rightarrow> market_error + dec" where
  "extract_fx L meta =
     rbind (metadata_field meta ''fx_quote_per_chf'') (metadata_decimal L ''fx_quote_per_chf'')"

text \<open>The time of the ticker as \<^verbatim>\<open>i64\<close> milliseconds, or else the clock.\<close>
definition last_trade_time :: "lib \<Rightarrow> ticker_msg \<Rightarrow> time \<Rightarrow> time" where
  "last_trade_time L t now =
     (case Option.bind (tk_time t) (\<lambda>ms. l_from_millis L (sint ms)) of Some x \<Rightarrow> x | None \<Rightarrow> now)"

definition snapshot_for_signal ::
    "lib \<Rightarrow> feeds \<Rightarrow> string \<Rightarrow> json option \<Rightarrow> time \<Rightarrow> (market_error + market_snapshot) option" where
  "snapshot_for_signal L fd product_id meta now =
     (case rbind (extract_atr L meta) (\<lambda>(atr_abs, atr_pct). rbind (extract_fx L meta) (\<lambda>fx.
           Inr (atr_abs, atr_pct, fx))) of
        Inl e \<Rightarrow> Some (Inl e)
      | Inr (atr_abs, atr_pct, fx) \<Rightarrow>
          (case (fd_books fd product_id, fd_tickers fd product_id) of
             (None, _) \<Rightarrow> Some (Inl (NoBook product_id))
           | (Some book, None) \<Rightarrow> Some (Inl (NoTicker product_id))
           | (Some book, Some ticker) \<Rightarrow>
               (case tk_last ticker of
                  None \<Rightarrow> Some (Inl (MissingMetadata ''ticker.last''))
                | Some last_price \<Rightarrow> do {
                    funding \<leftarrow> tk_funding_rate_per_8h L ticker;
                    Some (map_sum MarketBook id (to_market_snapshot book snapshot_depth last_price
                      (last_trade_time L ticker now) atr_abs atr_pct funding fx now)) })))"

lemma map_sum_Inr_iff: "map_sum f id x = Inr b \<longleftrightarrow> x = Inr b"
  by (cases x) auto

text \<open>A snapshot is served only from a synced book; its levels are the best ones of the book, its
  volatility and exchange rate those of the metadata.\<close>
lemma snapshot_for_signal_Inr:
  assumes "snapshot_for_signal L fd product_id meta now = Some (Inr m)"
  obtains book ticker where "fd_books fd product_id = Some book" "fd_tickers fd product_id = Some ticker"
    "is_synced book" "tk_last ticker = Some (mk_last_price m)"
    "to_core_snapshot book snapshot_depth now = Inr (mk_order_book m)"
    "mk_instrument_symbol m = bk_product_id book"
    "extract_atr L meta = Inr (mk_atr_absolute m, mk_atr_pct m)"
    "extract_fx L meta = Inr (mk_fx_quote_per_chf m)"
    "tk_funding_rate_per_8h L ticker = Some (mk_funding_rate_per_8h m)"
proof -
  obtain a p fx where meta: "extract_atr L meta = Inr (a, p)" "extract_fx L meta = Inr fx"
    using assms by (cases "extract_atr L meta"; cases "extract_fx L meta")
      (auto simp: snapshot_for_signal_def)
  obtain book ticker x f where s: "fd_books fd product_id = Some book"
      "fd_tickers fd product_id = Some ticker" "tk_last ticker = Some x"
      "tk_funding_rate_per_8h L ticker = Some f"
      "to_market_snapshot book snapshot_depth x (last_trade_time L ticker now) a p f fx now = Inr m"
    using assms meta
    by (auto simp: snapshot_for_signal_def do_Some_conv map_sum_Inr_iff split: option.splits)
  then obtain b where b: "to_core_snapshot book snapshot_depth now = Inr b"
      "m = \<lparr> mk_instrument_symbol = bk_product_id book, mk_order_book = b, mk_last_price = x,
         mk_last_trade_at = last_trade_time L ticker now, mk_atr_absolute = a, mk_atr_pct = p,
         mk_funding_rate_per_8h = f, mk_fx_quote_per_chf = fx \<rparr>"
    by (auto simp: to_market_snapshot_def rbind_Inr_iff)
  moreover have "is_synced book" by (rule to_core_snapshot_prices(3) [OF b(1)])
  ultimately show thesis using that [of book ticker] s meta by simp
qed

end
