(* ===== verification/Order_Builder.thy ===== *)
theory Order_Builder
  imports Market_Data
begin

text \<open>The pure part of \<^verbatim>\<open>crates/rt-daemon/src/signal_processor.rs\<close>: reading a signal from its row and
  building the order it asks for, or the JSON reason why there is none.\<close>

section \<open>Signals from rows\<close>

definition parse_time :: "lib \<Rightarrow> string \<Rightarrow> string \<Rightarrow> string + time" where
  "parse_time L what s = (case l_parse_iso L s of
      Some t \<Rightarrow> Inr t | None \<Rightarrow> Inl (''invalid '' @ what @ '': '' @ l_time_err L s))"

definition parse_opt_time :: "lib \<Rightarrow> string \<Rightarrow> string option \<Rightarrow> string + time option" where
  "parse_opt_time L what v = (case v of
      None \<Rightarrow> Inr None | Some s \<Rightarrow> rbind (parse_time L what s) (\<lambda>t. Inr (Some t)))"

definition parse_amount :: "lib \<Rightarrow> string \<Rightarrow> string \<Rightarrow> string + dec" where
  "parse_amount L what s = (case l_parse L s of
      Some x \<Rightarrow> Inr x | None \<Rightarrow> Inl (''invalid '' @ what @ '': '' @ l_parse_err L s))"

definition parse_variant :: "lib \<Rightarrow> string \<Rightarrow> (string \<Rightarrow> 'a option) \<Rightarrow> string \<Rightarrow> string + 'a" where
  "parse_variant L what parse s = (case parse s of
      Some v \<Rightarrow> Inr v | None \<Rightarrow> Inl (''invalid '' @ what @ '' '' @ s @ '': '' @ l_variant_err L s))"

definition parse_side :: "string \<Rightarrow> string + side" where
  "parse_side s = (if s = ''buy'' then Inr Buy else if s = ''sell'' then Inr Sell
     else Inl (''invalid side: '' @ s))"

definition parse_metadata :: "lib \<Rightarrow> string option \<Rightarrow> string + json option" where
  "parse_metadata L v = (case v of
      None \<Rightarrow> Inr None
    | Some s \<Rightarrow> (case l_parse_json L s of
          Some j \<Rightarrow> Inr (Some j) | None \<Rightarrow> Inl (''invalid metadata json: '' @ l_json_err L s)))"

definition row_to_signal :: "lib \<Rightarrow> signal_row \<Rightarrow> string + signal" where
  "row_to_signal L row =
     rbind (parse_side (sr_side row)) (\<lambda>sd.
     rbind (parse_variant L ''signal_type'' parse_signal_type (sr_signal_type row)) (\<lambda>ty.
     rbind (parse_variant L ''sleeve'' parse_sleeve (sr_sleeve row)) (\<lambda>slv.
     rbind (parse_amount L ''notional'' (sr_notional_chf row)) (\<lambda>notional.
     rbind (parse_amount L ''leverage'' (sr_leverage row)) (\<lambda>leverage.
     rbind (parse_time L ''created_at'' (sr_created_at row)) (\<lambda>created.
     rbind (parse_metadata L (sr_metadata_json row)) (\<lambda>metadata.
     rbind (parse_variant L ''status'' parse_signal_status (sr_status row)) (\<lambda>status.
     rbind (parse_opt_time L ''processed_at'' (sr_processed_at row)) (\<lambda>processed.
     rbind (parse_opt_time L ''expires_at'' (sr_expires_at row)) (\<lambda>expires.
     Inr \<lparr> sg_id = sr_id row, sg_created_at = created,
           sg_instrument_symbol = sr_instrument_symbol row, sg_side = sd, sg_signal_type = ty,
           sg_sleeve = slv, sg_notional_chf = notional, sg_leverage = leverage,
           sg_metadata = metadata, sg_status = status, sg_processed_at = processed,
           sg_rejection_reason = map_option (l_show_json L) (sr_rejection_reason row),
           sg_expires_at = expires \<rparr>))))))))))"

section \<open>Dry-run intents\<close>

record order_intent =
  oi_broker_hint :: string
  oi_estimated_price :: "dec option"
  oi_estimated_quantity :: "dec option"

fun broker_hint_for_sleeve :: "sleeve \<Rightarrow> string" where
  "broker_hint_for_sleeve CryptoSpot = ''kraken_spot''"
| "broker_hint_for_sleeve CryptoLeverage = ''kraken_futures''"
| "broker_hint_for_sleeve Etf = ''ibkr''"
| "broker_hint_for_sleeve CashYield = ''ibkr''"

text \<open>\<^verbatim>\<open>checked_mul\<close> and \<^verbatim>\<open>checked_div\<close>: an overflow gives \<^verbatim>\<open>None\<close> instead of a panic.\<close>
definition build_order_intent :: "lib \<Rightarrow> signal \<Rightarrow> market_snapshot \<Rightarrow> order_intent" where
  "build_order_intent L sg m =
     (let price = (case sg_side sg of
            Buy \<Rightarrow> map_option lv_price (best_ask (mk_order_book m))
          | Sell \<Rightarrow> map_option lv_price (best_bid (mk_order_book m)))
      in \<lparr> oi_broker_hint = broker_hint_for_sleeve (sg_sleeve sg), oi_estimated_price = price,
           oi_estimated_quantity = do {
             p \<leftarrow> price;
             if p = 0 then None
             else do { q \<leftarrow> dmul L (sg_notional_chf sg) (mk_fx_quote_per_chf m); ddiv L q p } } \<rparr>)"

definition intent_json :: "lib \<Rightarrow> order_intent \<Rightarrow> json" where
  "intent_json L i = JObj [(''broker_hint'', JStr (oi_broker_hint i)),
     (''estimated_price'', opt_json (dec_json L) (oi_estimated_price i)),
     (''estimated_quantity'', opt_json (dec_json L) (oi_estimated_quantity i)),
     (''note'', JStr ''dry-run intent; not submitted to any broker'')]"

section \<open>Orders\<close>

fun side_debug :: "side \<Rightarrow> string" where
  "side_debug Buy = ''Buy''"
| "side_debug Sell = ''Sell''"

definition signal_cli :: "int \<Rightarrow> string" where
  "signal_cli i = ''rt-s'' @ show_int i"

definition perp_instrument :: "registry \<Rightarrow> string \<Rightarrow> instrument" where
  "perp_instrument instruments symbol = (let im = registry_lookup instruments symbol in
     \<lparr> ins_symbol = symbol, ins_broker = KrakenFutures, ins_asset_class = ACryptoPerp,
       ins_min_order_size = im_min_order_size im, ins_tick_size = im_tick_size im \<rparr>)"

definition build_exit_order :: "lib \<Rightarrow> signal \<Rightarrow> portfolio \<Rightarrow> registry \<Rightarrow> time \<Rightarrow> json + order" where
  "build_exit_order L sg pf instruments now =
     (case find (\<lambda>p. op_instrument_symbol p = sg_instrument_symbol sg \<and> op_sleeve p = CryptoLeverage
                   \<and> op_quantity p \<noteq> 0) (pf_open_positions pf) of
        None \<Rightarrow> Inl (JObj [(''instrument_symbol'', JStr (sg_instrument_symbol sg)),
                  (''kind'', JStr ''exit_without_open_position'')])
      | Some pos \<Rightarrow>
          (let expected = (if 0 < op_quantity pos then Sell else Buy); qty = \<bar>op_quantity pos\<bar> in
           if sg_side sg \<noteq> expected then
             Inl (JObj [(''expected'', JStr (side_debug expected)), (''kind'', JStr ''exit_side_mismatch''),
               (''position_qty'', JStr (l_show L (op_quantity pos))),
               (''signal_side'', JStr (side_debug (sg_side sg)))])
           else if qty < 1 then
             Inl (JObj [(''kind'', JStr ''exit_quantity_below_minimum''),
               (''position_qty'', JStr (l_show L (op_quantity pos)))])
           else Inr \<lparr> or_id = 0, or_signal_id = Some (sg_id sg), or_broker = KrakenFutures,
             or_broker_order_id = None, or_cli_ord_id = Some (signal_cli (sg_id sg)),
             or_instrument = perp_instrument instruments (sg_instrument_symbol sg),
             or_side = sg_side sg, or_order_type = Market, or_time_in_force = Ioc, or_quantity = qty,
             or_limit_price = None, or_stop_price = None, or_status = PendingSubmission,
             or_filled_quantity = 0, or_avg_fill_price = None, or_fees_paid = 0, or_created_at = now,
             or_updated_at = now, or_error_message = None, or_reduce_only = Some True \<rparr>))"

definition max_contracts_per_order :: int where
  "max_contracts_per_order = 10000"

definition build_kraken_futures_order ::
    "lib \<Rightarrow> signal \<Rightarrow> market_snapshot \<Rightarrow> portfolio \<Rightarrow> registry \<Rightarrow> time \<Rightarrow> json + order" where
  "build_kraken_futures_order L sg m pf instruments now =
     (if sg_signal_type sg = TrendExit then build_exit_order L sg pf instruments now
      else (let fx = mk_fx_quote_per_chf m in
        if fx \<le> 0 then
          Inl (JObj [(''fx_quote_per_chf'', JStr (l_show L fx)), (''kind'', JStr ''invalid_fx_rate'')])
        else (case dmul L (sg_notional_chf sg) fx of
            None \<Rightarrow> Inl (JObj [(''fx_quote_per_chf'', JStr (l_show L fx)), (''kind'', JStr ''notional_overflow''),
              (''notional_chf'', JStr (l_show L (sg_notional_chf sg)))])
          | Some notional_usd \<Rightarrow>
              (let contracts = of_int \<lfloor>notional_usd\<rfloor> in
               if contracts < 1 then
                 Inl (JObj [(''kind'', JStr ''below_minimum_contract_size''), (''min_contracts'', JStr ''1''),
                   (''notional_usd'', JStr (l_show L notional_usd))])
               else if of_int max_contracts_per_order < contracts then
                 Inl (JObj [(''kind'', JStr ''above_maximum_contract_size''),
                   (''max_contracts'', JStr (show_int max_contracts_per_order)),
                   (''quantity_contracts'', JStr (l_show L contracts))])
               else (case (case sg_side sg of
                       Buy \<Rightarrow> map_option lv_price (best_bid (mk_order_book m))
                     | Sell \<Rightarrow> map_option lv_price (best_ask (mk_order_book m))) of
                   Some p \<Rightarrow>
                     if 0 < p then Inr \<lparr> or_id = 0, or_signal_id = Some (sg_id sg),
                       or_broker = KrakenFutures, or_broker_order_id = None,
                       or_cli_ord_id = Some (signal_cli (sg_id sg)),
                       or_instrument = perp_instrument instruments (sg_instrument_symbol sg),
                       or_side = sg_side sg, or_order_type = PostOnly, or_time_in_force = Gtc,
                       or_quantity = contracts, or_limit_price = Some p, or_stop_price = None,
                       or_status = PendingSubmission, or_filled_quantity = 0, or_avg_fill_price = None,
                       or_fees_paid = 0, or_created_at = now, or_updated_at = now,
                       or_error_message = None, or_reduce_only = None \<rparr>
                     else Inl (JObj [(''kind'', JStr ''no_limit_price''),
                       (''reason'', JStr ''empty or invalid side of the order book'')])
                 | None \<Rightarrow> Inl (JObj [(''kind'', JStr ''no_limit_price''),
                       (''reason'', JStr ''empty or invalid side of the order book'')]))))))"

fun order_status_to_string :: "order_status \<Rightarrow> string" where
  "order_status_to_string PendingSubmission = ''pending_submission''"
| "order_status_to_string Submitted = ''submitted''"
| "order_status_to_string Acknowledged = ''acknowledged''"
| "order_status_to_string PartiallyFilled = ''partially_filled''"
| "order_status_to_string Filled = ''filled''"
| "order_status_to_string OCancelled = ''cancelled''"
| "order_status_to_string ORejected = ''rejected''"
| "order_status_to_string OFailed = ''failed''"

fun broker_error_kind :: "exec_error \<Rightarrow> string" where
  "broker_error_kind (ERejected _) = ''broker_rejected''"
| "broker_error_kind (EInvalidResponse _) = ''broker_invalid_response''"
| "broker_error_kind (ENetwork _) = ''broker_network''"
| "broker_error_kind (ETimeout _) = ''broker_timeout''"
| "broker_error_kind (ERateLimited _) = ''broker_rate_limited''"
| "broker_error_kind (EAuthentication _) = ''broker_authentication''"
| "broker_error_kind (EInsufficientMargin _) = ''broker_insufficient_margin''"
| "broker_error_kind (EUnsupported _) = ''broker_unsupported''"

section \<open>What an order can be\<close>

lemma row_to_signal_Inr:
  assumes "row_to_signal L row = Inr sg"
  shows "sg_id sg = sr_id row" "side_text (sg_side sg) = sr_side row"
    "sleeve_text (sg_sleeve sg) = sr_sleeve row" "signal_type_text (sg_signal_type sg) = sr_signal_type row"
    "l_parse L (sr_notional_chf row) = Some (sg_notional_chf sg)"
    "sg_instrument_symbol sg = sr_instrument_symbol row"
proof -
  have var: "parse_variant L what (variant_of name vs) s = Inr v \<Longrightarrow> name v = s" for what name vs s and v :: 'b
    by (auto simp: parse_variant_def split: option.splits dest: variant_of_Some)
  show "sg_id sg = sr_id row" "sg_instrument_symbol sg = sr_instrument_symbol row"
    using assms by (auto simp: row_to_signal_def rbind_Inr_iff)
  show "side_text (sg_side sg) = sr_side row"
    using assms by (auto simp: row_to_signal_def rbind_Inr_iff parse_side_def split: if_splits)
  show "sleeve_text (sg_sleeve sg) = sr_sleeve row" "signal_type_text (sg_signal_type sg) = sr_signal_type row"
    using assms var unfolding row_to_signal_def rbind_Inr_iff parse_sleeve_def parse_signal_type_def by auto
  show "l_parse L (sr_notional_chf row) = Some (sg_notional_chf sg)"
    using assms by (auto simp: row_to_signal_def rbind_Inr_iff parse_amount_def split: option.splits)
qed

text \<open>An entry: a whole number of contracts between 1 and 10000 that the converted notional covers, at the
  best price of the signal's own side, post-only.\<close>
definition entry_order_ok :: "lib \<Rightarrow> signal \<Rightarrow> market_snapshot \<Rightarrow> order \<Rightarrow> bool" where
  "entry_order_ok L sg m o' \<longleftrightarrow> (\<exists>n usd p. or_quantity o' = of_int n \<and> 1 \<le> n \<and> n \<le> 10000 \<and>
     dmul L (sg_notional_chf sg) (mk_fx_quote_per_chf m) = Some usd \<and> of_int n \<le> usd \<and> usd < of_int n + 1 \<and>
     or_limit_price o' = Some p \<and> 0 < p \<and>
     Some p = map_option lv_price ((case sg_side sg of Buy \<Rightarrow> best_bid | Sell \<Rightarrow> best_ask) (mk_order_book m)) \<and>
     or_order_type o' = PostOnly \<and> or_time_in_force o' = Gtc \<and> or_reduce_only o' = None)"

text \<open>An exit: all of an open leverage position, on its closing side, at market, reduce-only.\<close>
definition exit_order_ok :: "signal \<Rightarrow> portfolio \<Rightarrow> order \<Rightarrow> bool" where
  "exit_order_ok sg pf o' \<longleftrightarrow> (\<exists>pos \<in> set (pf_open_positions pf).
     op_instrument_symbol pos = sg_instrument_symbol sg \<and> op_sleeve pos = CryptoLeverage \<and>
     or_quantity o' = \<bar>op_quantity pos\<bar> \<and> 1 \<le> or_quantity o' \<and>
     or_side o' = (if 0 < op_quantity pos then Sell else Buy) \<and>
     or_order_type o' = Market \<and> or_time_in_force o' = Ioc \<and> or_reduce_only o' = Some True)"

definition order_matches :: "lib \<Rightarrow> signal \<Rightarrow> market_snapshot \<Rightarrow> portfolio \<Rightarrow> order \<Rightarrow> bool" where
  "order_matches L sg m pf o' \<longleftrightarrow> or_signal_id o' = Some (sg_id sg) \<and>
     or_cli_ord_id o' = Some (signal_cli (sg_id sg)) \<and> or_side o' = sg_side sg \<and>
     ins_symbol (or_instrument o') = sg_instrument_symbol sg \<and>
     (if sg_signal_type sg = TrendExit then exit_order_ok sg pf o' else entry_order_ok L sg m o')"

lemma find_Some_in: "find P xs = Some x \<Longrightarrow> P x \<and> x \<in> set xs"
  by (induction xs) (auto split: if_splits)

lemma exit_order_built:
  assumes "build_exit_order L sg pf ins now = Inr o'"
  shows "exit_order_ok sg pf o' \<and> or_signal_id o' = Some (sg_id sg) \<and>
     or_cli_ord_id o' = Some (signal_cli (sg_id sg)) \<and> or_side o' = sg_side sg \<and>
     ins_symbol (or_instrument o') = sg_instrument_symbol sg"
proof -
  obtain pos where f: "find (\<lambda>p. op_instrument_symbol p = sg_instrument_symbol sg \<and>
      op_sleeve p = CryptoLeverage \<and> op_quantity p \<noteq> 0) (pf_open_positions pf) = Some pos"
    using assms by (auto simp: build_exit_order_def split: option.splits)
  note pos = find_Some_in [OF f]
  have "sg_side sg = (if 0 < op_quantity pos then Sell else Buy)" "1 \<le> \<bar>op_quantity pos\<bar>"
    using assms f by (auto simp: build_exit_order_def Let_def split: if_splits)
  then show ?thesis
    using assms f pos unfolding exit_order_ok_def
    by (auto simp: build_exit_order_def Let_def perp_instrument_def intro!: bexI [of _ pos] split: if_splits)
qed

lemma entry_order_built:
  assumes "build_kraken_futures_order L sg m pf ins now = Inr o'" "sg_signal_type sg \<noteq> TrendExit"
  shows "entry_order_ok L sg m o' \<and> or_signal_id o' = Some (sg_id sg) \<and>
     or_cli_ord_id o' = Some (signal_cli (sg_id sg)) \<and> or_side o' = sg_side sg \<and>
     ins_symbol (or_instrument o') = sg_instrument_symbol sg"
proof -
  obtain usd where u: "dmul L (sg_notional_chf sg) (mk_fx_quote_per_chf m) = Some usd"
    using assms by (auto simp: build_kraken_futures_order_def Let_def split: option.splits if_splits)
  have b: "\<not> (of_int \<lfloor>usd\<rfloor> :: rat) < 1" "\<not> of_int max_contracts_per_order < (of_int \<lfloor>usd\<rfloor> :: rat)"
    "\<not> mk_fx_quote_per_chf m \<le> 0"
    using assms u by (auto simp: build_kraken_futures_order_def Let_def split: if_splits)
  define px where "px = (case sg_side sg of
      Buy \<Rightarrow> map_option lv_price (best_bid (mk_order_book m))
    | Sell \<Rightarrow> map_option lv_price (best_ask (mk_order_book m)))"
  obtain p where p: "px = Some p" "0 < p"
    using assms u b unfolding build_kraken_futures_order_def Let_def px_def [symmetric]
    by (auto split: option.splits if_splits)
  have n: "1 \<le> \<lfloor>usd\<rfloor>" "\<lfloor>usd\<rfloor> \<le> 10000"
    using b by (simp_all add: max_contracts_per_order_def)
  have o': "o' = \<lparr> or_id = 0, or_signal_id = Some (sg_id sg),
                       or_broker = KrakenFutures, or_broker_order_id = None,
                       or_cli_ord_id = Some (signal_cli (sg_id sg)),
                       or_instrument = perp_instrument ins (sg_instrument_symbol sg),
                       or_side = sg_side sg, or_order_type = PostOnly, or_time_in_force = Gtc,
                       or_quantity = of_int \<lfloor>usd\<rfloor>, or_limit_price = Some p, or_stop_price = None,
                       or_status = PendingSubmission, or_filled_quantity = 0, or_avg_fill_price = None,
                       or_fees_paid = 0, or_created_at = now, or_updated_at = now,
                       or_error_message = None, or_reduce_only = None \<rparr>"
    using assms u b p unfolding build_kraken_futures_order_def Let_def px_def [symmetric] by simp
  have "Some p = map_option lv_price ((case sg_side sg of Buy \<Rightarrow> best_bid | Sell \<Rightarrow> best_ask) (mk_order_book m))"
    using p(1) by (auto simp: px_def split: side.splits)
  then have "entry_order_ok L sg m o'"
    unfolding entry_order_ok_def o' using u n p(2) floor_correct [of usd]
    by (rule_tac exI [of _ "\<lfloor>usd\<rfloor>"], rule_tac exI [of _ usd], rule_tac exI [of _ p]) simp
  then show ?thesis by (simp add: o' perp_instrument_def Let_def)
qed

lemma built_order_matches:
  "build_kraken_futures_order L sg m pf ins now = Inr o' \<Longrightarrow> order_matches L sg m pf o'"
  using exit_order_built entry_order_built
  by (cases "sg_signal_type sg = TrendExit")
    (auto simp: order_matches_def build_kraken_futures_order_def)

end
