(* ===== verification/Portfolio_Loader.thy ===== *)
theory Portfolio_Loader
  imports World
begin

text \<open>\<^verbatim>\<open>crates/rt-daemon/src/portfolio_loader.rs\<close>: the portfolio the checks and the kill switch see, from the
  latest equity snapshot (a bootstrap row on the first run), the kill-switch events and the open
  leverage positions.\<close>

definition snapshot_decimal :: "lib \<Rightarrow> string \<Rightarrow> string \<Rightarrow> derr + dec" where
  "snapshot_decimal L raw field = (case l_parse L raw of
      Some x \<Rightarrow> Inr x
    | None \<Rightarrow> Inl (EText (''parsing '' @ field @ '' as decimal: '' @ l_parse_err L raw @ '' (raw: '' @ l_debug L raw
        @ '')'')))"

definition materialise ::
    "lib \<Rightarrow> equity_row \<Rightarrow> time \<Rightarrow> bool \<Rightarrow> open_position list \<Rightarrow> derr + portfolio" where
  "materialise L snap snapshot_at active positions =
     rbind (snapshot_decimal L (eq_crypto_spot_value_chf snap) ''crypto_spot_value_chf'') (\<lambda>spot.
     rbind (snapshot_decimal L (eq_etf_value_chf snap) ''etf_value_chf'') (\<lambda>etf.
     rbind (snapshot_decimal L (eq_crypto_leverage_value_chf snap) ''crypto_leverage_value_chf'') (\<lambda>lev.
     rbind (snapshot_decimal L (eq_cash_chf snap) ''cash_chf'') (\<lambda>cash.
     rbind (snapshot_decimal L (eq_realized_pnl_leverage_lifetime snap)
              ''realized_pnl_leverage_lifetime'') (\<lambda>realized.
     rbind (snapshot_decimal L (eq_unrealized_pnl_leverage_chf snap)
              ''unrealized_pnl_leverage_chf'') (\<lambda>unrealized.
     rbind (snapshot_decimal L (eq_nav_per_unit snap) ''nav_per_unit'') (\<lambda>nav.
     rbind (snapshot_decimal L (eq_nav_hwm_per_unit snap) ''nav_hwm_per_unit'') (\<lambda>hwm.
     rbind (snapshot_decimal L (eq_total_units snap) ''total_units'') (\<lambda>units.
     Inr \<lparr> pf_snapshot_at = snapshot_at,
           pf_sleeves =
             [\<lparr> ss_sleeve = CryptoSpot, ss_market_value_chf = spot, ss_cash_chf = cash,
                ss_realized_pnl_lifetime_chf = 0, ss_unrealized_pnl_chf = 0 \<rparr>,
              \<lparr> ss_sleeve = Etf, ss_market_value_chf = etf, ss_cash_chf = 0,
                ss_realized_pnl_lifetime_chf = 0, ss_unrealized_pnl_chf = 0 \<rparr>,
              \<lparr> ss_sleeve = CryptoLeverage, ss_market_value_chf = lev, ss_cash_chf = 0,
                ss_realized_pnl_lifetime_chf = realized, ss_unrealized_pnl_chf = unrealized \<rparr>],
           pf_nav_per_unit = nav, pf_nav_hwm_per_unit = hwm, pf_total_units = units,
           pf_kill_switch_active = active, pf_open_positions = positions \<rparr>)))))))))"

text \<open>The row of an open position; entry price, liquidation price and leverage are not read.\<close>
definition position_summary :: "lib \<Rightarrow> string \<times> string \<times> string \<times> string \<Rightarrow> derr + open_position" where
  "position_summary L row = (case row of (symbol, brk, sleeve_str, qty_str) \<Rightarrow>
     (case l_parse L qty_str of
        None \<Rightarrow> Inl (EText (''parsing position quantity '' @ l_debug L qty_str @ '': '' @ l_parse_err L qty_str))
      | Some qty \<Rightarrow>
          (case (if sleeve_str = ''crypto_leverage'' then Some CryptoLeverage
                 else if sleeve_str = ''crypto_spot'' then Some CryptoSpot
                 else if sleeve_str = ''etf'' then Some Etf else None) of
             None \<Rightarrow> Inl (EText (''unknown sleeve '' @ l_debug L sleeve_str @ '' on open position for '' @ symbol))
           | Some slv \<Rightarrow> Inr \<lparr> op_instrument_symbol = symbol, op_sleeve = slv, op_quantity = qty,
               op_avg_entry_price = None, op_liquidation_price = None, op_leverage = None \<rparr>)))"

fun position_summaries ::
    "lib \<Rightarrow> (string \<times> string \<times> string \<times> string) list \<Rightarrow> derr + open_position list" where
  "position_summaries L [] = Inr []"
| "position_summaries L (row # rows) =
     rbind (position_summary L row) (\<lambda>p. rbind (position_summaries L rows) (\<lambda>ps. Inr (p # ps)))"

definition load_portfolio_state :: "lib \<Rightarrow> time \<Rightarrow> portfolio dio" where
  "load_portfolio_state L snapshot_at =
     bnd (sql_context ''fetching latest equity snapshot'' latest_equity_snapshot) (\<lambda>latest.
     bnd (case latest of
            Some s \<Rightarrow> ret s
          | None \<Rightarrow>
              bnd (sql_context ''writing bootstrap equity snapshot''
                     (write_bootstrap_equity_snapshot (canonical_iso L snapshot_at))) (\<lambda>_.
              bnd (sql latest_equity_snapshot) (\<lambda>again.
              case again of
                Some s \<Rightarrow> ret s
              | None \<Rightarrow> fail (EText ''bootstrap snapshot not readable after insert'')))) (\<lambda>snap.
     bnd (sql_context ''checking kill-switch state'' kill_switch_active) (\<lambda>active.
     bnd (sql_context ''listing open positions'' (list_open_leverage_positions L)) (\<lambda>raw.
     bnd (or_fail (position_summaries L raw)) (\<lambda>positions.
     or_fail (materialise L snap snapshot_at active positions))))))"

section \<open>What is loaded\<close>

lemma position_summaries_Inr:
  "position_summaries L rows = Inr ps \<Longrightarrow>
   list_all2 (\<lambda>(symbol, b, slv, q) p. op_instrument_symbol p = symbol \<and> l_parse L q = Some (op_quantity p) \<and>
     op_avg_entry_price p = None \<and> op_liquidation_price p = None) rows ps"
  by (induction rows arbitrary: ps)
    (auto simp: rbind_Inr_iff position_summary_def split: option.splits prod.splits if_splits)

lemma materialise_Inr:
  assumes "materialise L snap t active positions = Inr pf"
  shows "pf_kill_switch_active pf = active \<and> pf_open_positions pf = positions \<and>
     l_parse L (eq_realized_pnl_leverage_lifetime snap) = Some (leverage_realized_pnl pf) \<and>
     l_parse L (eq_unrealized_pnl_leverage_chf snap) = Some (leverage_unrealized_pnl pf) \<and>
     l_parse L (eq_nav_per_unit snap) = Some (pf_nav_per_unit pf) \<and>
     l_parse L (eq_nav_hwm_per_unit snap) = Some (pf_nav_hwm_per_unit pf)"
  using assms
  by (auto simp: materialise_def rbind_Inr_iff snapshot_decimal_def leverage_realized_pnl_def
      leverage_unrealized_pnl_def find_sleeve_def split: option.splits)

text \<open>The row the loader starts from.\<close>
definition latest_row :: "db \<Rightarrow> equity_row option" where
  "latest_row d = (case rev (sort_key eq_timestamp (db_equity d)) of [] \<Rightarrow> None | r # _ \<Rightarrow> Some r)"

lemma latest_row_None: "latest_row d = None \<longleftrightarrow> db_equity d = []"
proof -
  have "sort_key eq_timestamp (db_equity d) = [] \<longleftrightarrow> db_equity d = []"
    by (metis set_empty set_sort)
  then show ?thesis by (auto simp: latest_row_def split: list.splits dest: arg_cong [of _ _ rev])
qed

definition bootstrap_row :: "string \<Rightarrow> equity_row" where
  "bootstrap_row ts = \<lparr> eq_id = 1, eq_timestamp = ts, eq_total_equity_chf = ''0'',
     eq_crypto_spot_value_chf = ''0'', eq_etf_value_chf = ''0'', eq_crypto_leverage_value_chf = ''0'',
     eq_cash_chf = ''0'', eq_realized_pnl_leverage_lifetime = ''0'', eq_drawdown_fraction = ''0'',
     eq_unrealized_pnl_leverage_chf = ''0'', eq_nav_per_unit = ''1'', eq_nav_hwm_per_unit = ''1'',
     eq_total_units = ''1'' \<rparr>"

definition leverage_rows :: "lib \<Rightarrow> db \<Rightarrow> position_row list" where
  "leverage_rows L d = filter (\<lambda>p. pn_closed_at p = None \<and> pn_sleeve p = ''crypto_leverage''
     \<and> l_real_nonzero L (pn_quantity p)) (db_positions d)"

text \<open>The database after a load: a bootstrap row when there was no snapshot.\<close>
definition loaded_db :: "lib \<Rightarrow> time \<Rightarrow> db \<Rightarrow> db" where
  "loaded_db L t d = (if db_equity d = []
     then d\<lparr> db_equity := [bootstrap_row (canonical_iso L t)] \<rparr> else d)"

lemma loaded_db_sel [simp]:
  "db_orders (loaded_db L t d) = db_orders d" "db_signals (loaded_db L t d) = db_signals d"
  "db_positions (loaded_db L t d) = db_positions d" "db_kill_events (loaded_db L t d) = db_kill_events d"
  "db_applied (loaded_db L t d) = db_applied d" "db_dry_runs (loaded_db L t d) = db_dry_runs d"
  "db_checklists (loaded_db L t d) = db_checklists d" "no_faults (loaded_db L t d) = no_faults d"
  by (simp_all add: loaded_db_def)

text \<open>Without a database fault a load is a function of the database.\<close>
definition loaded :: "lib \<Rightarrow> time \<Rightarrow> db \<Rightarrow> derr + portfolio" where
  "loaded L t d =
     rbind (position_summaries L (map (\<lambda>p. (pn_instrument_symbol p, pn_broker p, pn_sleeve p, pn_quantity p))
        (leverage_rows L d)))
       (\<lambda>ps. materialise L (case latest_row d of Some r \<Rightarrow> r | None \<Rightarrow> bootstrap_row (canonical_iso L t)) t
          (list_ex unresolved (db_kill_events d)) ps)"

lemma bootstrap_run:
  assumes "no_faults d" "db_equity d = []"
  shows "write_bootstrap_equity_snapshot ts d
     = (d\<lparr> db_equity := [bootstrap_row ts] \<rparr>, Ok 1)"
  using assms by (simp add: write_bootstrap_equity_snapshot_def insert_equity_snapshot_def Let_def
      next_id_def bootstrap_row_def)

lemma loaded_again:
  "loaded L t (loaded_db L t d) = loaded L t d" "loaded_db L t (loaded_db L t d) = loaded_db L t d"
  by (auto simp: loaded_def loaded_db_def leverage_rows_def latest_row_def)

lemma load_calm:
  assumes "calm w"
  shows "load_portfolio_state L t w = (w\<lparr> w_db := loaded_db L t (w_db w) \<rparr>,
     case loaded L t (w_db w) of Inr pf \<Rightarrow> Ok pf | Inl e \<Rightarrow> Err e)"
proof -
  have rest: "bnd (sql_context ''checking kill-switch state'' kill_switch_active) (\<lambda>active.
     bnd (sql_context ''listing open positions'' (list_open_leverage_positions L)) (\<lambda>raw.
     bnd (or_fail (position_summaries L raw)) (\<lambda>positions.
     or_fail (materialise L snap t active positions)))) v
     = (v, case rbind (position_summaries L (map (\<lambda>p. (pn_instrument_symbol p, pn_broker p, pn_sleeve p,
          pn_quantity p)) (leverage_rows L (w_db v))))
          (materialise L snap t (list_ex unresolved (db_kill_events (w_db v)))) of
        Inr pf \<Rightarrow> Ok pf | Inl e \<Rightarrow> Err e)" if "calm v" for v snap
    using that
    by (simp add: kill_switch_active_def list_open_leverage_positions_def leverage_rows_def
        split: sum.splits) (auto simp: or_fail_def split: sum.splits)
  show ?thesis
  proof (cases "latest_row (w_db w)")
    case None
    then have e: "db_equity (w_db w) = []" by (simp add: latest_row_None)
    let ?d = "(w_db w)\<lparr> db_equity := [bootstrap_row (canonical_iso L t)] \<rparr>"
    have boot: "sql_context ''writing bootstrap equity snapshot''
        (write_bootstrap_equity_snapshot (canonical_iso L t)) w = (w\<lparr> w_db := ?d \<rparr>, Ok 1)"
      using assms e by (simp add: sql_context_def lift_with_def bootstrap_run calm_def)
    have b: "bnd (sql_context ''writing bootstrap equity snapshot''
        (write_bootstrap_equity_snapshot (canonical_iso L t))) k w = k 1 (w\<lparr> w_db := ?d \<rparr>)" for k :: "_ \<Rightarrow> 'a dio"
      using boot by (rule bnd_eq)
    have c: "calm (w\<lparr> w_db := ?d \<rparr>)" using assms by (simp add: calm_def)
    show ?thesis
      using assms assms [unfolded calm_def] e None rest [OF c]
      by (simp add: load_portfolio_state_def latest_equity_snapshot_def latest_row_def bnd_assoc
          b c loaded_def loaded_db_def leverage_rows_def)
  next
    case (Some r)
    then have "db_equity (w_db w) \<noteq> []" using latest_row_None by force
    then show ?thesis
      using assms Some rest [OF assms]
      by (simp add: load_portfolio_state_def latest_equity_snapshot_def latest_row_def loaded_def loaded_db_def)
  qed
qed

lemma load_fields:
  assumes "loaded L t d = Inr pf"
  shows "pf_kill_switch_active pf = list_ex unresolved (db_kill_events d)"
    and "list_all2 (\<lambda>p q. op_instrument_symbol q = pn_instrument_symbol p \<and>
           l_parse L (pn_quantity p) = Some (op_quantity q)) (leverage_rows L d) (pf_open_positions pf)"
    and "\<forall>q \<in> set (pf_open_positions pf). op_avg_entry_price q = None \<and> op_liquidation_price q = None"
proof -
  obtain ps where ps: "position_summaries L (map (\<lambda>p. (pn_instrument_symbol p, pn_broker p, pn_sleeve p,
        pn_quantity p)) (leverage_rows L d)) = Inr ps" "pf_open_positions pf = ps"
      "pf_kill_switch_active pf = list_ex unresolved (db_kill_events d)"
    using assms materialise_Inr by (auto simp: loaded_def rbind_Inr_iff)
  show "pf_kill_switch_active pf = list_ex unresolved (db_kill_events d)" by (rule ps(3))
  note two = position_summaries_Inr [OF ps(1)]
  show "list_all2 (\<lambda>p q. op_instrument_symbol q = pn_instrument_symbol p \<and>
           l_parse L (pn_quantity p) = Some (op_quantity q)) (leverage_rows L d) (pf_open_positions pf)"
    using two unfolding ps(2) list_all2_map1 by (rule list_all2_mono) simp
  show "\<forall>q \<in> set (pf_open_positions pf). op_avg_entry_price q = None \<and> op_liquidation_price q = None"
    using two unfolding ps(2) list_all2_map1 by (auto simp: list_all2_conv_all_nth in_set_conv_nth)
qed

end
