(* ===== verification/Signal_Processor.thy ===== *)
theory Signal_Processor
  imports Order_Builder Portfolio_Loader
begin

text \<open>The signal processor of \<^verbatim>\<open>crates/rt-daemon/src/signal_processor.rs\<close>: one poll of the pending signals,
  and for each of them validation, expiry, market snapshot, portfolio, checklist and, on approval, a
  dry-run record or the submission to the broker with the handling of uncertain orders.\<close>

record processor =
  sp_mode :: execution_mode
  sp_has_broker :: bool
  sp_risk :: risk_config
  sp_instruments :: registry

definition broker_tag :: string where
  "broker_tag = ''kraken_futures''"

definition reject_now :: "lib \<Rightarrow> int \<Rightarrow> json \<Rightarrow> unit dio" where
  "reject_now L i reason = bnd (now_iso L) (\<lambda>t. sql (mark_signal_rejected i t reason))"

definition market_data_error_to_json :: "lib \<Rightarrow> market_error \<Rightarrow> json" where
  "market_data_error_to_json L e = JObj [(''detail'', JStr (market_error_text L e)),
     (''kind'', JStr ''market_data_unavailable'')]"

definition record_dry_run_intent :: "lib \<Rightarrow> signal \<Rightarrow> market_snapshot \<Rightarrow> unit dio" where
  "record_dry_run_intent L sg m = (let i = build_order_intent L sg m in
     bnd (now_iso L) (\<lambda>t.
     bnd (sql (record_dry_run_order (sg_id sg) t (sg_instrument_symbol sg) (side_text (sg_side sg))
            (sleeve_text (sg_sleeve sg)) (oi_broker_hint i) (l_show L (sg_notional_chf sg))
            (map_option (l_show L) (oi_estimated_price i)) (map_option (l_show L) (oi_estimated_quantity i))
            (intent_json L i))) (\<lambda>_.
     bnd (now_iso L) (\<lambda>t2. sql (mark_signal_processed (sg_id sg) t2)))))"

section \<open>Uncertain orders\<close>

datatype reconcile_outcome =
    NoExistingOrder
  | AlreadyReconciled
  | ResubmitWithOrderId int
  | LookupFailedRetry
  | MalformedUnrecoverable

definition settled_statuses :: "string list" where
  "settled_statuses = [''acknowledged'', ''partially_filled'', ''filled'', ''submitted'']"

definition set_cooldown :: "lib \<Rightarrow> int \<Rightarrow> unit dio" where
  "set_cooldown L i = bnd clock (\<lambda>t. sql (set_signal_retry_after i (canonical_iso L (t + seconds 90))))"

definition reconcile_uncertain :: "lib \<Rightarrow> int \<Rightarrow> int \<Rightarrow> string \<Rightarrow> reconcile_outcome dio" where
  "reconcile_uncertain L signal_id order_id cli =
     bnd (get_order_by_cli_ord_id cli) (\<lambda>answer.
     case answer of
       Inr (Some open_order) \<Rightarrow>
         bnd (now_iso L) (\<lambda>t.
         bnd (sql (backfill_broker_order_id order_id (os_broker_order_id open_order) t)) (\<lambda>_.
         bnd (sql (mark_signal_processed signal_id t)) (\<lambda>_.
         bnd (sql (clear_signal_retry_after signal_id)) (\<lambda>_. ret AlreadyReconciled))))
     | Inr None \<Rightarrow> ret (ResubmitWithOrderId order_id)
     | Inl e \<Rightarrow> bnd (set_cooldown L signal_id) (\<lambda>_. ret LookupFailedRetry))"

definition try_reconcile_uncertain_order :: "lib \<Rightarrow> int \<Rightarrow> reconcile_outcome dio" where
  "try_reconcile_uncertain_order L signal_id =
     bnd (sql (pending_order_for_signal signal_id)) (\<lambda>existing.
     case existing of
       None \<Rightarrow> ret NoExistingOrder
     | Some (order_id, status, cli) \<Rightarrow>
         if status \<in> set settled_statuses then
           bnd (now_iso L) (\<lambda>t.
           bnd (sql (mark_signal_processed signal_id t)) (\<lambda>_.
           bnd (sql (clear_signal_retry_after signal_id)) (\<lambda>_. ret AlreadyReconciled)))
         else if status = ''uncertain'' then
           (case cli of
              Some c \<Rightarrow> reconcile_uncertain L signal_id order_id c
            | None \<Rightarrow> bnd (reject_now L signal_id (JObj [(''kind'', JStr ''uncertain_without_cli''),
                         (''order_id'', JNum (show_int order_id))])) (\<lambda>_. ret MalformedUnrecoverable))
         else ret AlreadyReconciled)"

section \<open>Submission\<close>

definition is_uncertain_error :: "exec_error \<Rightarrow> bool" where
  "is_uncertain_error e \<longleftrightarrow> (case e of ETimeout _ \<Rightarrow> True | ENetwork _ \<Rightarrow> True | _ \<Rightarrow> False)"

definition after_submit ::
    "lib \<Rightarrow> int \<Rightarrow> int \<Rightarrow> exec_error + submission_result \<Rightarrow> string \<Rightarrow> unit dio" where
  "after_submit L signal_id order_id r submit_iso = (case r of
      Inr sub \<Rightarrow>
        bnd (sql (mark_order_submitted order_id (sb_broker_order_id sub)
               (order_status_to_string (sb_status sub)) submit_iso)) (\<lambda>_.
        bnd (sql (mark_signal_processed signal_id submit_iso)) (\<lambda>_.
        sql (clear_signal_retry_after signal_id)))
    | Inl err \<Rightarrow>
        if is_uncertain_error err then
          bnd (sql (mark_order_uncertain order_id (exec_error_text err) submit_iso)) (\<lambda>_.
          set_cooldown L signal_id)
        else
          bnd (sql (mark_order_failed order_id (exec_error_text err) submit_iso)) (\<lambda>_.
          sql (mark_signal_rejected signal_id submit_iso
            (JObj [(''detail'', JStr (exec_error_text err)), (''kind'', JStr (broker_error_kind err)),
                   (''order_id'', JNum (show_int order_id))]))))"

definition place_order :: "lib \<Rightarrow> signal \<Rightarrow> int option \<Rightarrow> order \<Rightarrow> unit dio" where
  "place_order L sg resubmit o' =
     bnd (now_iso L) (\<lambda>t.
     bnd (case resubmit of
            Some i \<Rightarrow> ret i
          | None \<Rightarrow> sql (insert_pending_order (Some (sg_id sg)) broker_tag (ins_symbol (or_instrument o'))
              (side_text (or_side o')) (order_type_text (or_order_type o')) (tif_text (or_time_in_force o'))
              (l_show L (or_quantity o')) (map_option (l_show L) (or_limit_price o')) None t
              (or_cli_ord_id o'))) (\<lambda>order_id.
     bnd (submit_order o') (\<lambda>r.
     bnd (now_iso L) (\<lambda>submit_iso. after_submit L (sg_id sg) order_id r submit_iso))))"

definition build_and_place ::
    "lib \<Rightarrow> processor \<Rightarrow> signal \<Rightarrow> market_snapshot \<Rightarrow> portfolio \<Rightarrow> int option \<Rightarrow> unit dio" where
  "build_and_place L P sg m pf resubmit =
     bnd clock (\<lambda>now.
     case build_kraken_futures_order L sg m pf (sp_instruments P) now of
       Inl reason \<Rightarrow> reject_now L (sg_id sg) reason
     | Inr o' \<Rightarrow> place_order L sg resubmit o')"

definition submit_via_broker ::
    "lib \<Rightarrow> processor \<Rightarrow> signal \<Rightarrow> market_snapshot \<Rightarrow> portfolio \<Rightarrow> unit dio" where
  "submit_via_broker L P sg m pf =
     (if sg_sleeve sg \<noteq> CryptoLeverage then
        reject_now L (sg_id sg)
          (JObj [(''detail'', JStr ''only CryptoLeverage (Kraken Futures) is wired in drop 4''),
            (''kind'', JStr ''sleeve_not_implemented''), (''sleeve'', JStr (sleeve_text (sg_sleeve sg)))])
      else if \<not> sp_has_broker P then
        reject_now L (sg_id sg) (JObj [(''kind'', JStr ''broker_not_configured''),
          (''mode'', JStr (mode_text (sp_mode P)))])
      else
        bnd (try_reconcile_uncertain_order L (sg_id sg)) (\<lambda>outcome.
        case outcome of
          NoExistingOrder \<Rightarrow> build_and_place L P sg m pf None
        | ResubmitWithOrderId i \<Rightarrow> build_and_place L P sg m pf (Some i)
        | _ \<Rightarrow> ret ()))"

definition handle_approval ::
    "lib \<Rightarrow> processor \<Rightarrow> signal \<Rightarrow> market_snapshot \<Rightarrow> portfolio \<Rightarrow> unit dio" where
  "handle_approval L P sg m pf = (case sp_mode P of
      DryRun \<Rightarrow> record_dry_run_intent L sg m
    | Paper \<Rightarrow> submit_via_broker L P sg m pf
    | Live \<Rightarrow> submit_via_broker L P sg m pf)"

section \<open>One signal\<close>

definition run_checklist :: "lib \<Rightarrow> processor \<Rightarrow> signal \<Rightarrow> market_snapshot \<Rightarrow> portfolio \<Rightarrow> unit dio" where
  "run_checklist L P sg m pf =
     bnd clock (\<lambda>now.
     bnd (or_panic (evaluate standard_checks L \<lparr> cx_signal = sg, cx_market = m, cx_portfolio = pf,
            cx_config = sp_risk P, cx_now = now \<rparr>)) (\<lambda>result.
     bnd (sql (record_checklist_evaluation (sg_id sg) (canonical_iso L (cr_evaluated_at result))
            (cr_approved result) (outcomes_json L (cr_outcomes result)))) (\<lambda>_.
     if cr_approved result then handle_approval L P sg m pf
     else reject_now L (sg_id sg) (JObj [(''kind'', JStr ''checklist_rejected''),
            (''outcomes'', outcomes_json L (cr_outcomes result)),
            (''summary'', JStr (result_summary L result))]))))"

definition is_expired :: "signal \<Rightarrow> time \<Rightarrow> bool" where
  "is_expired sg now \<longleftrightarrow> (case sg_expires_at sg of Some e \<Rightarrow> e \<le> now | None \<Rightarrow> False)"

definition reject_expired :: "lib \<Rightarrow> signal \<Rightarrow> time \<Rightarrow> unit dio" where
  "reject_expired L sg now = sql (mark_signal_rejected (sg_id sg) (canonical_iso L now)
     (JObj [(''expires_at'', JStr (canonical_iso L (case sg_expires_at sg of Some e \<Rightarrow> e | None \<Rightarrow> now))),
            (''kind'', JStr ''signal_expired''), (''now'', JStr (canonical_iso L now))]))"

definition process_signal :: "lib \<Rightarrow> processor \<Rightarrow> signal_row \<Rightarrow> unit dio" where
  "process_signal L P row = (case row_to_signal L row of
      Inl e \<Rightarrow> reject_now L (sr_id row) (JObj [(''detail'', JStr (''row parsing: '' @ e)),
                 (''kind'', JStr ''invalid_signal'')])
    | Inr sg \<Rightarrow>
        bnd clock (\<lambda>now.
        if is_expired sg now then reject_expired L sg now
        else
          bnd (gets w_feeds) (\<lambda>fd.
          bnd (or_panic (snapshot_for_signal L fd (sg_instrument_symbol sg) (sg_metadata sg) now)) (\<lambda>market.
          case market of
            Inl e \<Rightarrow> reject_now L (sg_id sg) (market_data_error_to_json L e)
          | Inr m \<Rightarrow>
              bnd clock (\<lambda>now2.
              catch (load_portfolio_state L now2) (\<lambda>loaded.
              case loaded of
                Inl e \<Rightarrow> reject_now L (sg_id sg) (JObj [(''detail'', JStr (derr_text L e)),
                           (''kind'', JStr ''portfolio_state_unavailable'')])
              | Inr pf \<Rightarrow> run_checklist L P sg m pf))))))"

text \<open>A poll: an error while one signal is processed is logged, and the next one follows.\<close>
definition poll_once :: "lib \<Rightarrow> processor \<Rightarrow> unit dio" where
  "poll_once L P =
     bnd (now_iso L) (\<lambda>t.
     bnd (sql (pending_signals 64 t)) (\<lambda>pending.
     for_each pending (\<lambda>row. catch (process_signal L P row) (\<lambda>_. ret ()))))"

section \<open>What reaches the broker\<close>

lemma keeps_sent_ops [keeps_intro]:
  "keeps (sent_is os) (reject_now L i reason)" "keeps (sent_is os) (set_cooldown L i)"
  "keeps (sent_is os) (reject_expired L sg t)"
  unfolding reject_now_def set_cooldown_def reject_expired_def by (intro keeps_intro)+

lemma keeps_sent_dry_run [keeps_intro]: "keeps (sent_is os) (record_dry_run_intent L sg m)"
  unfolding record_dry_run_intent_def Let_def by (intro keeps_intro)

lemma keeps_sent_reconcile [keeps_intro]: "keeps (sent_is os) (try_reconcile_uncertain_order L i)"
  unfolding try_reconcile_uncertain_order_def reconcile_uncertain_def by (intro keeps_intro)

lemma keeps_sent_after [keeps_intro]: "keeps (sent_is os) (after_submit L i j r t)"
  unfolding after_submit_def by (intro keeps_intro)

lemma keeps_sent_loader [keeps_intro]: "keeps (sent_is os) (load_portfolio_state L t)"
  unfolding load_portfolio_state_def by (intro keeps_intro)

lemma place_order_sends:
  assumes "place_order L sg resubmit o' w = (w', r)" "w_sent w' \<noteq> w_sent w"
  shows "w_sent w' = w_sent w @ [o']"
proof -
  have k: "keeps (sent_is (w_sent w)) (case resubmit of Some i \<Rightarrow> ret i
          | None \<Rightarrow> sql (insert_pending_order (Some (sg_id sg)) broker_tag (ins_symbol (or_instrument o'))
              (side_text (or_side o')) (order_type_text (or_order_type o')) (tif_text (or_time_in_force o'))
              (l_show L (or_quantity o')) (map_option (l_show L) (or_limit_price o')) None
              (canonical_iso L (w_now w)) (or_cli_ord_id o')))"
    by (intro keeps_intro)
  obtain w1 i where rest: "bnd (submit_order o') (\<lambda>r. bnd (now_iso L) (after_submit L (sg_id sg) i r)) w1 = (w', r)"
    and s1: "w_sent w1 = w_sent w"
    using assms(1) unfolding place_order_def bnd_now_iso by (rule sent_through [OF _ assms(2) k])
  obtain t q script where n: "next_answer (w_submits w1) = ((t, q), script)"
    by (cases "next_answer (w_submits w1)") auto
  let ?w2 = "w1\<lparr> w_submits := script, w_sent := w_sent w1 @ [o'], w_now := w_now w1 + int t \<rparr>"
  have "submit_order o' w1 = (?w2, Ok q)" using n by (simp add: submit_order_def)
  from rest [unfolded bnd_eq [of "submit_order o'", OF this]]
  have "after_submit L (sg_id sg) i q (canonical_iso L (w_now ?w2)) ?w2 = (w', r)" by simp
  then have "w_sent w' = w_sent ?w2" by (rule kept_sent [OF keeps_sent_after])
  then show ?thesis using s1 by simp
qed

lemma build_and_place_sends:
  assumes "build_and_place L P sg m pf resubmit w = (w', r)" "w_sent w' \<noteq> w_sent w"
  shows "\<exists>o'. w_sent w' = w_sent w @ [o'] \<and> order_matches L sg m pf o'"
proof -
  have r: "(case build_kraken_futures_order L sg m pf (sp_instruments P) (w_now w) of
       Inl reason \<Rightarrow> reject_now L (sg_id sg) reason | Inr o' \<Rightarrow> place_order L sg resubmit o') w = (w', r)"
    using assms(1) by (simp add: build_and_place_def)
  show ?thesis
  proof (cases "build_kraken_futures_order L sg m pf (sp_instruments P) (w_now w)")
    case (Inl e)
    then show ?thesis using r assms(2) kept_sent [OF keeps_sent_ops(1)] by auto
  next
    case (Inr o')
    then show ?thesis using r place_order_sends [OF _ assms(2)] built_order_matches by auto
  qed
qed

lemma submit_sends:
  assumes "submit_via_broker L P sg m pf w = (w', r)" "w_sent w' \<noteq> w_sent w"
  shows "sg_sleeve sg = CryptoLeverage \<and> sp_has_broker P \<and>
     (\<exists>o'. w_sent w' = w_sent w @ [o'] \<and> order_matches L sg m pf o')"
proof -
  have g: "sg_sleeve sg = CryptoLeverage" "sp_has_broker P"
    using assms unfolding submit_via_broker_def
    by (auto split: if_splits dest: kept_sent [OF keeps_sent_ops(1)])
  then have run: "bnd (try_reconcile_uncertain_order L (sg_id sg)) (\<lambda>outcome.
        case outcome of
          NoExistingOrder \<Rightarrow> build_and_place L P sg m pf None
        | ResubmitWithOrderId i \<Rightarrow> build_and_place L P sg m pf (Some i)
        | _ \<Rightarrow> ret ()) w = (w', r)"
    using assms(1) by (simp add: submit_via_broker_def)
  obtain w1 out where rest: "(case out of
          NoExistingOrder \<Rightarrow> build_and_place L P sg m pf None
        | ResubmitWithOrderId i \<Rightarrow> build_and_place L P sg m pf (Some i)
        | _ \<Rightarrow> ret ()) w1 = (w', r)" and s: "w_sent w1 = w_sent w"
    using run by (rule sent_through [OF _ assms(2) keeps_sent_reconcile])
  have ne: "w_sent w' \<noteq> w_sent w1" using assms(2) s by simp
  show ?thesis
    using rest g s build_and_place_sends [OF _ ne] ne by (cases out) auto
qed

lemma run_checklist_sends:
  assumes "run_checklist L P sg m pf w = (w', r)" "w_sent w' \<noteq> w_sent w"
  shows "sp_mode P \<noteq> DryRun \<and> sg_sleeve sg = CryptoLeverage \<and> sp_has_broker P \<and>
     (\<exists>result. evaluate standard_checks L \<lparr> cx_signal = sg, cx_market = m, cx_portfolio = pf,
            cx_config = sp_risk P, cx_now = w_now w \<rparr> = Some result \<and> cr_approved result) \<and>
     (\<exists>o'. w_sent w' = w_sent w @ [o'] \<and> order_matches L sg m pf o')"
proof -
  let ?c = "\<lparr> cx_signal = sg, cx_market = m, cx_portfolio = pf, cx_config = sp_risk P, cx_now = w_now w \<rparr>"
  obtain result where ev: "evaluate standard_checks L ?c = Some result"
    using assms by (cases "evaluate standard_checks L ?c") (auto simp: run_checklist_def)
  have run: "bnd (sql (record_checklist_evaluation (sg_id sg) (canonical_iso L (cr_evaluated_at result))
            (cr_approved result) (outcomes_json L (cr_outcomes result)))) (\<lambda>_.
     if cr_approved result then handle_approval L P sg m pf
     else reject_now L (sg_id sg) (JObj [(''kind'', JStr ''checklist_rejected''),
            (''outcomes'', outcomes_json L (cr_outcomes result)),
            (''summary'', JStr (result_summary L result))])) w = (w', r)"
    using assms(1) ev by (simp add: run_checklist_def)
  obtain w1 where rest: "(if cr_approved result then handle_approval L P sg m pf
     else reject_now L (sg_id sg) (JObj [(''kind'', JStr ''checklist_rejected''),
            (''outcomes'', outcomes_json L (cr_outcomes result)),
            (''summary'', JStr (result_summary L result))])) w1 = (w', r)" and s: "w_sent w1 = w_sent w"
    using run by (rule sent_through [OF _ assms(2) keeps_sent_sql(1)])
  have ne: "w_sent w' \<noteq> w_sent w1" using assms(2) s by simp
  have ok: "cr_approved result"
    using rest ne by (auto split: if_splits dest: kept_sent [OF keeps_sent_ops(1)])
  then have h: "handle_approval L P sg m pf w1 = (w', r)" using rest by simp
  have mode: "sp_mode P \<noteq> DryRun"
    using h ne kept_sent [OF keeps_sent_dry_run] by (auto simp: handle_approval_def)
  then have "submit_via_broker L P sg m pf w1 = (w', r)"
    using h by (auto simp: handle_approval_def split: execution_mode.splits)
  then show ?thesis using submit_sends [OF _ ne] mode ev ok s by auto
qed

text \<open>What held of a signal whose processing sent an order.\<close>
definition cleared_by ::
    "lib \<Rightarrow> processor \<Rightarrow> world \<Rightarrow> signal_row \<Rightarrow> signal \<Rightarrow> market_snapshot \<Rightarrow> portfolio \<Rightarrow> checklist_result \<Rightarrow> bool" where
  "cleared_by L P w row sg m pf result \<longleftrightarrow>
     sp_mode P \<noteq> DryRun \<and> sp_has_broker P \<and> row_to_signal L row = Inr sg \<and> sg_sleeve sg = CryptoLeverage \<and>
     \<not> is_expired sg (w_now w) \<and>
     snapshot_for_signal L (w_feeds w) (sg_instrument_symbol sg) (sg_metadata sg) (w_now w) = Some (Inr m) \<and>
     (\<exists>w1. load_portfolio_state L (w_now w) w = (w1, Ok pf)) \<and>
     evaluate standard_checks L \<lparr> cx_signal = sg, cx_market = m, cx_portfolio = pf,
            cx_config = sp_risk P, cx_now = w_now w \<rparr> = Some result \<and> cr_approved result"

lemma keeps_now_lift: "keeps (\<lambda>w. w_now w = t) (lift_with f m)"
  by (auto simp: keeps_def lift_with_def split: prod.splits res.splits)

lemma keeps_now_load: "keeps (\<lambda>w. w_now w = t) (load_portfolio_state L t')"
  unfolding load_portfolio_state_def sql_def sql_context_def by (intro keeps_intro keeps_now_lift)

lemma process_sends:
  assumes run: "process_signal L P row w = (w', r)" and sent: "w_sent w' \<noteq> w_sent w"
  shows "\<exists>sg m pf result o'. cleared_by L P w row sg m pf result \<and> w_sent w' = w_sent w @ [o'] \<and>
     order_matches L sg m pf o'"
proof -
  obtain sg where sg: "row_to_signal L row = Inr sg"
    using run sent by (cases "row_to_signal L row")
      (auto simp: process_signal_def dest: kept_sent [OF keeps_sent_ops(1)])
  have fresh: "\<not> is_expired sg (w_now w)"
    using run sent sg by (auto simp: process_signal_def dest: kept_sent [OF keeps_sent_ops(3)])
  obtain market where mk: "snapshot_for_signal L (w_feeds w) (sg_instrument_symbol sg) (sg_metadata sg) (w_now w)
      = Some market"
    using run sent sg fresh
    by (cases "snapshot_for_signal L (w_feeds w) (sg_instrument_symbol sg) (sg_metadata sg) (w_now w)")
      (auto simp: process_signal_def bnd_def [of "gets w_feeds"])
  obtain m where m: "market = Inr m"
    using run sent sg fresh mk
    by (cases market)
      (auto simp: process_signal_def bnd_def [of "gets w_feeds"] dest: kept_sent [OF keeps_sent_ops(1)])
  have rest: "catch (load_portfolio_state L (w_now w)) (\<lambda>loaded.
              case loaded of
                Inl e \<Rightarrow> reject_now L (sg_id sg) (JObj [(''detail'', JStr (derr_text L e)),
                           (''kind'', JStr ''portfolio_state_unavailable'')])
              | Inr pf \<Rightarrow> run_checklist L P sg m pf) w = (w', r)"
    using run sg fresh mk m by (simp add: process_signal_def bnd_def [of "gets w_feeds"])
  obtain w1 x where x: "(case x of
                Inl e \<Rightarrow> reject_now L (sg_id sg) (JObj [(''detail'', JStr (derr_text L e)),
                           (''kind'', JStr ''portfolio_state_unavailable'')])
              | Inr pf \<Rightarrow> run_checklist L P sg m pf) w1 = (w', r)" and s: "w_sent w1 = w_sent w"
    and load: "load_portfolio_state L (w_now w) w = (w1, case x of Inl e \<Rightarrow> Err e | Inr a \<Rightarrow> Ok a)"
    by (rule sent_catch [OF rest sent keeps_sent_loader])
  have ne: "w_sent w' \<noteq> w_sent w1" using sent s by simp
  obtain pf where pf: "x = Inr pf"
    using x ne by (cases x) (auto dest: kept_sent [OF keeps_sent_ops(1)])
  have "w_now w1 = w_now w" by (rule keepsD [OF keeps_now_load refl load])
  then show ?thesis
    using run_checklist_sends [OF _ ne] x pf s load sg fresh mk m unfolding cleared_by_def by auto
qed

end
