(* ===== verification/Supervisor.thy ===== *)
theory Supervisor
  imports Portfolio_Loader
begin

text \<open>One iteration of the kill-switch supervisor and the panic-close routine of
  \<^verbatim>\<open>crates/rt-daemon/src/main.rs\<close> (the fill reconciler runs the same iteration after a leverage fill).\<close>

section \<open>The operations\<close>

definition timestamp_seconds :: "time \<Rightarrow> int" where
  "timestamp_seconds t = t div 1000000000"

definition panic_cli :: "int \<Rightarrow> time \<Rightarrow> string" where
  "panic_cli event_id now = ''rt-panic-'' @ show_int event_id @ ''-'' @ show_int (timestamp_seconds now)"

definition close_order :: "registry \<Rightarrow> int \<Rightarrow> time \<Rightarrow> string \<Rightarrow> dec \<Rightarrow> order" where
  "close_order instruments event_id now symbol qty = (let im = registry_lookup instruments symbol in
     \<lparr> or_id = 0, or_signal_id = None, or_broker = KrakenFutures, or_broker_order_id = None,
       or_cli_ord_id = Some (panic_cli event_id now),
       or_instrument = \<lparr> ins_symbol = symbol, ins_broker = KrakenFutures, ins_asset_class = ACryptoPerp,
         ins_min_order_size = im_min_order_size im, ins_tick_size = im_tick_size im \<rparr>,
       or_side = (if 0 \<le> qty then Sell else Buy), or_order_type = Market, or_time_in_force = Ioc,
       or_quantity = (if 0 \<le> qty then qty else \<bar>qty\<bar>), or_limit_price = None, or_stop_price = None,
       or_status = PendingSubmission, or_filled_quantity = 0, or_avg_fill_price = None,
       or_fees_paid = 0, or_created_at = now, or_updated_at = now, or_error_message = None,
       or_reduce_only = Some True \<rparr>)"

text \<open>One position: an unreadable quantity is skipped, and the broker's answer is only logged.\<close>
definition panic_close_one :: "lib \<Rightarrow> registry \<Rightarrow> int \<Rightarrow> string \<times> string \<times> string \<times> string \<Rightarrow> unit dio" where
  "panic_close_one L instruments event_id row = (case row of (symbol, brk, slv, qty_str) \<Rightarrow>
     (case l_parse L qty_str of
        None \<Rightarrow> ret ()
      | Some qty \<Rightarrow>
          bnd clock (\<lambda>now.
          bnd (submit_order (close_order instruments event_id now symbol qty)) (\<lambda>_. ret ()))))"

definition panic_close_leverage_positions :: "lib \<Rightarrow> registry \<Rightarrow> int \<Rightarrow> unit dio" where
  "panic_close_leverage_positions L instruments event_id =
     bnd (sql (list_open_leverage_positions L)) (\<lambda>rows. for_each rows (panic_close_one L instruments event_id))"

fun disable_kind :: "kill_switch_reason \<Rightarrow> string" where
  "disable_kind (LifetimeRealisedLossBudgetExhausted _ _) = ''lifetime_realised_loss_budget''"
| "disable_kind (EffectivePnlBudgetExhausted _ _) = ''effective_pnl_budget''"
| "disable_kind (PortfolioDrawdown _ _) = ''portfolio_drawdown''"
| "disable_kind (ManualTrigger _) = ''manual_trigger''"

definition hard_kind :: string where
  "hard_kind = ''hard_effective_pnl_budget''"

definition act_on :: "lib \<Rightarrow> registry \<Rightarrow> bool \<Rightarrow> portfolio \<Rightarrow> bool \<Rightarrow> kill_switch_decision \<Rightarrow> unit dio" where
  "act_on L instruments has_broker pf hard_already d = (case d of
      NoChange \<Rightarrow> ret ()
    | Disable reason since \<Rightarrow>
        bnd (sql (record_kill_switch (canonical_iso L since) (disable_kind reason)
               (kill_reason_json L reason) (portfolio_json L pf))) (\<lambda>_. ret ())
    | PanicClose reason since \<Rightarrow>
        if hard_already then ret ()
        else
          bnd (sql (record_kill_switch (canonical_iso L since) hard_kind
                 (kill_reason_json L reason) (portfolio_json L pf))) (\<lambda>event_id.
          if has_broker then catch (panic_close_leverage_positions L instruments event_id) (\<lambda>_. ret ())
          else ret ()))"

definition evaluate_kill_switch_once :: "lib \<Rightarrow> risk_config \<Rightarrow> registry \<Rightarrow> bool \<Rightarrow> unit dio" where
  "evaluate_kill_switch_once L cfg instruments has_broker =
     bnd clock (\<lambda>now.
     bnd (load_portfolio_state L now) (\<lambda>pf.
     bnd (sql has_active_hard_trigger) (\<lambda>hard_already.
     bnd (or_panic (ks_evaluate L pf cfg now)) (\<lambda>d.
     act_on L instruments has_broker pf hard_already d))))"

text \<open>What the iteration keeps.\<close>
lemma keeps_iteration:
  assumes "\<And>t. keeps P (load_portfolio_state L t)" "keeps P (sql has_active_hard_trigger)"
    and "\<And>a b c e. keeps P (sql (record_kill_switch a b c e))"
    and "\<And>i. keeps P (panic_close_leverage_positions L ins i)"
  shows "keeps P (evaluate_kill_switch_once L cfg ins has_broker)"
proof -
  have "keeps P (act_on L ins has_broker pf h d)" for pf h d
    by (cases d) (auto simp: act_on_def intro!: keeps_bnd keeps_catch assms)
  then show ?thesis
    unfolding evaluate_kill_switch_once_def by (intro keeps_bnd keeps_clock keeps_or_panic assms)
qed

section \<open>Panic-close\<close>

text \<open>Time as the panic-close routine sees it: one answer of the broker after each order.\<close>
fun close_orders :: "lib \<Rightarrow> registry \<Rightarrow> int \<Rightarrow> time \<Rightarrow> submission_result answer list
    \<Rightarrow> (string \<times> string \<times> string \<times> string) list \<Rightarrow> order list" where
  "close_orders L instruments event_id now script [] = []"
| "close_orders L instruments event_id now script ((symbol, b, s, q) # rows) = (case l_parse L q of
      None \<Rightarrow> close_orders L instruments event_id now script rows
    | Some qty \<Rightarrow> close_order instruments event_id now symbol qty
        # close_orders L instruments event_id (now + int (fst (fst (next_answer script))))
            (snd (next_answer script)) rows)"

lemma panic_close_rows:
  "\<exists>w'. for_each rows (panic_close_one L instruments event_id) w = (w', Ok ()) \<and> w_db w' = w_db w \<and>
     w_feeds w' = w_feeds w \<and>
     w_sent w' = w_sent w @ close_orders L instruments event_id (w_now w) (w_submits w) rows"
proof (induction rows arbitrary: w)
  case (Cons row rows)
  obtain symbol b s q where row: "row = (symbol, b, s, q)" by (cases row)
  show ?case
  proof (cases "l_parse L q")
    case None
    then have "panic_close_one L instruments event_id row w = (w, Ok ())"
      by (simp add: panic_close_one_def row)
    then have "for_each (row # rows) (panic_close_one L instruments event_id) w
        = for_each rows (panic_close_one L instruments event_id) w"
      by (simp add: bnd_def)
    then show ?thesis using Cons.IH [of w] None row by simp
  next
    case (Some qty)
    obtain t r rest where n: "next_answer (w_submits w) = ((t, r), rest)"
      by (cases "next_answer (w_submits w)") auto
    let ?v = "w\<lparr> w_submits := rest, w_sent := w_sent w @ [close_order instruments event_id (w_now w) symbol qty],
        w_now := w_now w + int t \<rparr>"
    have "panic_close_one L instruments event_id row w = (?v, Ok ())"
      using Some n by (simp add: panic_close_one_def row submit_order_def bnd_def clock_def)
    then have "for_each (row # rows) (panic_close_one L instruments event_id) w
        = for_each rows (panic_close_one L instruments event_id) ?v"
      by (simp add: bnd_def)
    then show ?thesis using Cons.IH [of ?v] Some n row by auto
  qed
qed simp

text \<open>The effect of a filled order on a net position.\<close>
fun signed_qty :: "side \<Rightarrow> dec \<Rightarrow> dec" where
  "signed_qty Buy q = q"
| "signed_qty Sell q = - q"

text \<open>Every order flattens one position: opposite side, its exact size, market, reduce-only.\<close>
definition flattens :: "lib \<Rightarrow> order \<Rightarrow> string \<Rightarrow> string \<Rightarrow> bool" where
  "flattens L o' symbol qty_str \<longleftrightarrow> (\<exists>qty. l_parse L qty_str = Some qty \<and>
     ins_symbol (or_instrument o') = symbol \<and> or_quantity o' = \<bar>qty\<bar> \<and>
     qty + signed_qty (or_side o') (or_quantity o') = 0 \<and> or_order_type o' = Market \<and>
     or_reduce_only o' = Some True \<and> or_signal_id o' = None)"

lemma close_order_flattens:
  "l_parse L q = Some qty \<Longrightarrow> flattens L (close_order ins i t symbol qty) symbol q"
  by (simp add: flattens_def close_order_def Let_def)

section \<open>The iteration\<close>

definition hard_unresolved :: "db \<Rightarrow> bool" where
  "hard_unresolved d \<longleftrightarrow> list_ex (\<lambda>e. unresolved e \<and> like_hard (ke_reason_kind e)) (db_kill_events d)"

lemma hard_kind_like: "like_hard hard_kind"
  by (simp add: like_hard_def hard_kind_def ascii_lower_def)

lemma keeps_sent_load [keeps_intro]: "keeps (sent_is os) (load_portfolio_state L t)"
  unfolding load_portfolio_state_def by (intro keeps_intro)

text \<open>What the kill-switch table is before.\<close>
definition events_are :: "kill_event_row list \<Rightarrow> db \<Rightarrow> bool" where
  "events_are K d \<longleftrightarrow> db_kill_events d = K"

lemma events_are_blind [simp]: "fault_blind (events_are K)"
  by (simp add: fault_blind_def events_are_def)

lemma keeps_events_equity [keeps_intro]:
  "keeps (events_are K) (insert_equity_snapshot a b c d e f g h i j k l)"
  unfolding insert_equity_snapshot_def
  by (intro keeps_stmt) (simp_all add: keeps_def Let_def events_are_def)

lemma keeps_events_load [keeps_intro]: "keeps (on_db (events_are K)) (load_portfolio_state L t)"
  unfolding load_portfolio_state_def latest_equity_snapshot_def write_bootstrap_equity_snapshot_def
    kill_switch_active_def list_open_leverage_positions_def
  by (intro keeps_intro) simp_all

lemma keeps_events_panic [keeps_intro]:
  "keeps (on_db (events_are K)) (panic_close_leverage_positions L ins i)"
  unfolding panic_close_leverage_positions_def list_open_leverage_positions_def panic_close_one_def
  by (intro keeps_intro) simp_all

lemma kept:
  "keeps (on_db (events_are (db_kill_events (w_db w)))) m \<Longrightarrow> m w = (w', r) \<Longrightarrow>
   db_kill_events (w_db w') = db_kill_events (w_db w)"
  by (auto simp: keeps_def on_db_def events_are_def)

lemma hard_trigger_answer:
  assumes "sql has_active_hard_trigger w = (w', Ok h)"
  shows "h = hard_unresolved (w_db w)"
  using assms by (auto simp: sql_Ok has_active_hard_trigger_def query_def hard_unresolved_def
      elim!: stmt_cases)

lemma record_hard:
  assumes "sql (record_kill_switch t hard_kind a b) w = (w', Ok i)"
  shows "hard_unresolved (w_db w')"
  using assms hard_kind_like by (auto simp: sql_Ok record_kill_switch_def Let_def hard_unresolved_def
      unresolved_def elim!: stmt_cases)

text \<open>An order leaves only after a hard trigger was recorded, and none when one was unresolved before,
  whatever database statement fails.\<close>
lemma iteration_sends:
  assumes run: "evaluate_kill_switch_once L cfg ins has_broker w = (w', r)" and sent: "w_sent w' \<noteq> w_sent w"
  shows "has_broker \<and> hard_unresolved (w_db w') \<and> \<not> hard_unresolved (w_db w)"
proof -
  obtain w1 pf where load: "load_portfolio_state L (w_now w) w = (w1, Ok pf)"
    and rest1: "bnd (sql has_active_hard_trigger) (\<lambda>hard_already. bnd (or_panic (ks_evaluate L pf cfg (w_now w)))
      (act_on L ins has_broker pf hard_already)) w1 = (w', r)"
    and s0: "w_sent w1 = w_sent w"
    by (rule sent_through [OF run [unfolded evaluate_kill_switch_once_def bnd_clock] sent keeps_sent_load])
  have s1: "w_sent w1 = w_sent w" "db_kill_events (w_db w1) = db_kill_events (w_db w)"
    using s0 kept [OF keeps_events_load load] by auto
  have ne1: "w_sent w' \<noteq> w_sent w1" using sent s1(1) by simp
  obtain w2 h where hard: "sql has_active_hard_trigger w1 = (w2, Ok h)"
    and rest2: "bnd (or_panic (ks_evaluate L pf cfg (w_now w))) (act_on L ins has_broker pf h) w2 = (w', r)"
    and s2a: "w_sent w2 = w_sent w1"
    by (rule sent_through [OF rest1 ne1 keeps_sent_sql(1)])
  have s2: "w_sent w2 = w_sent w" "h = hard_unresolved (w_db w)"
    using s2a s1 hard_trigger_answer [OF hard] by (simp_all add: hard_unresolved_def)
  obtain d where d: "act_on L ins has_broker pf h d w2 = (w', r)"
    using rest2 sent s2 by (cases "ks_evaluate L pf cfg (w_now w)") auto
  have "\<exists>reason since. d = PanicClose reason since"
  proof (cases d)
    case (Disable reason since)
    have ne: "w_sent w' \<noteq> w_sent w2" using sent s2 by simp
    show ?thesis
      using sent_through [OF d [unfolded act_on_def Disable kill_switch_decision.case] ne keeps_sent_sql(1)]
        ne by (metis app_simps(1) prod.inject)
  qed (use d sent s2 in \<open>auto simp: act_on_def\<close>)
  then obtain reason since where "d = PanicClose reason since" by blast
  then have nh: "\<not> h" and rec: "bnd (sql (record_kill_switch (canonical_iso L since) hard_kind
       (kill_reason_json L reason) (portfolio_json L pf))) (\<lambda>event_id.
          if has_broker then catch (panic_close_leverage_positions L ins event_id) (\<lambda>_. ret ())
          else ret ()) w2 = (w', r)"
    using d sent s2 by (auto simp: act_on_def split: if_splits)
  have ne2: "w_sent w' \<noteq> w_sent w2" using sent s2(1) by simp
  obtain w3 i where r3: "sql (record_kill_switch (canonical_iso L since) hard_kind
       (kill_reason_json L reason) (portfolio_json L pf)) w2 = (w3, Ok i)"
    and close: "(if has_broker then catch (panic_close_leverage_positions L ins i) (\<lambda>_. ret ()) else ret ()) w3 = (w', r)"
    and s3: "w_sent w3 = w_sent w2"
    by (rule sent_through [OF rec ne2 keeps_sent_sql(1)])
  note s3 = s3 record_hard [OF r3]
  have b: has_broker using close sent s3 s2(1) by (cases has_broker) auto
  have "keeps (on_db (events_are (db_kill_events (w_db w3)))) (catch (panic_close_leverage_positions L ins i) (\<lambda>_. ret ()))"
    by (intro keeps_intro)
  then have "db_kill_events (w_db w') = db_kill_events (w_db w3)" using close b kept by auto
  then show ?thesis using b s2(2) nh s3(2) by (simp add: hard_unresolved_def)
qed

text \<open>Without a database fault the iteration is a function of the database, the clock and the broker's
  answers.\<close>
lemma iteration_calm:
  assumes "calm w" "loaded L (w_now w) (w_db w) = Inr pf"
  shows "evaluate_kill_switch_once L cfg ins has_broker w
     = bnd (or_panic (ks_evaluate L pf cfg (w_now w))) (act_on L ins has_broker pf (hard_unresolved (w_db w)))
         (w\<lparr> w_db := loaded_db L (w_now w) (w_db w) \<rparr>)"
  using assms assms(1) [unfolded calm_def] load_calm [OF assms(1), of L "w_now w"]
  by (simp add: evaluate_kill_switch_once_def bnd_def [of "load_portfolio_state _ _"]
      has_active_hard_trigger_def hard_unresolved_def)

end
