(* ===== verification/Fill_Reconciler.thy ===== *)
theory Fill_Reconciler
  imports Supervisor Fill_Accounting
begin

text \<open>The fill reconciler of \<^verbatim>\<open>crates/rt-daemon/src/fill_reconciler.rs\<close>: one tick applies the fills above its
  watermark to orders and positions, adopts orphans by their client order id, triggers the kill-switch
  evaluation after a leverage fill and records each fill as applied.\<close>

section \<open>One fill\<close>

definition fill_broker :: string where
  "fill_broker = ''kraken_futures''"

record reconciler =
  rk_risk :: risk_config
  rk_has_broker :: bool
  rk_instruments :: registry

text \<open>After a leverage fill the kill switch is evaluated at once; its errors are only logged.\<close>
definition trigger_kill_switch :: "lib \<Rightarrow> reconciler \<Rightarrow> string \<Rightarrow> unit dio" where
  "trigger_kill_switch L R slv = whenM (slv = ''crypto_leverage'')
     (catch (evaluate_kill_switch_once L (rk_risk R) (rk_instruments R) (rk_has_broker R)) (\<lambda>_. ret ()))"

definition fill_position ::
    "lib \<Rightarrow> reconciler \<Rightarrow> fill_entry \<Rightarrow> string \<Rightarrow> order_fill_outcome \<Rightarrow> string \<Rightarrow> unit dio" where
  "fill_position L R f t out slv =
     bnd (sql (apply_fill_to_position L (fo_instrument_symbol out) (fo_broker out) slv (fo_is_buy out)
            (fe_qty f) (fe_price f) t)) (\<lambda>_. trigger_kill_switch L R slv)"

definition fill_order :: "lib \<Rightarrow> fill_entry \<Rightarrow> string \<Rightarrow> order_fill_outcome option dio" where
  "fill_order L f t = sql (apply_fill_to_order L (fe_order_id f) (fe_qty f) (fe_price f) (fe_fee_paid f) t)"

text \<open>The orphan-catcher: whether an order with the fill's client id could be given its broker id.\<close>
definition try_backfill :: "fill_entry \<Rightarrow> string \<Rightarrow> bool dio" where
  "try_backfill f t = (case fe_cli_ord_id f of
      None \<Rightarrow> ret False
    | Some cli \<Rightarrow>
        catch (sql (find_order_id_by_cli_ord_id fill_broker cli)) (\<lambda>found.
        case found of
          Inr (Some order_id) \<Rightarrow>
            catch (sql (backfill_broker_order_id order_id (fe_order_id f) t)) (\<lambda>r.
            case r of Inl e \<Rightarrow> ret False | Inr u \<Rightarrow> ret True)
        | _ \<Rightarrow> ret False))"

text \<open>The second attempt, once the order has its broker id.\<close>
definition retry_fill :: "lib \<Rightarrow> reconciler \<Rightarrow> fill_entry \<Rightarrow> string \<Rightarrow> unit dio" where
  "retry_fill L R f t =
     bnd (fill_order L f t) (\<lambda>second.
     case second of
       Some out \<Rightarrow> (case fo_sleeve out of None \<Rightarrow> ret () | Some slv \<Rightarrow> fill_position L R f t out slv)
     | None \<Rightarrow> ret ())"

text \<open>Everything between the two questions about the applied-fills table.\<close>
definition settle_fill :: "lib \<Rightarrow> reconciler \<Rightarrow> fill_entry \<Rightarrow> string \<Rightarrow> unit dio" where
  "settle_fill L R f t =
     bnd (fill_order L f t) (\<lambda>first.
     case first of
       Some out \<Rightarrow> (case fo_sleeve out of None \<Rightarrow> ret () | Some slv \<Rightarrow> fill_position L R f t out slv)
     | None \<Rightarrow>
         bnd (try_backfill f t) (\<lambda>backfilled.
         if backfilled then retry_fill L R f t else ret ()))"

lemmas settle_defs = settle_fill_def retry_fill_def

definition advance :: "fill_entry \<Rightarrow> unit dio" where
  "advance f = modify (\<lambda>w. w\<lparr> w_applied_seq := max (w_applied_seq w) (fe_seq f) \<rparr>)"

definition reconcile_fill :: "lib \<Rightarrow> reconciler \<Rightarrow> fill_entry \<Rightarrow> unit dio" where
  "reconcile_fill L R f =
     bnd (now_iso L) (\<lambda>t.
     bnd (sql (has_fill_been_applied fill_broker (fe_fill_id f))) (\<lambda>seen.
     if seen then advance f
     else
       bnd (settle_fill L R f t) (\<lambda>_.
       bnd (sql (record_fill_applied fill_broker (fe_fill_id f) t)) (\<lambda>_. advance f))))"

definition reconcile_once :: "lib \<Rightarrow> reconciler \<Rightarrow> unit dio" where
  "reconcile_once L R =
     bnd (gets (\<lambda>w. (fd_fills (w_feeds w), w_applied_seq w))) (\<lambda>(ring, last_seq).
     if \<not> fr_is_synced ring then ret ()
     else if fr_highest_seq ring \<le> last_seq then ret ()
     else for_each (filter (\<lambda>f. last_seq < fe_seq f) (fr_fills ring)) (reconcile_fill L R))"

section \<open>The contract of a ledger of applied items\<close>

text \<open>A ledger remembers the keys of the items that took effect.  Processing then gives every key its
  effect exactly once, however often and in whatever batches its items are delivered.\<close>
locale ledger =
  fixes applied :: "'s \<Rightarrow> 'k \<Rightarrow> bool"
    and key :: "'f \<Rightarrow> 'k"
    and step :: "'f \<Rightarrow> 's \<Rightarrow> 's"
    and skip :: "'f \<Rightarrow> 's \<Rightarrow> 's"
  assumes applied_step: "applied (step f s) k \<longleftrightarrow> k = key f \<or> applied s k"
    and applied_skip: "applied (skip f s) k = applied s k"
begin

fun process :: "'f list \<Rightarrow> 's \<Rightarrow> 's" where
  "process [] s = s"
| "process (f # fs) s = process fs (if applied s (key f) then skip f s else step f s)"

text \<open>The items that take effect: the first of each key not applied before.\<close>
fun fresh :: "'f list \<Rightarrow> 's \<Rightarrow> 'f list" where
  "fresh [] s = []"
| "fresh (f # fs) s = (if applied s (key f) then fresh fs (skip f s) else f # fresh fs (step f s))"

lemma process_append: "process (fs @ gs) s = process gs (process fs s)"
  by (induction fs arbitrary: s) auto

lemma process_applied: "applied (process fs s) k \<longleftrightarrow> applied s k \<or> k \<in> key ` set fs"
  by (induction fs arbitrary: s) (auto simp: applied_step applied_skip)

lemma process_known: "\<forall>f \<in> set fs. applied s (key f) \<Longrightarrow> process fs s = fold skip fs s"
  by (induction fs arbitrary: s) (auto simp: applied_skip)

lemma process_again:
  "key ` set gs \<subseteq> key ` set fs \<Longrightarrow> process (fs @ gs) s = fold skip gs (process fs s)"
  by (simp add: process_append process_known process_applied image_subset_iff)

lemma fresh_keys: "f \<in> set (fresh fs s) \<Longrightarrow> f \<in> set fs \<and> \<not> applied s (key f)"
proof (induction fs arbitrary: s)
  case (Cons g fs)
  then show ?case
    using Cons.IH [of "skip g s"] Cons.IH [of "step g s"]
    by (auto simp: applied_step applied_skip split: if_splits)
qed simp

lemma fresh_distinct: "distinct (map key (fresh fs s))"
  by (induction fs arbitrary: s) (auto simp: applied_step dest: fresh_keys)

lemma fresh_complete: "f \<in> set fs \<Longrightarrow> \<not> applied s (key f) \<Longrightarrow> key f \<in> key ` set (fresh fs s)"
proof (induction fs arbitrary: s)
  case (Cons g fs)
  then show ?case
    using Cons.IH [of "skip g s", simplified applied_skip] Cons.IH [of "step g s", simplified applied_step]
    by (cases "applied s (key g)"; cases "key f = key g") auto
qed simp

end

section \<open>The applied-fills table is a ledger\<close>

definition fill_applied :: "world \<Rightarrow> string \<Rightarrow> bool" where
  "fill_applied w i \<longleftrightarrow> list_ex (\<lambda>a. af_broker a = fill_broker \<and> af_fill_id a = i) (db_applied (w_db w))"

definition skip_fill :: "fill_entry \<Rightarrow> world \<Rightarrow> world" where
  "skip_fill f w = w\<lparr> w_applied_seq := max (w_applied_seq w) (fe_seq f) \<rparr>"

text \<open>A fill not seen before: its effect, then the row of the table, then the watermark.\<close>
definition note_fill :: "fill_entry \<Rightarrow> string \<Rightarrow> world \<Rightarrow> world" where
  "note_fill f t w = w\<lparr> w_db := (w_db w)\<lparr> db_applied := (if fill_applied w (fe_fill_id f)
     then db_applied (w_db w) else db_applied (w_db w) @
       [\<lparr> af_broker = fill_broker, af_fill_id = fe_fill_id f, af_applied_at = t \<rparr>]) \<rparr> \<rparr>"

definition step_fill :: "lib \<Rightarrow> reconciler \<Rightarrow> fill_entry \<Rightarrow> world \<Rightarrow> world" where
  "step_fill L R f w = (let t = canonical_iso L (w_now w) in
     skip_fill f (note_fill f t (fst (settle_fill L R f t w))))"

text \<open>Only \<^verbatim>\<open>record_fill_applied\<close> writes to the table.\<close>
definition applied_are :: "applied_fill_row list \<Rightarrow> db \<Rightarrow> bool" where
  "applied_are A d \<longleftrightarrow> db_applied d = A"

lemma applied_are_blind [simp]: "fault_blind (applied_are A)"
  by (simp add: fault_blind_def applied_are_def)

lemma keeps_applied_stmts [keeps_intro]:
  "keeps (applied_are A) (insert_equity_snapshot a b c d e f g h i j k l)"
  "keeps (applied_are A) (record_kill_switch a' b' c' d')"
  "keeps (applied_are A) (insert_position a2 b2 c2 d2 e2 f2)"
  unfolding insert_equity_snapshot_def record_kill_switch_def insert_position_def
  by (intro keeps_stmt; simp add: keeps_def Let_def applied_are_def)+

lemma keeps_applied_updates [keeps_intro]:
  "keeps (applied_are A) (update_order P f)" "keeps (applied_are A) (update_position i g)"
  unfolding update_order_def update_position_def
  by (intro keeps_exec; simp add: applied_are_def)+

lemma keeps_applied_fills [keeps_intro]:
  "keeps (applied_are A) (apply_fill_to_order L a b c d e)"
  "keeps (applied_are A) (apply_fill_to_position L i1 b1 s1 y q p t)"
  unfolding apply_fill_to_order_def apply_fill_to_position_def order_fill_body_def position_fill_body_def
    write_fill_def add_to_position_def reduce_position_def flat_position_def Let_def
  by (intro keeps_intro keeps_transaction applied_are_blind)+

lemma keeps_applied_iteration [keeps_intro]:
  "keeps (on_db (applied_are A)) (evaluate_kill_switch_once L cfg ins hb)"
proof -
  have "keeps (on_db (applied_are A)) (panic_close_leverage_positions L ins i)" for i
    unfolding panic_close_leverage_positions_def list_open_leverage_positions_def panic_close_one_def
    by (intro keeps_intro applied_are_blind)
  moreover have "keeps (on_db (applied_are A)) (load_portfolio_state L t)" for t
    unfolding load_portfolio_state_def latest_equity_snapshot_def write_bootstrap_equity_snapshot_def
      kill_switch_active_def list_open_leverage_positions_def
    by (intro keeps_intro applied_are_blind)
  ultimately show ?thesis
    unfolding has_active_hard_trigger_def
    by (intro keeps_iteration) (intro keeps_intro applied_are_blind | simp add: has_active_hard_trigger_def)+
qed

lemma keeps_applied_settle: "keeps (on_db (applied_are A)) (settle_fill L R f t)"
  unfolding settle_defs fill_order_def fill_position_def trigger_kill_switch_def try_backfill_def
    backfill_broker_order_id_def find_order_id_by_cli_ord_id_def
  by (intro keeps_intro applied_are_blind)

lemma settle_applied: "fill_applied (fst (settle_fill L R f t w)) i = fill_applied w i"
proof -
  have "db_applied (w_db (fst (settle_fill L R f t w))) = db_applied (w_db w)"
    using keeps_applied_settle [of "db_applied (w_db w)" L R f t]
    by (auto simp: keeps_def on_db_def applied_are_def)
  then show ?thesis by (simp add: fill_applied_def)
qed

interpretation fills: ledger fill_applied fe_fill_id "step_fill L R" skip_fill
proof
  show "fill_applied (step_fill L R f w) k \<longleftrightarrow> k = fe_fill_id f \<or> fill_applied w k" for f w k
    using settle_applied [of L R f "canonical_iso L (w_now w)" w]
    by (auto simp: step_fill_def skip_fill_def note_fill_def fill_applied_def Let_def)
  show "fill_applied (skip_fill f w) k = fill_applied w k" for f w k
    by (simp add: skip_fill_def fill_applied_def)
qed

end
