(* ===== verification/Accounts.thy ===== *)
theory Accounts
  imports Prelude
begin

text \<open>The answer of the accounts endpoint, \<^verbatim>\<open>crates/rt-kraken-futures/src/accounts.rs\<close>.  An account is kept as
  the JSON value of the answer until it is asked for; decoding it is serde's and an argument.\<close>

record margin_auxiliary =
  mx_usd :: dec
  mx_pv :: dec
  mx_pnl :: dec
  mx_af :: dec
  mx_funding :: dec

record margin_account =
  ma_account_type :: string
  ma_currency :: string
  ma_auxiliary :: margin_auxiliary
  ma_balances :: "string \<rightharpoonup> dec"

record flex_currency =
  fc_quantity :: dec
  fc_value :: dec
  fc_collateral :: dec
  fc_available :: dec
  fc_excluded_collateral :: dec

record flex_account =
  fx_account_type :: string
  fx_currencies :: "string \<rightharpoonup> flex_currency"
  fx_initial_margin :: dec
  fx_initial_margin_with_orders :: dec
  fx_maintenance_margin :: dec
  fx_balance_value :: dec
  fx_portfolio_value :: dec
  fx_collateral_value :: dec
  fx_pnl :: dec
  fx_unrealized_funding :: dec
  fx_total_unrealized :: dec
  fx_total_unrealized_as_margin :: dec
  fx_available_margin :: dec
  fx_margin_equity :: dec

record cash_account =
  ca_account_type :: string
  ca_balances :: "string \<rightharpoonup> dec"

record accounts_response =
  ac_result :: string
  ac_accounts :: "string \<rightharpoonup> json"
  ac_server_time :: string

definition accounts_flex :: "(json \<Rightarrow> flex_account option) \<Rightarrow> accounts_response \<Rightarrow> flex_account option" where
  "accounts_flex decode r = Option.bind (ac_accounts r ''flex'') decode"

definition accounts_margin ::
    "(json \<Rightarrow> margin_account option) \<Rightarrow> accounts_response \<Rightarrow> string \<Rightarrow> margin_account option" where
  "accounts_margin decode r k = Option.bind (ac_accounts r k) decode"

definition accounts_cash :: "(json \<Rightarrow> cash_account option) \<Rightarrow> accounts_response \<Rightarrow> cash_account option" where
  "accounts_cash decode r = Option.bind (ac_accounts r ''cash'') decode"

end
