(* ===== verification/Equity_Writer.thy ===== *)
theory Equity_Writer
  imports Portfolio_Loader Accounts
begin

text \<open>The equity-snapshot writer of \<^verbatim>\<open>crates/rt-daemon/src/equity_writer.rs\<close>: one row of the equity table from
  the answer of the accounts endpoint, the ticker and the realised profits of the positions table.\<close>

section \<open>The writer\<close>

definition perp_symbol :: string where
  "perp_symbol = ''PI_XBTUSD''"

definition sc_margin_account_key :: string where
  "sc_margin_account_key = ''fi_xbtusd''"

definition leverage_sleeve :: string where
  "leverage_sleeve = ''CryptoLeverage''"

definition btc_mark :: "lib \<Rightarrow> feeds \<Rightarrow> derr + dec" where
  "btc_mark L fd = (case Option.bind (fd_tickers fd perp_symbol) tk_last of
      None \<Rightarrow> Inl (EText (''no ticker for '' @ perp_symbol @
                '' in store yet; WS feed may not have published its first quote''))
    | Some p \<Rightarrow> if p \<le> 0 then Inl (EText (''ticker last price for '' @ perp_symbol @ '' is non-positive: ''
                  @ l_show L p)) else Inr p)"

definition btc_to_chf :: "lib \<Rightarrow> dec \<Rightarrow> dec \<Rightarrow> dec \<Rightarrow> dec option" where
  "btc_to_chf L btc btc_usd usd_per_chf = do { usd \<leftarrow> dmul L btc btc_usd; ddiv L usd usd_per_chf }"

text \<open>From the balances to the row.\<close>
definition persist_snapshot ::
    "lib \<Rightarrow> (json \<Rightarrow> flex_account option) \<Rightarrow> (json \<Rightarrow> margin_account option) \<Rightarrow> dec \<Rightarrow> dec
     \<Rightarrow> accounts_response \<Rightarrow> int dio" where
  "persist_snapshot L flex_of margin_of usd_per_chf btc_usd accounts =
     (let sc = accounts_margin margin_of accounts sc_margin_account_key;
          sc_pv = (case sc of Some m \<Rightarrow> mx_pv (ma_auxiliary m) | None \<Rightarrow> 0);
          sc_unrealized = (case sc of Some m \<Rightarrow> mx_pnl (ma_auxiliary m) | None \<Rightarrow> 0);
          flex_balance = (case accounts_flex flex_of accounts of Some f \<Rightarrow> fx_balance_value f | None \<Rightarrow> 0)
      in
      bnd (or_panic (btc_to_chf L sc_pv btc_usd usd_per_chf)) (\<lambda>leverage_value.
      bnd (or_panic (btc_to_chf L sc_unrealized btc_usd usd_per_chf)) (\<lambda>unrealized.
      bnd (or_panic (ddiv L flex_balance usd_per_chf)) (\<lambda>cash.
      bnd (lift_with (\<lambda>e. EText (''aggregating realized_pnl_btc: '' @ perr_text L e))
             (sum_realized_pnl_btc_by_sleeve L leverage_sleeve)) (\<lambda>realized_btc.
      bnd (or_panic (btc_to_chf L realized_btc btc_usd usd_per_chf)) (\<lambda>realized.
      bnd (or_panic (dadd L cash leverage_value)) (\<lambda>equity.
      if equity \<le> 0 then
        fail (EText (''computed total_equity_chf = '' @ l_show L equity
          @ '' is not positive; refusing to persist''))
      else
        bnd (now_iso L) (\<lambda>t.
        lift_with (\<lambda>e. EText (''inserting equity_snapshot: '' @ perr_text L e))
          (insert_equity_snapshot t (l_show L equity) ''0'' ''0'' (l_show L leverage_value) (l_show L cash)
             (l_show L realized) (l_show L 0) (l_show L unrealized) (l_show L 1) (l_show L 1)
             (l_show L 1))))))))))"

definition write_one_snapshot ::
    "lib \<Rightarrow> (json \<Rightarrow> flex_account option) \<Rightarrow> (json \<Rightarrow> margin_account option) \<Rightarrow> risk_config
     \<Rightarrow> string + accounts_response \<Rightarrow> int dio" where
  "write_one_snapshot L flex_of margin_of cfg answer =
     (let usd_per_chf = rc_usd_per_chf_fallback cfg in
      if usd_per_chf \<le> 0 then
        fail (EText (''usd_per_chf_fallback is '' @ l_show L usd_per_chf @ '' (must be > 0)''))
      else
        bnd (gets w_feeds) (\<lambda>fd.
        bnd (or_fail (btc_mark L fd)) (\<lambda>btc_usd.
        bnd (or_fail (map_sum (\<lambda>e. EText (''fetching accounts: '' @ e)) id answer))
          (persist_snapshot L flex_of margin_of usd_per_chf btc_usd))))"

section \<open>What it writes\<close>

lemma bnd_gets_eq [simp]: "bnd (gets f) k w = k (f w) w"
  by (simp add: bnd_def)

text \<open>Positions carry the serde name of their sleeve.\<close>
definition serde_sleeves :: "db \<Rightarrow> bool" where
  "serde_sleeves d \<longleftrightarrow> (\<forall>p \<in> set (db_positions d). pn_sleeve p \<in> range sleeve_text)"

lemma leverage_sleeve_not_serde: "leverage_sleeve \<noteq> sleeve_text s"
  by (cases s) (simp_all add: leverage_sleeve_def)

lemma realised_sum_zero:
  assumes "serde_sleeves d" "sum_realized_pnl_btc_by_sleeve L leverage_sleeve d = (d', Ok x)"
  shows "x = 0" "db_equity d' = db_equity d"
proof -
  have none: "filter (\<lambda>p. pn_sleeve p = leverage_sleeve) (db_positions d) = []"
    using assms(1) leverage_sleeve_not_serde unfolding serde_sleeves_def filter_empty_conv by (metis rangeE)
  obtain d1 v where v: "stmt (\<lambda>d. (d, let rows = map pn_realized_pnl_btc
            (filter (\<lambda>p. pn_sleeve p = leverage_sleeve) (db_positions d))
            in if None \<in> set rows then Err (PSql (SqlNull ''realized_pnl_btc'')) else Ok (map the rows))) d = (d1, Ok v)"
    "sum_texts L 0 v d1 = (d', Ok x)"
    using assms(2) unfolding sum_realized_pnl_btc_by_sleeve_def by (rule bnd_OkE)
  from v(1) none have "v = [] \<and> db_equity d1 = db_equity d"
    by (auto elim!: stmt_cases split: if_splits)
  then show "x = 0" "db_equity d' = db_equity d" using v(2) by simp_all
qed

text \<open>The values of the row.\<close>
definition written :: "lib \<Rightarrow> time \<Rightarrow> int \<Rightarrow> dec \<Rightarrow> dec \<Rightarrow> dec \<Rightarrow> dec \<Rightarrow> equity_row" where
  "written L t i equity lev cash unrealized = \<lparr> eq_id = i, eq_timestamp = canonical_iso L t,
     eq_total_equity_chf = l_show L equity, eq_crypto_spot_value_chf = ''0'', eq_etf_value_chf = ''0'',
     eq_crypto_leverage_value_chf = l_show L lev, eq_cash_chf = l_show L cash,
     eq_realized_pnl_leverage_lifetime = l_show L 0, eq_drawdown_fraction = l_show L 0,
     eq_unrealized_pnl_leverage_chf = l_show L unrealized, eq_nav_per_unit = l_show L 1,
     eq_nav_hwm_per_unit = l_show L 1, eq_total_units = l_show L 1 \<rparr>"

lemma inserted_row:
  assumes "lift_with f (insert_equity_snapshot ts tot spot etf lev cash realized dd un nav hwm units) w = (w', Ok i)"
  shows "\<exists>r. db_equity (w_db w') = db_equity (w_db w) @ [r] \<and> r = \<lparr> eq_id = i, eq_timestamp = ts,
     eq_total_equity_chf = tot, eq_crypto_spot_value_chf = spot, eq_etf_value_chf = etf,
     eq_crypto_leverage_value_chf = lev, eq_cash_chf = cash, eq_realized_pnl_leverage_lifetime = realized,
     eq_drawdown_fraction = dd, eq_unrealized_pnl_leverage_chf = un, eq_nav_per_unit = nav,
     eq_nav_hwm_per_unit = hwm, eq_total_units = units \<rparr>"
  using assms by (auto simp: lift_with_def insert_equity_snapshot_def Let_def elim!: stmt_cases
      split: prod.splits res.splits)

lemma written_row:
  assumes run: "write_one_snapshot L flex_of margin_of cfg answer w = (w', Ok i)"
    and laws: "dec_laws L" "serde_sleeves (w_db w)"
  shows "\<exists>accounts mark lev cash equity un. answer = Inr accounts \<and> btc_mark L (w_feeds w) = Inr mark \<and> 0 < mark \<and>
     btc_to_chf L (case accounts_margin margin_of accounts sc_margin_account_key of
       Some m \<Rightarrow> mx_pv (ma_auxiliary m) | None \<Rightarrow> 0) mark (rc_usd_per_chf_fallback cfg) = Some lev \<and>
     btc_to_chf L (case accounts_margin margin_of accounts sc_margin_account_key of
       Some m \<Rightarrow> mx_pnl (ma_auxiliary m) | None \<Rightarrow> 0) mark (rc_usd_per_chf_fallback cfg) = Some un \<and>
     ddiv L (case accounts_flex flex_of accounts of Some f \<Rightarrow> fx_balance_value f | None \<Rightarrow> 0)
       (rc_usd_per_chf_fallback cfg) = Some cash \<and>
     dadd L cash lev = Some equity \<and> 0 < equity \<and>
     db_equity (w_db w') = db_equity (w_db w) @ [written L (w_now w) i equity lev cash un]"
proof -
  let ?fx = "rc_usd_per_chf_fallback cfg"
  have fx: "\<not> ?fx \<le> 0" using run by (cases "?fx \<le> 0") (simp_all add: write_one_snapshot_def)
  then have guarded: "bnd (or_fail (btc_mark L (w_feeds w))) (\<lambda>btc_usd.
      bnd (or_fail (map_sum (\<lambda>e. EText (''fetching accounts: '' @ e)) id answer))
        (persist_snapshot L flex_of margin_of ?fx btc_usd)) w = (w', Ok i)"
    using run by (simp add: write_one_snapshot_def split: if_splits)
  obtain mark where mark: "btc_mark L (w_feeds w) = Inr mark"
    using guarded by (cases "btc_mark L (w_feeds w)") auto
  obtain accounts where ac: "answer = Inr accounts"
    using guarded mark by (cases answer) auto
  have run: "persist_snapshot L flex_of margin_of ?fx mark accounts w = (w', Ok i)"
    using guarded mark ac by simp
  define sc where "sc = accounts_margin margin_of accounts sc_margin_account_key"
  define pv where "pv = (case sc of Some m \<Rightarrow> mx_pv (ma_auxiliary m) | None \<Rightarrow> 0)"
  define pnl where "pnl = (case sc of Some m \<Rightarrow> mx_pnl (ma_auxiliary m) | None \<Rightarrow> 0)"
  define flex where "flex = (case accounts_flex flex_of accounts of Some f \<Rightarrow> fx_balance_value f | None \<Rightarrow> 0)"
  note folds = pv_def [symmetric] pnl_def [symmetric] flex_def [symmetric] sc_def [symmetric]
  obtain lev un cash w1 x re equity where
    parts: "btc_to_chf L pv mark ?fx = Some lev" "btc_to_chf L pnl mark ?fx = Some un" "ddiv L flex ?fx = Some cash"
    and sum: "lift_with (\<lambda>e. EText (''aggregating realized_pnl_btc: '' @ perr_text L e))
               (sum_realized_pnl_btc_by_sleeve L leverage_sleeve) w = (w1, Ok x)"
    and re: "btc_to_chf L x mark ?fx = Some re" "dadd L cash lev = Some equity" "\<not> equity \<le> 0"
    and ins: "lift_with (\<lambda>e. EText (''inserting equity_snapshot: '' @ perr_text L e))
        (insert_equity_snapshot (canonical_iso L (w_now w1)) (l_show L equity) ''0'' ''0'' (l_show L lev)
           (l_show L cash) (l_show L re) (l_show L 0) (l_show L un) (l_show L 1) (l_show L 1) (l_show L 1)) w1
        = (w', Ok i)"
    using run unfolding persist_snapshot_def Let_def
    by (auto simp: folds bnd_or_panic_Ok bnd_Ok_iff [of "lift_with _ _"] split: if_splits)
  have q: "x = 0" "db_equity (w_db w1) = db_equity (w_db w)" "w_now w1 = w_now w"
    using sum realised_sum_zero [OF laws(2)]
    by (auto simp: lift_with_def split: prod.splits res.splits)
  have "re = 0" using re(1) fx q(1) laws(1) rnd_0 by (auto simp: btc_to_chf_def dec_ops)
  moreover have "0 < mark" using mark by (auto simp: btc_mark_def split: option.splits if_splits)
  ultimately show ?thesis
    using ac mark parts re(2,3) inserted_row [OF ins] q
    by (intro exI [of _ accounts] exI [of _ mark] exI [of _ lev] exI [of _ cash] exI [of _ equity] exI [of _ un])
      (auto simp: written_def folds)
qed

end
