(* ===== verification/Periodic_Reconciler.thy ===== *)
theory Periodic_Reconciler
  imports World
begin

text \<open>The periodic reconciler of \<^verbatim>\<open>crates/rt-daemon/src/periodic_reconciler.rs\<close>: one tick compares the live
  orders of the database with the open orders of the broker and warns of those without a counterpart.
  The warnings are the value of the operation.\<close>

record drift =
  df_local_only :: "order_row list"
  df_broker_only :: "open_order_summary list"

text \<open>The identifiers of one side, the hash sets of the code.\<close>
definition somes :: "'a option list \<Rightarrow> 'a set" where
  "somes xs = set (List.map_filter id xs)"

definition known :: "'a set \<Rightarrow> 'a option \<Rightarrow> bool" where
  "known S v = (case v of Some x \<Rightarrow> x \<in> S | None \<Rightarrow> False)"

definition local_unmatched :: "open_order_summary list \<Rightarrow> order_row \<Rightarrow> bool" where
  "local_unmatched broker_orders l \<longleftrightarrow>
     \<not> known (set (map os_broker_order_id broker_orders)) (od_broker_order_id l) \<and>
     \<not> known (somes (map os_cli_ord_id broker_orders)) (od_cli_ord_id l)"

definition broker_unmatched :: "order_row list \<Rightarrow> open_order_summary \<Rightarrow> bool" where
  "broker_unmatched local_live b \<longleftrightarrow>
     os_broker_order_id b \<notin> somes (map od_broker_order_id local_live) \<and>
     \<not> known (somes (map od_cli_ord_id local_live)) (os_cli_ord_id b)"

definition drift_of :: "order_row list \<Rightarrow> open_order_summary list \<Rightarrow> drift" where
  "drift_of local_live broker_orders =
     \<lparr> df_local_only = filter (local_unmatched broker_orders) local_live,
       df_broker_only = filter (broker_unmatched local_live) broker_orders \<rparr>"

definition periodic_once :: "drift dio" where
  "periodic_once =
     bnd open_orders (\<lambda>answer.
     bnd (or_fail (map_sum EBroker id answer)) (\<lambda>broker_orders.
     bnd (sql list_live_orders) (\<lambda>local_live. ret (drift_of local_live broker_orders))))"

section \<open>What it reports\<close>

text \<open>Two orders are the same when they share the exchange's id or the client's.\<close>
definition same_order :: "order_row \<Rightarrow> open_order_summary \<Rightarrow> bool" where
  "same_order l b \<longleftrightarrow> od_broker_order_id l = Some (os_broker_order_id b) \<or>
     (od_cli_ord_id l \<noteq> None \<and> od_cli_ord_id l = os_cli_ord_id b)"

lemma somes_iff: "x \<in> somes xs \<longleftrightarrow> Some x \<in> set xs"
  by (induction xs) (auto simp: somes_def List.map_filter_def)

lemma known_iff: "known S v \<longleftrightarrow> (\<exists>x. v = Some x \<and> x \<in> S)"
  by (simp add: known_def split: option.splits)

lemma local_unmatched_iff: "local_unmatched bs l \<longleftrightarrow> \<not> (\<exists>b \<in> set bs. same_order l b)"
  unfolding local_unmatched_def known_iff somes_iff same_order_def by force

lemma broker_unmatched_iff: "broker_unmatched ls b \<longleftrightarrow> \<not> (\<exists>l \<in> set ls. same_order l b)"
  unfolding broker_unmatched_def known_iff somes_iff same_order_def by force

lemma periodic_keeps: "fault_blind P \<Longrightarrow> keeps (on_db P) periodic_once"
  unfolding periodic_once_def list_live_orders_def by (intro keeps_intro)

lemma periodic_sends: "keeps (sent_is os) periodic_once"
  unfolding periodic_once_def by (intro keeps_intro)

lemma periodic_calm:
  assumes "calm w" "w_listings w = (t, Inr bs) # rest"
  shows "periodic_once w = (w\<lparr> w_listings := rest, w_now := w_now w + int t \<rparr>,
     Ok (drift_of (rev (filter (\<lambda>o'. od_status o' \<in> set pending_statuses) (db_orders (w_db w)))) bs))"
  using assms by (simp add: periodic_once_def open_orders_def next_answer_def bnd_def list_live_orders_def
      calm_def sql_def lift_with_def)

end
