(* ===== verification/Table_Invariants.thy ===== *)
theory Table_Invariants
  imports Triples Signal_Processor Fill_Reconciler Equity_Writer Periodic_Reconciler
begin

text \<open>The invariant of the tables that every statement of every task keeps, whatever statement fails: ids
  ascend, client ids are unique, an instrument has at most one open position, an order of a signal carries
  the client id of that signal and belongs to a leverage signal, and so does every position.  Rows of
  orders stay.\<close>

definition has_row :: "int \<Rightarrow> db \<Rightarrow> bool" where
  "has_row i d \<longleftrightarrow> (\<exists>r \<in> set (db_orders d). od_signal_id r = Some i)"

definition signals_are :: "(int \<times> string) list \<Rightarrow> db \<Rightarrow> bool" where
  "signals_are K d \<longleftrightarrow> map (\<lambda>s. (sr_id s, sr_sleeve s)) (db_signals d) = K"

definition lev :: string where
  "lev = ''crypto_leverage''"

definition order_row_ok :: "(int \<times> string) list \<Rightarrow> order_row \<Rightarrow> bool" where
  "order_row_ok K r \<longleftrightarrow> (\<forall>i. od_signal_id r = Some i \<longrightarrow>
     od_broker r = broker_tag \<and> od_cli_ord_id r = Some (signal_cli i) \<and> (i, lev) \<in> set K)"

definition rows_ok :: "int set \<Rightarrow> (int \<times> string) list \<Rightarrow> db \<Rightarrow> bool" where
  "rows_ok S K d \<longleftrightarrow> signals_are K d \<and> (\<forall>r \<in> set (db_orders d). order_row_ok K r) \<and>
     (\<forall>i \<in> S. has_row i d) \<and> (\<forall>p \<in> set (db_positions d). pn_sleeve p = lev)"

definition tables_ok :: "int set \<Rightarrow> (int \<times> string) list \<Rightarrow> db \<Rightarrow> bool" where
  "tables_ok S K d \<longleftrightarrow> store_inv d \<and> one_open d \<and> rows_ok S K d"

lemmas tables_defs = tables_ok_def rows_ok_def store_inv_def one_open_def open_rows_def has_row_def signals_are_def

lemma tables_blind [simp]: "fault_blind (tables_ok S K)"
  by (simp add: fault_blind_def tables_defs)

lemma tables_unread [simp]:
  "tables_ok S K (d\<lparr> db_faults := a \<rparr>) = tables_ok S K d" "tables_ok S K (d\<lparr> db_equity := b \<rparr>) = tables_ok S K d"
  "tables_ok S K (d\<lparr> db_kill_events := c \<rparr>) = tables_ok S K d"
  "tables_ok S K (d\<lparr> db_checklists := e \<rparr>) = tables_ok S K d" "tables_ok S K (d\<lparr> db_audit := f \<rparr>) = tables_ok S K d"
  "tables_ok S K (d\<lparr> db_dry_runs := g \<rparr>) = tables_ok S K d" "tables_ok S K (d\<lparr> db_flows := h \<rparr>) = tables_ok S K d"
  by (simp_all add: tables_defs)

section \<open>Statements\<close>

lemma keeps_tables_audit [keeps_intro]:
  "keeps (tables_ok S K) (insert_equity_snapshot a b c d' e f g h i j k l)"
  "keeps (tables_ok S K) (record_kill_switch t kd dt sn)"
  "keeps (tables_ok S K) (record_checklist_evaluation n1 t ap oc)"
  "keeps (tables_ok S K) (record_dry_run_order n1 t ins sd slv hint n p q intent)"
  unfolding insert_equity_snapshot_def record_kill_switch_def record_checklist_evaluation_def
    record_dry_run_order_def
  by (intro keeps_stmt; simp add: keeps_def Let_def)+

lemma keeps_tables_signal:
  assumes "\<And>s. sr_id (f s) = sr_id s" "\<And>s. sr_sleeve (f s) = sr_sleeve s"
  shows "keeps (tables_ok S K) (update_signal i f)"
proof -
  have same: "map (\<lambda>s. (sr_id s, sr_sleeve s)) (update_where P f rs) = map (\<lambda>s. (sr_id s, sr_sleeve s)) rs" for P rs
    by (rule update_where_map) (simp add: assms)
  show ?thesis unfolding update_signal_def
    by (rule keeps_exec) (simp_all add: tables_defs same)
qed

lemma keeps_tables_signals [keeps_intro]:
  "keeps (tables_ok S K) (mark_signal_processed i t)" "keeps (tables_ok S K) (mark_signal_rejected i t r)"
  "keeps (tables_ok S K) (set_signal_retry_after i t)" "keeps (tables_ok S K) (clear_signal_retry_after i)"
  unfolding mark_signal_processed_def mark_signal_rejected_def set_signal_retry_after_def
    clear_signal_retry_after_def
  by (rule keeps_tables_signal; simp)+

lemma update_where_all:
  "(\<And>r. Q r \<Longrightarrow> Q (f r)) \<Longrightarrow> \<forall>r \<in> set rs. Q r \<Longrightarrow> \<forall>r \<in> set (update_where P f rs). Q r"
  by (auto simp: update_where_def)

lemma update_where_ex:
  "(\<And>r. Q (f r) = Q r) \<Longrightarrow> (\<exists>r \<in> set (update_where P f rs). Q r) = (\<exists>r \<in> set rs. Q r)"
  by (induction rs) (auto simp: update_where_def)

lemma keeps_tables_order:
  assumes "\<And>r. od_id (f r) = od_id r" "\<And>r. od_broker (f r) = od_broker r"
    "\<And>r. od_cli_ord_id (f r) = od_cli_ord_id r" "\<And>r. od_signal_id (f r) = od_signal_id r"
  shows "keeps (tables_ok S K) (update_order P f)"
proof -
  have "rows_ok S K (d\<lparr> db_orders := update_where P f (db_orders d) \<rparr>)" if "rows_ok S K d" for d
    using that update_where_all [of "order_row_ok K" f "db_orders d" P]
      update_where_ex [of "\<lambda>r. od_signal_id r = Some _" f P "db_orders d"]
    by (auto simp: rows_ok_def has_row_def signals_are_def order_row_ok_def assms)
  moreover have "one_open (d\<lparr> db_orders := update_where P f (db_orders d) \<rparr>)" if "one_open d" for d
    using that by (simp add: one_open_def open_rows_def)
  ultimately show ?thesis
    unfolding update_order_def
    by (intro keeps_exec) (auto simp: tables_ok_def intro!: update_order_inv assms)
qed

lemma keeps_tables_orders [keeps_intro]:
  "keeps (tables_ok S K) (backfill_broker_order_id i b t)"
  "keeps (tables_ok S K) (mark_order_submitted i b st t)"
  "keeps (tables_ok S K) (mark_order_failed i msg t)"
  "keeps (tables_ok S K) (mark_order_uncertain i msg t)"
  "keeps (tables_ok S K) (write_fill i q avg fees st t)"
  unfolding backfill_broker_order_id_def mark_order_submitted_def mark_order_failed_def
    mark_order_uncertain_def write_fill_def
  by (rule keeps_tables_order; simp)+

lemma keeps_tables_applied [keeps_intro]: "keeps (tables_ok S K) (record_fill_applied b i t)"
proof -
  have "keeps (\<lambda>d. one_open d \<and> rows_ok S K d) (record_fill_applied b i t)"
    unfolding record_fill_applied_def
    by (rule keeps_exec) (simp_all add: tables_defs fault_blind_def)
  then show ?thesis
    using keeps_and [OF keeps_record_fill] unfolding tables_ok_def by blast
qed

text \<open>A new order row belongs to a leverage signal and carries its client id.\<close>
lemma insert_order_tables:
  assumes "cli = Some (signal_cli i)" "(i, lev) \<in> set K"
  shows "triple (tables_ok S K) (insert_pending_order (Some i) broker_tag ins sd ot tif q lm stp t cli)
    (\<lambda>_. tables_ok (insert i S) K) (tables_ok S K)"
proof -
  have s: "keeps store_inv (insert_pending_order (Some i) broker_tag ins sd ot tif q lm stp t cli)"
    by (rule keeps_insert_order)
  have r: "triple (\<lambda>d. one_open d \<and> rows_ok S K d)
      (insert_pending_order (Some i) broker_tag ins sd ot tif q lm stp t cli)
      (\<lambda>_ d. one_open d \<and> rows_ok (insert i S) K d) (\<lambda>d. one_open d \<and> rows_ok S K d)"
    unfolding insert_pending_order_def
    by (rule triple_stmt) (auto simp: triple_def fault_blind_def tables_defs Let_def order_row_ok_def assms)
  show ?thesis
    unfolding tables_ok_def by (rule triple_mono [OF triple_and [OF triple_keeps [OF s] r]]) auto
qed

section \<open>Fills\<close>

lemma update_open_le:
  assumes "\<And>p. Q (f p) \<Longrightarrow> Q p"
  shows "length (filter Q (update_where P f rs)) \<le> length (filter Q rs)"
  using assms by (induction rs) (auto simp: update_where_def intro: le_SucI)

lemma update_position_tables:
  assumes "\<And>p. pn_id (f p) = pn_id p" "\<And>p. pn_sleeve (f p) = pn_sleeve p"
    "\<And>i b p. open_row i b (f p) \<Longrightarrow> open_row i b p"
  shows "keeps (tables_ok S K) (update_position n f)"
proof -
  have ids: "map pn_id (update_where P f rs) = map pn_id rs" for P rs
    by (rule update_where_map) (rule assms)
  have sl: "\<forall>p \<in> set (update_where P f rs). pn_sleeve p = lev" if "\<forall>p \<in> set rs. pn_sleeve p = lev" for P rs
    by (rule update_where_all [OF _ that]) (simp add: assms)
  have op: "length (filter (open_row i b) (update_where P f rs)) \<le> 1" if "length (filter (open_row i b) rs) \<le> 1" for P i b rs
    using update_open_le [of "open_row i b" f P rs] assms(3) that by fastforce
  have "tables_ok S K (d\<lparr> db_positions := update_where P f (db_positions d) \<rparr>)" if "tables_ok S K d" for P d
  proof -
    have "\<forall>p \<in> set (db_positions d). pn_sleeve p = lev" "\<forall>i b. length (filter (open_row i b) (db_positions d)) \<le> 1"
      using that by (simp_all add: tables_defs)
    then show ?thesis using that sl op by (simp add: tables_defs ids)
  qed
  then show ?thesis unfolding update_position_def by (intro keeps_exec) simp_all
qed

lemma keeps_tables_position [keeps_intro]:
  "keeps (tables_ok S K) (update_position n (added_row L x y t))"
  "keeps (tables_ok S K) (update_position n (reduced_row L x y t))"
  "keeps (tables_ok S K) (update_position n (closed_row L y t))"
  by (rule update_position_tables; simp add: added_row_def reduced_row_def closed_row_def open_row_def)+

lemma insert_position_tables:
  "triple (\<lambda>d. tables_ok S K d \<and> open_rows i b d = []) (insert_position i b lev q e t)
     (\<lambda>_. tables_ok S K) (\<lambda>_. True)"
proof -
  have ids: "sorted_wrt (<) (xs @ [next_id xs])" if "sorted_wrt (<) xs" for xs
    using that next_id_greater by (auto simp: sorted_wrt_append)
  show ?thesis
    unfolding insert_position_def
    by (rule triple_stmt)
      (auto simp: triple_def fault_blind_def tables_defs Let_def open_row_def intro!: ids)
qed

lemma close_position_tables:
  "triple (\<lambda>d. tables_ok S K d \<and> open_rows i b d = [p]) (update_position (pn_id p) (closed_row L y t))
     (\<lambda>_ d. tables_ok S K d \<and> open_rows i b d = []) (\<lambda>_. True)"
proof -
  have "open_rows i b (d\<lparr> db_positions := update_where (\<lambda>r. pn_id r = pn_id p) (closed_row L y t) (db_positions d) \<rparr>) = []"
    if "tables_ok S K d" "open_rows i b d = [p]" for d
    using open_rows_update [OF _ that(2)] that(1) by (simp add: tables_ok_def)
  then have "triple (\<lambda>d. tables_ok S K d \<and> open_rows i b d = [p]) (update_position (pn_id p) (closed_row L y t))
     (\<lambda>_ d. open_rows i b d = []) (\<lambda>_. True)"
    unfolding update_position_def
    by (intro triple_exec) (auto simp: fault_blind_def open_rows_def tables_defs)
  from triple_and [OF triple_keeps [OF keeps_tables_position(3)] this] show ?thesis
    by (rule triple_mono) auto
qed

lemma update_then:
  assumes "keeps (tables_ok S K) m"
  shows "triple (\<lambda>d. tables_ok S K d \<and> X d) (bnd m (\<lambda>_. ret out)) (\<lambda>_. tables_ok S K) (\<lambda>_. True)"
proof (rule triple_bnd [where Q = "\<lambda>_. tables_ok S K"])
  show "triple (\<lambda>d. tables_ok S K d \<and> X d) m (\<lambda>_. tables_ok S K) (\<lambda>_. True)"
    by (rule triple_mono [OF triple_keeps [OF assms]]) simp_all
qed (rule triple_ret)

lemma add_tables: "triple (\<lambda>d. tables_ok S K d \<and> X d) (add_to_position L n a b c q e t) (\<lambda>_. tables_ok S K) (\<lambda>_. True)"
  unfolding add_to_position_def by (intro triple_intro update_then keeps_tables_position TrueI)

lemma reduce_tables:
  "triple (\<lambda>d. tables_ok S K d \<and> X d) (reduce_position L n a b c sf q e t) (\<lambda>_. tables_ok S K) (\<lambda>_. True)"
  unfolding reduce_position_def by (intro triple_intro update_then keeps_tables_position TrueI)

lemma flat_tables:
  "triple (\<lambda>d. tables_ok S K d \<and> open_rows i b d = [p]) (flat_position L (pn_id p) x y z t)
     (\<lambda>_ d. tables_ok S K d \<and> open_rows i b d = []) (\<lambda>_. True)"
  unfolding flat_position_def
  by (intro triple_intro TrueI triple_bnd [OF close_position_tables])

lemma insert_tables:
  "triple (\<lambda>d. tables_ok S K d \<and> open_rows i b d = []) (bnd (insert_position i b lev q e t) (\<lambda>n. ret (out n)))
     (\<lambda>_. tables_ok S K) (\<lambda>_. True)"
  by (rule triple_bnd [OF insert_position_tables]) (rule triple_ret)

lemma fill_position_tables:
  "triple (tables_ok S K) (apply_fill_to_position L i b lev is_buy q price t) (\<lambda>_. tables_ok S K) (tables_ok S K)"
proof -
  define held where "held row d \<longleftrightarrow> tables_ok S K d \<and> open_rows i b d = (case row of None \<Rightarrow> [] | Some p \<Rightarrow> [p])" for row d
  have found: "held (find (open_row i b) (rev (db_positions d))) d" if "tables_ok S K d" for d
  proof -
    have "length (open_rows i b d) \<le> 1" using that by (simp add: tables_ok_def one_open_def)
    then show ?thesis using that unfolding held_def open_rows_def
      by (cases "filter (open_row i b) (db_positions d)") (auto simp: find_rev_none find_rev_one)
  qed
  have "triple (tables_ok S K) (query (\<lambda>d. find (open_row i b) (rev (db_positions d)))) held (\<lambda>_. True)"
    by (rule triple_query) (simp_all add: found fault_blind_def)
  then have "triple (tables_ok S K) (position_fill_body L i b lev is_buy q price t) (\<lambda>_. tables_ok S K) (\<lambda>_. True)"
    unfolding position_fill_body_def
  proof (rule triple_bnd, goal_cases)
    case (1 row)
    show ?case
      unfolding held_def [abs_def]
      by (cases row; simp only: option.case)
        (intro insert_tables triple_intro TrueI add_tables reduce_tables triple_bnd [OF flat_tables]; (erule conjunct1)?)+
  qed
  then show ?thesis
    unfolding apply_fill_to_position_def by (intro triple_transaction) simp_all
qed

lemma fill_order_tables:
  "triple (tables_ok S K) (apply_fill_to_order L b q price fee t)
     (\<lambda>out d. tables_ok S K d \<and> (distinct (map fst K) \<longrightarrow> (\<forall>x slv. out = Some x \<longrightarrow> fo_sleeve x = Some slv \<longrightarrow> slv = lev)))
     (tables_ok S K)"
proof -
  have slv: "slv = lev"
    if ok: "tables_ok S K d" "distinct (map fst K)" and o': "order_with_sleeve d b = Some (o', Some slv)" for d o' slv
  proof -
    obtain i s where i: "o' \<in> set (db_orders d)" "od_signal_id o' = Some i" "s \<in> set (db_signals d)" "sr_id s = i" "sr_sleeve s = slv"
      using o' by (auto simp: order_with_sleeve_def dest!: find_someD split: option.splits)
    then have "(i, lev) \<in> set K" "(i, slv) \<in> set K"
      using ok(1) by (auto simp: tables_ok_def rows_ok_def order_row_ok_def signals_are_def)
    then show ?thesis using ok(2) eq_key_imp_eq_value by metis
  qed
  define read where "read row d \<longleftrightarrow> tables_ok S K d \<and> (distinct (map fst K) \<longrightarrow> (\<forall>o' slv. row = Some (o', Some slv) \<longrightarrow> slv = lev))" for row :: "(order_row \<times> string option) option" and d
  have "triple (tables_ok S K) (query (\<lambda>d. order_with_sleeve d b)) read (\<lambda>_. True)"
    by (rule triple_query) (auto simp: read_def fault_blind_def dest: slv)
  then have "triple (tables_ok S K) (order_fill_body L b q price fee t)
     (\<lambda>out d. tables_ok S K d \<and> (distinct (map fst K) \<longrightarrow> (\<forall>x slv. out = Some x \<longrightarrow> fo_sleeve x = Some slv \<longrightarrow> slv = lev)))
     (\<lambda>_. True)"
    unfolding order_fill_body_def Let_def
  proof (rule triple_bnd, goal_cases)
    case (1 row)
    have w: "triple (read row) (write_fill i f a e st t') (\<lambda>_. read row) (\<lambda>_. True)" for i f a e st t'
      unfolding read_def by (rule triple_const [OF triple_keeps [OF keeps_tables_orders(5)]]) simp
    show ?case
    proof (cases row)
      case None
      then show ?thesis by (auto simp: read_def intro!: triple_ret)
    next
      case (Some r)
      obtain o' slv where r: "r = (o', slv)" by (cases r)
      show ?thesis
        unfolding Some r option.case prod.case
        by (intro triple_intro TrueI triple_bnd [OF w [unfolded Some r]]) (auto simp: read_def)
    qed
  qed
  then show ?thesis
    unfolding apply_fill_to_order_def by (intro triple_transaction) (simp_all add: fault_blind_def tables_defs)
qed

end
