(* ===== verification/Daemon.thy ===== *)
theory Daemon
  imports Table_Invariants
begin

text \<open>The daemon as a whole: the tasks that \<^verbatim>\<open>crates/rt-daemon/src/main.rs\<close> spawns, taking turns on one world with
  an environment that writes signals, moves the clock and the feeds, answers for the broker, makes
  statements fail and resolves kill-switch events.  A task turn is one tick; a crash inside a turn is a turn
  whose remaining statements fail, followed by a restart.\<close>

section \<open>The invariant over the world\<close>

text \<open>Signals for which an order went to the broker; \<^verbatim>\<open>I\<close> adds signals about to have one.\<close>
definition sent_signals :: "world \<Rightarrow> int set" where
  "sent_signals w = {i. \<exists>o' \<in> set (w_sent w). or_signal_id o' = Some i}"

definition own_cli :: "order \<Rightarrow> bool" where
  "own_cli o' \<longleftrightarrow> (\<forall>i. or_signal_id o' = Some i \<longrightarrow> or_cli_ord_id o' = Some (signal_cli i))"

definition world_ok :: "int set \<Rightarrow> (int \<times> string) list \<Rightarrow> world \<Rightarrow> bool" where
  "world_ok I K w \<longleftrightarrow> tables_ok (I \<union> sent_signals w) K (w_db w) \<and> (\<forall>o' \<in> set (w_sent w). own_cli o')"

lemma tables_mono: "tables_ok S K d \<Longrightarrow> T \<subseteq> S \<Longrightarrow> tables_ok T K d"
  by (auto simp: tables_ok_def rows_ok_def)

lemma world_mono: "world_ok I K w \<Longrightarrow> J \<subseteq> I \<Longrightarrow> world_ok J K w"
  by (auto simp: world_ok_def intro: tables_mono)

lemma triple_world_lift:
  assumes "\<And>S. I \<subseteq> S \<Longrightarrow> triple (tables_ok S K) m (\<lambda>a. Q a S) (tables_ok S K)"
    and "\<And>a S w. Q a (I \<union> sent_signals w) (w_db w) \<Longrightarrow> \<forall>o' \<in> set (w_sent w). own_cli o' \<Longrightarrow> Q' a w"
  shows "triple (world_ok I K) (lift_with f m) Q' (world_ok I K)"
  using assms(1) [of "I \<union> sent_signals _"] assms(2)
  unfolding triple_def lift_with_def world_ok_def sent_signals_def
  by (fastforce split: prod.splits res.splits)

lemma keeps_world_lift [keeps_intro]:
  assumes "\<And>S. keeps (tables_ok S K) m"
  shows "keeps (world_ok I K) (lift_with f m)"
  by (rule keeps_triple, rule triple_world_lift [where Q = "\<lambda>a S. tables_ok S K"])
    (auto intro: triple_keeps assms simp: world_ok_def)

lemma keeps_world_sql [keeps_intro]:
  assumes "\<And>S. keeps (tables_ok S K) m"
  shows "keeps (world_ok I K) (sql m)" "keeps (world_ok I K) (sql_context msg m)"
  unfolding sql_def sql_context_def by (intro keeps_world_lift assms)+

lemma keeps_world_broker [keeps_intro]:
  "keeps (world_ok I K) (get_order_by_cli_ord_id cli)" "keeps (world_ok I K) open_orders"
  by (auto simp: keeps_def world_ok_def sent_signals_def get_order_by_cli_ord_id_def open_orders_def
      split: prod.splits)

lemma keeps_world_reads [keeps_intro]: "keeps (world_ok I K) clock" "keeps (world_ok I K) (now_iso L)"
  by (simp_all add: clock_def now_iso_def)

lemma keeps_world_expired [keeps_intro]: "keeps (world_ok I K) (reject_expired L sg t)"
  unfolding reject_expired_def by (intro keeps_intro)

lemma keeps_world_advance [keeps_intro]: "keeps (world_ok I K) (advance f)"
  unfolding advance_def by (rule keeps_modify) (simp add: world_ok_def sent_signals_def)

lemma keeps_fill_position: "keeps (tables_ok S K) (apply_fill_to_position L i b lev is_buy q price t)"
  by (rule keeps_triple) (rule fill_position_tables)

section \<open>What the tasks learn from the tables\<close>

text \<open>A row found for a signal is a row of that signal.\<close>
lemma pending_world:
  "triple (world_ok I K) (sql (pending_order_for_signal i))
     (\<lambda>found w. world_ok ((if found = None then {} else {i}) \<union> I) K w) (world_ok I K)"
  unfolding sql_def
proof (rule triple_world_lift)
  fix S
  show "triple (tables_ok S K) (pending_order_for_signal i)
      (\<lambda>found. tables_ok (if found = None then S else insert i S) K) (tables_ok S K)"
    unfolding pending_order_for_signal_def
    by (rule triple_query) (auto simp: tables_ok_def rows_ok_def has_row_def dest!: find_someD)
qed (auto simp: world_ok_def split: if_splits)

text \<open>The rows a poll brings back are rows of the table.\<close>
lemma pending_rows_world:
  "triple (world_ok {} K) (sql (pending_signals 64 t))
     (\<lambda>rows w. world_ok {} K w \<and> (\<forall>r \<in> set rows. (sr_id r, sr_sleeve r) \<in> set K)) (world_ok {} K)"
  unfolding sql_def
proof (rule triple_world_lift)
  show "triple (tables_ok S K) (pending_signals 64 t)
     (\<lambda>rows d. tables_ok S K d \<and> (\<forall>r \<in> set rows. (sr_id r, sr_sleeve r) \<in> set K)) (tables_ok S K)" for S
    unfolding pending_signals_def
    by (rule triple_query) (auto simp: tables_ok_def rows_ok_def signals_are_def sql_limit_def dest: in_set_takeD)
qed (auto simp: world_ok_def)

text \<open>The sleeve that a filled order brings back is the leverage sleeve.\<close>
lemma fill_order_world:
  assumes "distinct (map fst K)"
  shows "triple (world_ok I K) (fill_order L f t)
     (\<lambda>out w. world_ok I K w \<and> (\<forall>x slv. out = Some x \<longrightarrow> fo_sleeve x = Some slv \<longrightarrow> slv = lev)) (world_ok I K)"
  unfolding fill_order_def sql_def
  by (rule triple_world_lift [OF fill_order_tables]) (use assms in \<open>auto simp: world_ok_def\<close>)

section \<open>Steps\<close>

record daemon =
  dm_lib :: lib
  dm_processor :: processor
  dm_reconciler :: reconciler
  dm_flex :: "json \<Rightarrow> flex_account option"
  dm_margin :: "json \<Rightarrow> margin_account option"

text \<open>The operator's resolution of an event.\<close>
definition resolve_event :: "int \<Rightarrow> string \<Rightarrow> string \<Rightarrow> db \<Rightarrow> db" where
  "resolve_event i t who d = d\<lparr> db_kill_events := update_where (\<lambda>e. ke_id e = i)
     (\<lambda>e. e\<lparr> ke_resolved_at := Some t, ke_resolved_by := Some who \<rparr>) (db_kill_events d) \<rparr>"

inductive daemon_step :: "daemon \<Rightarrow> world \<Rightarrow> world \<Rightarrow> bool" for D where
  poll: "poll_once (dm_lib D) (dm_processor D) w = (w', r) \<Longrightarrow> daemon_step D w w'"
| supervise: "evaluate_kill_switch_once (dm_lib D) (rk_risk (dm_reconciler D)) (rk_instruments (dm_reconciler D))
      (rk_has_broker (dm_reconciler D)) w = (w', r) \<Longrightarrow> daemon_step D w w'"
| fills: "reconcile_once (dm_lib D) (dm_reconciler D) w = (w', r) \<Longrightarrow> daemon_step D w w'"
| periodic: "periodic_once w = (w', r') \<Longrightarrow> daemon_step D w w'"
| equity: "write_one_snapshot (dm_lib D) (dm_flex D) (dm_margin D) (rk_risk (dm_reconciler D)) answer w = (w', r'') \<Longrightarrow>
    daemon_step D w w'"
| restart: "daemon_step D w (w\<lparr> w_applied_seq := 0 \<rparr>)"
| arrive: "sr_id s \<notin> set (map sr_id (db_signals (w_db w))) \<Longrightarrow>
    daemon_step D w (w\<lparr> w_db := (w_db w)\<lparr> db_signals := db_signals (w_db w) @ [s] \<rparr> \<rparr>)"
| resolve: "daemon_step D w (w\<lparr> w_db := resolve_event i t who (w_db w) \<rparr>)"
| environment: "w_now w \<le> now \<Longrightarrow> daemon_step D w (w\<lparr> w_feeds := fd, w_now := now, w_submits := a,
    w_lookups := b, w_listings := c, w_db := (w_db w)\<lparr> db_faults := fs \<rparr> \<rparr>)"

text \<open>Starting with an empty database.\<close>
inductive reachable :: "daemon \<Rightarrow> world \<Rightarrow> bool" for D where
  start: "w_db w = db_empty\<lparr> db_faults := fs \<rparr> \<Longrightarrow> w_sent w = [] \<Longrightarrow> reachable D w"
| step: "reachable D w \<Longrightarrow> daemon_step D w w' \<Longrightarrow> reachable D w'"

definition sleeve_table :: "db \<Rightarrow> (int \<times> string) list" where
  "sleeve_table d = map (\<lambda>s. (sr_id s, sr_sleeve s)) (db_signals d)"

definition daemon_ok :: "world \<Rightarrow> bool" where
  "daemon_ok w \<longleftrightarrow> world_ok {} (sleeve_table (w_db w)) w \<and> distinct (map sr_id (db_signals (w_db w)))"

lemma sleeve_table_ids: "map fst (sleeve_table d) = map sr_id (db_signals d)"
  by (simp add: sleeve_table_def)

end
