(* ===== verification/Sample_Run.thy ===== *)
theory Sample_Run
  imports Daemon Risk_Properties
begin

text \<open>A concrete run.  A signal that arrives on an empty database passes the checklist, its order goes to
  the broker, and the broker does not answer in time.\<close>

definition demo_metadata :: json where
  "demo_metadata = JObj [(''atr_absolute'', JNum ''1000''), (''atr_pct'', JNum ''2''),
     (''fx_quote_per_chf'', JNum ''1'')]"

definition demo_lib :: lib where
  "demo_lib = lib0\<lparr> l_parse_json := (\<lambda>s. Some demo_metadata) \<rparr>"

lemma demo_lib_sel [simp]:
  "l_rnd demo_lib x = (if \<bar>x\<bar> < 2 ^ 96 then Some x else None)"
  "l_show demo_lib = show_dec" "l_parse demo_lib = parse_dec"
  "l_real_nonzero demo_lib s \<longleftrightarrow> parse_dec s \<noteq> Some 0 \<and> parse_dec s \<noteq> None"
  "l_iso demo_lib = iso_fixed" "l_parse_iso demo_lib = parse_iso_fixed"
  "l_parse_json demo_lib s = Some demo_metadata"
  by (simp add: demo_lib_def)+

lemma demo_laws: "dec_laws demo_lib"
  unfolding dec_laws_def by (auto dest: representable_bound split: if_splits)

definition demo_row :: signal_row where
  "demo_row = \<lparr> sr_id = 7, sr_created_at = ''0'', sr_instrument_symbol = ''PI_XBTUSD'', sr_side = ''buy'',
     sr_signal_type = ''trend_entry'', sr_sleeve = ''crypto_leverage'', sr_notional_chf = ''500'',
     sr_leverage = ''2'', sr_metadata_json = Some ''{}'', sr_status = ''pending'', sr_processed_at = None,
     sr_rejection_reason = None, sr_expires_at = None, sr_retry_after_at = None \<rparr>"

definition demo_book :: local_book where
  "demo_book = \<lparr> bk_product_id = ''PI_XBTUSD'', bk_bids = [(50000, 5)], bk_asks = [(50010, 4)],
     bk_last_seq = Some 3, bk_last_update_at = Some 1000000000, bk_state = Synced \<rparr>"

definition demo_ticker :: ticker_msg where
  "demo_ticker = \<lparr> tk_product_id = ''PI_XBTUSD'', tk_bid = None, tk_ask = None, tk_bid_size = None,
     tk_ask_size = None, tk_funding_rate = None, tk_funding_rate_prediction = None,
     tk_relative_funding_rate = None, tk_next_funding_rate_time = None, tk_time = None,
     tk_last = Some 50005 \<rparr>"

definition demo_feeds :: feeds where
  "demo_feeds = \<lparr> fd_books = [''PI_XBTUSD'' \<mapsto> demo_book], fd_tickers = [''PI_XBTUSD'' \<mapsto> demo_ticker],
     fd_open_orders = open_orders_new, fd_fills = fills_new 200, fd_text_counter = 0 \<rparr>"

definition demo_start :: world where
  "demo_start = \<lparr> w_db = db_empty, w_feeds = demo_feeds, w_now = 1200000000,
     w_submits = [(2000000000, Inl (ETimeout 10))], w_lookups = [], w_listings = [], w_sent = [],
     w_applied_seq = 0 \<rparr>"

definition demo_world :: world where
  "demo_world = demo_start\<lparr> w_db := db_empty\<lparr> db_signals := [demo_row] \<rparr> \<rparr>"

definition demo_processor :: processor where
  "demo_processor = \<lparr> sp_mode = Live, sp_has_broker = True, sp_risk = risk_config_default,
     sp_instruments = registry_new \<rparr>"

section \<open>What the processor sees\<close>

definition demo_signal :: signal where
  "demo_signal = \<lparr> sg_id = 7, sg_created_at = 0, sg_instrument_symbol = ''PI_XBTUSD'', sg_side = Buy,
     sg_signal_type = TrendEntry, sg_sleeve = CryptoLeverage, sg_notional_chf = 500, sg_leverage = 2,
     sg_metadata = Some demo_metadata, sg_status = SPending, sg_processed_at = None,
     sg_rejection_reason = None, sg_expires_at = None \<rparr>"

definition demo_market :: market_snapshot where
  "demo_market = \<lparr> mk_instrument_symbol = ''PI_XBTUSD'', mk_order_book =
     \<lparr> ob_bids = [\<lparr> lv_price = 50000, lv_quantity = 5 \<rparr>], ob_asks = [\<lparr> lv_price = 50010, lv_quantity = 4 \<rparr>],
       ob_timestamp = 1000000000 \<rparr>, mk_last_price = 50005, mk_last_trade_at = 1200000000,
     mk_atr_absolute = 1000, mk_atr_pct = 2, mk_funding_rate_per_8h = None, mk_fx_quote_per_chf = 1 \<rparr>"

definition demo_portfolio :: portfolio where
  "demo_portfolio = \<lparr> pf_snapshot_at = 1200000000, pf_sleeves =
     [\<lparr> ss_sleeve = CryptoSpot, ss_market_value_chf = 0, ss_cash_chf = 0, ss_realized_pnl_lifetime_chf = 0,
        ss_unrealized_pnl_chf = 0 \<rparr>,
      \<lparr> ss_sleeve = Etf, ss_market_value_chf = 0, ss_cash_chf = 0, ss_realized_pnl_lifetime_chf = 0,
        ss_unrealized_pnl_chf = 0 \<rparr>,
      \<lparr> ss_sleeve = CryptoLeverage, ss_market_value_chf = 0, ss_cash_chf = 0,
        ss_realized_pnl_lifetime_chf = 0, ss_unrealized_pnl_chf = 0 \<rparr>],
     pf_nav_per_unit = 1, pf_nav_hwm_per_unit = 1, pf_total_units = 1, pf_kill_switch_active = False,
     pf_open_positions = [] \<rparr>"

definition demo_ctx :: ctx where
  "demo_ctx = \<lparr> cx_signal = demo_signal, cx_market = demo_market, cx_portfolio = demo_portfolio,
     cx_config = risk_config_default, cx_now = 1200000000 \<rparr>"

definition demo_result :: checklist_result where
  "demo_result = \<lparr> cr_outcomes = 
       [(''staleness'', Approved), (''spread_liquidity'', Approved), (''volatility_regime'', Approved),
        (''hard_limit'', Approved), (''duplicate_position'', Approved), (''liquidation_distance'', NotApplicable),
        (''funding_rate'', NotApplicable), (''notional_cap'', Approved)],
     cr_evaluated_at = 1200000000, cr_approved = True \<rparr>"

lemmas demo_defs = demo_ctx_def demo_signal_def demo_market_def demo_portfolio_def risk_config_default_def

lemma parse_demo:
  "parse_dec ''0'' = Some 0" "parse_dec ''1'' = Some 1" "parse_dec ''2'' = Some 2"
  "parse_dec ''500'' = Some 500" "parse_dec ''1000'' = Some 1000" "parse_iso_fixed ''0'' = Some 0"
  by (simp_all add: parse_dec_def parse_nat_def char_digit_def Let_def parse_iso_fixed_def)

lemma demo_row_signal: "row_to_signal demo_lib demo_row = Inr demo_signal"
  by (simp add: row_to_signal_def demo_row_def demo_signal_def parse_side_def parse_variant_def parse_amount_def
      parse_time_def parse_opt_time_def parse_metadata_def parse_demo parse_signal_type_def parse_sleeve_def
      parse_signal_status_def variant_of_def)

lemma demo_snapshot:
  "snapshot_for_signal demo_lib demo_feeds ''PI_XBTUSD'' (Some demo_metadata) 1200000000 = Some (Inr demo_market)"
  by (simp add: snapshot_for_signal_def demo_feeds_def demo_book_def demo_ticker_def demo_metadata_def
      extract_atr_def extract_fx_def metadata_field_def parse_demo tk_funding_rate_per_8h_def
      to_market_snapshot_def to_core_snapshot_def is_synced_def to_levels_def snapshot_depth_def
      last_trade_time_def demo_market_def)

lemma demo_loaded: "loaded demo_lib 1200000000 (db_empty\<lparr> db_signals := S \<rparr>) = Inr demo_portfolio"
  by (simp add: loaded_def leverage_rows_def latest_row_def db_empty_def bootstrap_row_def materialise_def
      snapshot_decimal_def parse_demo demo_portfolio_def)

lemma demo_checks:
  "staleness_check demo_lib demo_ctx = Some Approved"
  "spread_liquidity_check demo_lib demo_ctx = Some Approved"
  "volatility_check demo_lib demo_ctx = Some Approved"
  "hard_limit_check demo_lib demo_ctx = Some Approved"
  "duplicate_position_check demo_lib demo_ctx = Some Approved"
  "liquidation_distance_check demo_lib demo_ctx = Some NotApplicable"
  "funding_rate_check demo_lib demo_ctx = Some NotApplicable"
  "notional_cap_check demo_lib demo_ctx = Some Approved"
proof -
  show "staleness_check demo_lib demo_ctx = Some Approved"
    by (simp add: staleness_check_def tick_age_ms_def num_milliseconds_def demo_defs)
  show "spread_liquidity_check demo_lib demo_ctx = Some Approved"
    by (simp add: spread_liquidity_check_def demo_defs spread_bps_def best_bid_def best_ask_def
        mid_price_def required_quantity_def available_depth_def ask_depth_def dsum_def dec_ops)
  show "volatility_check demo_lib demo_ctx = Some Approved"
    by (simp add: volatility_check_def demo_defs)
  have "worst_case_loss demo_lib demo_ctx = Some 103"
    by (simp add: worst_case_loss_def demo_defs dec_ops)
  moreover have "leverage_effective_pnl demo_lib demo_portfolio = Some 0"
    by (simp add: leverage_effective_pnl_def leverage_realized_pnl_def leverage_unrealized_pnl_def
        find_sleeve_def demo_portfolio_def dec_ops)
  moreover have "drawdown_fraction demo_lib demo_portfolio = Some 0"
    by (simp add: drawdown_fraction_def demo_portfolio_def dec_ops)
  ultimately show "hard_limit_check demo_lib demo_ctx = Some Approved"
    by (simp add: hard_limit_check_def Let_def dec_ops demo_ctx_def demo_signal_def
        risk_config_default_def)
  show "duplicate_position_check demo_lib demo_ctx = Some Approved"
    by (simp add: duplicate_position_check_def demo_defs)
  show "liquidation_distance_check demo_lib demo_ctx = Some NotApplicable"
    by (simp add: liquidation_distance_check_def demo_defs dec_ops)
  show "funding_rate_check demo_lib demo_ctx = Some NotApplicable"
    by (simp add: funding_rate_check_def demo_defs)
  show "notional_cap_check demo_lib demo_ctx = Some Approved"
    by (simp add: notional_cap_check_def demo_defs)
qed

lemma demo_evaluate: "evaluate standard_checks demo_lib demo_ctx = Some demo_result"
  using demo_checks
  by (simp add: evaluate_def standard_checks_def item_defs kill_switch_gate_def demo_result_def
      demo_ctx_def demo_portfolio_def)

section \<open>What it does\<close>

definition demo_order :: order where
  "demo_order = \<lparr> or_id = 0, or_signal_id = Some 7, or_broker = KrakenFutures, or_broker_order_id = None,
     or_cli_ord_id = Some (signal_cli 7), or_instrument = perp_instrument registry_new ''PI_XBTUSD'',
     or_side = Buy, or_order_type = PostOnly, or_time_in_force = Gtc, or_quantity = 500,
     or_limit_price = Some 50000, or_stop_price = None, or_status = PendingSubmission,
     or_filled_quantity = 0, or_avg_fill_price = None, or_fees_paid = 0, or_created_at = 1200000000,
     or_updated_at = 1200000000, or_error_message = None, or_reduce_only = None \<rparr>"

definition demo_order_row :: order_row where
  "demo_order_row = \<lparr> od_id = 1, od_signal_id = Some 7, od_broker = broker_tag, od_broker_order_id = None,
     od_instrument_symbol = ''PI_XBTUSD'', od_side = ''buy'', od_order_type = ''post_only'',
     od_time_in_force = ''gtc'', od_quantity = show_dec 500, od_limit_price = Some (show_dec 50000),
     od_stop_price = None, od_status = ''uncertain'', od_filled_quantity = ''0'', od_avg_fill_price = None,
     od_fees_paid = ''0'', od_created_at = iso_fixed 1200000000, od_updated_at = iso_fixed 3200000000,
     od_error_message = Some (exec_error_text (ETimeout 10)), od_cli_ord_id = Some (signal_cli 7) \<rparr>"

definition demo_after :: world where
  "demo_after = demo_world\<lparr> w_db := db_empty\<lparr> db_signals :=
       [demo_row\<lparr> sr_retry_after_at := Some (iso_fixed (93200000000)) \<rparr>],
       db_orders := [demo_order_row], db_equity := [bootstrap_row (iso_fixed 1200000000)],
       db_checklists := [\<lparr> ce_id = 1, ce_signal_id = 7, ce_evaluated_at = iso_fixed 1200000000,
         ce_approved = True, ce_outcomes = outcomes_json demo_lib (cr_outcomes demo_result) \<rparr>] \<rparr>,
     w_submits := [], w_sent := [demo_order], w_now := 3200000000 \<rparr>"

lemma demo_build:
  "build_kraken_futures_order demo_lib demo_signal demo_market pf registry_new 1200000000 = Inr demo_order"
  by (simp add: build_kraken_futures_order_def demo_signal_def demo_market_def demo_order_def best_bid_def
      dec_ops max_contracts_per_order_def)


text \<open>After the checklist.\<close>
definition demo_cleared :: world where
  "demo_cleared = demo_world\<lparr> w_db := db_empty\<lparr> db_signals := [demo_row],
     db_equity := [bootstrap_row (iso_fixed 1200000000)],
     db_checklists := [\<lparr> ce_id = 1, ce_signal_id = 7, ce_evaluated_at = iso_fixed 1200000000,
       ce_approved = True, ce_outcomes = outcomes_json demo_lib (cr_outcomes demo_result) \<rparr>] \<rparr> \<rparr>"

lemma demo_calm [simp]: "calm demo_world" "calm demo_cleared"
  by (simp_all add: calm_def no_faults_def demo_world_def demo_cleared_def db_empty_def)

lemma demo_place: "place_order demo_lib demo_signal None demo_order demo_cleared = (demo_after, Ok ())"
  by (simp add: place_order_def insert_pending_order_def demo_cleared_def demo_world_def demo_start_def
      demo_order_def demo_signal_def demo_row_def db_empty_def signal_exists_def next_id_def sql_def
      lift_with_def bnd_def now_iso_def clock_def canonical_iso_def submit_order_def next_answer_def
      after_submit_def is_uncertain_error_def mark_order_uncertain_def update_order_def update_where_def
      set_cooldown_def set_signal_retry_after_def update_signal_def exec_def seconds_def stmt_def
      perp_instrument_def Let_def demo_after_def demo_order_row_def del: exec_error_text.simps)

lemma demo_submit: "submit_via_broker demo_lib demo_processor demo_signal demo_market pf demo_cleared = (demo_after, Ok ())"
proof -
  have "try_reconcile_uncertain_order demo_lib 7 demo_cleared = (demo_cleared, Ok NoExistingOrder)"
    by (simp add: try_reconcile_uncertain_order_def pending_order_for_signal_def)
      (simp add: demo_cleared_def db_empty_def)
  moreover have "w_now demo_cleared = 1200000000"
    by (simp add: demo_cleared_def demo_world_def demo_start_def)
  ultimately show ?thesis
    using demo_build demo_place
    by (simp add: submit_via_broker_def demo_signal_def [THEN arg_cong [of _ _ sg_sleeve]]
        demo_signal_def [THEN arg_cong [of _ _ sg_id]] demo_processor_def bnd_def build_and_place_def clock_def)
qed


lemma demo_checklist: "run_checklist demo_lib demo_processor demo_signal demo_market demo_portfolio
    (demo_world\<lparr> w_db := loaded_db demo_lib 1200000000 (w_db demo_world) \<rparr>) = (demo_after, Ok ())"
proof -
  let ?w = "demo_world\<lparr> w_db := loaded_db demo_lib 1200000000 (w_db demo_world) \<rparr>"
  have now: "w_now ?w = 1200000000" by (simp add: demo_world_def demo_start_def)
  have rec: "bnd (sql (record_checklist_evaluation 7 (iso_fixed 1200000000) True
      (outcomes_json demo_lib (cr_outcomes demo_result)))) k ?w = k () demo_cleared" for k :: "unit \<Rightarrow> unit dio"
    by (rule bnd_eq) (simp add: sql_def lift_with_def record_checklist_evaluation_def stmt_def loaded_db_def demo_world_def
        demo_start_def db_empty_def signal_exists_def demo_row_def demo_cleared_def next_id_def canonical_iso_def)
  have ev: "evaluate standard_checks demo_lib \<lparr> cx_signal = demo_signal, cx_market = demo_market,
      cx_portfolio = demo_portfolio, cx_config = sp_risk demo_processor, cx_now = 1200000000 \<rparr> = Some demo_result"
    using demo_evaluate by (simp add: demo_ctx_def demo_processor_def)
  have ids: "sg_id demo_signal = 7" "cr_approved demo_result = True" "cr_evaluated_at demo_result = 1200000000"
    "sp_mode demo_processor = Live"
    by (simp_all add: demo_signal_def demo_result_def demo_processor_def)
  show ?thesis
    unfolding run_checklist_def bnd_clock now ev or_panic_simps bnd_ret ids if_True canonical_iso_def demo_lib_sel
      rec handle_approval_def
    by (simp add: demo_submit)
qed

lemma demo_process: "process_signal demo_lib demo_processor demo_row demo_world = (demo_after, Ok ())"
proof -
  have now: "w_now demo_world = 1200000000" "w_feeds demo_world = demo_feeds"
    by (simp_all add: demo_world_def demo_start_def)
  have db: "w_db demo_world = db_empty\<lparr> db_signals := [demo_row] \<rparr>" by (simp add: demo_world_def)
  have sg: "sg_instrument_symbol demo_signal = ''PI_XBTUSD''" "sg_metadata demo_signal = Some demo_metadata"
    "sg_expires_at demo_signal = None" "is_expired demo_signal t \<longleftrightarrow> False" for t
    by (simp_all add: demo_signal_def is_expired_def)
  have load: "catch (load_portfolio_state demo_lib 1200000000) k demo_world
      = k (Inr demo_portfolio) (demo_world\<lparr> w_db := loaded_db demo_lib 1200000000 (w_db demo_world) \<rparr>)"
    for k :: "_ \<Rightarrow> unit dio"
    by (rule catch_ok) (use load_calm [OF demo_calm(1)] in \<open>simp add: db demo_loaded\<close>)
  show ?thesis
    unfolding process_signal_def demo_row_signal sum.case bnd_clock now sg if_False bnd_gets_eq demo_snapshot
      or_panic_simps bnd_ret load
    by (rule demo_checklist)
qed

lemma demo_poll: "poll_once demo_lib demo_processor demo_world = (demo_after, Ok ())"
proof -
  have "bnd (sql (pending_signals 64 t)) k demo_world = k [demo_row] demo_world" for t and k :: "_ \<Rightarrow> unit dio"
    by (rule bnd_eq) (simp add: pending_signals_def demo_world_def query_def stmt_def db_empty_def pollable_def demo_row_def
        sql_limit_def sql_def lift_with_def)
  then show ?thesis
    by (simp add: poll_once_def) (simp add: catch_def bnd_def demo_process)
qed

section \<open>It is a run of the daemon\<close>

definition demo_daemon :: daemon where
  "demo_daemon = \<lparr> dm_lib = demo_lib, dm_processor = demo_processor,
     dm_reconciler = \<lparr> rk_risk = risk_config_default, rk_has_broker = True, rk_instruments = registry_new \<rparr>,
     dm_flex = (\<lambda>j. None), dm_margin = (\<lambda>j. None) \<rparr>"

lemma demo_world_reachable: "reachable D demo_world"
proof (rule reachable.step)
  show "reachable D demo_start" by (rule reachable.start [of _ "[]"]) (simp_all add: demo_start_def db_empty_def)
  show "daemon_step D demo_start demo_world"
    using daemon_step.arrive [of demo_row demo_start D] by (simp add: demo_world_def demo_start_def db_empty_def)
qed

lemma demo_reachable: "reachable demo_daemon demo_world" "reachable demo_daemon demo_after"
proof -
  show w: "reachable demo_daemon demo_world" by (rule demo_world_reachable)
  have "poll_once (dm_lib demo_daemon) (dm_processor demo_daemon) demo_world = (demo_after, Ok ())"
    using demo_poll by (simp add: demo_daemon_def)
  then show "reachable demo_daemon demo_after" by (rule reachable.step [OF w daemon_step.poll])
qed

end
