(* ===== verification/Processes.thy ===== *)
theory Processes
  imports Effects
begin

text \<open>Operations that other tasks can interrupt.  A process is a tree of atomic actions, one per point at which
  the source awaits; between two actions of a process any other process may act on the shared state.  Run
  without interruption it is an operation of the theory \<open>Effects\<close>.\<close>

datatype ('s, 'e, 'a) proc = Done "('e, 'a) res" | Act "'s \<Rightarrow> 's \<times> ('s, 'e, 'a) proc"

definition pret :: "'a \<Rightarrow> ('s, 'e, 'a) proc" where
  "pret a = Done (Ok a)"

definition por_panic :: "'a option \<Rightarrow> ('s, 'e, 'a) proc" where
  "por_panic x = (case x of Some a \<Rightarrow> Done (Ok a) | None \<Rightarrow> Done Panic)"

definition por_fail :: "'e + 'a \<Rightarrow> ('s, 'e, 'a) proc" where
  "por_fail x = (case x of Inr a \<Rightarrow> Done (Ok a) | Inl e \<Rightarrow> Done (Err e))"

text \<open>An operation as one action.\<close>
definition atom :: "('s, 'e, 'a) io \<Rightarrow> ('s, 'e, 'a) proc" where
  "atom m = Act (\<lambda>s. map_prod id Done (m s))"

primrec pbnd :: "('s, 'e, 'a) proc \<Rightarrow> ('a \<Rightarrow> ('s, 'e, 'b) proc) \<Rightarrow> ('s, 'e, 'b) proc" where
  "pbnd (Done r) k = (case r of Ok a \<Rightarrow> k a | Err e \<Rightarrow> Done (Err e) | Panic \<Rightarrow> Done Panic)"
| "pbnd (Act f) k = Act (\<lambda>s. map_prod id (\<lambda>p. pbnd p k) (f s))"

primrec pcatch :: "('s, 'e, 'a) proc \<Rightarrow> ('e + 'a \<Rightarrow> ('s, 'f, 'b) proc) \<Rightarrow> ('s, 'f, 'b) proc" where
  "pcatch (Done r) k = (case r of Ok a \<Rightarrow> k (Inr a) | Err e \<Rightarrow> k (Inl e) | Panic \<Rightarrow> Done Panic)"
| "pcatch (Act f) k = Act (\<lambda>s. map_prod id (\<lambda>p. pcatch p k) (f s))"

fun pfor_each :: "'a list \<Rightarrow> ('a \<Rightarrow> ('s, 'e, unit) proc) \<Rightarrow> ('s, 'e, unit) proc" where
  "pfor_each [] f = pret ()"
| "pfor_each (x # xs) f = pbnd (f x) (\<lambda>_. pfor_each xs f)"

lemma proc_cases_induct [case_names Done Act]:
  assumes "\<And>r. P (Done r)" "\<And>f. (\<And>s. P (snd (f s))) \<Longrightarrow> P (Act f)"
  shows "P p"
proof (induction p)
  case (Act f)
  have "P (snd (f s))" for s
    by (rule Act [of "f s"]) (auto intro: snds.intros)
  then show ?case by (rule assms(2))
qed (rule assms(1))

section \<open>Without interruption\<close>

primrec run :: "('s, 'e, 'a) proc \<Rightarrow> ('s, 'e, 'a) io" where
  "run (Done r) = (\<lambda>s. (s, r))"
| "run (Act f) = (\<lambda>s. case map_prod id run (f s) of (s', g) \<Rightarrow> g s')"

named_theorems solo_simps "running a process without interruption"

lemma run_ret [solo_simps]: "run (pret a) = ret a"
  by (simp add: pret_def ret_def)

lemma run_or_panic [solo_simps]: "run (por_panic x) = or_panic x"
  by (cases x) (auto simp: por_panic_def fun_eq_iff)

lemma run_or_fail [solo_simps]: "run (por_fail x) = or_fail x"
  by (cases x) (auto simp: por_fail_def fun_eq_iff)

lemma run_atom [solo_simps]: "run (atom m) = m"
  by (simp add: atom_def fun_eq_iff map_prod_def split_beta)

lemma run_bnd [solo_simps]: "run (pbnd p k) = bnd (run p) (\<lambda>a. run (k a))"
proof (induction p rule: proc_cases_induct)
  case (Done r)
  then show ?case by (cases r) (auto simp: bnd_def fun_eq_iff)
next
  case (Act f)
  then show ?case by (simp add: bnd_def fun_eq_iff map_prod_def split_beta)
qed

lemma run_catch [solo_simps]: "run (pcatch p k) = catch (run p) (\<lambda>a. run (k a))"
proof (induction p rule: proc_cases_induct)
  case (Done r)
  then show ?case by (cases r) (auto simp: catch_def fun_eq_iff)
next
  case (Act f)
  then show ?case by (simp add: catch_def fun_eq_iff map_prod_def split_beta)
qed

lemma run_for_each [solo_simps]: "run (pfor_each xs f) = for_each xs (\<lambda>x. run (f x))"
  by (induction xs) (simp_all add: solo_simps)

lemma run_case [solo_simps]:
  "run (case x of None \<Rightarrow> p | Some a \<Rightarrow> q a) = (case x of None \<Rightarrow> run p | Some a \<Rightarrow> run (q a))"
  "run (case y of Inl e \<Rightarrow> p' e | Inr a \<Rightarrow> q' a) = (case y of Inl e \<Rightarrow> run (p' e) | Inr a \<Rightarrow> run (q' a))"
  "run (case z of (u, v) \<Rightarrow> h u v) = (case z of (u, v) \<Rightarrow> run (h u v))"
  "run (if b then p else p'') = (if b then run p else run p'')"
  by (simp_all split: option.split sum.split prod.split)

lemmas solo_cong = option.case_cong sum.case_cong prod.case_cong if_cong

section \<open>Invariants under interruption\<close>

text \<open>Every single action preserves every member of a family of properties, from any state in which one of
  them holds.\<close>
primrec pkeeps :: "('j \<Rightarrow> 's \<Rightarrow> bool) \<Rightarrow> ('s, 'e, 'a) proc \<Rightarrow> bool" where
  "pkeeps Inv (Done r) \<longleftrightarrow> True"
| "pkeeps Inv (Act f) \<longleftrightarrow> (\<forall>j s. Inv j s \<longrightarrow>
     (case map_prod id (pkeeps Inv) (f s) of (s', ok) \<Rightarrow> Inv j s' \<and> ok))"

lemma pkeeps_Act: "pkeeps Inv (Act f) \<longleftrightarrow> (\<forall>j s. Inv j s \<longrightarrow> Inv j (fst (f s)) \<and> pkeeps Inv (snd (f s)))"
  by (simp add: map_prod_def split_beta)

declare pkeeps.simps(2) [simp del]

named_theorems pkeeps_intro "rules for properties that every action preserves"

lemma pkeeps_pure [pkeeps_intro]: "pkeeps P (pret a)" "pkeeps P (por_panic x)" "pkeeps P (por_fail y)"
  by (auto simp: pret_def por_panic_def por_fail_def split: option.split sum.split)

lemma pkeeps_atom [pkeeps_intro]: "(\<And>j. keeps (P j) m) \<Longrightarrow> pkeeps P (atom m)"
  by (auto simp: atom_def pkeeps_Act keeps_def)

lemma pkeeps_bnd [pkeeps_intro]: "pkeeps P p \<Longrightarrow> (\<And>a. pkeeps P (k a)) \<Longrightarrow> pkeeps P (pbnd p k)"
  by (induction p rule: proc_cases_induct) (auto simp: pkeeps_Act split: res.split)

lemma pkeeps_catch [pkeeps_intro]: "pkeeps P p \<Longrightarrow> (\<And>a. pkeeps P (k a)) \<Longrightarrow> pkeeps P (pcatch p k)"
  by (induction p rule: proc_cases_induct) (auto simp: pkeeps_Act split: res.split)

lemma pkeeps_for_each [pkeeps_intro]: "(\<And>x. pkeeps P (f x)) \<Longrightarrow> pkeeps P (pfor_each xs f)"
  by (induction xs) (auto intro: pkeeps_intro)

lemma pkeeps_split [pkeeps_intro]:
  "pkeeps P p \<Longrightarrow> (\<And>a. pkeeps P (q a)) \<Longrightarrow> pkeeps P (case x of None \<Rightarrow> p | Some a \<Rightarrow> q a)"
  "(\<And>e. pkeeps P (p' e)) \<Longrightarrow> (\<And>a. pkeeps P (q' a)) \<Longrightarrow> pkeeps P (case y of Inl e \<Rightarrow> p' e | Inr a \<Rightarrow> q' a)"
  "(\<And>u v. pkeeps P (h u v)) \<Longrightarrow> pkeeps P (case z of (u, v) \<Rightarrow> h u v)"
  "(b \<Longrightarrow> pkeeps P p) \<Longrightarrow> (\<not> b \<Longrightarrow> pkeeps P p'') \<Longrightarrow> pkeeps P (if b then p else p'')"
  by (simp_all split: option.split sum.split prod.split)

text \<open>A process that moves between the members of a family of properties.  The index tells what the process has
  established; each of its actions preserves every member that another process may rely on; the
  postcondition is about the final index.\<close>
inductive guided :: "('j \<Rightarrow> 's \<Rightarrow> bool) \<Rightarrow> (('e, 'a) res \<Rightarrow> 'j \<Rightarrow> bool) \<Rightarrow> 'j \<Rightarrow> ('s, 'e, 'a) proc \<Rightarrow> bool"
  for Inv post where
  over: "post r j \<Longrightarrow> guided Inv post j (Done r)"
| act: "(\<And>s. Inv j s \<Longrightarrow> (\<forall>i. Inv i s \<longrightarrow> Inv i (fst (f s))) \<and>
      (\<exists>j'. Inv j' (fst (f s)) \<and> guided Inv post j' (snd (f s)))) \<Longrightarrow>
    guided Inv post j (Act f)"

inductive_simps guided_Done [simp]: "guided Inv post j (Done r)"
inductive_simps guided_Act: "guided Inv post j (Act f)"

lemma guided_atom:
  assumes "\<And>s s' r i. Inv j s \<Longrightarrow> m s = (s', r) \<Longrightarrow> Inv i s \<Longrightarrow> Inv i s'"
    and "\<And>s s' r. Inv j s \<Longrightarrow> m s = (s', r) \<Longrightarrow> \<exists>j'. Inv j' s' \<and> post r j'"
  shows "guided Inv post j (atom m)"
  unfolding atom_def guided_Act
proof (intro allI impI conjI)
  fix s i
  assume "Inv j s" "Inv i s"
  then show "Inv i (fst (map_prod id Done (m s)))" using assms(1) [of s "fst (m s)" "snd (m s)" i] by simp
next
  fix s
  assume "Inv j s"
  then show "\<exists>j'. Inv j' (fst (map_prod id Done (m s))) \<and> guided Inv post j' (snd (map_prod id Done (m s)))"
    using assms(2) [of s "fst (m s)" "snd (m s)"] by simp
qed

lemma guided_mono:
  "guided Inv post j p \<Longrightarrow> (\<And>r j'. post r j' \<Longrightarrow> post' r j') \<Longrightarrow> guided Inv post' j p"
proof (induction rule: guided.induct)
  case (act j f)
  then show ?case unfolding guided_Act by blast
qed simp

lemma guided_weaken:
  assumes "guided Inv post j' p" "\<And>s. Inv j s \<Longrightarrow> Inv j' s" "\<And>r. post r j' \<Longrightarrow> post r j"
  shows "guided Inv post j p"
  using assms by (cases p) (auto simp: guided_Act)

lemma guided_keeps:
  assumes "pkeeps Inv p" "\<And>r. post r j"
  shows "guided Inv post j p"
  using assms(1)
proof (induction p rule: proc_cases_induct)
  case (Act f)
  then show ?case unfolding guided_Act pkeeps_Act by blast
qed (simp add: assms(2))

lemma guided_bnd:
  assumes "guided Inv mid j p"
    and "\<And>a j'. mid (Ok a) j' \<Longrightarrow> guided Inv post j' (k a)"
    and "\<And>e j'. mid (Err e) j' \<Longrightarrow> post (Err e) j'" "\<And>j'. mid Panic j' \<Longrightarrow> post Panic j'"
  shows "guided Inv post j (pbnd p k)"
  using assms(1)
proof (induction rule: guided.induct)
  case (over r j)
  then show ?case using assms(2-4) by (cases r) auto
next
  case (act j f)
  then show ?case unfolding pbnd.simps guided_Act by (fastforce simp: map_prod_def split_beta)
qed

lemma guided_catch:
  assumes "guided Inv mid j p"
    and "\<And>a j'. mid (Ok a) j' \<Longrightarrow> guided Inv post j' (k (Inr a))"
    and "\<And>e j'. mid (Err e) j' \<Longrightarrow> guided Inv post j' (k (Inl e))" "\<And>j'. mid Panic j' \<Longrightarrow> post Panic j'"
  shows "guided Inv post j (pcatch p k)"
  using assms(1)
proof (induction rule: guided.induct)
  case (over r j)
  then show ?case using assms(2-4) by (cases r) auto
next
  case (act j f)
  then show ?case unfolding pcatch.simps guided_Act by (fastforce simp: map_prod_def split_beta)
qed

text \<open>A part that keeps the family leaves the index as it is.\<close>
lemma guided_stay:
  assumes "pkeeps Inv p" "\<And>a. guided Inv post j (k a)" "\<And>e. post (Err e) j" "post Panic j"
  shows "guided Inv post j (pbnd p k)"
  by (rule guided_bnd [OF guided_keeps [OF assms(1), where post = "\<lambda>_ j'. j' = j"]]) (use assms(2-4) in auto)

text \<open>Within a set of indices.\<close>
lemma guided_within_bnd:
  assumes "guided Inv (\<lambda>_. G) j p" "\<And>a j'. G j' \<Longrightarrow> guided Inv (\<lambda>_. G) j' (k a)"
  shows "guided Inv (\<lambda>_. G) j (pbnd p k)"
  by (rule guided_bnd [OF assms(1)]) (use assms(2) in auto)

lemma guided_within_catch:
  assumes "guided Inv (\<lambda>_. G) j p" "\<And>a j'. G j' \<Longrightarrow> guided Inv (\<lambda>_. G) j' (k a)"
  shows "guided Inv (\<lambda>_. G) j (pcatch p k)"
  by (rule guided_catch [OF assms(1)]) (use assms(2) in auto)

lemma guided_within_for_each:
  assumes "\<And>x j. x \<in> set xs \<Longrightarrow> G j \<Longrightarrow> guided Inv (\<lambda>_. G) j (f x)"
  shows "G j \<Longrightarrow> guided Inv (\<lambda>_. G) j (pfor_each xs f)"
  using assms
proof (induction xs arbitrary: j)
  case (Cons x xs)
  then show ?case unfolding pfor_each.simps by (intro guided_within_bnd) auto
qed (simp add: pret_def)

section \<open>Progress without interruption\<close>

text \<open>One process takes some actions alone.\<close>
inductive advances :: "('s, 'e, 'a) proc \<Rightarrow> 's \<Rightarrow> ('s, 'e, 'a) proc \<Rightarrow> 's \<Rightarrow> bool" where
  stay: "advances p s p s"
| move: "advances (snd (f s)) (fst (f s)) p' s' \<Longrightarrow> advances (Act f) s p' s'"

lemma advances_trans: "advances p s p1 s1 \<Longrightarrow> advances p1 s1 p2 s2 \<Longrightarrow> advances p s p2 s2"
  by (induction rule: advances.induct) (auto intro: advances.intros)

lemma advances_run: "run p s = (s', r) \<Longrightarrow> advances p s (Done r) s'"
proof (induction p arbitrary: s rule: proc_cases_induct)
  case (Act f)
  then have "run (snd (f s)) (fst (f s)) = (s', r)" by (simp add: map_prod_def split_beta)
  then show ?case by (rule advances.move [OF Act.IH])
qed (auto intro: advances.stay)

lemma advances_bnd: "advances p s p' s' \<Longrightarrow> advances (pbnd p k) s (pbnd p' k) s'"
proof (induction rule: advances.induct)
  case (move f s p' s')
  then show ?case by (auto intro!: advances.move simp: map_prod_def split_beta)
qed (rule advances.stay)

lemma advances_catch: "advances p s p' s' \<Longrightarrow> advances (pcatch p k) s (pcatch p' k) s'"
proof (induction rule: advances.induct)
  case (move f s p' s')
  then show ?case by (auto intro!: advances.move simp: map_prod_def split_beta)
qed (rule advances.stay)

text \<open>A part that runs to its end hands over to what follows it.\<close>
lemma advances_through: "run p s = (s', Ok a) \<Longrightarrow> advances (pbnd p k) s (k a) s'"
  using advances_bnd [OF advances_run, of p s s' "Ok a" k] by simp

lemma advances_caught: "run p s = (s', Ok a) \<Longrightarrow> advances (pcatch p k) s (k (Inr a)) s'"
  using advances_catch [OF advances_run, of p s s' "Ok a" k] by simp

text \<open>What follows an action may rely on its value.\<close>
lemma pkeeps_bnd_atom:
  assumes "\<And>j. keeps (P j) m" "\<And>j s s' a. P j s \<Longrightarrow> m s = (s', Ok a) \<Longrightarrow> pkeeps P (k a)"
  shows "pkeeps P (pbnd (atom m) k)"
proof -
  have "P j (fst (m s)) \<and> pkeeps P (pbnd (Done (snd (m s))) k)" if "P j s" for j s
    using that assms(1) [of j] assms(2) [of j s "fst (m s)"] by (cases "snd (m s)") (auto simp: keeps_def prod_eq_iff)
  then show ?thesis by (simp add: atom_def pkeeps_Act map_prod_def split_beta)
qed

end
