(* ===== verification/Kraken_Rest.thy ===== *)
theory Kraken_Rest
  imports World Accounts
begin

text \<open>The REST client of \<^verbatim>\<open>crates/rt-kraken-futures/src/rest.rs\<close> with its messages of \<^verbatim>\<open>messages.rs\<close>.  The
  exchange is a function from a request to what comes back: a transport error (with whether it is a
  timeout), or a status and a body.  Signing, form encoding and JSON decoding are libraries; they are
  fields of the record \<^verbatim>\<open>rest_env\<close>, with the outcome of the nonce generator and the clock.\<close>

section \<open>Messages\<close>

datatype kraken_order_type = Mkt | Lmt | Post | KIoc | Stp | TakeProfit | TrailingStop

datatype kraken_side = KBuy | KSell

record send_order_request =
  sq_order_type :: kraken_order_type
  sq_symbol :: string
  sq_side :: kraken_side
  sq_size :: dec
  sq_limit_price :: "dec option"
  sq_stop_price :: "dec option"
  sq_cli_ord_id :: "string option"
  sq_reduce_only :: "bool option"
  sq_trigger_signal :: "string option"

record response_envelope =
  re_result :: string
  re_error :: "string option"
  re_server_time :: "string option"

definition envelope_is_success :: "response_envelope \<Rightarrow> bool" where
  "envelope_is_success r \<longleftrightarrow> re_result r = ''success''"

record send_status =
  st_order_id :: "string option"
  st_status :: "string option"
  st_received_time :: "string option"

record send_order_response =
  so_result :: string
  so_error :: "string option"
  so_send_status :: "send_status option"

record cancel_order_response =
  cl_result :: string
  cl_error :: "string option"
  cl_cancel_status :: "send_status option"

record rest_order_entry =
  ro_order_id :: string
  ro_symbol :: string
  ro_side :: kraken_side
  ro_order_type :: "string option"
  ro_limit_price :: "dec option"
  ro_filled_size :: "dec option"
  ro_unfilled_size :: "dec option"
  ro_status :: "string option"
  ro_received_time :: "string option"
  ro_last_update_time :: "string option"
  ro_cli_ord_id :: "string option"

record open_orders_response =
  ol_result :: string
  ol_error :: "string option"
  ol_open_orders :: "rest_order_entry list"

text \<open>The names serde gives the variants and the fields; an absent option is left out.\<close>
fun kraken_order_type_text :: "kraken_order_type \<Rightarrow> string" where
  "kraken_order_type_text Mkt = ''mkt''"
| "kraken_order_type_text Lmt = ''lmt''"
| "kraken_order_type_text Post = ''post''"
| "kraken_order_type_text KIoc = ''ioc''"
| "kraken_order_type_text Stp = ''stp''"
| "kraken_order_type_text TakeProfit = ''take_profit''"
| "kraken_order_type_text TrailingStop = ''trailing_stop''"

fun kraken_side_text :: "kraken_side \<Rightarrow> string" where
  "kraken_side_text KBuy = ''buy''"
| "kraken_side_text KSell = ''sell''"

definition opt_field :: "string \<Rightarrow> string option \<Rightarrow> (string \<times> string) list" where
  "opt_field k v = (case v of None \<Rightarrow> [] | Some s \<Rightarrow> [(k, s)])"

definition send_order_fields :: "lib \<Rightarrow> send_order_request \<Rightarrow> (string \<times> string) list" where
  "send_order_fields L q =
     [(''orderType'', kraken_order_type_text (sq_order_type q)), (''symbol'', sq_symbol q),
      (''side'', kraken_side_text (sq_side q)), (''size'', l_show L (sq_size q))]
     @ opt_field ''limitPrice'' (map_option (l_show L) (sq_limit_price q))
     @ opt_field ''stopPrice'' (map_option (l_show L) (sq_stop_price q))
     @ opt_field ''cliOrdId'' (sq_cli_ord_id q)
     @ opt_field ''reduceOnly'' (map_option (\<lambda>b. if b then ''true'' else ''false'') (sq_reduce_only q))
     @ opt_field ''triggerSignal'' (sq_trigger_signal q)"

section \<open>Requests and answers\<close>

record http_request =
  hq_post :: bool
  hq_url :: string
  hq_headers :: "(string \<times> string) list"
  hq_body :: string

datatype http_answer =
    SendError bool
  | BodyError bool
  | Reply nat string

record rest_client =
  kc_base_url :: string
  kc_credentials :: "(string \<times> string) option"

record rest_env =
  rv_nonce :: "string + string"
  rv_sign :: "string \<Rightarrow> string \<Rightarrow> string \<Rightarrow> string \<Rightarrow> string + string"
  rv_http :: "http_request \<Rightarrow> http_answer"
  rv_urlencode :: "(string \<times> string) list \<Rightarrow> string + string"
  rv_text :: "kraken_error \<Rightarrow> string"
  rv_now :: time
  rv_decode_send :: "string \<Rightarrow> send_order_response option"
  rv_decode_cancel :: "string \<Rightarrow> cancel_order_response option"
  rv_decode_orders :: "string \<Rightarrow> open_orders_response option"
  rv_decode_accounts :: "string \<Rightarrow> accounts_response option"
  rv_decode_envelope :: "string \<Rightarrow> response_envelope option"

definition rest_api_prefix :: string where
  "rest_api_prefix = ''/derivatives''"

definition creds :: "rest_client \<Rightarrow> exec_error + string \<times> string" where
  "creds C = (case kc_credentials C of
      Some c \<Rightarrow> Inr c | None \<Rightarrow> Inl (EAuthentication ''no credentials configured''))"

text \<open>The shared beginning of the authenticated calls: credentials, nonce, signature over the payload, the
  nonce and the path without the prefix.\<close>
definition auth_headers :: "rest_client \<Rightarrow> rest_env \<Rightarrow> string \<Rightarrow> string \<Rightarrow> kraken_error + (string \<times> string) list" where
  "auth_headers C E payload path =
     rbind (map_sum (\<lambda>e. KApi None (exec_error_text e)) id (creds C)) (\<lambda>(key, secret).
     rbind (map_sum KAuth id (rv_nonce E)) (\<lambda>nonce.
     rbind (map_sum KAuth id (rv_sign E secret payload nonce path)) (\<lambda>authent.
     Inr [(''APIKey'', key), (''Nonce'', nonce), (''Authent'', authent)])))"

definition is_success_status :: "nat \<Rightarrow> bool" where
  "is_success_status s \<longleftrightarrow> 200 \<le> s \<and> s < 300"

definition read_response :: "http_answer \<Rightarrow> kraken_error + string" where
  "read_response a = (case a of
      SendError t \<Rightarrow> Inl (KHttp t)
    | BodyError t \<Rightarrow> Inl (KHttp t)
    | Reply status body \<Rightarrow>
        if status = 429 then Inl (KApi (Some ''rate_limited'') body)
        else if \<not> is_success_status status then Inl (KApi (Some (show_nat status)) body)
        else Inr body)"

definition authed_get :: "rest_client \<Rightarrow> rest_env \<Rightarrow> string \<Rightarrow> string \<Rightarrow> kraken_error + string" where
  "authed_get C E path q =
     rbind (auth_headers C E q path) (\<lambda>hs.
     read_response (rv_http E \<lparr> hq_post = False,
       hq_url = kc_base_url C @ rest_api_prefix @ path @ (if q = [] then [] else ''?'' @ q),
       hq_headers = hs, hq_body = [] \<rparr>))"

definition post_request :: "rest_client \<Rightarrow> string \<Rightarrow> string \<Rightarrow> string \<Rightarrow> (string \<times> string) list \<Rightarrow> http_request" where
  "post_request C path content_type body hs = \<lparr> hq_post = True, hq_url = kc_base_url C @ rest_api_prefix @ path,
     hq_headers = hs @ [(''Content-Type'', content_type)], hq_body = body \<rparr>"

definition authed_post_json :: "rest_client \<Rightarrow> rest_env \<Rightarrow> string \<Rightarrow> string \<Rightarrow> kraken_error + string" where
  "authed_post_json C E path body =
     rbind (auth_headers C E body path) (\<lambda>hs.
     read_response (rv_http E (post_request C path ''application/json'' body hs)))"

definition authed_post_form :: "rest_client \<Rightarrow> rest_env \<Rightarrow> string \<Rightarrow> string \<Rightarrow> kraken_error + string" where
  "authed_post_form C E path body =
     rbind (auth_headers C E body path) (\<lambda>hs.
     read_response (rv_http E (post_request C path ''application/x-www-form-urlencoded'' body hs)))"

definition public_get :: "rest_client \<Rightarrow> rest_env \<Rightarrow> string \<Rightarrow> kraken_error + string" where
  "public_get C E path = read_response (rv_http E \<lparr> hq_post = False,
     hq_url = kc_base_url C @ rest_api_prefix @ path, hq_headers = [], hq_body = [] \<rparr>)"

section \<open>Typed endpoints\<close>

definition decode_with :: "(string \<Rightarrow> 'a option) \<Rightarrow> string \<Rightarrow> kraken_error + 'a" where
  "decode_with dcd txt = (case dcd txt of Some a \<Rightarrow> Inr a | None \<Rightarrow> Inl KJson)"

text \<open>An answer whose \<^verbatim>\<open>result\<close> is not \<^verbatim>\<open>success\<close> is an API error.\<close>
definition require_success :: "string \<Rightarrow> string option \<Rightarrow> 'a \<Rightarrow> kraken_error + 'a" where
  "require_success result err a =
     (if result = ''success'' then Inr a
      else Inl (KApi (Some result) (case err of Some m \<Rightarrow> m | None \<Rightarrow> [])))"

definition encode_form :: "rest_env \<Rightarrow> string \<Rightarrow> (string \<times> string) list \<Rightarrow> kraken_error + string" where
  "encode_form E what kvs = map_sum (\<lambda>e. KApi None (''failed to urlencode '' @ what @ '': '' @ e)) id
     (rv_urlencode E kvs)"

definition send_order :: "lib \<Rightarrow> rest_client \<Rightarrow> rest_env \<Rightarrow> send_order_request \<Rightarrow> kraken_error + send_order_response" where
  "send_order L C E q =
     rbind (encode_form E ''SendOrderRequest'' (send_order_fields L q)) (\<lambda>body.
     rbind (authed_post_form C E ''/api/v3/sendorder'' body) (\<lambda>txt.
     rbind (decode_with (rv_decode_send E) txt) (\<lambda>r. require_success (so_result r) (so_error r) r)))"

definition cancel_order_raw :: "rest_client \<Rightarrow> rest_env \<Rightarrow> string \<Rightarrow> kraken_error + cancel_order_response" where
  "cancel_order_raw C E i =
     rbind (encode_form E ''cancel params'' [(''order_id'', i)]) (\<lambda>body.
     rbind (authed_post_form C E ''/api/v3/cancelorder'' body) (\<lambda>txt.
     rbind (decode_with (rv_decode_cancel E) txt) (\<lambda>r. require_success (cl_result r) (cl_error r) r)))"

definition open_orders_raw :: "rest_client \<Rightarrow> rest_env \<Rightarrow> kraken_error + open_orders_response" where
  "open_orders_raw C E =
     rbind (authed_get C E ''/api/v3/openorders'' []) (\<lambda>txt.
     rbind (decode_with (rv_decode_orders E) txt) (\<lambda>r. require_success (ol_result r) (ol_error r) r))"

definition server_time :: "rest_client \<Rightarrow> rest_env \<Rightarrow> kraken_error + response_envelope" where
  "server_time C E = rbind (public_get C E ''/api/v3/accounts'') (decode_with (rv_decode_envelope E))"

definition get_accounts :: "rest_client \<Rightarrow> rest_env \<Rightarrow> kraken_error + accounts_response" where
  "get_accounts C E =
     rbind (authed_get C E ''/api/v3/accounts'' []) (\<lambda>txt.
     rbind (decode_with (rv_decode_accounts E) txt) (\<lambda>r.
     require_success (ac_result r) (Some ''accounts endpoint returned non-success result'') r))"

section \<open>The broker interface\<close>

fun to_kraken_order_type :: "order_type \<Rightarrow> exec_error + kraken_order_type" where
  "to_kraken_order_type Market = Inr Mkt"
| "to_kraken_order_type Limit = Inr Lmt"
| "to_kraken_order_type PostOnly = Inr Post"
| "to_kraken_order_type StopMarket = Inr Stp"
| "to_kraken_order_type StopLimit = Inl (EUnsupported ''StopLimit not yet mapped to Kraken Futures'')"

fun to_kraken_side :: "side \<Rightarrow> kraken_side" where
  "to_kraken_side Buy = KBuy"
| "to_kraken_side Sell = KSell"

definition from_kraken_status :: "string \<Rightarrow> order_status" where
  "from_kraken_status s =
     (if s \<in> {''placed'', ''received''} then Acknowledged
      else if s \<in> {''fullyExecuted'', ''filled''} then Filled
      else if s = ''partiallyFilled'' then PartiallyFilled
      else if s = ''cancelled'' then OCancelled
      else if s \<in> {''rejected'', ''invalid''} then ORejected
      else Submitted)"

definition map_api_error :: "rest_env \<Rightarrow> string \<Rightarrow> kraken_error \<Rightarrow> exec_error" where
  "map_api_error E ctx e = (case e of
      KApi code message \<Rightarrow>
        if code = Some ''rate_limited'' then ERateLimited 1000
        else if (case code of Some c \<Rightarrow> take 1 c = ''4'' | None \<Rightarrow> False) then ERejected (ctx @ '': '' @ message)
        else ERejected (ctx @ '': '' @ message)
    | KHttp timeout \<Rightarrow> if timeout then ETimeout 10 else ENetwork (rv_text E e)
    | KAuth t \<Rightarrow> EAuthentication t
    | KJson \<Rightarrow> EInvalidResponse (rv_text E e)
    | _ \<Rightarrow> ENetwork (rv_text E e))"

definition order_request :: "order \<Rightarrow> exec_error + send_order_request" where
  "order_request o' = rbind (to_kraken_order_type (or_order_type o')) (\<lambda>ty. Inr
     \<lparr> sq_order_type = ty, sq_symbol = ins_symbol (or_instrument o'), sq_side = to_kraken_side (or_side o'),
       sq_size = or_quantity o', sq_limit_price = or_limit_price o', sq_stop_price = or_stop_price o',
       sq_cli_ord_id = or_cli_ord_id o', sq_reduce_only = or_reduce_only o', sq_trigger_signal = None \<rparr>)"

definition rest_submit_order :: "lib \<Rightarrow> rest_client \<Rightarrow> rest_env \<Rightarrow> order \<Rightarrow> exec_error + submission_result" where
  "rest_submit_order L C E o' =
     rbind (order_request o') (\<lambda>q.
     rbind (map_sum (map_api_error E ''submit_order'') id (send_order L C E q)) (\<lambda>resp.
     case so_send_status resp of
       None \<Rightarrow> Inl (EInvalidResponse ''missing sendStatus'')
     | Some st \<Rightarrow>
         let status_str = (case st_status st of Some s \<Rightarrow> s | None \<Rightarrow> []) in
         (case st_order_id st of
            None \<Rightarrow> Inl (ERejected (''kraken did not place order: status='' @ [CHR 0x27] @ status_str @ [CHR 0x27]))
          | Some i \<Rightarrow> Inr \<lparr> sb_broker_order_id = i, sb_status = from_kraken_status status_str,
                            sb_submitted_at = rv_now E \<rparr>)))"

definition rest_cancel_order :: "rest_client \<Rightarrow> rest_env \<Rightarrow> string \<Rightarrow> exec_error + unit" where
  "rest_cancel_order C E i =
     rbind (map_sum (map_api_error E ''cancel_order'') id (cancel_order_raw C E i)) (\<lambda>_. Inr ())"

definition entry_status :: "rest_order_entry \<Rightarrow> order_status" where
  "entry_status e = from_kraken_status (case ro_status e of Some s \<Rightarrow> s | None \<Rightarrow> ''received'')"

definition rest_get_order :: "rest_client \<Rightarrow> rest_env \<Rightarrow> string \<Rightarrow> exec_error + order_status" where
  "rest_get_order C E i =
     rbind (map_sum (map_api_error E ''get_order'') id (open_orders_raw C E)) (\<lambda>r. Inr
       (case find (\<lambda>e. ro_order_id e = i) (ol_open_orders r) of
          Some e \<Rightarrow> entry_status e | None \<Rightarrow> Filled))"

text \<open>The sum of two sizes may panic.\<close>
definition entry_summary :: "lib \<Rightarrow> rest_order_entry \<Rightarrow> open_order_summary option" where
  "entry_summary L e =
     (let filled = (case ro_filled_size e of Some x \<Rightarrow> x | None \<Rightarrow> 0);
          remaining = (case ro_unfilled_size e of Some x \<Rightarrow> x | None \<Rightarrow> 0) in
      do { q \<leftarrow> dadd L filled remaining;
           Some \<lparr> os_broker_order_id = ro_order_id e, os_instrument_symbol = ro_symbol e,
                  os_status = entry_status e, os_quantity = q, os_filled_quantity = filled,
                  os_limit_price = ro_limit_price e, os_cli_ord_id = ro_cli_ord_id e \<rparr> })"

fun summaries :: "lib \<Rightarrow> rest_order_entry list \<Rightarrow> open_order_summary list option" where
  "summaries L [] = Some []"
| "summaries L (e # es) = do { s \<leftarrow> entry_summary L e; ss \<leftarrow> summaries L es; Some (s # ss) }"

definition rest_lookup :: "lib \<Rightarrow> rest_client \<Rightarrow> rest_env \<Rightarrow> string \<Rightarrow> (exec_error + open_order_summary option) option" where
  "rest_lookup L C E cli = (case map_sum (map_api_error E ''get_order_by_cli_ord_id'') id (open_orders_raw C E) of
      Inl e \<Rightarrow> Some (Inl e)
    | Inr r \<Rightarrow> (case find (\<lambda>e. ro_cli_ord_id e = Some cli) (ol_open_orders r) of
          None \<Rightarrow> Some (Inr None)
        | Some e \<Rightarrow> map_option (\<lambda>s. Inr (Some s)) (entry_summary L e)))"

definition rest_open_orders :: "lib \<Rightarrow> rest_client \<Rightarrow> rest_env \<Rightarrow> (exec_error + open_order_summary list) option" where
  "rest_open_orders L C E = (case map_sum (map_api_error E ''open_orders'') id (open_orders_raw C E) of
      Inl e \<Rightarrow> Some (Inl e)
    | Inr r \<Rightarrow> map_option Inr (summaries L (ol_open_orders r)))"

definition rest_health_check :: "rest_client \<Rightarrow> rest_env \<Rightarrow> exec_error + unit" where
  "rest_health_check C E =
     map_sum (map_api_error E ''health_check'') (\<lambda>_. ()) (authed_get C E ''/api/v3/accounts'' [])"

end
