(* ===== verification/Startup.thy ===== *)
theory Startup
  imports Daemon Kraken_Rest
begin

text \<open>The start of the daemon in \<^verbatim>\<open>crates/rt-daemon/src/main.rs\<close>: configuration, instrument registry, the clients
  of the exchange, the execution mode with its checks, the tasks that are spawned, and the loop that each
  task runs until the shutdown signal.  Reading the configuration file and the environment, opening the
  database and what the network answers to a client are arguments.\<close>

section \<open>Configuration\<close>

record declared_instrument =
  di_symbol :: string
  di_min_order_size :: dec
  di_tick_size :: dec

record kraken_config =
  kf_products :: "string list"
  kf_demo :: bool

record daemon_config =
  dc_database_path :: string
  dc_signal_poll_interval_ms :: "64 word"
  dc_kill_switch_check_interval_secs :: "64 word"
  dc_kraken :: kraken_config
  dc_risk :: risk_config
  dc_mode :: execution_mode
  dc_instruments :: "declared_instrument list"

definition config_instrument_meta :: "daemon_config \<Rightarrow> string \<Rightarrow> dec \<times> dec" where
  "config_instrument_meta cfg symbol = (case find (\<lambda>m. di_symbol m = symbol) (dc_instruments cfg) of
      Some m \<Rightarrow> (di_min_order_size m, di_tick_size m)
    | None \<Rightarrow> (1, 5 / 10))"

definition daemon_config_default :: daemon_config where
  "daemon_config_default = \<lparr> dc_database_path = ''/var/lib/razortrade/razortrade.sqlite'',
     dc_signal_poll_interval_ms = 1000, dc_kill_switch_check_interval_secs = 60,
     dc_kraken = \<lparr> kf_products = [''PI_XBTUSD''], kf_demo = True \<rparr>, dc_risk = risk_config_default,
     dc_mode = execution_mode_default, dc_instruments = [] \<rparr>"

text \<open>Where the configuration comes from: the environment, and what the \<^verbatim>\<open>config\<close> crate makes of a path (required
  or not): an error of building it, or the outcome of decoding.\<close>
type_synonym environment = "string \<Rightarrow> string option"
type_synonym config_source = "string \<Rightarrow> bool \<Rightarrow> string + (string + daemon_config)"

definition load_config :: "environment \<Rightarrow> config_source \<Rightarrow> string + daemon_config" where
  "load_config env source =
     (let (path, explicit) = (case env ''RT_DAEMON_CONFIG'' of
            Some p \<Rightarrow> (p, True) | None \<Rightarrow> (''/etc/razortrade/daemon.toml'', False)) in
      case source path explicit of
        Inl e \<Rightarrow> Inl (''building config (path='' @ path @ '', explicit='' @ (if explicit then ''true'' else ''false'') @ '')'')
      | Inr decoded \<Rightarrow>
          if explicit then map_sum (\<lambda>e. ''parsing config at '' @ path) id decoded
          else Inr (case decoded of Inr cfg \<Rightarrow> cfg | Inl e \<Rightarrow> daemon_config_default))"

section \<open>Wiring\<close>

definition credentials_from_env :: "environment \<Rightarrow> (string \<times> string) option" where
  "credentials_from_env env = do {
     api_key \<leftarrow> env ''RT_KRAKEN_API_KEY'';
     api_secret_b64 \<leftarrow> env ''RT_KRAKEN_API_SECRET'';
     Some (api_key, api_secret_b64) }"

definition kraken_rest_base :: string where "kraken_rest_base = ''https://futures.kraken.com''"
definition kraken_demo_rest_base :: string where "kraken_demo_rest_base = ''https://demo-futures.kraken.com''"
definition kraken_ws_url :: string where "kraken_ws_url = ''wss://futures.kraken.com/ws/v1''"
definition kraken_demo_ws_url :: string where "kraken_demo_ws_url = ''wss://demo-futures.kraken.com/ws/v1''"

definition rest_production :: "(string \<times> string) option \<Rightarrow> rest_client" where
  "rest_production creds' = \<lparr> kc_base_url = kraken_rest_base, kc_credentials = creds' \<rparr>"

definition rest_demo :: "(string \<times> string) option \<Rightarrow> rest_client" where
  "rest_demo creds' = \<lparr> kc_base_url = kraken_demo_rest_base, kc_credentials = creds' \<rparr>"

definition instrument_registry :: "declared_instrument list \<Rightarrow> registry" where
  "instrument_registry ms = foldl (\<lambda>reg m. registry_insert (di_symbol m)
     \<lparr> im_min_order_size = di_min_order_size m, im_tick_size = di_tick_size m \<rparr> reg) registry_new ms"

definition feed_config :: "kraken_config \<Rightarrow> ws_config" where
  "feed_config k = (let c = ws_config_new (kf_products k) in
     if kf_demo k then c\<lparr> wc_url := kraken_demo_ws_url \<rparr> else c)"

datatype task = FeedTask | ProcessorTask | SupervisorTask | FillTask | PeriodicTask | EquityTask

record started =
  st_feed :: ws_config
  st_feed_credentials :: "(string \<times> string) option"
  st_rest :: "rest_client option"
  st_processor :: processor
  st_reconciler :: reconciler
  st_tasks :: "task list"

fun mode_debug :: "execution_mode \<Rightarrow> string" where
  "mode_debug DryRun = ''DryRun''"
| "mode_debug Paper = ''Paper''"
| "mode_debug Live = ''Live''"

text \<open>The broker of the mode: none, or a client with credentials that passed the health check.\<close>
definition broker_for ::
    "execution_mode \<Rightarrow> environment \<Rightarrow> (rest_client \<Rightarrow> rest_env) \<Rightarrow> string + rest_client option" where
  "broker_for mode env network =
     (if mode = DryRun then Inr None
      else (case credentials_from_env env of
          None \<Rightarrow> Inl (''execution mode is '' @ mode_debug mode @ '' but RT_KRAKEN_API_KEY/RT_KRAKEN_API_SECRET ''
            @ ''are not set in the environment; refusing to start'')
        | Some c \<Rightarrow>
            (let client = (if mode = Paper then rest_demo (Some c) else rest_production (Some c)) in
             case rest_health_check client (network client) of
               Inl e \<Rightarrow> Inl ''kraken futures broker health check failed at startup''
             | Inr u \<Rightarrow> Inr (Some client))))"

definition start_daemon ::
    "daemon_config \<Rightarrow> environment \<Rightarrow> string + unit \<Rightarrow> (rest_client \<Rightarrow> rest_env) \<Rightarrow> string + started" where
  "start_daemon cfg env opened network =
     rbind (map_sum (\<lambda>e. ''opening database'') id opened) (\<lambda>_.
     rbind (broker_for (dc_mode cfg) env network) (\<lambda>rest.
     let instruments = instrument_registry (dc_instruments cfg) in
     Inr \<lparr> st_feed = feed_config (dc_kraken cfg), st_feed_credentials = credentials_from_env env, st_rest = rest,
           st_processor = \<lparr> sp_mode = dc_mode cfg, sp_has_broker = (rest \<noteq> None), sp_risk = dc_risk cfg,
             sp_instruments = instruments \<rparr>,
           st_reconciler = \<lparr> rk_risk = dc_risk cfg, rk_has_broker = (rest \<noteq> None), rk_instruments = instruments \<rparr>,
           st_tasks = [FeedTask, ProcessorTask, SupervisorTask, FillTask]
             @ (if rest \<noteq> None then [PeriodicTask, EquityTask] else []) \<rparr>))"

text \<open>The beginning of \<^verbatim>\<open>main\<close>: the configuration, then the database at its path.\<close>
definition daemon_main :: "environment \<Rightarrow> config_source \<Rightarrow> (string \<Rightarrow> string + unit)
    \<Rightarrow> (rest_client \<Rightarrow> rest_env) \<Rightarrow> string + started" where
  "daemon_main env source open_db network =
     rbind (map_sum (\<lambda>e. ''loading daemon configuration'') id (load_config env source)) (\<lambda>cfg.
     start_daemon cfg env (open_db (dc_database_path cfg)) network)"

section \<open>The loop of a task\<close>

text \<open>What wakes a task: its timer, or a change of the shutdown flag to a value.\<close>
datatype 'i wake = Tick 'i | FlagChanged bool

text \<open>An error of a tick is only logged.\<close>
fun task_loop :: "('i \<Rightarrow> 'a dio) \<Rightarrow> 'i wake list \<Rightarrow> unit dio" where
  "task_loop tick [] = ret ()"
| "task_loop tick (Tick i # es) = catch (tick i) (\<lambda>_. task_loop tick es)"
| "task_loop tick (FlagChanged stop # es) = (if stop then ret () else task_loop tick es)"

definition processor_run :: "lib \<Rightarrow> processor \<Rightarrow> unit wake list \<Rightarrow> unit dio" where
  "processor_run L P = task_loop (\<lambda>_. poll_once L P)"

definition supervisor_run :: "lib \<Rightarrow> risk_config \<Rightarrow> registry \<Rightarrow> bool \<Rightarrow> unit wake list \<Rightarrow> unit dio" where
  "supervisor_run L cfg instruments has_broker = task_loop (\<lambda>_. evaluate_kill_switch_once L cfg instruments has_broker)"

definition fill_run :: "lib \<Rightarrow> reconciler \<Rightarrow> unit wake list \<Rightarrow> unit dio" where
  "fill_run L R es = bnd (modify (\<lambda>w. w\<lparr> w_applied_seq := 0 \<rparr>)) (\<lambda>_. task_loop (\<lambda>_. reconcile_once L R) es)"

definition periodic_run :: "unit wake list \<Rightarrow> unit dio" where
  "periodic_run = task_loop (\<lambda>_. periodic_once)"

text \<open>The answer of the accounts endpoint comes with the tick.\<close>
definition equity_run :: "lib \<Rightarrow> (json \<Rightarrow> flex_account option) \<Rightarrow> (json \<Rightarrow> margin_account option) \<Rightarrow> risk_config
    \<Rightarrow> (string + accounts_response) wake list \<Rightarrow> unit dio" where
  "equity_run L flex_of margin_of cfg = task_loop (write_one_snapshot L flex_of margin_of cfg)"

section \<open>Facts about the loop\<close>

text \<open>The ticks before the shutdown.\<close>
fun ticks :: "'i wake list \<Rightarrow> 'i list" where
  "ticks [] = []"
| "ticks (Tick i # es) = i # ticks es"
| "ticks (FlagChanged stop # es) = (if stop then [] else ticks es)"

lemma task_loop_fold:
  assumes "\<And>i w. snd (tick i w) \<noteq> Panic"
  shows "task_loop tick es w = (fold (\<lambda>i w. fst (tick i w)) (ticks es) w, Ok ())"
proof (induction es arbitrary: w)
  case (Cons e es)
  show ?case
  proof (cases e)
    case (Tick i)
    obtain w1 r where t: "tick i w = (w1, r)" by (cases "tick i w")
    then have "r \<noteq> Panic" using assms [of i w] by auto
    then show ?thesis using Tick t Cons.IH [of w1] by (cases r) (auto simp: catch_def)
  next
    case (FlagChanged stop)
    then show ?thesis using Cons.IH by simp
  qed
qed simp

text \<open>A property that each tick keeps is kept by the loop.\<close>
lemma task_loop_keeps:
  assumes "\<And>i w w' r. P w \<Longrightarrow> tick i w = (w', r) \<Longrightarrow> P w'"
  shows "P w \<Longrightarrow> task_loop tick es w = (w', r) \<Longrightarrow> P w'"
proof (induction es arbitrary: w)
  case (Cons e es)
  show ?case
  proof (cases e)
    case (Tick i)
    obtain w1 r1 where t: "tick i w = (w1, r1)" by (cases "tick i w")
    have "P w1" by (rule assms [OF Cons.prems(1) t])
    then show ?thesis
      using Cons.IH [of w1] Cons.prems(2) unfolding Tick by (cases r1) (auto simp: catch_def t)
  next
    case (FlagChanged stop)
    then show ?thesis using Cons by (auto split: if_splits)
  qed
qed simp

text \<open>Without \<^verbatim>\<open>RT_DAEMON_CONFIG\<close> a file that does not decode counts as the built-in configuration.\<close>
lemma implicit_config_masked:
  assumes "env ''RT_DAEMON_CONFIG'' = None" "source ''/etc/razortrade/daemon.toml'' False = Inr (Inl e)"
  shows "load_config env source = Inr daemon_config_default"
  using assms by (simp add: load_config_def)

text \<open>Nothing runs after the shutdown.\<close>
lemma task_loop_shutdown: "task_loop tick (es @ FlagChanged True # fs) = task_loop tick es"
proof (induction es)
  case (Cons e es)
  show ?case
  proof (cases e)
    case (FlagChanged stop)
    then show ?thesis using Cons by (auto simp: fun_eq_iff)
  qed (simp add: Cons)
qed (simp add: fun_eq_iff)

text \<open>A tick that does not panic, whether it succeeds or fails, is followed by the rest of the loop.\<close>
lemma task_loop_goes_on: "snd (tick i w) \<noteq> Panic \<Longrightarrow> task_loop tick (Tick i # es) w = task_loop tick es (fst (tick i w))"
  by (cases "tick i w"; cases "snd (tick i w)") (auto simp: catch_def)

end
