(* ===== verification/Task_Steps.thy ===== *)
theory Task_Steps
  imports Processes Startup
begin

text \<open>The tasks of the daemon as processes: the operations of the theories before, with every point at which
  the source awaits the database, the broker or a lock as the end of an action.  Each statement and each
  transaction is one action; a submission is two, sending and receiving the answer.  Run without
  interruption each process is the operation of the same part of the code.\<close>

type_synonym 'a dproc = "(world, derr, 'a) proc"

definition psql :: "'a dbio \<Rightarrow> 'a dproc" where
  "psql m = atom (sql m)"

lemma run_sql [solo_simps]: "run (psql m) = sql m"
  by (simp add: psql_def run_atom)

section \<open>The broker\<close>

definition send_order_out :: "order \<Rightarrow> unit dio" where
  "send_order_out o' = modify (\<lambda>w. w\<lparr> w_sent := w_sent w @ [o'] \<rparr>)"

definition receive_answer :: "(exec_error + submission_result) dio" where
  "receive_answer = (\<lambda>w. case next_answer (w_submits w) of ((t, r), rest) \<Rightarrow>
     (w\<lparr> w_submits := rest, w_now := w_now w + int t \<rparr>, Ok r))"

definition submit_steps :: "order \<Rightarrow> (exec_error + submission_result) dproc" where
  "submit_steps o' = pbnd (atom (send_order_out o')) (\<lambda>_. atom receive_answer)"

lemma run_submit [solo_simps]: "run (submit_steps o') = submit_order o'"
  by (simp add: submit_steps_def solo_simps fun_eq_iff bnd_def send_order_out_def receive_answer_def submit_order_def
      split: prod.splits)

section \<open>The portfolio\<close>

definition load_steps :: "lib \<Rightarrow> time \<Rightarrow> portfolio dproc" where
  "load_steps L snapshot_at =
     pbnd (atom (sql_context ''fetching latest equity snapshot'' latest_equity_snapshot)) (\<lambda>latest.
     pbnd (case latest of
            Some s \<Rightarrow> pret s
          | None \<Rightarrow>
              pbnd (atom (sql_context ''writing bootstrap equity snapshot''
                     (write_bootstrap_equity_snapshot (canonical_iso L snapshot_at)))) (\<lambda>_.
              pbnd (psql latest_equity_snapshot) (\<lambda>again.
              case again of
                Some s \<Rightarrow> pret s
              | None \<Rightarrow> por_fail (Inl (EText ''bootstrap snapshot not readable after insert''))))) (\<lambda>snap.
     pbnd (atom (sql_context ''checking kill-switch state'' kill_switch_active)) (\<lambda>active.
     pbnd (atom (sql_context ''listing open positions'' (list_open_leverage_positions L))) (\<lambda>raw.
     pbnd (por_fail (position_summaries L raw)) (\<lambda>positions.
     por_fail (materialise L snap snapshot_at active positions))))))"

lemma run_load [solo_simps]: "run (load_steps L t) = load_portfolio_state L t"
  unfolding load_steps_def load_portfolio_state_def by (simp add: solo_simps or_fail_simps cong: solo_cong)

section \<open>The supervisor\<close>

definition close_one_steps :: "lib \<Rightarrow> registry \<Rightarrow> int \<Rightarrow> string \<times> string \<times> string \<times> string \<Rightarrow> unit dproc" where
  "close_one_steps L instruments event_id row = (case row of (symbol, brk, slv, qty_str) \<Rightarrow>
     (case l_parse L qty_str of
        None \<Rightarrow> pret ()
      | Some qty \<Rightarrow>
          pbnd (atom clock) (\<lambda>now.
          pbnd (submit_steps (close_order instruments event_id now symbol qty)) (\<lambda>_. pret ()))))"

lemma run_close_one [solo_simps]: "run (close_one_steps L ins i row) = panic_close_one L ins i row"
  unfolding close_one_steps_def panic_close_one_def by (simp add: solo_simps cong: solo_cong)

definition close_steps :: "lib \<Rightarrow> registry \<Rightarrow> int \<Rightarrow> unit dproc" where
  "close_steps L instruments event_id =
     pbnd (psql (list_open_leverage_positions L)) (\<lambda>rows. pfor_each rows (close_one_steps L instruments event_id))"

lemma run_close [solo_simps]: "run (close_steps L ins i) = panic_close_leverage_positions L ins i"
  unfolding close_steps_def panic_close_leverage_positions_def by (simp add: solo_simps cong: solo_cong)

definition act_steps :: "lib \<Rightarrow> registry \<Rightarrow> bool \<Rightarrow> portfolio \<Rightarrow> bool \<Rightarrow> kill_switch_decision \<Rightarrow> unit dproc" where
  "act_steps L instruments has_broker pf hard_already d = (case d of
      NoChange \<Rightarrow> pret ()
    | Disable reason since \<Rightarrow>
        pbnd (psql (record_kill_switch (canonical_iso L since) (disable_kind reason)
               (kill_reason_json L reason) (portfolio_json L pf))) (\<lambda>_. pret ())
    | PanicClose reason since \<Rightarrow>
        if hard_already then pret ()
        else
          pbnd (psql (record_kill_switch (canonical_iso L since) hard_kind
                 (kill_reason_json L reason) (portfolio_json L pf))) (\<lambda>event_id.
          if has_broker then pcatch (close_steps L instruments event_id) (\<lambda>_. pret ())
          else pret ()))"

lemma run_act [solo_simps]: "run (act_steps L ins hb pf h d) = act_on L ins hb pf h d"
  by (cases d) (simp_all add: act_steps_def act_on_def solo_simps cong: solo_cong)

definition evaluate_steps :: "lib \<Rightarrow> risk_config \<Rightarrow> registry \<Rightarrow> bool \<Rightarrow> unit dproc" where
  "evaluate_steps L cfg instruments has_broker =
     pbnd (atom clock) (\<lambda>now.
     pbnd (load_steps L now) (\<lambda>pf.
     pbnd (psql has_active_hard_trigger) (\<lambda>hard_already.
     pbnd (por_panic (ks_evaluate L pf cfg now)) (\<lambda>d.
     act_steps L instruments has_broker pf hard_already d))))"

lemma run_evaluate [solo_simps]: "run (evaluate_steps L cfg ins hb) = evaluate_kill_switch_once L cfg ins hb"
  unfolding evaluate_steps_def evaluate_kill_switch_once_def by (simp add: solo_simps cong: solo_cong)

section \<open>The signal processor\<close>

definition reject_steps :: "lib \<Rightarrow> int \<Rightarrow> json \<Rightarrow> unit dproc" where
  "reject_steps L i reason = pbnd (atom (now_iso L)) (\<lambda>t. psql (mark_signal_rejected i t reason))"

definition dry_run_steps :: "lib \<Rightarrow> signal \<Rightarrow> market_snapshot \<Rightarrow> unit dproc" where
  "dry_run_steps L sg m = (let i = build_order_intent L sg m in
     pbnd (atom (now_iso L)) (\<lambda>t.
     pbnd (psql (record_dry_run_order (sg_id sg) t (sg_instrument_symbol sg) (side_text (sg_side sg))
            (sleeve_text (sg_sleeve sg)) (oi_broker_hint i) (l_show L (sg_notional_chf sg))
            (map_option (l_show L) (oi_estimated_price i)) (map_option (l_show L) (oi_estimated_quantity i))
            (intent_json L i))) (\<lambda>_.
     pbnd (atom (now_iso L)) (\<lambda>t2. psql (mark_signal_processed (sg_id sg) t2)))))"

definition cooldown_steps :: "lib \<Rightarrow> int \<Rightarrow> unit dproc" where
  "cooldown_steps L i = pbnd (atom clock) (\<lambda>t. psql (set_signal_retry_after i (canonical_iso L (t + seconds 90))))"

lemma run_small [solo_simps]:
  "run (reject_steps L i reason) = reject_now L i reason"
  "run (dry_run_steps L sg m) = record_dry_run_intent L sg m"
  "run (cooldown_steps L i) = set_cooldown L i"
  unfolding reject_steps_def dry_run_steps_def cooldown_steps_def reject_now_def record_dry_run_intent_def
    set_cooldown_def by (simp_all add: solo_simps Let_def cong: solo_cong)

definition lookup_steps :: "lib \<Rightarrow> int \<Rightarrow> int \<Rightarrow> string \<Rightarrow> reconcile_outcome dproc" where
  "lookup_steps L signal_id order_id cli =
     pbnd (atom (get_order_by_cli_ord_id cli)) (\<lambda>answer.
     case answer of
       Inr held \<Rightarrow> (case held of
         Some open_order \<Rightarrow>
           pbnd (atom (now_iso L)) (\<lambda>t.
           pbnd (psql (backfill_broker_order_id order_id (os_broker_order_id open_order) t)) (\<lambda>_.
           pbnd (psql (mark_signal_processed signal_id t)) (\<lambda>_.
           pbnd (psql (clear_signal_retry_after signal_id)) (\<lambda>_. pret AlreadyReconciled))))
       | None \<Rightarrow> pret (ResubmitWithOrderId order_id))
     | Inl e \<Rightarrow> pbnd (cooldown_steps L signal_id) (\<lambda>_. pret LookupFailedRetry))"

lemma run_lookup [solo_simps]: "run (lookup_steps L s i c) = reconcile_uncertain L s i c"
  unfolding lookup_steps_def reconcile_uncertain_def
  by (simp add: solo_simps cong: solo_cong)

definition reconcile_order_steps :: "lib \<Rightarrow> int \<Rightarrow> reconcile_outcome dproc" where
  "reconcile_order_steps L signal_id =
     pbnd (psql (pending_order_for_signal signal_id)) (\<lambda>existing.
     case existing of
       None \<Rightarrow> pret NoExistingOrder
     | Some found \<Rightarrow> (case found of (order_id, status, cli) \<Rightarrow>
         if status \<in> set settled_statuses then
           pbnd (atom (now_iso L)) (\<lambda>t.
           pbnd (psql (mark_signal_processed signal_id t)) (\<lambda>_.
           pbnd (psql (clear_signal_retry_after signal_id)) (\<lambda>_. pret AlreadyReconciled)))
         else if status = ''uncertain'' then
           (case cli of
              Some c \<Rightarrow> lookup_steps L signal_id order_id c
            | None \<Rightarrow> pbnd (reject_steps L signal_id (JObj [(''kind'', JStr ''uncertain_without_cli''),
                         (''order_id'', JNum (show_int order_id))])) (\<lambda>_. pret MalformedUnrecoverable))
         else pret AlreadyReconciled))"

lemma run_reconcile_order [solo_simps]: "run (reconcile_order_steps L i) = try_reconcile_uncertain_order L i"
  unfolding reconcile_order_steps_def try_reconcile_uncertain_order_def
  by (simp add: solo_simps cong: solo_cong)

definition answered_steps ::
    "lib \<Rightarrow> int \<Rightarrow> int \<Rightarrow> exec_error + submission_result \<Rightarrow> string \<Rightarrow> unit dproc" where
  "answered_steps L signal_id order_id r submit_iso = (case r of
      Inr sub \<Rightarrow>
        pbnd (psql (mark_order_submitted order_id (sb_broker_order_id sub)
               (order_status_to_string (sb_status sub)) submit_iso)) (\<lambda>_.
        pbnd (psql (mark_signal_processed signal_id submit_iso)) (\<lambda>_.
        psql (clear_signal_retry_after signal_id)))
    | Inl err \<Rightarrow>
        if is_uncertain_error err then
          pbnd (psql (mark_order_uncertain order_id (exec_error_text err) submit_iso)) (\<lambda>_.
          cooldown_steps L signal_id)
        else
          pbnd (psql (mark_order_failed order_id (exec_error_text err) submit_iso)) (\<lambda>_.
          psql (mark_signal_rejected signal_id submit_iso
            (JObj [(''detail'', JStr (exec_error_text err)), (''kind'', JStr (broker_error_kind err)),
                   (''order_id'', JNum (show_int order_id))]))))"

lemma run_answered [solo_simps]: "run (answered_steps L s i r t) = after_submit L s i r t"
  by (cases r) (simp_all add: answered_steps_def after_submit_def solo_simps cong: solo_cong)

text \<open>What follows the sending: the wait for the answer, and what is made of it.\<close>
definition await_steps :: "lib \<Rightarrow> int \<Rightarrow> int \<Rightarrow> unit dproc" where
  "await_steps L signal_id order_id =
     pbnd (atom receive_answer) (\<lambda>r.
     pbnd (atom (now_iso L)) (\<lambda>submit_iso. answered_steps L signal_id order_id r submit_iso))"

definition place_steps :: "lib \<Rightarrow> signal \<Rightarrow> int option \<Rightarrow> order \<Rightarrow> unit dproc" where
  "place_steps L sg resubmit o' =
     pbnd (atom (now_iso L)) (\<lambda>t.
     pbnd (case resubmit of
            Some i \<Rightarrow> pret i
          | None \<Rightarrow> psql (insert_pending_order (Some (sg_id sg)) broker_tag (ins_symbol (or_instrument o'))
              (side_text (or_side o')) (order_type_text (or_order_type o')) (tif_text (or_time_in_force o'))
              (l_show L (or_quantity o')) (map_option (l_show L) (or_limit_price o')) None t
              (or_cli_ord_id o'))) (\<lambda>order_id.
     pbnd (atom (send_order_out o')) (\<lambda>_. await_steps L (sg_id sg) order_id)))"

lemma run_place [solo_simps]: "run (place_steps L sg resubmit o') = place_order L sg resubmit o'"
proof -
  have "run (pbnd (atom (send_order_out o')) (\<lambda>_. await_steps L s i))
      = bnd (submit_order o') (\<lambda>r. bnd (now_iso L) (\<lambda>t. after_submit L s i r t))" for s i
    unfolding await_steps_def run_submit [symmetric] submit_steps_def by (simp add: solo_simps bnd_assoc cong: solo_cong)
  then show ?thesis unfolding place_steps_def place_order_def by (simp add: solo_simps cong: solo_cong)
qed

definition build_steps ::
    "lib \<Rightarrow> processor \<Rightarrow> signal \<Rightarrow> market_snapshot \<Rightarrow> portfolio \<Rightarrow> int option \<Rightarrow> unit dproc" where
  "build_steps L P sg m pf resubmit =
     pbnd (atom clock) (\<lambda>now.
     case build_kraken_futures_order L sg m pf (sp_instruments P) now of
       Inl reason \<Rightarrow> reject_steps L (sg_id sg) reason
     | Inr o' \<Rightarrow> place_steps L sg resubmit o')"

definition broker_steps ::
    "lib \<Rightarrow> processor \<Rightarrow> signal \<Rightarrow> market_snapshot \<Rightarrow> portfolio \<Rightarrow> unit dproc" where
  "broker_steps L P sg m pf =
     (if sg_sleeve sg \<noteq> CryptoLeverage then
        reject_steps L (sg_id sg)
          (JObj [(''detail'', JStr ''only CryptoLeverage (Kraken Futures) is wired in drop 4''),
            (''kind'', JStr ''sleeve_not_implemented''), (''sleeve'', JStr (sleeve_text (sg_sleeve sg)))])
      else if \<not> sp_has_broker P then
        reject_steps L (sg_id sg) (JObj [(''kind'', JStr ''broker_not_configured''),
          (''mode'', JStr (mode_text (sp_mode P)))])
      else
        pbnd (reconcile_order_steps L (sg_id sg)) (\<lambda>outcome.
        case outcome of
          NoExistingOrder \<Rightarrow> build_steps L P sg m pf None
        | ResubmitWithOrderId i \<Rightarrow> build_steps L P sg m pf (Some i)
        | _ \<Rightarrow> pret ()))"

lemma run_build [solo_simps]: "run (build_steps L P sg m pf r) = build_and_place L P sg m pf r"
  unfolding build_steps_def build_and_place_def by (simp add: solo_simps cong: solo_cong)

lemma run_broker [solo_simps]: "run (broker_steps L P sg m pf) = submit_via_broker L P sg m pf"
proof -
  have "run (case x of NoExistingOrder \<Rightarrow> build_steps L P sg m pf None
        | ResubmitWithOrderId i \<Rightarrow> build_steps L P sg m pf (Some i) | _ \<Rightarrow> pret ())
     = (case x of NoExistingOrder \<Rightarrow> build_and_place L P sg m pf None
        | ResubmitWithOrderId i \<Rightarrow> build_and_place L P sg m pf (Some i) | _ \<Rightarrow> ret ())" for x
    by (cases x) (simp_all add: solo_simps cong: solo_cong)
  then show ?thesis unfolding broker_steps_def submit_via_broker_def by (simp add: solo_simps cong: solo_cong)
qed

definition approval_steps ::
    "lib \<Rightarrow> processor \<Rightarrow> signal \<Rightarrow> market_snapshot \<Rightarrow> portfolio \<Rightarrow> unit dproc" where
  "approval_steps L P sg m pf = (case sp_mode P of
      DryRun \<Rightarrow> dry_run_steps L sg m
    | Paper \<Rightarrow> broker_steps L P sg m pf
    | Live \<Rightarrow> broker_steps L P sg m pf)"

definition checklist_steps :: "lib \<Rightarrow> processor \<Rightarrow> signal \<Rightarrow> market_snapshot \<Rightarrow> portfolio \<Rightarrow> unit dproc" where
  "checklist_steps L P sg m pf =
     pbnd (atom clock) (\<lambda>now.
     pbnd (por_panic (evaluate standard_checks L \<lparr> cx_signal = sg, cx_market = m, cx_portfolio = pf,
            cx_config = sp_risk P, cx_now = now \<rparr>)) (\<lambda>result.
     pbnd (psql (record_checklist_evaluation (sg_id sg) (canonical_iso L (cr_evaluated_at result))
            (cr_approved result) (outcomes_json L (cr_outcomes result)))) (\<lambda>_.
     if cr_approved result then approval_steps L P sg m pf
     else reject_steps L (sg_id sg) (JObj [(''kind'', JStr ''checklist_rejected''),
            (''outcomes'', outcomes_json L (cr_outcomes result)),
            (''summary'', JStr (result_summary L result))]))))"

lemma run_approval [solo_simps]: "run (approval_steps L P sg m pf) = handle_approval L P sg m pf"
  by (cases "sp_mode P") (simp_all add: approval_steps_def handle_approval_def solo_simps cong: solo_cong)

lemma run_checks_steps [solo_simps]: "run (checklist_steps L P sg m pf) = run_checklist L P sg m pf"
  unfolding checklist_steps_def run_checklist_def by (simp add: solo_simps cong: solo_cong)

definition process_steps :: "lib \<Rightarrow> processor \<Rightarrow> signal_row \<Rightarrow> unit dproc" where
  "process_steps L P row = (case row_to_signal L row of
      Inl e \<Rightarrow> reject_steps L (sr_id row) (JObj [(''detail'', JStr (''row parsing: '' @ e)),
                 (''kind'', JStr ''invalid_signal'')])
    | Inr sg \<Rightarrow>
        pbnd (atom clock) (\<lambda>now.
        if is_expired sg now then atom (reject_expired L sg now)
        else
          pbnd (atom (gets w_feeds)) (\<lambda>fd.
          pbnd (por_panic (snapshot_for_signal L fd (sg_instrument_symbol sg) (sg_metadata sg) now)) (\<lambda>market.
          case market of
            Inl e \<Rightarrow> reject_steps L (sg_id sg) (market_data_error_to_json L e)
          | Inr m \<Rightarrow>
              pbnd (atom clock) (\<lambda>now2.
              pcatch (load_steps L now2) (\<lambda>loaded.
              case loaded of
                Inl e \<Rightarrow> reject_steps L (sg_id sg) (JObj [(''detail'', JStr (derr_text L e)),
                           (''kind'', JStr ''portfolio_state_unavailable'')])
              | Inr pf \<Rightarrow> checklist_steps L P sg m pf))))))"

definition poll_steps :: "lib \<Rightarrow> processor \<Rightarrow> unit dproc" where
  "poll_steps L P =
     pbnd (atom (now_iso L)) (\<lambda>t.
     pbnd (psql (pending_signals 64 t)) (\<lambda>pending.
     pfor_each pending (\<lambda>row. pcatch (process_steps L P row) (\<lambda>_. pret ()))))"

lemma run_process [solo_simps]: "run (process_steps L P row) = process_signal L P row"
  unfolding process_steps_def process_signal_def by (cases "row_to_signal L row") (simp_all add: solo_simps cong: solo_cong)

lemma run_poll [solo_simps]: "run (poll_steps L P) = poll_once L P"
  unfolding poll_steps_def poll_once_def by (simp add: solo_simps cong: solo_cong)

section \<open>The fill reconciler\<close>

definition trigger_steps :: "lib \<Rightarrow> reconciler \<Rightarrow> string \<Rightarrow> unit dproc" where
  "trigger_steps L R slv =
     (if slv = ''crypto_leverage''
      then pcatch (evaluate_steps L (rk_risk R) (rk_instruments R) (rk_has_broker R)) (\<lambda>_. pret ())
      else pret ())"

definition fill_position_steps ::
    "lib \<Rightarrow> reconciler \<Rightarrow> fill_entry \<Rightarrow> string \<Rightarrow> order_fill_outcome \<Rightarrow> string \<Rightarrow> unit dproc" where
  "fill_position_steps L R f t out slv =
     pbnd (psql (apply_fill_to_position L (fo_instrument_symbol out) (fo_broker out) slv (fo_is_buy out)
            (fe_qty f) (fe_price f) t)) (\<lambda>_. trigger_steps L R slv)"

lemma run_fill_position [solo_simps]: "run (fill_position_steps L R f t out slv) = fill_position L R f t out slv"
  unfolding fill_position_steps_def trigger_steps_def fill_position_def trigger_kill_switch_def whenM_def
  by (simp add: solo_simps cong: solo_cong)

definition backfill_steps :: "fill_entry \<Rightarrow> string \<Rightarrow> bool dproc" where
  "backfill_steps f t = (case fe_cli_ord_id f of
      None \<Rightarrow> pret False
    | Some cli \<Rightarrow>
        pcatch (psql (find_order_id_by_cli_ord_id fill_broker cli)) (\<lambda>found.
        case found of
          Inl e \<Rightarrow> pret False
        | Inr r \<Rightarrow> (case r of
            None \<Rightarrow> pret False
          | Some order_id \<Rightarrow>
              pcatch (psql (backfill_broker_order_id order_id (fe_order_id f) t)) (\<lambda>r'.
              case r' of Inl e \<Rightarrow> pret False | Inr u \<Rightarrow> pret True))))"

lemma run_backfill [solo_simps]: "run (backfill_steps f t) = try_backfill f t"
  unfolding backfill_steps_def try_backfill_def by (simp add: solo_simps cong: solo_cong)

definition retry_steps :: "lib \<Rightarrow> reconciler \<Rightarrow> fill_entry \<Rightarrow> string \<Rightarrow> unit dproc" where
  "retry_steps L R f t =
     pbnd (atom (fill_order L f t)) (\<lambda>second.
     case second of
       None \<Rightarrow> pret ()
     | Some out \<Rightarrow> (case fo_sleeve out of None \<Rightarrow> pret () | Some slv \<Rightarrow> fill_position_steps L R f t out slv))"

definition settle_steps :: "lib \<Rightarrow> reconciler \<Rightarrow> fill_entry \<Rightarrow> string \<Rightarrow> unit dproc" where
  "settle_steps L R f t =
     pbnd (atom (fill_order L f t)) (\<lambda>first.
     case first of
       None \<Rightarrow> pbnd (backfill_steps f t) (\<lambda>backfilled. if backfilled then retry_steps L R f t else pret ())
     | Some out \<Rightarrow> (case fo_sleeve out of None \<Rightarrow> pret () | Some slv \<Rightarrow> fill_position_steps L R f t out slv))"

definition fill_steps :: "lib \<Rightarrow> reconciler \<Rightarrow> fill_entry \<Rightarrow> unit dproc" where
  "fill_steps L R f =
     pbnd (atom (now_iso L)) (\<lambda>t.
     pbnd (psql (has_fill_been_applied fill_broker (fe_fill_id f))) (\<lambda>seen.
     if seen then atom (advance f)
     else
       pbnd (settle_steps L R f t) (\<lambda>_.
       pbnd (psql (record_fill_applied fill_broker (fe_fill_id f) t)) (\<lambda>_. atom (advance f)))))"

definition fills_steps :: "lib \<Rightarrow> reconciler \<Rightarrow> unit dproc" where
  "fills_steps L R =
     pbnd (atom (gets (\<lambda>w. (fd_fills (w_feeds w), w_applied_seq w)))) (\<lambda>(ring, last_seq).
     if \<not> fr_is_synced ring then pret ()
     else if fr_highest_seq ring \<le> last_seq then pret ()
     else pfor_each (filter (\<lambda>f. last_seq < fe_seq f) (fr_fills ring)) (fill_steps L R))"

lemma run_settle [solo_simps]: "run (settle_steps L R f t) = settle_fill L R f t"
  unfolding settle_steps_def retry_steps_def settle_defs by (simp add: solo_simps cong: solo_cong)

lemma run_fill [solo_simps]: "run (fill_steps L R f) = reconcile_fill L R f"
  unfolding fill_steps_def reconcile_fill_def by (simp add: solo_simps cong: solo_cong)

lemma run_fills [solo_simps]: "run (fills_steps L R) = reconcile_once L R"
  unfolding fills_steps_def reconcile_once_def by (simp add: solo_simps cong: solo_cong)

section \<open>The periodic reconciler and the equity writer\<close>

definition periodic_steps :: "drift dproc" where
  "periodic_steps =
     pbnd (atom open_orders) (\<lambda>answer.
     pbnd (por_fail (map_sum EBroker id answer)) (\<lambda>broker_orders.
     pbnd (psql list_live_orders) (\<lambda>local_live. pret (drift_of local_live broker_orders))))"

lemma run_periodic [solo_simps]: "run periodic_steps = periodic_once"
  unfolding periodic_steps_def periodic_once_def by (simp add: solo_simps)

definition persist_steps ::
    "lib \<Rightarrow> (json \<Rightarrow> flex_account option) \<Rightarrow> (json \<Rightarrow> margin_account option) \<Rightarrow> dec \<Rightarrow> dec
     \<Rightarrow> accounts_response \<Rightarrow> int dproc" where
  "persist_steps L flex_of margin_of usd_per_chf btc_usd accounts =
     (let sc = accounts_margin margin_of accounts sc_margin_account_key;
          sc_pv = (case sc of Some m \<Rightarrow> mx_pv (ma_auxiliary m) | None \<Rightarrow> 0);
          sc_unrealized = (case sc of Some m \<Rightarrow> mx_pnl (ma_auxiliary m) | None \<Rightarrow> 0);
          flex_balance = (case accounts_flex flex_of accounts of Some f \<Rightarrow> fx_balance_value f | None \<Rightarrow> 0)
      in
      pbnd (por_panic (btc_to_chf L sc_pv btc_usd usd_per_chf)) (\<lambda>leverage_value.
      pbnd (por_panic (btc_to_chf L sc_unrealized btc_usd usd_per_chf)) (\<lambda>unrealized.
      pbnd (por_panic (ddiv L flex_balance usd_per_chf)) (\<lambda>cash.
      pbnd (atom (lift_with (\<lambda>e. EText (''aggregating realized_pnl_btc: '' @ perr_text L e))
             (sum_realized_pnl_btc_by_sleeve L leverage_sleeve))) (\<lambda>realized_btc.
      pbnd (por_panic (btc_to_chf L realized_btc btc_usd usd_per_chf)) (\<lambda>realized.
      pbnd (por_panic (dadd L cash leverage_value)) (\<lambda>equity.
      if equity \<le> 0 then
        por_fail (Inl (EText (''computed total_equity_chf = '' @ l_show L equity
          @ '' is not positive; refusing to persist'')))
      else
        pbnd (atom (now_iso L)) (\<lambda>t.
        atom (lift_with (\<lambda>e. EText (''inserting equity_snapshot: '' @ perr_text L e))
          (insert_equity_snapshot t (l_show L equity) ''0'' ''0'' (l_show L leverage_value) (l_show L cash)
             (l_show L realized) (l_show L 0) (l_show L unrealized) (l_show L 1) (l_show L 1)
             (l_show L 1)))))))))))"

definition snapshot_steps ::
    "lib \<Rightarrow> (json \<Rightarrow> flex_account option) \<Rightarrow> (json \<Rightarrow> margin_account option) \<Rightarrow> risk_config
     \<Rightarrow> string + accounts_response \<Rightarrow> int dproc" where
  "snapshot_steps L flex_of margin_of cfg answer =
     (let usd_per_chf = rc_usd_per_chf_fallback cfg in
      if usd_per_chf \<le> 0 then
        por_fail (Inl (EText (''usd_per_chf_fallback is '' @ l_show L usd_per_chf @ '' (must be > 0)'')))
      else
        pbnd (atom (gets w_feeds)) (\<lambda>fd.
        pbnd (por_fail (btc_mark L fd)) (\<lambda>btc_usd.
        pbnd (por_fail (map_sum (\<lambda>e. EText (''fetching accounts: '' @ e)) id answer))
          (persist_steps L flex_of margin_of usd_per_chf btc_usd))))"

lemma run_persist [solo_simps]: "run (persist_steps L fl mg u b a) = persist_snapshot L fl mg u b a"
  unfolding persist_steps_def persist_snapshot_def Let_def by (simp add: solo_simps cong: if_cong)

lemma run_snapshot [solo_simps]: "run (snapshot_steps L fl mg cfg a) = write_one_snapshot L fl mg cfg a"
  unfolding snapshot_steps_def write_one_snapshot_def Let_def by (simp add: solo_simps cong: if_cong)

section \<open>A tick of each task\<close>

definition tick_steps :: "daemon \<Rightarrow> task \<Rightarrow> string + accounts_response \<Rightarrow> unit dproc" where
  "tick_steps D t answer = (case t of
      FeedTask \<Rightarrow> pret ()
    | ProcessorTask \<Rightarrow> poll_steps (dm_lib D) (dm_processor D)
    | SupervisorTask \<Rightarrow> evaluate_steps (dm_lib D) (rk_risk (dm_reconciler D)) (rk_instruments (dm_reconciler D))
        (rk_has_broker (dm_reconciler D))
    | FillTask \<Rightarrow> fills_steps (dm_lib D) (dm_reconciler D)
    | PeriodicTask \<Rightarrow> pbnd periodic_steps (\<lambda>_. pret ())
    | EquityTask \<Rightarrow> pbnd (snapshot_steps (dm_lib D) (dm_flex D) (dm_margin D) (rk_risk (dm_reconciler D)) answer)
        (\<lambda>_. pret ()))"

end
