(* ===== verification/Interleaving.thy ===== *)
theory Interleaving
  imports Task_Steps
begin

text \<open>The tasks of the daemon taking turns at every point where the source awaits.  The runtime may switch
  between any two actions; a crash may happen there too, and loses what the tasks had in their hands.\<close>

section \<open>The pool of tasks\<close>

type_synonym threads = "task \<Rightarrow> unit dproc option"

definition idle_threads :: threads where
  "idle_threads = (\<lambda>t. None)"

text \<open>What happens outside: a signal is written, the operator resolves an event, the clock, the feeds and the
  scripts of the broker and the faults move.\<close>
inductive outside :: "world \<Rightarrow> world \<Rightarrow> bool" where
  arrive: "sr_id s \<notin> set (map sr_id (db_signals (w_db w))) \<Longrightarrow>
    outside w (w\<lparr> w_db := (w_db w)\<lparr> db_signals := db_signals (w_db w) @ [s] \<rparr> \<rparr>)"
| resolve: "outside w (w\<lparr> w_db := resolve_event i t who (w_db w) \<rparr>)"
| environment: "w_now w \<le> now \<Longrightarrow> outside w (w\<lparr> w_feeds := fd, w_now := now, w_submits := a,
    w_lookups := b, w_listings := c, w_db := (w_db w)\<lparr> db_faults := fs \<rparr> \<rparr>)"

inductive pool_step :: "daemon \<Rightarrow> threads \<times> world \<Rightarrow> threads \<times> world \<Rightarrow> bool" for D where
  wake: "T t = None \<Longrightarrow> t \<noteq> FeedTask \<Longrightarrow> pool_step D (T, w) (T(t := Some (tick_steps D t answer)), w)"
| act: "T t = Some (Act f) \<Longrightarrow> pool_step D (T, w) (T(t := Some (snd (f w))), fst (f w))"
| sleep: "T t = Some (Done r) \<Longrightarrow> pool_step D (T, w) (T(t := None), w)"
| crash: "pool_step D (T, w) (idle_threads, w\<lparr> w_applied_seq := 0 \<rparr>)"
| outer: "outside w w' \<Longrightarrow> pool_step D (T, w) (T, w')"

inductive pool_reachable :: "daemon \<Rightarrow> threads \<times> world \<Rightarrow> bool" for D where
  start: "w_db w = db_empty\<lparr> db_faults := fs \<rparr> \<Longrightarrow> w_sent w = [] \<Longrightarrow> pool_reachable D (idle_threads, w)"
| step: "pool_reachable D x \<Longrightarrow> pool_step D x y \<Longrightarrow> pool_reachable D y"

section \<open>Ticks are runs of the pool\<close>

lemma pool_advances:
  assumes "advances p w p' w'"
  shows "T t = Some p \<Longrightarrow> pool_reachable D (T, w) \<Longrightarrow> pool_reachable D (T(t := Some p'), w')"
  using assms
proof (induction arbitrary: T rule: advances.induct)
  case (stay p s)
  then have "T(t := Some p) = T" by auto
  then show ?case using stay by simp
next
  case (move f s p' s')
  have "pool_reachable D (T(t := Some (snd (f s))), fst (f s))"
    using move.prems by (auto intro: pool_reachable.step pool_step.act)
  moreover have "(T(t := Some (snd (f s)))) t = Some (snd (f s))" by simp
  ultimately have "pool_reachable D ((T(t := Some (snd (f s))))(t := Some p'), s')" by (rule move.IH [rotated])
  then show ?case by (simp only: fun_upd_upd)
qed

text \<open>A whole tick of a sleeping task.\<close>
lemma pool_tick:
  assumes "pool_reachable D (T, w)" "T t = None" "t \<noteq> FeedTask" "run (tick_steps D t answer) w = (w', r)"
  shows "pool_reachable D (T, w')"
proof -
  have "pool_reachable D (T(t := Some (tick_steps D t answer)), w)"
    using assms(1-3) by (auto intro: pool_reachable.step pool_step.wake)
  from pool_advances [OF advances_run [OF assms(4)] _ this, of t]
  have "pool_reachable D (T(t := Some (Done r)), w')" by simp
  moreover have "pool_step D (T(t := Some (Done r)), w') ((T(t := Some (Done r)))(t := None), w')"
    by (rule pool_step.sleep) simp
  ultimately have "pool_reachable D ((T(t := Some (Done r)))(t := None), w')" by (rule pool_reachable.step)
  moreover have "(T(t := Some (Done r)))(t := None) = T" using assms(2) by (auto simp: fun_eq_iff)
  ultimately show ?thesis by simp
qed

lemma outside_daemon_step:
  "daemon_step D w w' \<Longrightarrow> outside w w' \<or> w' = w\<lparr> w_applied_seq := 0 \<rparr> \<or>
     (\<exists>t answer r. t \<noteq> FeedTask \<and> run (tick_steps D t answer) w = (w', r))"
proof (induction rule: daemon_step.induct)
  case (poll w w' r)
  then show ?case by (intro disjI2 exI [of _ ProcessorTask]) (auto simp: tick_steps_def solo_simps)
next
  case (supervise w w' r)
  then show ?case by (intro disjI2 exI [of _ SupervisorTask]) (auto simp: tick_steps_def solo_simps)
next
  case (fills w w' r)
  then show ?case by (intro disjI2 exI [of _ FillTask]) (auto simp: tick_steps_def solo_simps)
next
  case (periodic w w' r')
  then show ?case
    by (intro disjI2 exI [of _ PeriodicTask]) (cases r'; auto simp: tick_steps_def solo_simps bnd_def)
next
  case (equity answer w w' r'')
  then show ?case
    by (intro disjI2 exI [of _ EquityTask] exI [of _ answer]) (cases r''; auto simp: tick_steps_def solo_simps bnd_def)
qed (auto intro: outside.intros)

text \<open>A tick, as steps of the pool.\<close>
lemma daemon_step_in_pool:
  assumes "pool_reachable D (idle_threads, w)" "daemon_step D w w'"
  shows "pool_reachable D (idle_threads, w')"
  using outside_daemon_step [OF assms(2)]
proof (elim disjE exE conjE)
  fix t answer r
  assume "t \<noteq> FeedTask" "run (tick_steps D t answer) w = (w', r)"
  then show ?thesis using pool_tick [OF assms(1), of t] by (simp add: idle_threads_def)
qed (auto intro: pool_reachable.step [OF assms(1)] pool_step.intros)

text \<open>Every world the daemon reaches tick by tick is one it reaches in the pool.\<close>
lemma reachable_in_pool: "reachable D w \<Longrightarrow> pool_reachable D (idle_threads, w)"
  by (induction rule: reachable.induct) (auto intro: pool_reachable.start daemon_step_in_pool)

section \<open>Invariants of the pool\<close>

text \<open>A family of properties that every task keeps for the others while it moves along it itself: then each
  task has in hand what its process expects, whatever the others do in between.\<close>
locale pool_family =
  fixes D :: daemon and Inv :: "'j \<Rightarrow> world \<Rightarrow> bool" and none :: 'j
  assumes begins: "w_db w = db_empty\<lparr> db_faults := fs \<rparr> \<Longrightarrow> w_sent w = [] \<Longrightarrow> Inv none w"
    and forget: "Inv j w \<Longrightarrow> Inv none w"
    and tick: "t \<noteq> FeedTask \<Longrightarrow> guided Inv (\<lambda>_ _. True) none (tick_steps D t answer)"
    and surroundings: "outside w w' \<Longrightarrow> Inv j w \<Longrightarrow> Inv j w'"
    and restarted: "Inv j w \<Longrightarrow> Inv j (w\<lparr> w_applied_seq := 0 \<rparr>)"
begin

definition pool_ok :: "threads \<times> world \<Rightarrow> bool" where
  "pool_ok x \<longleftrightarrow> Inv none (snd x) \<and>
     (\<forall>t p. fst x t = Some p \<longrightarrow> (\<exists>j. Inv j (snd x) \<and> guided Inv (\<lambda>_ _. True) j p))"

lemma pool_step_ok: "pool_step D x y \<Longrightarrow> pool_ok x \<Longrightarrow> pool_ok y"
proof (induction rule: pool_step.induct)
  case (wake T t w answer)
  then show ?case unfolding pool_ok_def using tick [of t answer] by auto
next
  case (act T t f w)
  then obtain j where j: "Inv j w" "guided Inv (\<lambda>_ _. True) j (Act f)" by (auto simp: pool_ok_def)
  then have mono: "Inv i w \<Longrightarrow> Inv i (fst (f w))" for i by (auto simp: guided_Act)
  moreover obtain j' where "Inv j' (fst (f w))" "guided Inv (\<lambda>_ _. True) j' (snd (f w))"
    using j by (auto simp: guided_Act)
  moreover have "\<exists>j. Inv j (fst (f w)) \<and> guided Inv (\<lambda>_ _. True) j p" if "T t' = Some p" for t' p
    using act.prems that calculation(1) unfolding pool_ok_def by fastforce
  ultimately show ?case using act.prems unfolding pool_ok_def by auto
next
  case (sleep T t r w)
  then show ?case unfolding pool_ok_def by auto
next
  case (crash T w)
  then show ?case unfolding pool_ok_def idle_threads_def using restarted by simp
next
  case (outer w w' T)
  then show ?case unfolding pool_ok_def using surroundings by fastforce
qed

lemma pool_kept: "pool_reachable D x \<Longrightarrow> pool_ok x"
proof (induction rule: pool_reachable.induct)
  case (start w fs)
  then show ?case unfolding pool_ok_def idle_threads_def using begins by simp
qed (rule pool_step_ok)

lemma pool_inv: "pool_reachable D (T, w) \<Longrightarrow> Inv none w"
  using pool_kept [of "(T, w)"] by (simp add: pool_ok_def)

end

end
