(* ===== verification/Pool_Invariant.thy ===== *)
theory Pool_Invariant
  imports Interleaving
begin

text \<open>The invariant of the daemon under interleaving.  The other tasks keep it action by action whatever the
  processor has in hand; the processor moves along a family of invariants that says which signals its rows
  are about and for which signal it has just seen or written an order.\<close>

section \<open>The family\<close>

type_synonym hold = "int set \<times> (int \<times> string) set"

definition held :: "hold \<Rightarrow> world \<Rightarrow> bool" where
  "held j w \<longleftrightarrow> (\<exists>K. snd j \<subseteq> set K \<and> distinct (map fst K) \<and> world_ok (fst j) K w)"

lemma held_mono: "held (I, F) w \<Longrightarrow> J \<subseteq> I \<Longrightarrow> G \<subseteq> F \<Longrightarrow> held (J, G) w"
  unfolding held_def by (auto intro: world_mono)

lemma held_daemon: "held j w \<Longrightarrow> daemon_ok w"
proof -
  assume "held j w"
  then obtain K where K: "distinct (map fst K)" "world_ok (fst j) K w" by (auto simp: held_def)
  then have "K = sleeve_table (w_db w)"
    by (simp add: world_ok_def tables_ok_def rows_ok_def signals_are_def sleeve_table_def)
  then show ?thesis
    using K world_mono [OF K(2), of "{}"] by (simp add: daemon_ok_def sleeve_table_ids)
qed

lemma daemon_held: "daemon_ok w \<Longrightarrow> held ({}, {}) w"
  unfolding held_def by (rule exI [of _ "sleeve_table (w_db w)"]) (simp add: daemon_ok_def sleeve_table_ids)

lemma world_both: "world_ok I K w \<Longrightarrow> world_ok J K w \<Longrightarrow> world_ok (I \<union> J) K w"
  by (auto simp: world_ok_def tables_ok_def rows_ok_def)

lemma held_both:
  assumes "held (I, F) w" "held j w"
  obtains K where "F \<subseteq> set K" "snd j \<subseteq> set K" "distinct (map fst K)" "world_ok I K w" "world_ok (fst j) K w"
proof -
  have "K = sleeve_table (w_db w)" if "world_ok i K w" for i K
    using that by (simp add: world_ok_def tables_ok_def rows_ok_def signals_are_def sleeve_table_def)
  note same = this
  obtain K K' where "F \<subseteq> set K" "distinct (map fst K)" "world_ok I K w" "snd j \<subseteq> set K'" "world_ok (fst j) K' w"
    using assms by (auto simp: held_def)
  then show thesis using that same by metis
qed

lemma keeps_held:
  assumes "\<And>K. distinct (map fst K) \<Longrightarrow> keeps (world_ok (fst j) K) m"
  shows "keeps (held j) m"
  unfolding held_def keeps_def using assms by (fastforce simp: keeps_def)

lemma pkeeps_held [pkeeps_intro]:
  assumes "\<And>I K. keeps (world_ok I K) m"
  shows "pkeeps held (atom m)"
  by (intro pkeeps_atom keeps_held assms)

lemma pkeeps_psql [pkeeps_intro]:
  assumes "\<And>S K. keeps (tables_ok S K) m"
  shows "pkeeps held (psql m)"
  unfolding psql_def by (intro pkeeps_intro keeps_intro assms)

section \<open>Supervision\<close>

lemma keeps_receive [keeps_intro]: "keeps (world_ok I K) receive_answer"
  by (auto simp: keeps_def receive_answer_def world_ok_def sent_signals_def split: prod.splits)

lemma keeps_send:
  assumes "or_signal_id o' = None \<or> (\<exists>i \<in> I. or_signal_id o' = Some i \<and> own_cli o')"
  shows "keeps (world_ok I K) (send_order_out o')"
proof -
  have "own_cli o'" "{i. or_signal_id o' = Some i} \<subseteq> I" using assms by (auto simp: own_cli_def)
  then show ?thesis
    by (auto simp: keeps_def world_ok_def sent_signals_def send_order_out_def elim: tables_mono)
qed

lemma pkeeps_load [pkeeps_intro]: "pkeeps held (load_steps L t)"
  unfolding load_steps_def latest_equity_snapshot_def write_bootstrap_equity_snapshot_def kill_switch_active_def
    list_open_leverage_positions_def
  by (intro pkeeps_intro keeps_intro tables_blind)

lemma pkeeps_close [pkeeps_intro]: "pkeeps held (close_steps L ins i)"
proof -
  have "keeps (world_ok I K) (send_order_out (close_order ins i t s q))" for I K t s q
    by (rule keeps_send) (simp add: close_order_def Let_def)
  then show ?thesis
    unfolding close_steps_def close_one_steps_def submit_steps_def list_open_leverage_positions_def
    by (intro pkeeps_intro keeps_intro tables_blind)
qed

lemma pkeeps_act_on [pkeeps_intro]: "pkeeps held (act_steps L ins hb pf h d)"
  by (cases d) (auto simp: act_steps_def intro!: pkeeps_intro keeps_intro)

lemma pkeeps_evaluate [pkeeps_intro]: "pkeeps held (evaluate_steps L cfg ins hb)"
  unfolding evaluate_steps_def has_active_hard_trigger_def by (intro pkeeps_intro keeps_intro tables_blind)

section \<open>Fills, drift and snapshots\<close>

lemma pkeeps_fill_position: "pkeeps held (fill_position_steps L R f t out lev)"
  unfolding fill_position_steps_def trigger_steps_def by (intro pkeeps_intro keeps_fill_position)

lemma pkeeps_backfill [pkeeps_intro]: "pkeeps held (backfill_steps f t)"
  unfolding backfill_steps_def find_order_id_by_cli_ord_id_def by (intro pkeeps_intro keeps_intro tables_blind)

lemma keeps_fill_order: "keeps (held j) (fill_order L f t)"
  by (rule keeps_held, rule keeps_triple, rule triple_mono [OF fill_order_world]) simp_all

lemma pkeeps_fill_order:
  assumes "\<And>x. fo_sleeve x = Some lev \<Longrightarrow> pkeeps held (k (Some x))"
    and "\<And>x. fo_sleeve x = None \<Longrightarrow> pkeeps held (k (Some x))" "pkeeps held (k None)"
  shows "pkeeps held (pbnd (atom (fill_order L f t)) k)"
proof (rule pkeeps_bnd_atom [OF keeps_fill_order])
  fix j :: hold and w w' out
  assume h: "held j w" and run: "fill_order L f t w = (w', Ok out)"
  obtain K where K: "distinct (map fst K)" "world_ok (fst j) K w" using h by (auto simp: held_def)
  have "\<forall>x slv. out = Some x \<longrightarrow> fo_sleeve x = Some slv \<longrightarrow> slv = lev"
    using triple_Ok [OF fill_order_world [OF K(1)] K(2) run] by blast
  then show "pkeeps held (k out)"
    using assms by (metis option.exhaust)
qed

lemma pkeeps_settle [pkeeps_intro]: "pkeeps held (settle_steps L R f t)"
proof -
  have again: "pkeeps held (retry_steps L R f t)"
    unfolding retry_steps_def by (rule pkeeps_fill_order) (auto intro!: pkeeps_intro pkeeps_fill_position)
  show ?thesis
    unfolding settle_steps_def
    by (rule pkeeps_fill_order) (auto intro!: pkeeps_intro pkeeps_fill_position again)
qed

lemma pkeeps_fills [pkeeps_intro]: "pkeeps held (fills_steps L R)"
  unfolding fills_steps_def fill_steps_def has_fill_been_applied_def
  by (intro pkeeps_intro keeps_intro tables_blind)

lemma pkeeps_periodic [pkeeps_intro]: "pkeeps held periodic_steps"
  unfolding periodic_steps_def list_live_orders_def by (intro pkeeps_intro keeps_intro tables_blind)

lemma keeps_sum_texts [keeps_intro]: "keeps (tables_ok S K) (sum_texts L acc rows)"
  by (induction rows arbitrary: acc) (auto intro!: keeps_intro)

lemma pkeeps_snapshot [pkeeps_intro]: "pkeeps held (snapshot_steps L flex_of margin_of cfg answer)"
  unfolding snapshot_steps_def persist_steps_def Let_def sum_realized_pnl_btc_by_sleeve_def
  by (intro pkeeps_intro keeps_intro tables_blind) (auto simp: keeps_def)

text \<open>Every task but the processor keeps each member of the family.\<close>
lemma other_ticks: "t \<noteq> ProcessorTask \<Longrightarrow> pkeeps held (tick_steps D t answer)"
  by (cases t) (auto simp: tick_steps_def intro!: pkeeps_intro)


section \<open>The processor\<close>

text \<open>The facts about the rows in hand last; an order in hand may be forgotten.\<close>
abbreviation on_rows :: "(int \<times> string) set \<Rightarrow> ('e, 'a) res \<Rightarrow> hold \<Rightarrow> bool" where
  "on_rows F r j \<equiv> snd j = F"

lemma guided_drop: "guided held (on_rows F) ({}, F) p \<Longrightarrow> guided held (on_rows F) (I, F) p"
  by (erule guided_weaken) (auto elim: held_mono)

lemma guided_rows: "guided held (on_rows F) ({}, F) p \<Longrightarrow> snd j = F \<Longrightarrow> guided held (on_rows F) j p"
  by (metis guided_drop prod.collapse)

lemma guided_all: "pkeeps held p \<Longrightarrow> guided held (on_rows F) (I, F) p"
  by (rule guided_keeps) simp_all

lemma guided_next:
  assumes "pkeeps held p" "\<And>a. guided held (on_rows F) (I, F) (k a)"
  shows "guided held (on_rows F) (I, F) (pbnd p k)"
  by (rule guided_stay [OF assms]) simp_all

text \<open>A statement that learns something about an order, whichever other signals have rows.\<close>
lemma guided_learn:
  assumes "\<And>K I'. F \<subseteq> set K \<Longrightarrow> I \<subseteq> I' \<Longrightarrow> triple (world_ok I' K) m (\<lambda>a. world_ok (J a \<union> I') K) (world_ok I' K)"
  shows "guided held (\<lambda>r j. j = (case r of Ok a \<Rightarrow> J a | _ \<Rightarrow> {}, F)) (I, F) (atom m)"
proof (rule guided_atom)
  fix w w' r and i :: hold
  assume h: "held (I, F) w" "held i w" and run: "m w = (w', r)"
  obtain K where K: "F \<subseteq> set K" "snd i \<subseteq> set K" "distinct (map fst K)" "world_ok I K w" "world_ok (fst i) K w"
    by (rule held_both [OF h])
  then have "world_ok (I \<union> fst i) K w'"
    using assms [of K "I \<union> fst i"] run world_both unfolding triple_def by (cases r) (fastforce elim: world_mono)+
  then show "held i w'" using K by (auto simp: held_def elim: world_mono)
next
  fix w w' r
  assume "held (I, F) w" and run: "m w = (w', r)"
  then obtain K where K: "F \<subseteq> set K" "distinct (map fst K)" "world_ok I K w" by (auto simp: held_def)
  then have "world_ok (case r of Ok a \<Rightarrow> J a | _ \<Rightarrow> {}) K w'"
    using assms [OF K(1), of I] run unfolding triple_def by (cases r) (fastforce elim: world_mono)+
  then have "held (case r of Ok a \<Rightarrow> J a | _ \<Rightarrow> {}, F) w'" using K by (auto simp: held_def)
  then show "\<exists>j'. held j' w' \<and> j' = (case r of Ok a \<Rightarrow> J a | _ \<Rightarrow> {}, F)" by blast
qed

lemma guided_then:
  assumes "\<And>K I'. F \<subseteq> set K \<Longrightarrow> I \<subseteq> I' \<Longrightarrow> triple (world_ok I' K) m (\<lambda>a. world_ok (J a \<union> I') K) (world_ok I' K)"
    and "\<And>a. guided held post (J a, F) (k a)"
    and "\<And>e. post (Err e) ({}, F)" "post Panic ({}, F)"
  shows "guided held post (I, F) (pbnd (atom m) k)"
  by (rule guided_bnd [OF guided_learn [OF assms(1)]]) (use assms(2-4) in auto)

lemma pkeeps_reject [pkeeps_intro]: "pkeeps held (reject_steps L i r)" "pkeeps held (cooldown_steps L i)"
  "pkeeps held (dry_run_steps L sg m)" "pkeeps held (answered_steps L i n r' t)"
  unfolding reject_steps_def cooldown_steps_def dry_run_steps_def answered_steps_def Let_def
  by (intro pkeeps_intro keeps_intro)+

lemma pkeeps_lookup: "pkeeps held (lookup_steps L i n c)"
  unfolding lookup_steps_def by (intro pkeeps_intro keeps_intro)

lemma guided_reconcile:
  "guided held (\<lambda>r j. snd j = F \<and> (\<forall>n. r = Ok (ResubmitWithOrderId n) \<longrightarrow> fst j = {i})) ({}, F)
     (reconcile_order_steps L i)" (is "guided held ?post _ _")
  unfolding reconcile_order_steps_def psql_def
proof (rule guided_then [OF pending_world], goal_cases)
  case (1 found)
  show ?case
  proof (cases found)
    case (Some f)
    have "pkeeps held (case Some f of None \<Rightarrow> pret NoExistingOrder
      | Some found \<Rightarrow> (case found of (order_id, status, cli) \<Rightarrow>
         if status \<in> set settled_statuses then
           pbnd (atom (now_iso L)) (\<lambda>t.
           pbnd (atom (sql (mark_signal_processed i t))) (\<lambda>_.
           pbnd (atom (sql (clear_signal_retry_after i))) (\<lambda>_. pret AlreadyReconciled)))
         else if status = ''uncertain'' then
           (case cli of
              Some c \<Rightarrow> lookup_steps L i order_id c
            | None \<Rightarrow> pbnd (reject_steps L i (JObj [(''kind'', JStr ''uncertain_without_cli''),
                         (''order_id'', JNum (show_int order_id))])) (\<lambda>_. pret MalformedUnrecoverable))
         else pret AlreadyReconciled))"
      by (intro pkeeps_intro keeps_intro pkeeps_lookup)
    then show ?thesis unfolding Some by (simp add: guided_keeps)
  qed (simp add: pret_def)
qed simp_all


lemma guided_place:
  assumes "own_cli o'" "or_signal_id o' = Some (sg_id sg)" "(sg_id sg, lev) \<in> F"
  shows "guided held (on_rows F) (case resubmit of Some _ \<Rightarrow> {sg_id sg} | None \<Rightarrow> {}, F) (place_steps L sg resubmit o')"
proof -
  let ?I = "{sg_id sg}"
  have send: "guided held (on_rows F) (?I, F) (pbnd (atom (send_order_out o')) (\<lambda>_. await_steps L (sg_id sg) i))" for i
  proof (rule guided_then [where J = "\<lambda>_. ?I"])
    fix I' K
    assume "?I \<subseteq> I'"
    then have "keeps (world_ok I' K) (send_order_out o')" "?I \<union> I' = I'" using assms by (auto intro: keeps_send)
    then show "triple (world_ok I' K) (send_order_out o') (\<lambda>_. world_ok (?I \<union> I') K) (world_ok I' K)"
      using triple_keeps by simp
  next
    show "guided held (on_rows F) (?I, F) (await_steps L (sg_id sg) i)"
      unfolding await_steps_def by (intro guided_all pkeeps_intro keeps_intro)
  qed simp_all
  show ?thesis
  proof (cases resubmit)
    case (Some i)
    then show ?thesis
      unfolding place_steps_def Some option.case pret_def pbnd.simps res.case
      by (intro guided_next send pkeeps_intro keeps_intro)
  next
    case None
    have cli: "or_cli_ord_id o' = Some (signal_cli (sg_id sg))" using assms(1,2) by (simp add: own_cli_def)
    have row: "triple (world_ok I' K) (sql (insert_pending_order (Some (sg_id sg)) broker_tag
         (ins_symbol (or_instrument o')) (side_text (or_side o')) (order_type_text (or_order_type o'))
         (tif_text (or_time_in_force o')) (l_show L (or_quantity o')) (map_option (l_show L) (or_limit_price o'))
         None t (or_cli_ord_id o'))) (\<lambda>_. world_ok (?I \<union> I') K) (world_ok I' K)" if "F \<subseteq> set K" for t K I'
      unfolding sql_def
      by (rule triple_world_lift [where Q = "\<lambda>_ S. tables_ok (insert (sg_id sg) S) K"])
        (use assms(3) that in \<open>auto simp: world_ok_def intro!: insert_order_tables [OF cli]\<close>)
    have new: "guided held (on_rows F) ({}, F) (pbnd (psql (insert_pending_order (Some (sg_id sg)) broker_tag
         (ins_symbol (or_instrument o')) (side_text (or_side o')) (order_type_text (or_order_type o'))
         (tif_text (or_time_in_force o')) (l_show L (or_quantity o')) (map_option (l_show L) (or_limit_price o'))
         None t (or_cli_ord_id o'))) (\<lambda>i. pbnd (atom (send_order_out o')) (\<lambda>_. await_steps L (sg_id sg) i)))" for t
      unfolding psql_def by (rule guided_then [OF row send]) simp_all
    show ?thesis
      unfolding place_steps_def None option.case by (intro guided_next new pkeeps_intro keeps_intro)
  qed
qed

lemma guided_build:
  assumes "(sg_id sg, lev) \<in> F"
  shows "guided held (on_rows F) (case resubmit of Some _ \<Rightarrow> {sg_id sg} | None \<Rightarrow> {}, F)
     (build_steps L P sg m pf resubmit)"
  unfolding build_steps_def
proof (rule guided_next, goal_cases)
  case (2 now)
  show ?case
  proof (cases "build_kraken_futures_order L sg m pf (sp_instruments P) now")
    case (Inl r)
    then show ?thesis unfolding Inl sum.case by (intro guided_all pkeeps_intro)
  next
    case (Inr o')
    then have "own_cli o'" "or_signal_id o' = Some (sg_id sg)"
      using built_order_matches by (auto simp: order_matches_def own_cli_def)
    then show ?thesis unfolding Inr sum.case using guided_place assms by blast
  qed
qed (intro pkeeps_intro keeps_intro)

lemma guided_broker:
  assumes "sg_sleeve sg = CryptoLeverage \<Longrightarrow> (sg_id sg, lev) \<in> F"
  shows "guided held (on_rows F) ({}, F) (broker_steps L P sg m pf)"
proof -
  have "guided held (on_rows F) ({}, F) (pbnd (reconcile_order_steps L (sg_id sg)) (\<lambda>outcome.
        case outcome of
          NoExistingOrder \<Rightarrow> build_steps L P sg m pf None
        | ResubmitWithOrderId i \<Rightarrow> build_steps L P sg m pf (Some i)
        | _ \<Rightarrow> pret ()))" if "sg_sleeve sg = CryptoLeverage"
  proof (rule guided_bnd [OF guided_reconcile], goal_cases)
    case (1 out j)
    note b = guided_build [OF assms [OF that]]
    from 1 have j: "snd j = F" "\<And>n. out = ResubmitWithOrderId n \<Longrightarrow> j = ({sg_id sg}, F)"
      by (auto simp: prod_eq_iff)
    show ?case
    proof (cases out)
      case NoExistingOrder
      then show ?thesis using guided_rows [OF b [of None, simplified]] j(1) by simp
    next
      case (ResubmitWithOrderId n)
      then show ?thesis using b [of "Some n"] j(2) by simp
    qed (use j(1) in \<open>auto simp: pret_def\<close>)
  qed auto
  then show ?thesis
    unfolding broker_steps_def by (auto intro!: guided_all pkeeps_intro)
qed

lemma guided_checklist:
  assumes "sg_sleeve sg = CryptoLeverage \<Longrightarrow> (sg_id sg, lev) \<in> F"
  shows "guided held (on_rows F) ({}, F) (checklist_steps L P sg m pf)"
proof -
  have "guided held (on_rows F) ({}, F) (approval_steps L P sg m pf)"
    using assms by (cases "sp_mode P") (simp_all add: approval_steps_def guided_all pkeeps_reject guided_broker)
  then have decide: "guided held (on_rows F) ({}, F) (if cr_approved r then approval_steps L P sg m pf
      else reject_steps L (sg_id sg) reason)" for r reason
    by (simp add: guided_all pkeeps_reject)
  show ?thesis unfolding checklist_steps_def by (intro guided_next decide pkeeps_intro keeps_intro)
qed

lemma guided_process:
  assumes "(sr_id row, sr_sleeve row) \<in> F"
  shows "guided held (on_rows F) ({}, F) (process_steps L P row)"
proof (cases "row_to_signal L row")
  case (Inl e)
  then show ?thesis unfolding process_steps_def by (auto intro!: guided_all pkeeps_intro)
next
  case (Inr sg)
  have check: "guided held (on_rows F) ({}, F) (checklist_steps L P sg m pf)" for m pf
    using assms row_to_signal_Inr [OF Inr] by (intro guided_checklist) (auto simp: lev_def)
  have load: "guided held (on_rows F) ({}, F) (pcatch (load_steps L now2) (\<lambda>loaded. case loaded of
        Inl e \<Rightarrow> reject_steps L (sg_id sg) (JObj [(''detail'', JStr (derr_text L e)),
                   (''kind'', JStr ''portfolio_state_unavailable'')])
      | Inr pf \<Rightarrow> checklist_steps L P sg m pf))" for now2 m
  proof (rule guided_within_catch)
    fix loaded and j :: hold
    assume "snd j = F"
    with guided_rows [OF check] show "guided held (on_rows F) j (case loaded of
        Inl e \<Rightarrow> reject_steps L (sg_id sg) (JObj [(''detail'', JStr (derr_text L e)),
                   (''kind'', JStr ''portfolio_state_unavailable'')])
      | Inr pf \<Rightarrow> checklist_steps L P sg m pf)"
      by (cases loaded) (simp_all add: guided_keeps pkeeps_reject)
  qed (intro guided_all pkeeps_intro)
  have market: "guided held (on_rows F) ({}, F) (case market of
        Inl e \<Rightarrow> reject_steps L (sg_id sg) (market_data_error_to_json L e)
      | Inr m \<Rightarrow> pbnd (atom clock) (\<lambda>now2. pcatch (load_steps L now2) (\<lambda>loaded. case loaded of
          Inl e \<Rightarrow> reject_steps L (sg_id sg) (JObj [(''detail'', JStr (derr_text L e)),
                   (''kind'', JStr ''portfolio_state_unavailable'')])
        | Inr pf \<Rightarrow> checklist_steps L P sg m pf)))" for market
  proof (cases market)
    case (Inr m)
    show ?thesis unfolding Inr sum.case by (intro guided_next load pkeeps_intro keeps_intro)
  qed (simp add: guided_all pkeeps_reject)
  show ?thesis
    unfolding process_steps_def Inr sum.case
  proof (rule guided_next, goal_cases)
    case (2 now)
    show ?case
    proof (cases "is_expired sg now")
      case False
      then show ?thesis by (simp only: if_False) (intro guided_next market pkeeps_intro keeps_intro)
    qed (auto intro!: guided_all pkeeps_intro keeps_intro)
  qed (intro pkeeps_intro keeps_intro)
qed


lemma keeps_pending: "keeps (world_ok I K) (sql (pending_signals 64 t))"
  unfolding pending_signals_def by (intro keeps_intro tables_blind)

lemma guided_poll: "guided held (\<lambda>_ _. True) j (poll_steps L P)"
proof -
  let ?F = "\<lambda>rows. set (map (\<lambda>r. (sr_id r, sr_sleeve r)) rows)"
  have read: "guided held (\<lambda>r j. \<forall>rows. r = Ok rows \<longrightarrow> snd j = ?F rows) ({}, {}) (psql (pending_signals 64 t))" for t
    unfolding psql_def
  proof (rule guided_atom)
    fix w w' r and i :: hold
    assume h: "held i w" "sql (pending_signals 64 t) w = (w', r)"
    have "keeps (held i) (sql (pending_signals 64 t))" by (intro keeps_held keeps_pending)
    from this h show "held i w'" by (rule keepsD)
  next
    fix w w' r
    assume "held ({}, {}) w" and run: "sql (pending_signals 64 t) w = (w', r)"
    then obtain K where K: "distinct (map fst K)" "world_ok {} K w" by (auto simp: held_def)
    then have after: "world_ok {} K w' \<and> (\<forall>rows. r = Ok rows \<longrightarrow> ?F rows \<subseteq> set K)"
      using pending_rows_world [of K t] run unfolding triple_def by (cases r) fastforce+
    show "\<exists>j'. held j' w' \<and> (\<forall>rows. r = Ok rows \<longrightarrow> snd j' = ?F rows)"
    proof (cases r)
      case (Ok rows)
      then have "held ({}, ?F rows) w'" using K after by (auto simp: held_def)
      then show ?thesis using Ok by force
    qed (use K after in \<open>auto simp: held_def\<close>)
  qed
  have each: "guided held (\<lambda>_ _. True) (I, ?F rows)
      (pfor_each rows (\<lambda>row. pcatch (process_steps L P row) (\<lambda>_. pret ())))" for I rows
  proof (rule guided_mono [OF guided_within_for_each [where G = "\<lambda>j. snd j = ?F rows"]])
    fix row and j :: hold
    assume "row \<in> set rows" "snd j = ?F rows"
    then have "guided held (on_rows (?F rows)) ({}, ?F rows) (process_steps L P row)" by (intro guided_process) auto
    then have "guided held (on_rows (?F rows)) j (process_steps L P row)" using \<open>snd j = _\<close> by (rule guided_rows)
    then show "guided held (on_rows (?F rows)) j (pcatch (process_steps L P row) (\<lambda>_. pret ()))"
      by (rule guided_within_catch) (simp add: pret_def)
  qed simp_all
  have then_each: "guided held (\<lambda>_ _. True) ({}, {}) (pbnd (psql (pending_signals 64 t))
      (\<lambda>rows. pfor_each rows (\<lambda>row. pcatch (process_steps L P row) (\<lambda>_. pret ()))))" for t
    by (rule guided_bnd [OF read]) (use each in \<open>auto simp: prod_eq_iff\<close>)
  have "guided held (\<lambda>_ _. True) ({}, {}) (poll_steps L P)"
    unfolding poll_steps_def
    by (rule guided_bnd [OF guided_keeps [where post = "\<lambda>_ j. j = ({}, {})"]])
      (auto intro!: then_each pkeeps_intro keeps_intro)
  then show ?thesis by (rule guided_weaken) (use held_mono [of "fst j" "snd j" _ "{}" "{}"] in auto)
qed


section \<open>The pool\<close>

lemma outside_held: "outside w w' \<Longrightarrow> held j w \<Longrightarrow> held j w'"
proof (induction rule: outside.induct)
  case (arrive s w)
  obtain K where K: "snd j \<subseteq> set K" "distinct (map fst K)" "world_ok (fst j) K w" using arrive.prems by (auto simp: held_def)
  then have ids: "map fst K = map sr_id (db_signals (w_db w))"
    by (auto simp: world_ok_def tables_ok_def rows_ok_def signals_are_def)
  have "world_ok (fst j) (K @ [(sr_id s, sr_sleeve s)])
      (w\<lparr> w_db := (w_db w)\<lparr> db_signals := db_signals (w_db w) @ [s] \<rparr> \<rparr>)"
    using K(3) by (auto simp: world_ok_def sent_signals_def tables_defs order_row_ok_def)
  moreover have "distinct (map fst (K @ [(sr_id s, sr_sleeve s)]))" using K(2) arrive.hyps ids by simp
  ultimately show ?case unfolding held_def using K(1) by (intro exI [of _ "K @ [(sr_id s, sr_sleeve s)]"]) auto
qed (auto simp: held_def world_ok_def sent_signals_def resolve_event_def)

interpretation books: pool_family D held "({}, {})" for D
proof
  show "held ({}, {}) w" if "w_db w = db_empty\<lparr> db_faults := fs \<rparr>" "w_sent w = []" for w fs
    using that by (intro daemon_held)
      (simp add: daemon_ok_def world_ok_def sent_signals_def sleeve_table_def db_empty_def tables_defs cli_unique_def)
  show "held ({}, {}) w" if "held j w" for j w
    using that held_mono [of "fst j" "snd j"] by simp
  show "guided held (\<lambda>_ _. True) ({}, {}) (tick_steps D t answer)" if "t \<noteq> FeedTask" for t answer
  proof (cases "t = ProcessorTask")
    case True
    then show ?thesis by (simp add: tick_steps_def guided_poll)
  qed (simp add: guided_keeps other_ticks)
  show "held j (w\<lparr> w_applied_seq := 0 \<rparr>)" if "held j w" for j w
    using that by (auto simp: held_def world_ok_def sent_signals_def)
qed (rule outside_held)

text \<open>The invariant of the books in every state of the pool; tick by tick is a special case.\<close>
lemma pool_reachable_ok: "pool_reachable D (T, w) \<Longrightarrow> daemon_ok w"
  using books.pool_inv held_daemon by blast

lemma reachable_ok: "reachable D w \<Longrightarrow> daemon_ok w"
  by (rule pool_reachable_ok [OF reachable_in_pool])

end
