(* ===== verification/Order_Properties.thy ===== *)
theory Order_Properties
  imports Sample_Run Pool_Invariant
begin

text \<open>What the daemon as a whole guarantees for the orders it sends, in every state of the pool of its tasks:
  however they are interleaved, statement by statement, whatever statement fails, wherever the process
  crashes and whatever the broker answers.\<close>

definition rows_of :: "int \<Rightarrow> world \<Rightarrow> order_row list" where
  "rows_of i w = filter (\<lambda>r. od_signal_id r = Some i) (db_orders (w_db w))"

lemma filter_one:
  assumes "distinct (map f (filter Q xs))" "\<forall>x \<in> set xs. P x \<longrightarrow> Q x \<and> f x = c"
  shows "length (filter P xs) \<le> 1"
  using assms
proof (induction xs)
  case (Cons x xs)
  then have IH: "length (filter P xs) \<le> 1" by (simp split: if_splits)
  show ?case
  proof (cases "P x")
    case True
    then have "c \<notin> f ` set (filter Q xs)" using Cons.prems by auto
    moreover have "c \<in> f ` set (filter Q xs)" if "y \<in> set xs" "P y" for y
      using that Cons.prems(2) by (intro image_eqI [of _ _ y]) auto
    ultimately have "filter P xs = []" unfolding filter_empty_conv by blast
    then show ?thesis by simp
  qed (use IH in simp)
qed simp

lemma one_row:
  assumes "daemon_ok w"
  shows "length (rows_of i w) \<le> 1"
proof -
  have t: "cli_unique (db_orders (w_db w))" "\<forall>r \<in> set (db_orders (w_db w)). order_row_ok (sleeve_table (w_db w)) r"
    using assms by (auto simp: daemon_ok_def world_ok_def tables_ok_def rows_ok_def store_inv_def)
  show ?thesis
    unfolding rows_of_def
    by (rule filter_one [OF t(1) [unfolded cli_unique_def], where c = "(broker_tag, Some (signal_cli i))"])
      (use t(2) in \<open>auto simp: order_row_ok_def\<close>)
qed

lemma row_of_sent:
  assumes "daemon_ok w" "o' \<in> set (w_sent w)" "or_signal_id o' = Some i"
  shows "or_cli_ord_id o' = Some (signal_cli i) \<and> (\<exists>r. rows_of i w = [r] \<and> od_broker r = broker_tag \<and>
     od_cli_ord_id r = Some (signal_cli i))"
proof -
  have "has_row i (w_db w)" "own_cli o'"
    using assms by (auto simp: daemon_ok_def world_ok_def tables_ok_def rows_ok_def sent_signals_def)
  then obtain r where r: "r \<in> set (rows_of i w)" and own: "own_cli o'"
    by (auto simp: has_row_def rows_of_def)
  then have "rows_of i w = [r]" using one_row [OF assms(1), of i]
    by (cases "rows_of i w") auto
  moreover have "order_row_ok (sleeve_table (w_db w)) r"
    using r assms(1) by (auto simp: rows_of_def daemon_ok_def world_ok_def tables_ok_def rows_ok_def)
  moreover have "od_signal_id r = Some i" using r by (simp add: rows_of_def)
  ultimately show ?thesis using own assms(3) by (simp add: order_row_ok_def own_cli_def)
qed

text \<open>C1. No order is sent off the books, and no signal trades twice under different names.  At every
  moment of every run of the tasks, which take turns at each point where the source awaits, a signal has at
  most one row in the orders table; and for every order that went to the broker on behalf of a signal there
  is exactly one, tagged with the broker and carrying the client id that the order itself carries, which
  the signal determines.  Failing statements, crashes in the middle of a task and timeouts do not change
  this.\<close>
theorem sent_orders_on_record:
  assumes "pool_reachable D (T, w)"
  shows "(\<forall>i. length (filter (\<lambda>r. od_signal_id r = Some i) (db_orders (w_db w))) \<le> 1) \<and>
     (\<forall>o' \<in> set (w_sent w). \<forall>i. or_signal_id o' = Some i \<longrightarrow> or_cli_ord_id o' = Some (signal_cli i) \<and>
        (\<exists>r. filter (\<lambda>r. od_signal_id r = Some i) (db_orders (w_db w)) = [r] \<and> od_broker r = broker_tag \<and>
           od_cli_ord_id r = Some (signal_cli i)))"
  using one_row [OF pool_reachable_ok [OF assms]] row_of_sent [OF pool_reachable_ok [OF assms]]
  unfolding rows_of_def by blast

theorem sent_orders_on_record_witness:
  "w_sent demo_after = [demo_order] \<and>
   (\<exists>r. filter (\<lambda>r. od_signal_id r = Some 7) (db_orders (w_db demo_after)) = [r] \<and>
      od_broker r = broker_tag \<and> od_cli_ord_id r = Some (signal_cli 7))"
proof -
  have s: "w_sent demo_after = [demo_order]" "or_signal_id demo_order = Some 7"
    by (simp_all add: demo_after_def demo_order_def)
  show ?thesis using sent_orders_on_record [OF reachable_in_pool [OF demo_reachable(2)]] s by simp
qed

text \<open>C4. The positions table is sound at every moment of every run of the tasks, between any two of their
  statements: at most one position of an instrument is open at a broker, every position belongs to the
  leverage sleeve, row ids ascend, and no fill is recorded as applied twice.\<close>
theorem positions_sound:
  assumes "pool_reachable D (T, w)"
  shows "(\<forall>i b. length (filter (open_row i b) (db_positions (w_db w))) \<le> 1) \<and>
     (\<forall>p \<in> set (db_positions (w_db w)). pn_sleeve p = ''crypto_leverage'') \<and>
     sorted_wrt (<) (map pn_id (db_positions (w_db w))) \<and>
     distinct (map (\<lambda>a. (af_broker a, af_fill_id a)) (db_applied (w_db w)))"
  using pool_reachable_ok [OF assms]
  by (simp add: daemon_ok_def world_ok_def tables_defs lev_def)

theorem positions_sound_witness:
  "(\<forall>i b. length (filter (open_row i b) (db_positions (w_db demo_after))) \<le> 1) \<and>
   sorted_wrt (<) (map pn_id (db_positions (w_db demo_after)))"
  using positions_sound [OF reachable_in_pool [OF demo_reachable(2)]] by blast

section \<open>Before an order leaves\<close>

text \<open>C2. An order for a signal leaves only with full clearance.  When processing a signal sends anything, then
  the mode is not dry-run and a broker is configured, the row parses to a leverage signal that has not
  expired, the snapshot came from the feeds of that moment, the portfolio was loaded from the
  database, and the checklist approved exactly these: every one of its conditions holds.  Then exactly one
  order was sent, and it is the order the signal asks for.\<close>
theorem submission_requires_clearance:
  assumes "process_signal L P row w = (w', r)" "w_sent w' \<noteq> w_sent w"
  shows "\<exists>sg m pf o'. sp_mode P \<noteq> DryRun \<and> sp_has_broker P \<and> row_to_signal L row = Inr sg \<and>
     sg_sleeve sg = CryptoLeverage \<and> \<not> is_expired sg (w_now w) \<and>
     snapshot_for_signal L (w_feeds w) (sg_instrument_symbol sg) (sg_metadata sg) (w_now w) = Some (Inr m) \<and>
     (\<exists>w1. load_portfolio_state L (w_now w) w = (w1, Ok pf)) \<and>
     admissible L \<lparr> cx_signal = sg, cx_market = m, cx_portfolio = pf, cx_config = sp_risk P, cx_now = w_now w \<rparr> \<and>
     w_sent w' = w_sent w @ [o'] \<and> order_matches L sg m pf o'"
  using process_sends [OF assms] checklist_conditions unfolding cleared_by_def by blast

theorem submission_requires_clearance_witness:
  "\<exists>pf. admissible demo_lib \<lparr> cx_signal = demo_signal, cx_market = demo_market, cx_portfolio = pf,
      cx_config = risk_config_default, cx_now = 1200000000 \<rparr> \<and>
   order_matches demo_lib demo_signal demo_market pf demo_order"
proof -
  have s: "w_sent demo_after = [demo_order]" "w_sent demo_world = []" "w_now demo_world = 1200000000"
    "w_feeds demo_world = demo_feeds" "sp_risk demo_processor = risk_config_default"
    "sg_instrument_symbol demo_signal = ''PI_XBTUSD''" "sg_metadata demo_signal = Some demo_metadata"
    by (simp_all add: demo_after_def demo_world_def demo_start_def demo_processor_def demo_signal_def)
  have ne: "w_sent demo_after \<noteq> w_sent demo_world" by (simp add: s)
  show ?thesis
    using submission_requires_clearance [OF demo_process ne] demo_row_signal demo_snapshot by (auto simp: s)
qed

end
