(* ===== verification/Uncertain_Orders.thy ===== *)
theory Uncertain_Orders
  imports Sample_Run
begin

text \<open>Orders whose fate at the broker is not known, and the execution mode that sends none.\<close>

section \<open>Dry-run mode\<close>

definition orders_are :: "order_row list \<Rightarrow> db \<Rightarrow> bool" where
  "orders_are R d \<longleftrightarrow> db_orders d = R"

lemma orders_are_blind [simp]: "fault_blind (orders_are R)"
  by (simp add: fault_blind_def orders_are_def)

lemma keeps_orders_stmts [keeps_intro]:
  "keeps (orders_are R) (insert_equity_snapshot a b c d' e f g h i j k l)"
  "keeps (orders_are R) (record_checklist_evaluation n1 t ap oc)"
  "keeps (orders_are R) (record_dry_run_order n1 t ins sd slv hint n p q intent)"
  "keeps (orders_are R) (mark_signal_processed n1 t)" "keeps (orders_are R) (mark_signal_rejected n1 t rs)"
  unfolding insert_equity_snapshot_def record_checklist_evaluation_def record_dry_run_order_def
    mark_signal_processed_def mark_signal_rejected_def update_signal_def exec_def
  by (intro keeps_stmt keeps_modify; simp add: keeps_def Let_def orders_are_def)+

text \<open>Nothing sent and no order row.\<close>
definition idle :: "order list \<Rightarrow> order_row list \<Rightarrow> world \<Rightarrow> bool" where
  "idle os R w \<longleftrightarrow> sent_is os w \<and> on_db (orders_are R) w"

lemma keeps_idle: "keeps (sent_is os) m \<Longrightarrow> keeps (on_db (orders_are R)) m \<Longrightarrow> keeps (idle os R) m"
  by (auto simp: keeps_def idle_def)

lemma dry_run_idle:
  assumes "sp_mode P = DryRun"
  shows "keeps (idle os R) (poll_once L P)"
proof (rule keeps_idle)
  show "keeps (sent_is os) (poll_once L P)"
    unfolding poll_once_def process_signal_def run_checklist_def handle_approval_def assms execution_mode.case
    by (intro keeps_intro)
  show "keeps (on_db (orders_are R)) (poll_once L P)"
    unfolding poll_once_def process_signal_def run_checklist_def handle_approval_def assms execution_mode.case
      record_dry_run_intent_def Let_def reject_now_def reject_expired_def load_portfolio_state_def
      pending_signals_def latest_equity_snapshot_def write_bootstrap_equity_snapshot_def
      kill_switch_active_def list_open_leverage_positions_def
    by (intro keeps_intro orders_are_blind)
qed

text \<open>Dry-run mode never trades: a whole poll of the signals, whatever they are, whatever the feeds show
  and whatever statement fails, sends nothing to the broker and leaves the orders table as it is.\<close>
theorem dry_run_never_trades:
  assumes "sp_mode P = DryRun" "poll_once L P w = (w', r)"
  shows "w_sent w' = w_sent w \<and> db_orders (w_db w') = db_orders (w_db w)"
  using keepsD [OF dry_run_idle [OF assms(1), of "w_sent w" "db_orders (w_db w)"] _ assms(2)]
  by (simp add: idle_def sent_is_def on_db_def orders_are_def)

theorem dry_run_never_trades_witness:
  "w_sent (fst (poll_once demo_lib (demo_processor\<lparr> sp_mode := DryRun \<rparr>) demo_world)) = [] \<and>
   w_sent (fst (poll_once demo_lib demo_processor demo_world)) = [demo_order]"
proof -
  have "w_sent (fst (poll_once demo_lib (demo_processor\<lparr> sp_mode := DryRun \<rparr>) demo_world)) = w_sent demo_world"
    by (rule conjunct1, rule dry_run_never_trades [where r = "snd (poll_once demo_lib (demo_processor\<lparr> sp_mode := DryRun \<rparr>) demo_world)"
          and L = demo_lib and P = "demo_processor\<lparr> sp_mode := DryRun \<rparr>"]) simp_all
  then show ?thesis by (simp add: demo_poll) (simp add: demo_after_def demo_world_def demo_start_def)
qed

section \<open>An answer that does not come\<close>

lemma update_where_append: "update_where P f (xs @ ys) = update_where P f xs @ update_where P f ys"
  by (simp add: update_where_def)

lemma update_where_single: "update_where P f [x] = [if P x then f x else x]"
  by (simp add: update_where_def)

lemma update_where_none: "\<forall>r \<in> set xs. \<not> P r \<Longrightarrow> update_where P f xs = xs"
  by (induction xs) (auto simp: update_where_def)

text \<open>The row a leverage order has before it is sent.\<close>
definition pending_row :: "lib \<Rightarrow> int \<Rightarrow> int \<Rightarrow> order \<Rightarrow> string \<Rightarrow> order_row" where
  "pending_row L n i o' t = \<lparr> od_id = n, od_signal_id = Some i, od_broker = broker_tag, od_broker_order_id = None,
     od_instrument_symbol = ins_symbol (or_instrument o'), od_side = side_text (or_side o'),
     od_order_type = order_type_text (or_order_type o'), od_time_in_force = tif_text (or_time_in_force o'),
     od_quantity = l_show L (or_quantity o'), od_limit_price = map_option (l_show L) (or_limit_price o'),
     od_stop_price = None, od_status = ''pending_submission'', od_filled_quantity = ''0'',
     od_avg_fill_price = None, od_fees_paid = ''0'', od_created_at = t, od_updated_at = t,
     od_error_message = None, od_cli_ord_id = or_cli_ord_id o' \<rparr>"

lemma place_run:
  assumes "calm w" "signal_exists (w_db w) (sg_id sg)" "w_submits w = (t, a) # rest"
    and "\<forall>r \<in> set (db_orders (w_db w)). od_broker r = broker_tag \<longrightarrow> od_cli_ord_id r \<noteq> or_cli_ord_id o'"
  defines "n \<equiv> next_id (map od_id (db_orders (w_db w)))"
  shows "place_order L sg None o' w = after_submit L (sg_id sg) n a (canonical_iso L (w_now w + int t))
     (w\<lparr> w_db := (w_db w)\<lparr> db_orders := db_orders (w_db w) @
            [pending_row L n (sg_id sg) o' (canonical_iso L (w_now w))] \<rparr>,
         w_submits := rest, w_sent := w_sent w @ [o'], w_now := w_now w + int t \<rparr>)"
proof -
  let ?i = "insert_pending_order (Some (sg_id sg)) broker_tag (ins_symbol (or_instrument o'))
              (side_text (or_side o')) (order_type_text (or_order_type o')) (tif_text (or_time_in_force o'))
              (l_show L (or_quantity o')) (map_option (l_show L) (or_limit_price o')) None
              (canonical_iso L (w_now w)) (or_cli_ord_id o')"
  let ?d = "(w_db w)\<lparr> db_orders := db_orders (w_db w) @
      [pending_row L n (sg_id sg) o' (canonical_iso L (w_now w))] \<rparr>"
  have "?i (w_db w) = (?d, Ok n)"
    using assms(1,2,4) by (auto simp: insert_pending_order_def calm_def n_def pending_row_def Let_def)
  then have "sql ?i w = (w\<lparr> w_db := ?d \<rparr>, Ok n)" by (rule sql_run)
  then show ?thesis
    using assms(3) by (simp add: place_order_def bnd_def now_iso_def submit_order_def next_answer_def)
qed

text \<open>C30. A timeout parks the signal.  When the broker does not answer a new order (timeout or network error),
  the order has one row, marked uncertain and carrying the client id it was sent with; the signal keeps
  its status, and no poll whose clock text is before the end of the ninety seconds that follow the answer
  finds it.\<close>
theorem timeout_parks_signal:
  assumes "calm w" "signal_exists (w_db w) (sg_id sg)" "w_submits w = (t, Inl e) # rest" "is_uncertain_error e"
    and "\<forall>r \<in> set (db_orders (w_db w)). od_broker r = broker_tag \<longrightarrow> od_cli_ord_id r \<noteq> or_cli_ord_id o'"
    and "place_order L sg None o' w = (w', r)"
  shows "r = Ok () \<and> w_sent w' = w_sent w @ [o'] \<and>
     (\<exists>row. db_orders (w_db w') = db_orders (w_db w) @ [row] \<and> od_status row = ''uncertain'' \<and>
        od_signal_id row = Some (sg_id sg) \<and> od_cli_ord_id row = or_cli_ord_id o') \<and>
     map sr_status (db_signals (w_db w')) = map sr_status (db_signals (w_db w)) \<and>
     (\<forall>s \<in> set (db_signals (w_db w')). \<forall>iso. sr_id s = sg_id sg \<longrightarrow>
        iso < canonical_iso L (w_now w + int t + seconds 90) \<longrightarrow> \<not> pollable iso s)"
proof -
  let ?n = "next_id (map od_id (db_orders (w_db w)))"
  let ?row = "pending_row L ?n (sg_id sg) o' (canonical_iso L (w_now w))"
  let ?until = "canonical_iso L (w_now w + int t + seconds 90)"
  have new: "update_where (\<lambda>r. od_id r = ?n) f (db_orders (w_db w)) = db_orders (w_db w)" for f
    by (rule update_where_none) (use next_id_greater [of _ "map od_id (db_orders (w_db w))"] in force)
  let ?w = "w\<lparr> w_db := (w_db w)\<lparr> db_orders := db_orders (w_db w) @ [?row\<lparr> od_status := ''uncertain'',
            od_error_message := Some (exec_error_text e), od_updated_at := canonical_iso L (w_now w + int t) \<rparr>],
          db_signals := update_where (\<lambda>s. sr_id s = sg_id sg) (\<lambda>s. s\<lparr> sr_retry_after_at := Some ?until \<rparr>)
            (db_signals (w_db w)) \<rparr>, w_submits := rest, w_sent := w_sent w @ [o'], w_now := w_now w + int t \<rparr>"
  have "place_order L sg None o' w = (?w, Ok ())"
    using assms(1) [unfolded calm_def no_faults_def] assms(4)
    unfolding place_run [OF assms(1-3,5)]
    by (simp add: after_submit_def mark_order_uncertain_def update_order_def set_cooldown_def
        set_signal_retry_after_def update_signal_def calm_def no_faults_def update_where_append new)
      (simp add: update_where_single pending_row_def)
  with assms(6) have "w' = ?w" "r = Ok ()" by simp_all
  then show ?thesis by (auto simp: pending_row_def update_where_def pollable_def)
qed


lemma fixed_digits_numeral: "fixed_digits (numeral k) n
    = digit_char (n div 10 ^ pred_numeral k mod 10) # fixed_digits (pred_numeral k) n"
  by (simp only: numeral_eq_Suc [of k] fixed_digits.simps)

text \<open>Eighty-nine seconds after the answer no poll finds the signal.\<close>
theorem timeout_parks_signal_witness:
  "filter (\<lambda>s. sr_id s = 7 \<and> pollable (iso_fixed (3200000000 + seconds 89)) s) (db_signals (w_db demo_after)) = [] \<and>
   map sr_status (db_signals (w_db demo_after)) = [''pending'']"
proof -
  have w: "w_now demo_cleared = 1200000000" "w_submits demo_cleared = [(2000000000, Inl (ETimeout 10))]"
    "sg_id demo_signal = 7" "signal_exists (w_db demo_cleared) 7" "db_orders (w_db demo_cleared) = []"
    "is_uncertain_error (ETimeout 10)" "map sr_status (db_signals (w_db demo_cleared)) = [''pending'']"
    by (simp_all add: demo_cleared_def demo_world_def demo_start_def demo_signal_def signal_exists_def demo_row_def
        db_empty_def is_uncertain_error_def)
  have "iso_fixed (3200000000 + seconds 89) < iso_fixed (3200000000 + seconds 90)"
    by (simp add: iso_fixed_def seconds_def fixed_digits_numeral digit_char_def less_char_def)
  then show ?thesis
    using timeout_parks_signal [of demo_cleared demo_signal 2000000000 "ETimeout 10" "[]" demo_order demo_lib
        demo_after "Ok ()"] demo_place
    by (auto simp: w canonical_iso_def filter_empty_conv)
qed

section \<open>The next attempt\<close>

definition open_row_of :: "int \<Rightarrow> db \<Rightarrow> order_row option" where
  "open_row_of i d = find (\<lambda>r. od_signal_id r = Some i \<and> od_status r \<in> set pending_statuses) (rev (db_orders d))"

lemma pending_calm:
  "calm w \<Longrightarrow> bnd (sql (pending_order_for_signal i)) k w
     = k (map_option (\<lambda>r. (od_id r, od_status r, od_cli_ord_id r)) (open_row_of i (w_db w))) w"
  by (simp add: pending_order_for_signal_def open_row_of_def)

definition order_ids_are :: "int list \<Rightarrow> db \<Rightarrow> bool" where
  "order_ids_are I d \<longleftrightarrow> map od_id (db_orders d) = I"

lemma order_ids_blind [simp]: "fault_blind (order_ids_are I)"
  by (simp add: fault_blind_def order_ids_are_def)

lemma keeps_ids [keeps_intro]:
  "keeps (order_ids_are I) (mark_signal_processed n t)" "keeps (order_ids_are I) (mark_signal_rejected n t rs)"
  "keeps (order_ids_are I) (set_signal_retry_after n t)" "keeps (order_ids_are I) (clear_signal_retry_after n)"
  "keeps (order_ids_are I) (mark_order_submitted n b st t)" "keeps (order_ids_are I) (mark_order_failed n msg t)"
  "keeps (order_ids_are I) (mark_order_uncertain n msg t)"
  unfolding mark_signal_processed_def mark_signal_rejected_def set_signal_retry_after_def mark_order_failed_def
    clear_signal_retry_after_def update_signal_def mark_order_submitted_def mark_order_uncertain_def update_order_def
  by (rule keeps_exec; simp add: order_ids_are_def update_where_map)+

lemma resubmit_keeps_ids: "keeps (on_db (order_ids_are I)) (build_and_place L P sg m pf (Some n))"
  unfolding build_and_place_def reject_now_def place_order_def option.case bnd_ret after_submit_def set_cooldown_def
  by (intro keeps_intro order_ids_blind)

text \<open>What is left of an attempt once the broker has answered the question.\<close>
lemma uncertain_attempt_run:
  assumes "calm w" "sg_sleeve sg = CryptoLeverage" "sp_has_broker P" "open_row_of (sg_id sg) (w_db w) = Some row"
    and "od_status row = ''uncertain''" "od_cli_ord_id row = Some cli" "w_lookups w = (t, answer) # rest"
    and "submit_via_broker L P sg m pf w = (w', r)"
  shows "bnd (case answer of
        Inr (Some open_order) \<Rightarrow>
          bnd (now_iso L) (\<lambda>t.
          bnd (sql (backfill_broker_order_id (od_id row) (os_broker_order_id open_order) t)) (\<lambda>_.
          bnd (sql (mark_signal_processed (sg_id sg) t)) (\<lambda>_.
          bnd (sql (clear_signal_retry_after (sg_id sg))) (\<lambda>_. ret AlreadyReconciled))))
      | Inr None \<Rightarrow> ret (ResubmitWithOrderId (od_id row))
      | Inl e \<Rightarrow> bnd (set_cooldown L (sg_id sg)) (\<lambda>_. ret LookupFailedRetry))
      (\<lambda>outcome. case outcome of
          NoExistingOrder \<Rightarrow> build_and_place L P sg m pf None
        | ResubmitWithOrderId i \<Rightarrow> build_and_place L P sg m pf (Some i)
        | _ \<Rightarrow> ret ()) (w\<lparr> w_lookups := rest, w_now := w_now w + int t \<rparr>) = (w', r)"
  using assms(2-8)
  by (simp add: submit_via_broker_def try_reconcile_uncertain_order_def bnd_assoc pending_calm [OF assms(1)]
      settled_statuses_def reconcile_uncertain_def) (simp add: bnd_def get_order_by_cli_ord_id_def next_answer_def)

text \<open>C12. An order whose fate is unknown is never sent blindly again.  The next attempt asks the broker for the
  client id first.  If the broker knows the order, nothing is sent, the row gets the broker's id and the
  signal is processed; if the question fails, nothing is sent and the signal waits ninety seconds more; only
  if the broker does not know the order is it sent again, under the same client id and the same row.\<close>
theorem uncertain_order_resolution:
  assumes "calm w" "sg_sleeve sg = CryptoLeverage" "sp_has_broker P" "open_row_of (sg_id sg) (w_db w) = Some row"
    and "od_status row = ''uncertain''" "od_cli_ord_id row = Some cli" "w_lookups w = (t, answer) # rest"
    and "submit_via_broker L P sg m pf w = (w', r)"
  shows "case answer of
       Inr (Some oo) \<Rightarrow> w_sent w' = w_sent w \<and>
         (\<forall>o' \<in> set (db_orders (w_db w')). od_id o' = od_id row \<longrightarrow> od_broker_order_id o' \<noteq> None) \<and>
         (\<forall>s \<in> set (db_signals (w_db w')). sr_id s = sg_id sg \<longrightarrow> sr_status s = ''processed'')
     | Inl e \<Rightarrow> w_sent w' = w_sent w \<and> db_orders (w_db w') = db_orders (w_db w) \<and>
         (\<forall>s \<in> set (db_signals (w_db w')). sr_id s = sg_id sg \<longrightarrow>
            sr_retry_after_at s = Some (canonical_iso L (w_now w + int t + seconds 90)))
     | Inr None \<Rightarrow> map od_id (db_orders (w_db w')) = map od_id (db_orders (w_db w)) \<and>
         (w_sent w' = w_sent w \<or> (\<exists>o'. w_sent w' = w_sent w @ [o'] \<and> or_cli_ord_id o' = Some (signal_cli (sg_id sg))))"
proof -
  let ?w = "w\<lparr> w_lookups := rest, w_now := w_now w + int t \<rparr>"
  have c: "calm ?w" using assms(1) by (simp add: calm_def)
  note run = uncertain_attempt_run [OF assms]
  show ?thesis
  proof (cases answer)
    case (Inl e)
    then show ?thesis
      using run c by (auto simp: set_cooldown_def set_signal_retry_after_def update_signal_def bnd_assoc calm_def
          update_where_def)
  next
    case (Inr found)
    show ?thesis
    proof (cases found)
      case None
      then have run: "build_and_place L P sg m pf (Some (od_id row)) ?w = (w', r)" using run Inr by simp
      have "map od_id (db_orders (w_db w')) = map od_id (db_orders (w_db ?w))"
        using keepsD [OF resubmit_keeps_ids _ run] by (auto simp: on_db_def order_ids_are_def)
      moreover have "w_sent w' = w_sent w \<or> (\<exists>o'. w_sent w' = w_sent w @ [o'] \<and> or_cli_ord_id o' = Some (signal_cli (sg_id sg)))"
        using build_and_place_sends [OF run] by (auto simp: order_matches_def)
      ultimately show ?thesis using Inr None by simp
    next
      case (Some oo)
      then show ?thesis
        using run c Inr by (auto simp: mark_signal_processed_def clear_signal_retry_after_def update_signal_def bnd_assoc
          backfill_broker_order_id_def update_order_def calm_def no_faults_def update_where_def)
    qed
  qed
qed

definition demo_listed :: open_order_summary where
  "demo_listed = \<lparr> os_broker_order_id = ''X'', os_instrument_symbol = ''PI_XBTUSD'', os_status = Acknowledged,
     os_quantity = 500, os_filled_quantity = 0, os_limit_price = None, os_cli_ord_id = Some (signal_cli 7) \<rparr>"

lemma demo_open_row: "open_row_of 7 (w_db demo_after) = Some demo_order_row"
  by (simp add: open_row_of_def demo_after_def demo_order_row_def pending_statuses_def)

lemma demo_after_facts:
  "calm demo_after" "w_sent demo_after = [demo_order]" "map od_id (db_orders (w_db demo_after)) = [1]"
  "sg_id demo_signal = 7" "sg_sleeve demo_signal = CryptoLeverage" "sp_has_broker demo_processor"
  "od_status demo_order_row = ''uncertain''" "od_cli_ord_id demo_order_row = Some (signal_cli 7)"
  by (simp_all add: demo_after_def calm_def no_faults_def db_empty_def demo_order_row_def demo_signal_def
      demo_processor_def)

text \<open>Found, and not found.\<close>
theorem uncertain_order_resolution_witness:
  "w_sent (fst (submit_via_broker demo_lib demo_processor demo_signal demo_market demo_portfolio
      (demo_after\<lparr> w_lookups := [(5, Inr (Some demo_listed))] \<rparr>))) = [demo_order] \<and>
   map od_id (db_orders (w_db (fst (submit_via_broker demo_lib demo_processor demo_signal demo_market demo_portfolio
      (demo_after\<lparr> w_lookups := [(5, Inr None)] \<rparr>))))) = [1]"
proof -
  have "calm (demo_after\<lparr> w_lookups := l \<rparr>)" for l
    using demo_after_facts(1) by (simp add: calm_def)
  note resolution = uncertain_order_resolution [OF this demo_after_facts(5,6) _ demo_after_facts(7,8), of _ 5 _ "[]",
      simplified demo_after_facts(4)]
  have "w_sent w' = [demo_order]"
    if "submit_via_broker demo_lib demo_processor demo_signal demo_market demo_portfolio
      (demo_after\<lparr> w_lookups := [(5, Inr (Some demo_listed))] \<rparr>) = (w', r)" for w' r
    using resolution [OF _ _ that] demo_open_row by (simp add: demo_after_facts)
  moreover have "map od_id (db_orders (w_db w')) = [1]"
    if "submit_via_broker demo_lib demo_processor demo_signal demo_market demo_portfolio
      (demo_after\<lparr> w_lookups := [(5, Inr None)] \<rparr>) = (w', r)" for w' r
    using resolution [OF _ _ that] demo_open_row by (simp add: demo_after_facts)
  ultimately show ?thesis by (metis prod.collapse)
qed

end
