(* ===== verification/Ledger_Properties.thy ===== *)
theory Ledger_Properties
  imports Fill_Properties Uncertain_Orders
begin

text \<open>Fills across ticks: the reconciler as a ledger, what redelivery and a crash between two statements do.\<close>

section \<open>A calm tick is the ledger\<close>

lemma calm_eq: "calm = on_db no_faults"
  by (simp add: calm_def on_db_def fun_eq_iff)

lemma keeps_calm_stmts [keeps_intro]:
  "keeps no_faults (insert_equity_snapshot a b c d' e f g h i j k l)"
  "keeps no_faults (record_kill_switch a' b' c' e')"
  unfolding insert_equity_snapshot_def record_kill_switch_def
  by (intro keeps_no_faults_stmt; simp add: keeps_def Let_def)+

lemma keeps_calm_fills [keeps_intro]:
  "keeps no_faults (apply_fill_to_order L boid qty price fee t)"
  "keeps no_faults (apply_fill_to_position L i b slv is_buy qty price t)"
proof -
  have tx: "keeps no_faults (transaction m)" if "keeps no_faults m" for m :: "'a dbio"
  proof -
    have "keeps no_faults (bnd m (\<lambda>a. bnd (stmt (ret ())) (\<lambda>_. ret a)))"
      using that by (intro keeps_bnd keeps_no_faults_stmt keeps_ret)
    note body = keepsD [OF this]
    have "keeps no_faults (\<lambda>d. case bnd m (\<lambda>a. bnd (stmt (ret ())) (\<lambda>_. ret a)) d of
        (d', Ok a) \<Rightarrow> (d', Ok a) | (d', r) \<Rightarrow> (d\<lparr> db_faults := db_faults d' \<rparr>, r))"
      unfolding keeps_def
    proof (intro allI impI, goal_cases)
      case (1 d)
      obtain d' r where b: "bnd m (\<lambda>a. bnd (stmt (ret ())) (\<lambda>_. ret a)) d = (d', r)" by (cases "bnd m (\<lambda>a. bnd (stmt (ret ())) (\<lambda>_. ret a)) d")
      show ?case using body [OF 1 b] by (cases r) (simp_all add: b no_faults_def)
    qed
    then show ?thesis
      unfolding transaction_def by (intro keeps_bnd keeps_no_faults_stmt keeps_ret)
  qed
  show "keeps no_faults (apply_fill_to_order L boid qty price fee t)"
    unfolding apply_fill_to_order_def by (intro tx keeps_no_faults_order_body)
  show "keeps no_faults (apply_fill_to_position L i b slv is_buy qty price t)"
    unfolding apply_fill_to_position_def position_fill_body_def add_to_position_def reduce_position_def
      flat_position_def by (intro tx no_faults_intro)
qed

lemma keeps_calm_settle: "keeps calm (settle_fill L R f t)"
proof -
  have panic: "keeps (on_db no_faults) (panic_close_leverage_positions L ins i)" for ins i
    unfolding panic_close_leverage_positions_def list_open_leverage_positions_def panic_close_one_def
    by (intro keeps_intro keeps_no_faults_query)
  have load: "keeps (on_db no_faults) (load_portfolio_state L t)" for t
    unfolding load_portfolio_state_def latest_equity_snapshot_def write_bootstrap_equity_snapshot_def
      kill_switch_active_def list_open_leverage_positions_def
    by (intro keeps_intro keeps_no_faults_query)
  have "keeps (on_db no_faults) (evaluate_kill_switch_once L cfg ins hb)" for cfg ins hb
    by (rule keeps_iteration) (auto intro!: keeps_intro keeps_no_faults_query panic load simp: has_active_hard_trigger_def)
  then show ?thesis
    unfolding calm_eq settle_defs fill_order_def fill_position_def trigger_kill_switch_def try_backfill_def
      backfill_broker_order_id_def find_order_id_by_cli_ord_id_def
    by (intro keeps_intro keeps_no_faults_query keeps_no_faults_update_order)
qed

lemma reconcile_fill_calm:
  assumes "calm w" "reconcile_fill L R f w = (w', Ok ())"
  shows "calm w' \<and> w' = (if fill_applied w (fe_fill_id f) then skip_fill f w else step_fill L R f w)"
proof (cases "fill_applied w (fe_fill_id f)")
  case True
  then show ?thesis
    using assms by (auto simp: reconcile_fill_def has_fill_been_applied_def fill_applied_def [symmetric] advance_def
        skip_fill_def calm_def)
next
  case False
  let ?t = "canonical_iso L (w_now w)"
  have "bnd (settle_fill L R f ?t) (\<lambda>_. bnd (sql (record_fill_applied fill_broker (fe_fill_id f) ?t)) (\<lambda>_. advance f)) w
      = (w', Ok ())"
    using assms False by (simp add: reconcile_fill_def has_fill_been_applied_def fill_applied_def)
  then obtain w1 u where s: "settle_fill L R f ?t w = (w1, Ok u)"
    and r: "bnd (sql (record_fill_applied fill_broker (fe_fill_id f) ?t)) (\<lambda>_. advance f) w1 = (w', Ok ())"
    by (rule bnd_OkE)
  have c: "calm w1" by (rule keepsD [OF keeps_calm_settle assms(1) s])
  have "w' = skip_fill f (note_fill f ?t w1)"
    using r c by (auto simp: record_fill_applied_def advance_def skip_fill_def note_fill_def fill_applied_def)
  then show ?thesis using False s c by (simp add: step_fill_def skip_fill_def note_fill_def calm_def)
qed

text \<open>The specification: each fill of the list takes effect unless its id has been applied.\<close>
fun process_fills :: "lib \<Rightarrow> reconciler \<Rightarrow> fill_entry list \<Rightarrow> world \<Rightarrow> world" where
  "process_fills L R [] w = w"
| "process_fills L R (f # fs) w =
     process_fills L R fs (if fill_applied w (fe_fill_id f) then skip_fill f w else step_fill L R f w)"

lemma process_fills_ledger: "process_fills L R fs w = fills.process L R fs w"
  by (induction fs arbitrary: w) simp_all

lemma for_each_calm:
  "calm w \<Longrightarrow> for_each fs (reconcile_fill L R) w = (w', Ok ()) \<Longrightarrow> w' = process_fills L R fs w"
proof (induction fs arbitrary: w)
  case (Cons f fs)
  from Cons.prems(2) [unfolded for_each.simps] obtain w1 u where f: "reconcile_fill L R f w = (w1, Ok u)"
    and rest: "for_each fs (reconcile_fill L R) w1 = (w', Ok ())"
    by (rule bnd_OkE)
  then show ?case using Cons.IH [OF _ rest] reconcile_fill_calm [OF Cons.prems(1)] by simp
qed simp

definition due_fills :: "world \<Rightarrow> fill_entry list" where
  "due_fills w = (let ring = fd_fills (w_feeds w) in
     if fr_is_synced ring \<and> w_applied_seq w < fr_highest_seq ring
     then filter (\<lambda>f. w_applied_seq w < fe_seq f) (fr_fills ring) else [])"

lemma reconcile_due: "reconcile_once L R w = for_each (due_fills w) (reconcile_fill L R) w"
  by (auto simp: reconcile_once_def due_fills_def Let_def dest: leD)

text \<open>C7. Every fill takes effect exactly once.  A tick without database faults is the ledger that gives each
  fill above the watermark its effect (order, position, kill switch, in the order of the ring) unless its
  id is in the applied-fills table, and afterwards all of them are in the table; fills that share an id
  take effect once, for the first of them.\<close>
theorem reconcile_is_ledger:
  assumes "calm w" "reconcile_once L R w = (w', Ok ())"
  shows "w' = process_fills L R (due_fills w) w \<and> (\<forall>f \<in> set (due_fills w). fill_applied w' (fe_fill_id f)) \<and>
     (\<forall>fs gs. set (map fe_fill_id gs) \<subseteq> set (map fe_fill_id fs) \<longrightarrow>
        process_fills L R (fs @ gs) w = fold skip_fill gs (process_fills L R fs w))"
proof -
  have w': "w' = process_fills L R (due_fills w) w"
    using for_each_calm [OF assms(1)] assms(2) by (simp add: reconcile_due)
  then show ?thesis
    using fills.process_again [of _ _ L R w] by (simp add: process_fills_ledger fills.process_applied)
qed


text \<open>Redelivery is harmless.  When every fill above the watermark has been applied already (after a
  restart the watermark is zero and the exchange replays its snapshot), a tick without database faults
  changes no table and sends nothing; it only moves the watermark.\<close>
theorem redelivery_harmless:
  assumes "calm w" "\<forall>f \<in> set (due_fills w). fill_applied w (fe_fill_id f)"
  shows "reconcile_once L R w = (fold skip_fill (due_fills w) w, Ok ()) \<and>
     w_db (fst (reconcile_once L R w)) = w_db w \<and> w_sent (fst (reconcile_once L R w)) = w_sent w"
proof -
  have "for_each fs (reconcile_fill L R) v = (fold skip_fill fs v, Ok ()) \<and> w_db (fold skip_fill fs v) = w_db v \<and>
      w_sent (fold skip_fill fs v) = w_sent v"
    if "calm v" "\<forall>f \<in> set fs. fill_applied v (fe_fill_id f)" for fs v
    using that
  proof (induction fs arbitrary: v)
    case (Cons f fs)
    have step: "reconcile_fill L R f v = (skip_fill f v, Ok ())"
      using Cons.prems by (simp add: reconcile_fill_def has_fill_been_applied_def fill_applied_def advance_def skip_fill_def)
    have "calm (skip_fill f v)" "fill_applied (skip_fill f v) = fill_applied v" "w_db (skip_fill f v) = w_db v"
      "w_sent (skip_fill f v) = w_sent v"
      using Cons.prems(1) by (simp_all add: calm_def skip_fill_def fill_applied_def fun_eq_iff)
    then show ?case using Cons.IH [of "skip_fill f v"] Cons.prems(2) by (simp add: bnd_eq [of "reconcile_fill L R f", OF step])
  qed simp
  from this [OF assms] show ?thesis by (simp add: reconcile_due)
qed

section \<open>A sample tick\<close>

lemma bnd_ret_right [simp]: "bnd m ret = m"
  by (auto simp: bnd_def fun_eq_iff split: prod.splits res.splits)

definition sample_fill :: fill_entry where
  "sample_fill = \<lparr> fe_instrument = ''P'', fe_time = 0, fe_price = 110, fe_seq = 4, fe_buy = True, fe_qty = 6,
     fe_remaining_order_qty = None, fe_order_id = ''B1'', fe_fill_id = ''F1'', fe_fill_type = ''maker'',
     fe_fee_paid = 1, fe_fee_currency = ''BTC'', fe_cli_ord_id = None, fe_order_type = None,
     fe_taker_order_type = None \<rparr>"

definition sample_tick :: world where
  "sample_tick = demo_start\<lparr> w_db := sample_order_db, w_feeds := demo_feeds\<lparr> fd_fills :=
     \<lparr> fr_fills = [sample_fill], fr_capacity = 200, fr_highest_seq = 4, fr_is_synced = True \<rparr> \<rparr> \<rparr>"

definition sample_reconciler :: reconciler where
  "sample_reconciler = \<lparr> rk_risk = risk_config_default, rk_has_broker = True, rk_instruments = registry_new \<rparr>"

lemma sample_due: "due_fills sample_tick = [sample_fill]"
  by (simp add: due_fills_def sample_tick_def demo_start_def sample_fill_def Let_def)

lemma sample_calm: "calm sample_tick"
  by (simp add: calm_def sample_tick_def sample_order_db_def)

lemma sample_tick_run: "\<exists>d. reconcile_once lib0 sample_reconciler sample_tick
    = (sample_tick\<lparr> w_db := d, w_applied_seq := 4 \<rparr>, Ok ()) \<and> no_faults d \<and>
   fill_applied (sample_tick\<lparr> w_db := d \<rparr>) ''F1''"
proof -
  let ?t = "iso_fixed (w_now sample_tick)"
  obtain d' out where fill: "apply_fill_to_order lib0 ''B1'' 6 110 1 ?t sample_order_db = (d', Ok (Some out))"
    using sample_fill_run by blast
  have "fo_sleeve out = None"
    using fill by (rule apply_fill_to_order_spec [rotated])
      (auto simp: sample_order_db_def order_with_sleeve_def sample_order_row_def)
  moreover have "no_faults d'"
    using keepsD [OF keeps_calm_fills(1) _ fill] by (simp add: sample_order_db_def)
  moreover have "fill_order lib0 sample_fill ?t sample_tick = (sample_tick\<lparr> w_db := d' \<rparr>, Ok (Some out))"
    using fill unfolding fill_order_def by (intro sql_run) (simp add: sample_fill_def sample_tick_def)
  ultimately have settle: "settle_fill lib0 sample_reconciler sample_fill ?t sample_tick = (sample_tick\<lparr> w_db := d' \<rparr>, Ok ())"
    by (simp add: settle_defs bnd_def)
  have new: "\<not> fill_applied sample_tick ''F1''"
    by (simp add: fill_applied_def sample_tick_def sample_order_db_def db_empty_def)
  let ?d = "d'\<lparr> db_applied := if fill_applied (sample_tick\<lparr> w_db := d' \<rparr>) ''F1'' then db_applied d' else db_applied d' @
      [\<lparr> af_broker = fill_broker, af_fill_id = ''F1'', af_applied_at = ?t \<rparr>] \<rparr>"
  have id: "fe_fill_id sample_fill = ''F1''" "fe_seq sample_fill = 4" by (simp_all add: sample_fill_def)
  have "reconcile_fill lib0 sample_reconciler sample_fill sample_tick
      = (sample_tick\<lparr> w_db := ?d, w_applied_seq := 4 \<rparr>, Ok ())"
    using sample_calm settle \<open>no_faults d'\<close> new
    by (simp add: reconcile_fill_def has_fill_been_applied_def id canonical_iso_def
        bnd_def [of "settle_fill _ _ _ _"] fill_applied_def record_fill_applied_def advance_def)
      (simp add: sample_tick_def demo_start_def)
  then have "reconcile_once lib0 sample_reconciler sample_tick = (sample_tick\<lparr> w_db := ?d, w_applied_seq := 4 \<rparr>, Ok ())"
    by (simp add: reconcile_due sample_due)
  moreover have "no_faults ?d" using \<open>no_faults d'\<close> by simp
  moreover have "fill_applied (sample_tick\<lparr> w_db := ?d \<rparr>) ''F1''" by (simp add: fill_applied_def)
  ultimately show ?thesis by blast
qed

theorem reconcile_is_ledger_witness:
  "\<exists>w'. reconcile_once lib0 sample_reconciler sample_tick = (w', Ok ()) \<and> fill_applied w' ''F1'' \<and>
     process_fills lib0 sample_reconciler [sample_fill, sample_fill] sample_tick = skip_fill sample_fill w'"
proof -
  obtain w' where run: "reconcile_once lib0 sample_reconciler sample_tick = (w', Ok ())"
    using sample_tick_run by blast
  note ledger = reconcile_is_ledger [OF sample_calm run, unfolded sample_due]
  from ledger have "process_fills lib0 sample_reconciler ([sample_fill] @ [sample_fill]) sample_tick
      = fold skip_fill [sample_fill] (process_fills lib0 sample_reconciler [sample_fill] sample_tick)" by blast
  moreover have "fill_applied w' (fe_fill_id sample_fill)" using ledger by (metis list.set_intros(1))
  moreover have "fe_fill_id sample_fill = ''F1''" by (simp add: sample_fill_def)
  ultimately show ?thesis using run ledger by (simp only: append.simps fold_simps) metis
qed

text \<open>The same ring again, after a restart.\<close>
theorem redelivery_harmless_witness:
  "\<exists>d w2. reconcile_once lib0 sample_reconciler sample_tick = (sample_tick\<lparr> w_db := d, w_applied_seq := 4 \<rparr>, Ok ()) \<and>
     reconcile_once lib0 sample_reconciler (sample_tick\<lparr> w_db := d, w_applied_seq := 0 \<rparr>) = (w2, Ok ()) \<and> w_db w2 = d"
proof -
  obtain d where run: "reconcile_once lib0 sample_reconciler sample_tick = (sample_tick\<lparr> w_db := d, w_applied_seq := 4 \<rparr>, Ok ())"
    and d: "no_faults d" "fill_applied (sample_tick\<lparr> w_db := d \<rparr>) ''F1''"
    using sample_tick_run by blast
  let ?w = "sample_tick\<lparr> w_db := d, w_applied_seq := 0 \<rparr>"
  have "calm ?w" "\<forall>f \<in> set (due_fills ?w). fill_applied ?w (fe_fill_id f)"
    using d by (simp_all add: calm_def due_fills_def sample_tick_def Let_def sample_fill_def fill_applied_def)
  from redelivery_harmless [OF this, of lib0 sample_reconciler] show ?thesis
    using run by (auto simp: prod_eq_iff)
qed

end
