(* ===== verification/Crash_Fill.thy ===== *)
theory Crash_Fill
  imports Ledger_Properties
begin

text \<open>A crash between the two halves of a fill: the order's half and the position's half are transactions of their
  own, and the applied-fills row comes after both.\<close>

definition crash_fill :: fill_entry where
  "crash_fill = sample_fill\<lparr> fe_qty := 3 \<rparr>"

text \<open>Ten contracts ordered, four filled.\<close>
definition crash_db :: "dec \<Rightarrow> db" where
  "crash_db q = db_empty\<lparr> db_signals := [demo_row], db_orders :=
     [sample_order_row\<lparr> od_signal_id := Some 7, od_filled_quantity := show_dec q \<rparr>] \<rparr>"

definition crash_world :: world where
  "crash_world = demo_start\<lparr> w_db := (crash_db 4)\<lparr> db_faults := [False, False, False, False, False, True] \<rparr>,
     w_feeds := demo_feeds\<lparr> fd_fills :=
       \<lparr> fr_fills = [crash_fill], fr_capacity = 200, fr_highest_seq = 4, fr_is_synced = True \<rparr> \<rparr> \<rparr>"

section \<open>The second delivery\<close>

lemma keeps_orders_settle:
  "keeps (on_db (orders_are O')) (fill_position L R f t out slv)"
  "keeps (orders_are O') (record_fill_applied b i t)"
proof -
  have stmts: "keeps (orders_are O') (record_kill_switch a' b' c' e')" "keeps (orders_are O') (insert_position i b s q e t)"
    "keeps (orders_are O') (update_position n g)" for a' b' c' e' i b s q e t n g
    unfolding record_kill_switch_def insert_position_def update_position_def exec_def
    by (intro keeps_stmt keeps_modify; simp add: keeps_def Let_def orders_are_def)+
  have panic: "keeps (on_db (orders_are O')) (panic_close_leverage_positions L ins i)" for ins i
    unfolding panic_close_leverage_positions_def list_open_leverage_positions_def panic_close_one_def
    by (intro keeps_intro orders_are_blind)
  have load: "keeps (on_db (orders_are O')) (load_portfolio_state L t)" for t
    unfolding load_portfolio_state_def latest_equity_snapshot_def write_bootstrap_equity_snapshot_def
      kill_switch_active_def list_open_leverage_positions_def
    by (intro keeps_intro orders_are_blind)
  have ks: "keeps (on_db (orders_are O')) (evaluate_kill_switch_once L cfg ins hb)" for cfg ins hb
    by (rule keeps_iteration) (auto intro!: keeps_intro stmts panic load simp: has_active_hard_trigger_def)
  have "keeps (orders_are O') (apply_fill_to_position L i b s y q p t)" for i b s y q p
    unfolding apply_fill_to_position_def position_fill_body_def add_to_position_def reduce_position_def
      flat_position_def by (intro keeps_intro keeps_transaction orders_are_blind stmts)
  then show "keeps (on_db (orders_are O')) (fill_position L R f t out slv)"
    unfolding fill_position_def trigger_kill_switch_def by (intro keeps_intro ks)
  show "keeps (orders_are O') (record_fill_applied b i t)"
    unfolding record_fill_applied_def by (rule keeps_exec) (simp_all add: orders_are_def)
qed

text \<open>A tick on a leverage order: the row is what the order's half makes of it.\<close>
lemma tick_order_row:
  assumes "calm w" "due_fills w = [f]" "\<not> fill_applied w (fe_fill_id f)"
    and "apply_fill_to_order L (fe_order_id f) (fe_qty f) (fe_price f) (fe_fee_paid f) (canonical_iso L (w_now w)) (w_db w)
      = (d, Ok (Some out))"
  shows "db_orders (w_db (fst (reconcile_once L R w))) = db_orders d"
proof -
  let ?t = "canonical_iso L (w_now w)"
  let ?K = "keeps (on_db (orders_are (db_orders d)))"
  have seen: "list_ex (\<lambda>a. af_broker a = fill_broker \<and> af_fill_id a = fe_fill_id f) (db_applied (w_db w)) = False"
    using assms(3) by (simp add: fill_applied_def)
  have sent: "bnd (sql (apply_fill_to_order L (fe_order_id f) (fe_qty f) (fe_price f) (fe_fee_paid f) ?t)) k w
      = k (Some out) (w\<lparr> w_db := d \<rparr>)" for k :: "_ \<Rightarrow> unit dio"
    by (rule bnd_sql) (rule assms(4))
  have "reconcile_fill L R f w = bnd (bnd (fill_order L f ?t) (\<lambda>first. case first of
        Some out \<Rightarrow> (case fo_sleeve out of None \<Rightarrow> ret () | Some slv \<Rightarrow> fill_position L R f ?t out slv)
      | None \<Rightarrow> bnd (try_backfill f ?t) (\<lambda>backfilled. if backfilled then retry_fill L R f ?t else ret ())))
      (\<lambda>_. bnd (sql (record_fill_applied fill_broker (fe_fill_id f) ?t)) (\<lambda>_. advance f)) w"
    using assms(1) seen by (simp add: reconcile_fill_def has_fill_been_applied_def settle_fill_def)
  also have "\<dots> = bnd (case fo_sleeve out of None \<Rightarrow> ret () | Some slv \<Rightarrow> fill_position L R f ?t out slv)
      (\<lambda>_. bnd (sql (record_fill_applied fill_broker (fe_fill_id f) ?t)) (\<lambda>_. advance f)) (w\<lparr> w_db := d \<rparr>)"
    by (simp add: bnd_assoc fill_order_def sent)
  finally have run: "reconcile_once L R w = \<dots>" using assms(2) by (simp add: reconcile_due)
  have adv: "keeps (on_db (orders_are (db_orders d))) (advance f)"
    unfolding advance_def by (rule keeps_modify) (simp add: on_db_def)
  have "?K (bnd (case fo_sleeve out of None \<Rightarrow> ret () | Some slv \<Rightarrow> fill_position L R f ?t out slv)
      (\<lambda>_. bnd (sql (record_fill_applied fill_broker (fe_fill_id f) ?t)) (\<lambda>_. advance f)))"
    by (intro keeps_intro keeps_orders_settle adv)
  then show ?thesis
    unfolding run by (simp add: keeps_def on_db_def orders_are_def)
qed

section \<open>The first delivery\<close>

text \<open>A transaction that goes through changes no row but its own.\<close>
lemma order_fill_through:
  assumes "apply_fill_to_order L boid qty price fee t d = (d', Ok (Some out))"
  obtains o' quantity filled fees avg where
    "order_with_sleeve d boid = Some (o', fo_sleeve out)" "od_side o' = (if fo_is_buy out then ''buy'' else ''sell'')"
    "l_parse L (od_quantity o') = Some quantity" "l_parse L (od_filled_quantity o') = Some filled"
    "dadd L filled qty = Some (fo_new_filled_quantity out)" "dadd L fees fee = Some (fo_new_fees_paid out)"
    "fill_average L filled avg qty price (fo_new_filled_quantity out) = Some (fo_new_avg_fill_price out)"
    "faultless d' = (faultless d)\<lparr> db_orders := update_where (\<lambda>r. od_id r = od_id o') (filled_row L out t) (db_orders d) \<rparr>"
proof -
  have nf: "no_faults (faultless d)" by (simp add: no_faults_def faultless_def)
  note run = no_swallowD [OF no_swallow_fills(1) assms]
  show thesis
    by (rule apply_fill_to_order_spec [OF nf run], rule that) (auto simp: faultless_reads)
qed

lemma find_update_where:
  assumes "find P rs = Some r" "\<And>x. P (f x) = P x" "Q r"
  shows "find P (update_where Q f rs) = Some (f r)"
  using assms by (induction rs) (auto simp: update_where_def split: if_splits)

text \<open>The first delivery when the position's half does not go through.\<close>
lemma interrupted_tick:
  assumes "due_fills w = [f]" "has_fill_been_applied fill_broker (fe_fill_id f) (w_db w) = (d0, Ok False)"
    and "apply_fill_to_order L (fe_order_id f) (fe_qty f) (fe_price f) (fe_fee_paid f) (canonical_iso L (w_now w)) d0
      = (d1, Ok (Some out))" "fo_sleeve out = Some slv"
    and "apply_fill_to_position L (fo_instrument_symbol out) (fo_broker out) slv (fo_is_buy out) (fe_qty f) (fe_price f)
      (canonical_iso L (w_now w)) d1 = (d2, Err e)"
  shows "reconcile_once L R w = (w\<lparr> w_db := d2 \<rparr>, Err (EStore e))"
proof -
  let ?t = "canonical_iso L (w_now w)"
  have ask: "sql (has_fill_been_applied fill_broker (fe_fill_id f)) w = (w\<lparr> w_db := d0 \<rparr>, Ok False)"
    by (simp add: sql_def lift_with_def assms(2))
  have "settle_fill L R f ?t (w\<lparr> w_db := d0 \<rparr>) = (w\<lparr> w_db := d2 \<rparr>, Err (EStore e))"
    by (simp add: settle_fill_def fill_order_def bnd_def sql_def lift_with_def assms(3-5) fill_position_def)
  then have "reconcile_fill L R f w = (w\<lparr> w_db := d2 \<rparr>, Err (EStore e))"
    using ask by (simp add: reconcile_fill_def) (simp add: bnd_def)
  then show ?thesis by (simp add: reconcile_due assms(1))
qed

text \<open>The order's half of the second delivery, on the row the first one left.\<close>
lemma order_fill_again:
  assumes "dec_laws L" "text_laws L" "isdec L price"
    and "apply_fill_to_order L boid qty price fee t d = (d1, Ok (Some out))" "no_faults d2" "db_orders d2 = db_orders d1"
    and "dadd L (fo_new_filled_quantity out) qty = Some twice" "dadd L (fo_new_fees_paid out) fee = Some fees"
    and "fill_average L (fo_new_filled_quantity out) (Some (fo_new_avg_fill_price out)) qty price twice = Some avg"
  obtains d3 out2 o1 o2 where "apply_fill_to_order L boid qty price fee t2 d2 = (d3, Ok (Some out2))"
    "find (\<lambda>r. od_broker_order_id r = Some boid) (db_orders d1) = Some o1"
    "l_parse L (od_filled_quantity o1) = Some (fo_new_filled_quantity out)"
    "find (\<lambda>r. od_broker_order_id r = Some boid) (db_orders d3) = Some o2"
    "l_parse L (od_filled_quantity o2) = Some twice"
proof -
  obtain o' quantity filled old_fees old_avg where row: "order_with_sleeve d boid = Some (o', fo_sleeve out)"
      "od_side o' = (if fo_is_buy out then ''buy'' else ''sell'')" "l_parse L (od_quantity o') = Some quantity"
    and sums: "dadd L filled qty = Some (fo_new_filled_quantity out)" "dadd L old_fees fee = Some (fo_new_fees_paid out)"
      "fill_average L filled old_avg qty price (fo_new_filled_quantity out) = Some (fo_new_avg_fill_price out)"
    and d1: "faultless d1 = (faultless d)\<lparr> db_orders := update_where (\<lambda>r. od_id r = od_id o') (filled_row L out t) (db_orders d) \<rparr>"
    by (rule order_fill_through [OF assms(4)]) blast
  let ?o = "filled_row L out t o'"
  have orders: "db_orders d1 = update_where (\<lambda>r. od_id r = od_id o') (filled_row L out t) (db_orders d)"
    using arg_cong [OF d1, of db_orders] by (simp add: faultless_def)
  have "find (\<lambda>r. od_broker_order_id r = Some boid) (db_orders d) = Some o'"
    using row(1) by (auto simp: order_with_sleeve_def)
  then have o1: "find (\<lambda>r. od_broker_order_id r = Some boid) (db_orders d1) = Some ?o"
    unfolding orders by (rule find_update_where) (simp_all add: filled_row_def)
  have "fo_new_avg_fill_price out = price \<or> (\<exists>x. l_rnd L x = Some (fo_new_avg_fill_price out))"
    using sums(3) by (auto simp: fill_average_def dec_ops bind_eq_Some_conv split: option.splits if_splits)
  then have exact: "isdec L (fo_new_filled_quantity out)" "isdec L (fo_new_fees_paid out)" "isdec L (fo_new_avg_fill_price out)"
    "isdec L twice"
    using sums(1,2) assms(1,3,7) by (auto simp: dec_ops dest: rnd_idem)
  note reads = parse_show [OF assms(2) exact(1)] parse_show [OF assms(2) exact(2)] parse_show [OF assms(2) exact(3)]
    parse_show [OF assms(2) exact(4)]
  have cols: "od_side ?o = od_side o'" "od_quantity ?o = od_quantity o'"
    "od_filled_quantity ?o = l_show L (fo_new_filled_quantity out)" "od_fees_paid ?o = l_show L (fo_new_fees_paid out)"
    "od_avg_fill_price ?o = Some (l_show L (fo_new_avg_fill_price out))"
    by (simp_all add: filled_row_def)
  obtain slv where found: "order_with_sleeve d2 boid = Some (?o, slv)"
    using o1 assms(6) by (simp add: order_with_sleeve_def)
  have "\<exists>d3 out2. order_fill_body L boid qty price fee t2 d2 = (d3, Ok (Some out2)) \<and> fo_new_filled_quantity out2 = twice"
    using assms(5,7-9) row(2,3) by (simp add: order_fill_body_def found cols reads side_is_buy_def parse_col_def
        parse_opt_col_def write_fill_def update_order_def Let_def)
  then obtain d3 out2 where body: "order_fill_body L boid qty price fee t2 d2 = (d3, Ok (Some out2))"
    and twice: "fo_new_filled_quantity out2 = twice" by blast
  have second: "apply_fill_to_order L boid qty price fee t2 d2 = (d3, Ok (Some out2))"
    by (rule apply_fill_to_order_run [OF assms(5) body])
  obtain o3 where "find (\<lambda>r. od_broker_order_id r = Some boid) (db_orders d2) = Some o3"
    "db_orders d3 = update_where (\<lambda>r. od_id r = od_id o3) (filled_row L out2 t2) (db_orders d2)"
    by (rule apply_fill_to_order_spec [OF assms(5) second]) (auto simp: order_with_sleeve_def)
  then have o2: "find (\<lambda>r. od_broker_order_id r = Some boid) (db_orders d3) = Some (filled_row L out2 t2 o3)"
    by (simp only:) (rule find_update_where, assumption, simp_all add: filled_row_def)
  show thesis
    by (rule that [OF second o1 _ o2]) (simp_all add: cols reads, simp add: filled_row_def twice reads)
qed

lemma due_fills_frame: "due_fills (w\<lparr> w_db := d \<rparr>) = due_fills w" "due_fills (w\<lparr> w_db := d, w_now := t \<rparr>) = due_fills w"
  by (simp_all add: due_fills_def Let_def)

text \<open>C19. A fill can be counted twice.  The order's half and the position's half of a fill are separate
  transactions, and the fill is recorded as applied after both.  Take any fill that is due and any leverage order
  it belongs to.  If the order's half goes through and the position's half does not, whichever of its statements
  fails, the tick ends with that error; the order shows the fill's quantity, the position does not, the fill is not
  recorded and still due.  The next tick, at whatever time, with no failing statement, adds the same quantity to
  the order again.  (The three sums of the second delivery are assumed to fit a decimal.)\<close>
theorem interrupted_fill_counts_twice:
  assumes "dec_laws L" "text_laws L" "isdec L (fe_price f)" "due_fills w = [f]"
    and "has_fill_been_applied fill_broker (fe_fill_id f) (w_db w) = (d0, Ok False)"
    and "apply_fill_to_order L (fe_order_id f) (fe_qty f) (fe_price f) (fe_fee_paid f) (canonical_iso L (w_now w)) d0
      = (d1, Ok (Some out))" "fo_sleeve out = Some slv"
    and "apply_fill_to_position L (fo_instrument_symbol out) (fo_broker out) slv (fo_is_buy out) (fe_qty f) (fe_price f)
      (canonical_iso L (w_now w)) d1 = (d2, Err e)"
    and "dadd L (fo_new_filled_quantity out) (fe_qty f) = Some twice"
    and "dadd L (fo_new_fees_paid out) (fe_fee_paid f) = Some fees"
    and "fill_average L (fo_new_filled_quantity out) (Some (fo_new_avg_fill_price out)) (fe_qty f) (fe_price f) twice = Some avg"
  shows "\<exists>w1 o0 o1 o2 before. reconcile_once L R w = (w1, Err (EStore e)) \<and>
     db_positions (w_db w1) = db_positions (w_db w) \<and> \<not> fill_applied w1 (fe_fill_id f) \<and> due_fills w1 = [f] \<and>
     find (\<lambda>r. od_broker_order_id r = Some (fe_order_id f)) (db_orders (w_db w)) = Some o0 \<and>
     l_parse L (od_filled_quantity o0) = Some before \<and> dadd L before (fe_qty f) = Some (fo_new_filled_quantity out) \<and>
     find (\<lambda>r. od_broker_order_id r = Some (fe_order_id f)) (db_orders (w_db w1)) = Some o1 \<and>
     l_parse L (od_filled_quantity o1) = Some (fo_new_filled_quantity out) \<and>
     find (\<lambda>r. od_broker_order_id r = Some (fe_order_id f)) (db_orders (w_db (fst (reconcile_once L R
       (w1\<lparr> w_db := (w_db w1)\<lparr> db_faults := [] \<rparr>, w_now := later \<rparr>))))) = Some o2 \<and>
     l_parse L (od_filled_quantity o2) = Some twice"
proof -
  have d0: "faultless d0 = faultless (w_db w)" "\<not> fill_applied w (fe_fill_id f)"
    using assms(5) by (auto simp: has_fill_been_applied_def faultless_def query_def stmt_def fill_applied_def
        split: list.splits bool.splits)
  have d2: "d2 = d1\<lparr> db_faults := db_faults d2 \<rparr>"
    using assms(8) unfolding apply_fill_to_position_def by (rule transaction_atomic) simp
  obtain o' quantity filled old_fees old_avg where row: "order_with_sleeve d0 (fe_order_id f) = Some (o', fo_sleeve out)"
      "l_parse L (od_filled_quantity o') = Some filled" "dadd L filled (fe_qty f) = Some (fo_new_filled_quantity out)"
    and d1: "faultless d1 = (faultless d0)\<lparr> db_orders := update_where (\<lambda>r. od_id r = od_id o')
        (filled_row L out (canonical_iso L (w_now w))) (db_orders d0) \<rparr>"
    by (rule order_fill_through [OF assms(6)]) blast
  have same: "db_positions d2 = db_positions (w_db w)" "db_applied d2 = db_applied (w_db w)" "db_orders d2 = db_orders d1"
    "db_orders d0 = db_orders (w_db w)"
    using arg_cong [OF d1, of db_positions] arg_cong [OF d1, of db_applied] arg_cong [OF d0(1), of db_positions]
      arg_cong [OF d0(1), of db_applied] arg_cong [OF d0(1), of db_orders] arg_cong [OF d2, of db_positions]
      arg_cong [OF d2, of db_applied] arg_cong [OF d2, of db_orders]
    by (simp_all add: faultless_def)
  let ?w1 = "w\<lparr> w_db := d2 \<rparr>"
  let ?w2 = "?w1\<lparr> w_db := d2\<lparr> db_faults := [] \<rparr>, w_now := later \<rparr>"
  obtain d3 out2 o1 o2 where second: "apply_fill_to_order L (fe_order_id f) (fe_qty f) (fe_price f) (fe_fee_paid f)
        (canonical_iso L later) (d2\<lparr> db_faults := [] \<rparr>) = (d3, Ok (Some out2))"
    and rows: "find (\<lambda>r. od_broker_order_id r = Some (fe_order_id f)) (db_orders d1) = Some o1"
      "l_parse L (od_filled_quantity o1) = Some (fo_new_filled_quantity out)"
      "find (\<lambda>r. od_broker_order_id r = Some (fe_order_id f)) (db_orders d3) = Some o2"
      "l_parse L (od_filled_quantity o2) = Some twice"
    by (rule order_fill_again [OF assms(1-3,6) _ _ assms(9-11), of "d2\<lparr> db_faults := [] \<rparr>" "canonical_iso L later"])
      (simp_all add: no_faults_def same)
  have "calm ?w2" "due_fills ?w2 = [f]" "\<not> fill_applied ?w2 (fe_fill_id f)"
    using assms(4) d0(2) same(2) by (simp_all add: calm_def no_faults_def due_fills_frame fill_applied_def)
  then have "db_orders (w_db (fst (reconcile_once L R ?w2))) = db_orders d3"
    by (rule tick_order_row) (simp add: second)
  moreover have "find (\<lambda>r. od_broker_order_id r = Some (fe_order_id f)) (db_orders (w_db w)) = Some o'"
    using row(1) same(4) by (auto simp: order_with_sleeve_def)
  ultimately show ?thesis
    using interrupted_tick [OF assms(4-8), of R] rows row(2,3) same d0(2) assms(4)
    by (intro exI [of _ ?w1] exI [of _ o'] exI [of _ o1] exI [of _ o2] exI [of _ filled])
      (simp add: due_fills_frame fill_applied_def)
qed

text \<open>Ten contracts ordered, four filled, a fill of three, and the first statement of the position's half fails.\<close>
lemma crash_halves:
  fixes d0 :: db
  defines "d0 \<equiv> (crash_db 4)\<lparr> db_faults := [False, False, False, False, True] \<rparr>"
  shows "has_fill_been_applied fill_broker ''F1'' (w_db crash_world) = (d0, Ok False)"
    "\<exists>d1 out. apply_fill_to_order lib0 ''B1'' 3 110 1 t d0 = (d1, Ok (Some out)) \<and> fo_sleeve out = Some lev \<and>
       fo_new_filled_quantity out = 7 \<and> fo_new_fees_paid out = 1 \<and> fo_new_avg_fill_price out = 730 / 7 \<and>
       (\<exists>d2. \<forall>i b y. apply_fill_to_position lib0 i b lev y 3 110 t d1 = (d2, Err (PSql SqlIo)))"
proof -
  have passes: "db_faults d = False # fs \<Longrightarrow> stmt m d = m (d\<lparr> db_faults := fs \<rparr>)" for d fs and m :: "'x dbio"
    by (simp add: stmt_def)
  show "has_fill_been_applied fill_broker ''F1'' (w_db crash_world) = (d0, Ok False)"
    by (simp add: d0_def has_fill_been_applied_def query_def passes crash_world_def crash_db_def db_empty_def)
  have "\<exists>d1 out. apply_fill_to_order lib0 ''B1'' 3 110 1 t d0 = (d1, Ok (Some out)) \<and> fo_sleeve out = Some lev \<and>
       fo_new_filled_quantity out = 7 \<and> fo_new_fees_paid out = 1 \<and> fo_new_avg_fill_price out = 730 / 7 \<and>
       db_faults d1 = [True]"
    by (simp add: d0_def apply_fill_to_order_def transaction_def order_fill_body_def bnd_def query_def passes
        crash_db_def order_with_sleeve_def sample_order_row_def demo_row_def side_is_buy_def parse_col_def
        parse_opt_col_def fill_average_def dec_ops write_fill_def update_order_def exec_def update_where_def
        Let_def db_empty_def lev_def)
  moreover have "\<exists>d2. \<forall>i b y. apply_fill_to_position lib0 i b lev y 3 110 t d = (d2, Err (PSql SqlIo))"
    if "db_faults d = [True]" for d
    using that by (simp add: apply_fill_to_position_def transaction_def bnd_def stmt_def)
  ultimately show "\<exists>d1 out. apply_fill_to_order lib0 ''B1'' 3 110 1 t d0 = (d1, Ok (Some out)) \<and> fo_sleeve out = Some lev \<and>
       fo_new_filled_quantity out = 7 \<and> fo_new_fees_paid out = 1 \<and> fo_new_avg_fill_price out = 730 / 7 \<and>
       (\<exists>d2. \<forall>i b y. apply_fill_to_position lib0 i b lev y 3 110 t d1 = (d2, Err (PSql SqlIo)))" by blast
qed

text \<open>An order of ten contracts with four filled shows ten after a single fill of three.\<close>
theorem interrupted_fill_counts_twice_witness:
  "\<exists>w1 o1 o2. reconcile_once lib0 sample_reconciler crash_world = (w1, Err (EStore (PSql SqlIo))) \<and>
     find (\<lambda>r. od_broker_order_id r = Some ''B1'') (db_orders (w_db w1)) = Some o1 \<and>
     l_parse lib0 (od_filled_quantity o1) = Some 7 \<and>
     find (\<lambda>r. od_broker_order_id r = Some ''B1'') (db_orders (w_db (fst (reconcile_once lib0 sample_reconciler
       (w1\<lparr> w_db := (w_db w1)\<lparr> db_faults := [] \<rparr>, w_now := 7 \<rparr>))))) = Some o2 \<and>
     l_parse lib0 (od_filled_quantity o2) = Some 10"
proof -
  have f: "fe_fill_id crash_fill = ''F1''" "fe_order_id crash_fill = ''B1''" "fe_qty crash_fill = 3"
    "fe_price crash_fill = 110" "fe_fee_paid crash_fill = 1" "fe_seq crash_fill = 4"
    by (simp_all add: crash_fill_def sample_fill_def)
  have due: "due_fills crash_world = [crash_fill]"
    by (simp add: due_fills_def crash_world_def demo_start_def f)
  obtain d1 out d2 where first: "apply_fill_to_order lib0 ''B1'' 3 110 1 (canonical_iso lib0 (w_now crash_world))
        ((crash_db 4)\<lparr> db_faults := [False, False, False, False, True] \<rparr>) = (d1, Ok (Some out))"
    and out: "fo_sleeve out = Some lev" "fo_new_filled_quantity out = 7" "fo_new_fees_paid out = 1"
      "fo_new_avg_fill_price out = 730 / 7"
    and half: "\<And>i b y. apply_fill_to_position lib0 i b lev y 3 110 (canonical_iso lib0 (w_now crash_world)) d1
      = (d2, Err (PSql SqlIo))"
    using crash_halves(2) by blast
  have sums: "isdec lib0 110" "dadd lib0 7 3 = Some 10" "dadd lib0 1 1 = Some 2" "fill_average lib0 7 (Some (730 / 7)) 3 110 10 = Some 106"
    by (simp_all add: isdec_def fill_average_def dec_ops)
  show ?thesis
    using interrupted_fill_counts_twice [of lib0 crash_fill crash_world, unfolded f out,
        OF lib0_dec_laws lib0_text_laws sums(1) due crash_halves(1) first out(1) half, unfolded out, OF sums(2-4)]
    by blast
qed

end
