(* ===== verification/Supervision_Properties.thy ===== *)
theory Supervision_Properties
  imports Fill_Properties Sample_Run Pool_Invariant
begin

text \<open>The kill switch in operation: what the supervisor does when the hard trigger fires, and what the equity
  writer lets it see.\<close>

section \<open>Panic-close\<close>

lemma fields_rows:
  "map (\<lambda>p. (pn_instrument_symbol p, pn_broker p, pn_sleeve p, pn_quantity p)) (filter (\<lambda>p. pn_closed_at p = None \<and>
     pn_sleeve p = ''crypto_leverage'' \<and> l_real_nonzero L (pn_quantity p)) (db_positions d))
   = map (\<lambda>p. (pn_instrument_symbol p, pn_broker p, pn_sleeve p, pn_quantity p)) (leverage_rows L d)"
  by (simp add: leverage_rows_def)

text \<open>A load reads every quantity.\<close>
lemma loaded_readable:
  assumes "loaded L t d = Inr pf" "p \<in> set (leverage_rows L d)"
  shows "l_parse L (pn_quantity p) \<noteq> None"
  using load_fields(2) [OF assms(1)] assms(2) by (auto simp: list_all2_conv_all_nth in_set_conv_nth)

lemma panic_close_calm:
  assumes "calm w" "\<forall>p \<in> set (leverage_rows L (w_db w)). l_parse L (pn_quantity p) \<noteq> None"
  shows "\<exists>w'. panic_close_leverage_positions L ins i w = (w', Ok ()) \<and> w_db w' = w_db w \<and>
     w_sent w' = w_sent w @ close_orders L ins i (w_now w) (w_submits w) (map (\<lambda>p. (pn_instrument_symbol p,
       pn_broker p, pn_sleeve p, pn_quantity p)) (leverage_rows L (w_db w)))"
proof -
  have "panic_close_leverage_positions L ins i w = for_each (map (\<lambda>p. (pn_instrument_symbol p,
       pn_broker p, pn_sleeve p, pn_quantity p)) (leverage_rows L (w_db w))) (panic_close_one L ins i) w"
    using assms(1) by (simp add: panic_close_leverage_positions_def list_open_leverage_positions_def fields_rows)
  then show ?thesis using panic_close_rows by simp blast
qed

lemma close_orders_each:
  assumes "\<forall>p \<in> set ps. l_parse L (pn_quantity p) \<noteq> None"
  shows "list_all2 (\<lambda>o' p. flattens L o' (pn_instrument_symbol p) (pn_quantity p))
    (close_orders L ins i t script (map (\<lambda>p. (pn_instrument_symbol p, pn_broker p, pn_sleeve p, pn_quantity p)) ps)) ps"
  using assms
  by (induction ps arbitrary: t script) (auto simp: close_order_flattens)

text \<open>The client ids of the orders: the second in which each was sent.\<close>
lemma close_orders_times:
  "o' \<in> set (close_orders L ins i now script rows) \<Longrightarrow>
   \<exists>t. now \<le> t \<and> t \<le> now + sum_list (map (\<lambda>a. int (fst a)) script) \<and> or_cli_ord_id o' = Some (panic_cli i t)"
proof (induction L ins i now script rows rule: close_orders.induct)
  case (2 L ins i now script symbol b s q rows)
  have sum: "0 \<le> sum_list (map (\<lambda>a. int (fst a)) xs)" for xs :: "submission_result answer list"
    by (rule sum_list_nonneg) auto
  have step: "int (fst (fst (next_answer script))) + sum_list (map (\<lambda>a. int (fst a)) (snd (next_answer script)))
      = sum_list (map (\<lambda>a. int (fst a)) script)"
    by (cases script) (simp_all add: next_answer_def)
  show ?case
  proof (cases "l_parse L q")
    case None
    then show ?thesis using 2 by simp
  next
    case (Some qty)
    consider "o' = close_order ins i now symbol qty"
      | "o' \<in> set (close_orders L ins i (now + int (fst (fst (next_answer script)))) (snd (next_answer script)) rows)"
      using "2.prems" Some by auto
    then show ?thesis
    proof cases
      case 1
      then show ?thesis using sum [of script] by (intro exI [of _ now]) (simp add: close_order_def Let_def)
    next
      case 2
      from "2.IH"(2) [OF Some 2] obtain t where "now + int (fst (fst (next_answer script))) \<le> t"
        "t \<le> now + int (fst (fst (next_answer script))) + sum_list (map (\<lambda>a. int (fst a)) (snd (next_answer script)))"
        "or_cli_ord_id o' = Some (panic_cli i t)" by blast
      then show ?thesis using step by (intro exI [of _ t]) auto
    qed
  qed
qed simp

lemma same_second:
  assumes "now \<le> t" "t \<le> now + elapsed" "timestamp_seconds (now + elapsed) = timestamp_seconds now"
  shows "panic_cli i t = panic_cli i now"
proof -
  have "timestamp_seconds now \<le> timestamp_seconds t" "timestamp_seconds t \<le> timestamp_seconds (now + elapsed)"
    unfolding timestamp_seconds_def using assms(1,2) by (intro zdiv_mono1; simp)+
  then show ?thesis using assms(3) by (simp add: panic_cli_def)
qed

text \<open>The orders of one close, and the event that asked for it.\<close>
definition closes :: "lib \<Rightarrow> order list \<Rightarrow> position_row list \<Rightarrow> bool" where
  "closes L os ps \<longleftrightarrow> list_all2 (\<lambda>o' p. flattens L o' (pn_instrument_symbol p) (pn_quantity p)) os ps"

lemma panic_act_run:
  assumes "calm w" "\<forall>p \<in> set (leverage_rows L (w_db w)). l_parse L (pn_quantity p) \<noteq> None"
  shows "\<exists>w' os e. act_on L ins True pf False (PanicClose reason since) w = (w', Ok ()) \<and> calm w' \<and>
     db_kill_events (w_db w') = db_kill_events (w_db w) @ [e] \<and> unresolved e \<and> ke_reason_kind e = hard_kind \<and>
     leverage_rows L (w_db w') = leverage_rows L (w_db w) \<and> w_sent w' = w_sent w @ os \<and>
     closes L os (leverage_rows L (w_db w)) \<and>
     (timestamp_seconds (w_now w + sum_list (map (\<lambda>a. int (fst a)) (w_submits w))) = timestamp_seconds (w_now w) \<longrightarrow>
        (\<exists>c. \<forall>o' \<in> set os. or_cli_ord_id o' = Some c))"
proof -
  let ?rec = "record_kill_switch (canonical_iso L since) hard_kind (kill_reason_json L reason) (portfolio_json L pf)"
  obtain d i e where rec: "?rec (w_db w) = (d, Ok i)" and d: "no_faults d" "leverage_rows L d = leverage_rows L (w_db w)"
    and e: "db_kill_events d = db_kill_events (w_db w) @ [e]" "unresolved e" "ke_reason_kind e = hard_kind"
    using assms(1) by (fastforce simp: record_kill_switch_def Let_def calm_def leverage_rows_def unresolved_def)
  let ?w = "w\<lparr> w_db := d \<rparr>"
  have "bnd (sql ?rec) k w = k i ?w" for k :: "_ \<Rightarrow> unit dio" by (rule bnd_sql) (rule rec)
  then have run: "act_on L ins True pf False (PanicClose reason since) w
      = catch (panic_close_leverage_positions L ins i) (\<lambda>_. ret ()) ?w"
    by (simp add: act_on_def)
  obtain w' where w': "panic_close_leverage_positions L ins i ?w = (w', Ok ())" "w_db w' = d"
      "w_sent w' = w_sent w @ close_orders L ins i (w_now w) (w_submits w) (map (\<lambda>p. (pn_instrument_symbol p,
       pn_broker p, pn_sleeve p, pn_quantity p)) (leverage_rows L (w_db w)))"
    using panic_close_calm [of ?w L ins i] d assms(2) by auto
  have "\<exists>c. \<forall>o' \<in> set (close_orders L ins i (w_now w) (w_submits w) rows). or_cli_ord_id o' = Some c"
    if "timestamp_seconds (w_now w + sum_list (map (\<lambda>a. int (fst a)) (w_submits w))) = timestamp_seconds (w_now w)" for rows
    using close_orders_times same_second [OF _ _ that] by (intro exI [of _ "panic_cli i (w_now w)"]) metis
  then show ?thesis
    using run w' d e close_orders_each [OF assms(2)]
    by (intro exI [of _ w'] exI [of _ "close_orders L ins i (w_now w) (w_submits w) (map (\<lambda>p. (pn_instrument_symbol p,
       pn_broker p, pn_sleeve p, pn_quantity p)) (leverage_rows L (w_db w)))"] exI [of _ e])
      (simp add: catch_def calm_def closes_def)
qed

lemma hard_trigger_run:
  assumes "calm w" "loaded L (w_now w) (w_db w) = Inr pf" "leverage_effective_pnl L pf = Some e"
    and "e \<le> rc_kill_switch_effective_threshold_chf cfg" "\<not> hard_unresolved (w_db w)"
  shows "\<exists>w' os ev. evaluate_kill_switch_once L cfg ins True w = (w', Ok ()) \<and> calm w' \<and>
     db_kill_events (w_db w') = db_kill_events (w_db w) @ [ev] \<and> unresolved ev \<and> ke_reason_kind ev = hard_kind \<and>
     leverage_rows L (w_db w') = leverage_rows L (w_db w) \<and> w_sent w' = w_sent w @ os \<and>
     closes L os (leverage_rows L (w_db w)) \<and>
     (timestamp_seconds (w_now w + sum_list (map (\<lambda>a. int (fst a)) (w_submits w))) = timestamp_seconds (w_now w) \<longrightarrow>
        (\<exists>c. \<forall>o' \<in> set os. or_cli_ord_id o' = Some c))"
proof -
  let ?w = "w\<lparr> w_db := loaded_db L (w_now w) (w_db w) \<rparr>"
  obtain reason since where "ks_evaluate L pf cfg (w_now w) = Some (PanicClose reason since)"
    using assms(3,4) by (simp add: ks_evaluate_def)
  then have run: "evaluate_kill_switch_once L cfg ins True w = act_on L ins True pf False (PanicClose reason since) ?w"
    using assms(5) by (simp add: iteration_calm [OF assms(1,2)])
  have "calm ?w" "leverage_rows L (w_db ?w) = leverage_rows L (w_db w)"
    using assms(1) by (simp_all add: calm_def leverage_rows_def)
  then show ?thesis
    using panic_act_run [of ?w L ins pf reason since] loaded_readable [OF assms(2)] unfolding run by simp
qed

lemma hard_kind_unresolved: "db_kill_events d = es @ [e] \<Longrightarrow> unresolved e \<Longrightarrow> ke_reason_kind e = hard_kind \<Longrightarrow> hard_unresolved d"
  using hard_kind_like by (simp add: hard_unresolved_def)

text \<open>C9. The hard trigger flattens the book.  When the effective PnL is at or below the threshold and no hard
  event is open, an iteration without database faults records the event and sends exactly one order per
  open leverage position, each the opposite side and exact size of its position, at market and
  reduce-only, so that all of them filled leave nothing; an error of the broker for one order does not keep
  the others back.  But orders that go out within one second of the clock all carry the same client
  id.\<close>
theorem hard_trigger_flattens:
  assumes "calm w" "loaded L (w_now w) (w_db w) = Inr pf" "leverage_effective_pnl L pf = Some e"
    and "e \<le> rc_kill_switch_effective_threshold_chf cfg" "\<not> hard_unresolved (w_db w)"
  shows "\<exists>w' os. evaluate_kill_switch_once L cfg ins True w = (w', Ok ()) \<and> hard_unresolved (w_db w') \<and>
     w_sent w' = w_sent w @ os \<and>
     list_all2 (\<lambda>o' p. flattens L o' (pn_instrument_symbol p) (pn_quantity p)) os (leverage_rows L (w_db w)) \<and>
     (timestamp_seconds (w_now w + sum_list (map (\<lambda>a. int (fst a)) (w_submits w))) = timestamp_seconds (w_now w) \<longrightarrow>
        (\<exists>c. \<forall>o' \<in> set os. or_cli_ord_id o' = Some c))"
  using hard_trigger_run [OF assms, of ins] hard_kind_unresolved unfolding closes_def by blast

text \<open>Panic-close happens once per event and only on the record: an iteration that sends anything, whatever
  statement fails, has a broker, leaves an unresolved hard event in the table and found none there.  So
  until an operator resolves the event, no further iteration sends an order.\<close>
theorem panic_close_on_record:
  assumes "evaluate_kill_switch_once L cfg ins has_broker w = (w', r)"
  shows "(w_sent w' \<noteq> w_sent w \<longrightarrow> has_broker \<and> hard_unresolved (w_db w') \<and> \<not> hard_unresolved (w_db w)) \<and>
     (hard_unresolved (w_db w) \<longrightarrow> w_sent w' = w_sent w)"
  using iteration_sends [OF assms] by blast


definition falling_world :: world where
  "falling_world = demo_start\<lparr> w_db := db_empty\<lparr> db_equity := [(bootstrap_row ''0'')\<lparr> eq_unrealized_pnl_leverage_chf := show_dec (- 1300) \<rparr>],
     db_positions := [sample_position_row 5, (sample_position_row (- 3))\<lparr> pn_id := 2, pn_instrument_symbol := ''Q'' \<rparr>] \<rparr>,
     w_submits := [(0, Inl (ENetwork ''down'')), (0, Inl (ETimeout 10))] \<rparr>"

lemma falling_rows: "leverage_rows lib0 (w_db falling_world)
    = [sample_position_row 5, (sample_position_row (- 3))\<lparr> pn_id := 2, pn_instrument_symbol := ''Q'' \<rparr>]"
  by (simp add: falling_world_def leverage_rows_def sample_position_row_def)

lemma falling_loaded: "\<exists>pf. loaded lib0 1200000000 (w_db falling_world) = Inr pf \<and> leverage_effective_pnl lib0 pf = Some (- 1300)"
  by (simp add: loaded_def falling_rows) (simp add: falling_world_def latest_row_def bootstrap_row_def sample_position_row_def
      position_summary_def materialise_def snapshot_decimal_def parse_demo leverage_effective_pnl_def
      leverage_realized_pnl_def leverage_unrealized_pnl_def find_sleeve_def dec_ops)

lemma falling_facts:
  "calm falling_world" "w_now falling_world = 1200000000" "\<not> hard_unresolved (w_db falling_world)"
  "w_sent falling_world = []" "sum_list (map (\<lambda>a. int (fst a)) (w_submits falling_world)) = 0"
  by (simp_all add: falling_world_def calm_def demo_start_def hard_unresolved_def db_empty_def no_faults_def)

lemma falling_run:
  "\<exists>w' os. evaluate_kill_switch_once lib0 risk_config_default registry_new True falling_world = (w', Ok ()) \<and>
     hard_unresolved (w_db w') \<and> w_sent w' = os \<and> list_all2 (\<lambda>o' p. flattens lib0 o' (pn_instrument_symbol p)
       (pn_quantity p)) os (leverage_rows lib0 (w_db falling_world))"
proof -
  obtain pf where pf: "loaded lib0 1200000000 (w_db falling_world) = Inr pf" "leverage_effective_pnl lib0 pf = Some (- 1300)"
    using falling_loaded by blast
  show ?thesis
    using hard_trigger_run [OF falling_facts(1), unfolded falling_facts, OF pf, of risk_config_default registry_new]
      falling_facts(3) hard_kind_unresolved by (auto simp: risk_config_default_def closes_def)
qed

theorem hard_trigger_flattens_witness:
  "\<exists>w' o1 o2. evaluate_kill_switch_once lib0 risk_config_default registry_new True falling_world = (w', Ok ()) \<and>
     w_sent w' = [o1, o2] \<and> ins_symbol (or_instrument o1) = ''P'' \<and> ins_symbol (or_instrument o2) = ''Q'' \<and>
     or_quantity o1 = 5 \<and> or_quantity o2 = 3 \<and> or_cli_ord_id o1 = or_cli_ord_id o2"
proof -
  obtain pf where pf: "loaded lib0 1200000000 (w_db falling_world) = Inr pf" "leverage_effective_pnl lib0 pf = Some (- 1300)"
    using falling_loaded by blast
  have thr: "- 1300 \<le> rc_kill_switch_effective_threshold_chf risk_config_default"
    by (simp add: risk_config_default_def)
  obtain w' os where run: "evaluate_kill_switch_once lib0 risk_config_default registry_new True falling_world = (w', Ok ())"
    and os: "w_sent w' = os" "list_all2 (\<lambda>o' p. flattens lib0 o' (pn_instrument_symbol p) (pn_quantity p)) os
      (leverage_rows lib0 (w_db falling_world))" and c: "\<exists>c. \<forall>o' \<in> set os. or_cli_ord_id o' = Some c"
    using hard_trigger_flattens [OF falling_facts(1), unfolded falling_facts, OF pf thr, of registry_new] falling_facts(3)
    by auto
  have "list_all2 (\<lambda>o' p. flattens lib0 o' (pn_instrument_symbol p) (pn_quantity p)) os
      [sample_position_row 5, (sample_position_row (- 3))\<lparr> pn_id := 2, pn_instrument_symbol := ''Q'' \<rparr>]"
    using os(2) by (simp add: falling_rows)
  then obtain o1 o2 where two: "os = [o1, o2]" "flattens lib0 o1 ''P'' (show_dec 5)" "flattens lib0 o2 ''Q'' (show_dec (- 3))"
    by (auto simp: list_all2_Cons2 sample_position_row_def)
  then show ?thesis
    using run os(1) c by (intro exI [of _ w'] exI [of _ o1] exI [of _ o2]) (auto simp: flattens_def)
qed

text \<open>The second iteration after the trigger.\<close>
theorem panic_close_on_record_witness:
  "\<exists>w'. evaluate_kill_switch_once lib0 risk_config_default registry_new True falling_world = (w', Ok ()) \<and>
     length (w_sent w') = 2 \<and>
     w_sent (fst (evaluate_kill_switch_once lib0 risk_config_default registry_new True w')) = w_sent w'"
proof -
  obtain w' os where run: "evaluate_kill_switch_once lib0 risk_config_default registry_new True falling_world = (w', Ok ())"
    and hard: "hard_unresolved (w_db w')" and os: "w_sent w' = os" "length os = 2"
    using falling_run by (auto simp: falling_rows dest: list_all2_lengthD)
  obtain w2 r where "evaluate_kill_switch_once lib0 risk_config_default registry_new True w' = (w2, r)"
    by (cases "evaluate_kill_switch_once lib0 risk_config_default registry_new True w'")
  then show ?thesis using panic_close_on_record [of lib0 _ _ True w' w2 r] hard run os by auto
qed


section \<open>What the equity writer lets it see\<close>

lemma reachable_serde: "pool_reachable D (T, w) \<Longrightarrow> serde_sleeves (w_db w)"
proof -
  assume "pool_reachable D (T, w)"
  then have "\<forall>p \<in> set (db_positions (w_db w)). pn_sleeve p = lev"
    using pool_reachable_ok by (auto simp: daemon_ok_def world_ok_def tables_ok_def rows_ok_def)
  moreover have "lev \<in> range sleeve_text" by (rule range_eqI [of _ _ CryptoLeverage]) (simp add: lev_def)
  ultimately show ?thesis by (simp add: serde_sleeves_def)
qed

text \<open>A portfolio read from a written row never disables the sleeve.\<close>
lemma written_never_disables:
  assumes "dec_laws L" "text_laws L" "materialise L (written L s i eq lv cash un) t active ps = Inr pf"
    and "rc_leverage_kill_switch_budget_chf cfg < 0" "0 \<le> rc_max_portfolio_drawdown cfg"
    and "ks_evaluate L pf cfg now = Some d"
  shows "\<not> is_disable d"
proof -
  have one: "isdec L 1" using rnd_1 [OF assms(1)] by (simp add: isdec_def)
  have "leverage_realized_pnl pf = 0" "pf_nav_per_unit pf = 1" "pf_nav_hwm_per_unit pf = 1"
    using materialise_Inr [OF assms(3)] parse_show [OF assms(2) isdec_0 [OF assms(1)]] parse_show [OF assms(2) one]
    by (simp_all add: written_def)
  moreover have "drawdown_fraction L pf = Some 0" using calculation by (intro drawdown_at_high_water) simp
  ultimately show ?thesis
    using assms(4-6) by (auto simp: ks_evaluate_def do_Some_conv Let_def split: if_splits)
qed

text \<open>C18. The soft kill switch is blind to the daemon's own books.  In every state of the pool the equity writer
  sums the realised profit of a sleeve name no position carries, so the row of a successful write reports a
  realised profit of zero and a NAV equal to its high-water mark; and no portfolio read from such a row,
  however much was lost, ever disables the sleeve for its realised-loss budget or its drawdown.\<close>
theorem equity_writer_blind:
  assumes "pool_reachable D (T, w)" "dec_laws L" "text_laws L"
    and "write_one_snapshot L flex_of margin_of cfg answer w = (w', Ok i)"
  shows "\<exists>row. db_equity (w_db w') = db_equity (w_db w) @ [row] \<and>
     l_parse L (eq_realized_pnl_leverage_lifetime row) = Some 0 \<and>
     eq_nav_per_unit row = eq_nav_hwm_per_unit row \<and>
     (\<forall>t active ps pf now d. materialise L row t active ps = Inr pf \<longrightarrow>
        rc_leverage_kill_switch_budget_chf cfg < 0 \<longrightarrow> 0 \<le> rc_max_portfolio_drawdown cfg \<longrightarrow>
        ks_evaluate L pf cfg now = Some d \<longrightarrow> \<not> is_disable d)"
proof -
  obtain eq lv cash un where row: "db_equity (w_db w') = db_equity (w_db w) @ [written L (w_now w) i eq lv cash un]"
    using written_row [OF assms(4,2) reachable_serde [OF assms(1)]] by blast
  show ?thesis
    using row written_never_disables [OF assms(2,3)] parse_show [OF assms(3) isdec_0 [OF assms(2)]]
    by (intro exI [of _ "written L (w_now w) i eq lv cash un"]) (auto simp: written_def)
qed


lemma demo_text_laws: "text_laws demo_lib"
  unfolding text_laws_def by simp

definition demo_flex :: flex_account where
  "demo_flex = \<lparr> fx_account_type = ''multiCollateralMarginAccount'', fx_currencies = Map.empty,
     fx_initial_margin = 0, fx_initial_margin_with_orders = 0, fx_maintenance_margin = 0,
     fx_balance_value = 1100, fx_portfolio_value = 1100, fx_collateral_value = 1100, fx_pnl = 0,
     fx_unrealized_funding = 0, fx_total_unrealized = 0, fx_total_unrealized_as_margin = 0,
     fx_available_margin = 1100, fx_margin_equity = 1100 \<rparr>"

definition demo_accounts :: accounts_response where
  "demo_accounts = \<lparr> ac_result = ''success'', ac_accounts = [''flex'' \<mapsto> JNull], ac_server_time = [] \<rparr>"

lemma demo_write: "\<exists>w' i. write_one_snapshot demo_lib (\<lambda>j. Some demo_flex) (\<lambda>j. None) risk_config_default
    (Inr demo_accounts) demo_world = (w', Ok i)"
  by (simp add: write_one_snapshot_def demo_world_def demo_start_def demo_feeds_def demo_ticker_def perp_symbol_def
      btc_mark_def persist_snapshot_def accounts_margin_def accounts_flex_def demo_accounts_def demo_flex_def
      sc_margin_account_key_def btc_to_chf_def dec_ops risk_config_default_def
      sum_realized_pnl_btc_by_sleeve_def lift_with_def bnd_def now_iso_def db_empty_def
      stmt_def insert_equity_snapshot_def Let_def)

theorem equity_writer_blind_witness:
  "\<exists>w' i row. write_one_snapshot demo_lib (\<lambda>j. Some demo_flex) (\<lambda>j. None) risk_config_default
       (Inr demo_accounts) demo_world = (w', Ok i) \<and> db_equity (w_db w') = [row] \<and>
     parse_dec (eq_realized_pnl_leverage_lifetime row) = Some 0"
proof -
  obtain w' i where run: "write_one_snapshot demo_lib (\<lambda>j. Some demo_flex) (\<lambda>j. None) risk_config_default
      (Inr demo_accounts) demo_world = (w', Ok i)"
    using demo_write by blast
  have "db_equity (w_db demo_world) = []" by (simp add: demo_world_def db_empty_def)
  then show ?thesis
    using equity_writer_blind [OF reachable_in_pool [OF demo_reachable(1)] demo_laws demo_text_laws run] run by auto
qed

end
