(* ===== verification/Pool_Events.thy ===== *)
theory Pool_Events
  imports Pool_Invariant
begin

text \<open>Closing orders under interleaving.  An order that belongs to no signal comes from a panic-close; whatever
  the tasks do in between, the hard event that ordered it is on record before it leaves.\<close>

section \<open>Statements that leave the events alone\<close>

lemma keeps_events_stmts [keeps_intro]:
  "keeps (events_are K) (record_checklist_evaluation n1 t ap oc)"
  "keeps (events_are K) (record_dry_run_order n1 t ins sd slv hint n p q intent)"
  "keeps (events_are K) (insert_pending_order sg b ins sd ty tf q1 lp sp t cli)"
  "keeps (events_are K) (insert_position i1 b1 s1 q1 e1 t1)"
  unfolding record_checklist_evaluation_def record_dry_run_order_def insert_pending_order_def insert_position_def
  by (intro keeps_stmt; simp add: keeps_def Let_def events_are_def split: option.split)+

lemma keeps_events_update [keeps_intro]:
  "keeps (events_are K) (update_order P f)" "keeps (events_are K) (update_signal i g)"
  "keeps (events_are K) (update_position n h)" "keeps (events_are K) (record_fill_applied b x t)"
  unfolding update_order_def update_signal_def update_position_def record_fill_applied_def
  by (rule keeps_exec; simp add: events_are_def)+

lemma keeps_events_marks [keeps_intro]:
  "keeps (events_are K) (mark_signal_processed i t)" "keeps (events_are K) (mark_signal_rejected i t rs)"
  "keeps (events_are K) (set_signal_retry_after i t)" "keeps (events_are K) (clear_signal_retry_after i)"
  "keeps (events_are K) (backfill_broker_order_id i b t)" "keeps (events_are K) (mark_order_submitted i b st t)"
  "keeps (events_are K) (mark_order_failed i msg t)" "keeps (events_are K) (mark_order_uncertain i msg t)"
  unfolding mark_signal_processed_def mark_signal_rejected_def set_signal_retry_after_def clear_signal_retry_after_def
    backfill_broker_order_id_def mark_order_submitted_def mark_order_failed_def mark_order_uncertain_def
  by (rule keeps_events_update)+

lemma keeps_events_fills [keeps_intro]:
  "keeps (events_are K) (apply_fill_to_position L i b s y q p t)"
  "keeps (events_are K) (apply_fill_to_order L a1 b1 c1 d1 e1)"
  unfolding apply_fill_to_position_def position_fill_body_def add_to_position_def reduce_position_def
    flat_position_def apply_fill_to_order_def order_fill_body_def write_fill_def Let_def
  by (intro keeps_intro keeps_transaction events_are_blind)+

lemma keeps_events_sum [keeps_intro]: "keeps (events_are K) (sum_texts L acc rows)"
  by (induction rows arbitrary: acc) (auto intro!: keeps_intro)

section \<open>The family\<close>

definition hard_event :: "int \<Rightarrow> db \<Rightarrow> bool" where
  "hard_event i d \<longleftrightarrow> (\<exists>e \<in> set (db_kill_events d). ke_id e = i \<and> ke_reason_kind e = hard_kind)"

definition closing :: "int \<Rightarrow> order \<Rightarrow> bool" where
  "closing i o' \<longleftrightarrow> or_order_type o' = Market \<and> or_reduce_only o' = Some True \<and>
     (\<exists>t. or_cli_ord_id o' = Some (panic_cli i t))"

definition logged :: "int set \<Rightarrow> world \<Rightarrow> bool" where
  "logged E w \<longleftrightarrow> sorted_wrt (<) (map ke_id (db_kill_events (w_db w))) \<and> (\<forall>i \<in> E. hard_event i (w_db w)) \<and>
     (\<forall>o' \<in> set (w_sent w). or_signal_id o' = None \<longrightarrow> (\<exists>i. closing i o' \<and> hard_event i (w_db w)))"

lemma logged_same:
  "logged E w \<Longrightarrow> db_kill_events (w_db w') = db_kill_events (w_db w) \<Longrightarrow> w_sent w' = w_sent w \<Longrightarrow> logged E w'"
  by (simp add: logged_def hard_event_def)

lemma keeps_logged_lift [keeps_intro]:
  assumes "\<And>K. keeps (events_are K) m"
  shows "keeps (logged E) (lift_with f m)"
proof -
  have "logged E (fst (lift_with f m w))" if "logged E w" for w
    using keepsD [OF assms refl [THEN events_are_def [THEN iffD2]], of "w_db w" "fst (m (w_db w))" "snd (m (w_db w))"]
      logged_same [OF that, of "fst (lift_with f m w)"]
    by (auto simp: lift_with_def events_are_def split: prod.splits res.splits)
  then show ?thesis by (simp add: keeps_def)
qed

lemma keeps_logged_sql [keeps_intro]:
  assumes "\<And>K. keeps (events_are K) m"
  shows "keeps (logged E) (sql m)" "keeps (logged E) (sql_context msg m)"
  unfolding sql_def sql_context_def by (intro keeps_logged_lift assms)+

lemma pkeeps_logged [pkeeps_intro]:
  assumes "\<And>K. keeps (events_are K) m"
  shows "pkeeps logged (psql m)"
  unfolding psql_def by (intro pkeeps_intro keeps_intro assms)

lemma keeps_logged_world [keeps_intro]:
  "keeps (logged E) clock" "keeps (logged E) (now_iso L)" "keeps (logged E) receive_answer"
  "keeps (logged E) (get_order_by_cli_ord_id cli)" "keeps (logged E) open_orders" "keeps (logged E) (advance f)"
  "keeps (logged E) (reject_expired L sg t)"
proof -
  show "keeps (logged E) (reject_expired L sg t)"
    unfolding reject_expired_def by (intro keeps_intro)
qed (auto simp: keeps_def clock_def now_iso_def receive_answer_def get_order_by_cli_ord_id_def open_orders_def
    advance_def elim!: logged_same split: prod.splits)

lemma keeps_logged_send:
  assumes "or_signal_id o' \<noteq> None"
  shows "keeps (logged E) (send_order_out o')"
  using assms by (auto simp: keeps_def send_order_out_def logged_def)


section \<open>Tasks that record no event\<close>

lemma pkeeps_logged_load [pkeeps_intro]: "pkeeps logged (load_steps L t)"
  unfolding load_steps_def latest_equity_snapshot_def write_bootstrap_equity_snapshot_def kill_switch_active_def
    list_open_leverage_positions_def
  by (intro pkeeps_intro keeps_intro events_are_blind)

lemma pkeeps_logged_small [pkeeps_intro]:
  "pkeeps logged (reject_steps L i r)" "pkeeps logged (cooldown_steps L i)"
  "pkeeps logged (dry_run_steps L sg m)" "pkeeps logged (answered_steps L i n r' t)"
  "pkeeps logged (lookup_steps L i n c)"
  unfolding reject_steps_def cooldown_steps_def dry_run_steps_def answered_steps_def lookup_steps_def Let_def
  by (intro pkeeps_intro keeps_intro)+

lemma pkeeps_logged_reconcile [pkeeps_intro]: "pkeeps logged (reconcile_order_steps L i)"
  unfolding reconcile_order_steps_def pending_order_for_signal_def
  by (intro pkeeps_intro keeps_intro events_are_blind)

text \<open>The processor's orders belong to signals.\<close>
lemma pkeeps_logged_build [pkeeps_intro]: "pkeeps logged (build_steps L P sg m pf resubmit)"
proof -
  have "pkeeps logged (place_steps L sg resubmit o')" if "or_signal_id o' = Some (sg_id sg)" for o'
    unfolding place_steps_def await_steps_def
    by (intro pkeeps_intro keeps_intro keeps_logged_send) (simp add: that)
  then have "pkeeps logged (case build_kraken_futures_order L sg m pf (sp_instruments P) now of
       Inl reason \<Rightarrow> reject_steps L (sg_id sg) reason | Inr o' \<Rightarrow> place_steps L sg resubmit o')" for now
    using built_order_matches [of L sg m pf "sp_instruments P" now]
    by (cases "build_kraken_futures_order L sg m pf (sp_instruments P) now")
      (auto simp: order_matches_def pkeeps_logged_small)
  then show ?thesis
    unfolding build_steps_def by (rule pkeeps_bnd [rotated]) (intro pkeeps_intro keeps_intro)
qed

lemma pkeeps_logged_poll: "pkeeps logged (poll_steps L P)"
proof -
  have broker: "pkeeps logged (broker_steps L P sg m pf)" for sg m pf
    unfolding broker_steps_def by (auto intro!: pkeeps_intro split: reconcile_outcome.split)
  then have "pkeeps logged (approval_steps L P sg m pf)" for sg m pf
    by (cases "sp_mode P") (simp_all add: approval_steps_def pkeeps_logged_small)
  then show ?thesis
    unfolding poll_steps_def process_steps_def checklist_steps_def pending_signals_def
    by (intro pkeeps_intro keeps_intro events_are_blind)
qed

lemma pkeeps_logged_periodic: "pkeeps logged periodic_steps"
  unfolding periodic_steps_def list_live_orders_def by (intro pkeeps_intro keeps_intro events_are_blind)

lemma pkeeps_logged_snapshot: "pkeeps logged (snapshot_steps L flex_of margin_of cfg answer)"
  unfolding snapshot_steps_def persist_steps_def Let_def sum_realized_pnl_btc_by_sleeve_def
  by (intro pkeeps_intro keeps_intro events_are_blind) (auto simp: keeps_def)


section \<open>Tasks that do\<close>

text \<open>A closing order of an event in hand.\<close>
lemma guided_send_close:
  assumes "i \<in> E"
  shows "guided logged (\<lambda>_. (\<in>) i) E (atom (send_order_out (close_order ins i t s q)))"
proof -
  have c: "closing i (close_order ins i t s q)" "or_signal_id (close_order ins i t s q) = None"
    by (auto simp: closing_def close_order_def Let_def)
  have "logged H (w\<lparr> w_sent := w_sent w @ [close_order ins i t s q] \<rparr>)" if "logged E w" "logged H w" for H w
    using that c assms by (auto simp: logged_def)
  then show ?thesis
    by (intro guided_atom) (use assms in \<open>auto simp: send_order_out_def\<close>)
qed

lemma guided_close:
  assumes "i \<in> E"
  shows "guided logged (\<lambda>_. (\<in>) i) E (close_steps L ins i)"
proof -
  have "guided logged (\<lambda>_. (\<in>) i) E (close_one_steps L ins i row)" if "i \<in> E" for row E
  proof -
    have submit: "guided logged (\<lambda>_. (\<in>) i) E (pbnd (submit_steps (close_order ins i now s q)) (\<lambda>_. pret ()))" for now s q
      unfolding submit_steps_def
      by (intro guided_within_bnd guided_send_close that guided_keeps pkeeps_intro keeps_intro)
    obtain s b v q where row: "row = (s, b, v, q)" by (metis prod_cases4)
    show ?thesis
    proof (cases "l_parse L q")
      case (Some qty)
      show ?thesis
        unfolding close_one_steps_def row prod.case Some option.case
        by (rule guided_stay [OF _ submit]) (use that in \<open>auto intro!: pkeeps_intro keeps_intro\<close>)
    qed (simp add: close_one_steps_def row pret_def that)
  qed
  note one = this
  have each: "guided logged (\<lambda>_. (\<in>) i) E (pfor_each rows (close_one_steps L ins i))" for rows
    by (rule guided_within_for_each [OF one assms])
  show ?thesis
    unfolding close_steps_def list_open_leverage_positions_def
    by (rule guided_stay [OF pkeeps_logged each]) (use assms in \<open>auto intro!: keeps_intro\<close>)
qed

text \<open>An event that is recorded stays, and a panic-close has its own in hand from then on.\<close>
lemma recorded:
  assumes "logged E w" "sql (record_kill_switch t k a b) w = (w', r)"
  shows "logged E w' \<and> (\<forall>i. r = Ok i \<longrightarrow> k = hard_kind \<longrightarrow> logged (insert i E) w')"
proof -
  let ?ids = "map ke_id (db_kill_events (w_db w))"
  have sent: "w_sent w' = w_sent w"
    and "(\<exists>e. ke_id e = next_id ?ids \<and> ke_reason_kind e = k \<and>
        db_kill_events (w_db w') = db_kill_events (w_db w) @ [e] \<and> r = Ok (next_id ?ids)) \<or>
      db_kill_events (w_db w') = db_kill_events (w_db w) \<and> (\<forall>i. r \<noteq> Ok i)"
    using assms(2) unfolding sql_def lift_with_def record_kill_switch_def
    by (auto simp: Let_def stmt_def split: list.splits if_splits bool.splits prod.splits res.splits)
  then consider (new) e where "ke_id e = next_id ?ids" "ke_reason_kind e = k"
      "db_kill_events (w_db w') = db_kill_events (w_db w) @ [e]" "r = Ok (next_id ?ids)"
    | (same) "db_kill_events (w_db w') = db_kill_events (w_db w)" "\<forall>i. r \<noteq> Ok i"
    by blast
  then show ?thesis
  proof cases
    case new
    have more: "hard_event i (w_db w) \<Longrightarrow> hard_event i (w_db w')" for i by (auto simp: hard_event_def new(3))
    have "\<forall>i \<in> set ?ids. i < next_id ?ids" using next_id_greater by blast
    then have "sorted_wrt (<) (map ke_id (db_kill_events (w_db w')))"
      using assms(1) new(1) by (auto simp: logged_def new(3) sorted_wrt_append)
    moreover have "\<forall>i \<in> E. hard_event i (w_db w')" using assms(1) more by (simp add: logged_def)
    moreover have "\<exists>i. closing i o' \<and> hard_event i (w_db w')" if "o' \<in> set (w_sent w')" "or_signal_id o' = None" for o'
      using assms(1) that more unfolding logged_def sent by blast
    moreover have "hard_event (next_id ?ids) (w_db w')" if "k = hard_kind"
      using new(1,2) that by (auto simp: hard_event_def new(3))
    ultimately show ?thesis by (simp add: logged_def new(4))
  next
    case same
    then show ?thesis using logged_same [OF assms(1) _ sent] by simp
  qed
qed

lemma keeps_logged_record [keeps_intro]: "keeps (logged E) (sql (record_kill_switch t k a b))"
  unfolding keeps_def
proof (intro allI impI)
  fix w
  assume "logged E w"
  from recorded [OF this prod.collapse [symmetric]] show "logged E (fst (sql (record_kill_switch t k a b) w))" by blast
qed

lemma guided_act: "guided logged (\<lambda>_ _. True) E (act_steps L ins hb pf h d)"
proof (cases d)
  case (PanicClose reason since)
  let ?rec = "record_kill_switch (canonical_iso L since) hard_kind (kill_reason_json L reason) (portfolio_json L pf)"
  have rec: "guided logged (\<lambda>r j. \<forall>i. r = Ok i \<longrightarrow> i \<in> j) E (psql ?rec)"
    unfolding psql_def
  proof (rule guided_atom)
    fix w w' r and H :: "int set"
    assume "sql ?rec w = (w', r)" "logged H w"
    from recorded [OF this(2,1)] show "logged H w'" by simp
  next
    fix w w' r
    assume "logged E w" "sql ?rec w = (w', r)"
    from recorded [OF this] show "\<exists>j. logged j w' \<and> (\<forall>i. r = Ok i \<longrightarrow> i \<in> j)"
      by (cases r) blast+
  qed
  have close: "guided logged (\<lambda>_ _. True) j (pcatch (close_steps L ins i) (\<lambda>_. pret ()))" if "i \<in> j" for i j
    by (rule guided_mono [OF guided_within_catch [OF guided_close [OF that]]]) (simp_all add: pret_def)
  have "guided logged (\<lambda>_ _. True) E (pbnd (psql ?rec) (\<lambda>i. if hb then pcatch (close_steps L ins i) (\<lambda>_. pret ())
      else pret ()))"
    by (rule guided_bnd [OF rec]) (auto intro!: close guided_keeps [OF pkeeps_pure(1)])
  then show ?thesis
    unfolding PanicClose act_steps_def by (simp add: guided_keeps [OF pkeeps_pure(1)])
next
  case (Disable reason since)
  then show ?thesis
    unfolding act_steps_def psql_def
    by (simp only: kill_switch_decision.case) (intro guided_keeps pkeeps_intro keeps_intro TrueI)
qed (simp add: act_steps_def pret_def)

lemma guided_evaluate: "guided logged (\<lambda>_ _. True) E (evaluate_steps L cfg ins hb)"
  unfolding evaluate_steps_def has_active_hard_trigger_def
  by (intro guided_stay guided_act TrueI pkeeps_intro keeps_intro events_are_blind)

lemma guided_fill_position: "guided logged (\<lambda>_ _. True) E (fill_position_steps L R f t out slv)"
proof -
  have "guided logged (\<lambda>_ _. True) E (trigger_steps L R slv)"
    unfolding trigger_steps_def
    by (auto intro!: guided_within_catch guided_evaluate simp: pret_def)
  then show ?thesis
    unfolding fill_position_steps_def by (intro guided_stay TrueI pkeeps_intro keeps_intro)
qed

lemma guided_fills: "guided logged (\<lambda>_ _. True) E (fills_steps L R)"
proof -
  have out: "guided logged (\<lambda>_ _. True) E (case out of None \<Rightarrow> p
     | Some x \<Rightarrow> (case fo_sleeve x of None \<Rightarrow> pret () | Some slv \<Rightarrow> fill_position_steps L R f t x slv))"
    if "guided logged (\<lambda>_ _. True) E p" for E out f t p
    using that by (auto split: option.split simp: pret_def guided_fill_position)
  have order: "pkeeps logged (atom (fill_order L f t))" for f t
    unfolding fill_order_def by (intro pkeeps_intro keeps_intro)
  have backfill: "pkeeps logged (backfill_steps f t)" for f t
    unfolding backfill_steps_def find_order_id_by_cli_ord_id_def by (intro pkeeps_intro keeps_intro events_are_blind)
  have retry: "guided logged (\<lambda>_ _. True) E (retry_steps L R f t)" for E f t
    unfolding retry_steps_def by (rule guided_stay [OF order out]) (simp_all add: pret_def)
  have "guided logged (\<lambda>_ _. True) E (if b then retry_steps L R f t else pret ())" for b E f t
    by (simp add: retry pret_def)
  then have "guided logged (\<lambda>_ _. True) E (pbnd (backfill_steps f t) (\<lambda>b. if b then retry_steps L R f t else pret ()))" for E f t
    by (intro guided_stay [OF backfill] TrueI)
  then have settle: "guided logged (\<lambda>_ _. True) E (settle_steps L R f t)" for E f t
    unfolding settle_steps_def by (intro guided_stay [OF order] out TrueI)
  have noted: "pkeeps logged (pbnd (psql (record_fill_applied fill_broker x t)) (\<lambda>_. atom (advance f)))" for x t f
    by (intro pkeeps_intro keeps_intro)
  have "guided logged (\<lambda>_ _. True) E (if seen then atom (advance f) else
       pbnd (settle_steps L R f t) (\<lambda>_.
       pbnd (psql (record_fill_applied fill_broker (fe_fill_id f) t)) (\<lambda>_. atom (advance f))))" for seen E f t
  proof (cases seen)
    case True
    then show ?thesis by (simp only: if_True) (intro guided_keeps pkeeps_intro keeps_intro TrueI)
  next
    case False
    show ?thesis
      unfolding if_not_P [OF False]
      by (rule guided_within_bnd [where G = "\<lambda>_. True", OF settle]) (simp add: guided_keeps noted)
  qed
  then have "guided logged (\<lambda>_ _. True) E (fill_steps L R f)" for E f
    unfolding fill_steps_def has_fill_been_applied_def
    by (intro guided_stay TrueI pkeeps_intro keeps_intro events_are_blind)
  then have "guided logged (\<lambda>_ _. True) E (pfor_each fs (fill_steps L R))" for E fs
    by (intro guided_within_for_each [where G = "\<lambda>_. True"] TrueI)
  then show ?thesis
    unfolding fills_steps_def
    by (intro guided_stay TrueI pkeeps_intro keeps_intro) (auto simp: pret_def)
qed

section \<open>The pool\<close>

lemma resolve_keeps:
  "hard_event i (resolve_event n t who d) = hard_event i d"
  "map ke_id (db_kill_events (resolve_event n t who d)) = map ke_id (db_kill_events d)"
  unfolding hard_event_def resolve_event_def
  by (simp_all add: update_where_ex) (rule update_where_map, simp)

interpretation events: pool_family D logged "{}" for D
proof
  show "logged {} w" if "w_db w = db_empty\<lparr> db_faults := fs \<rparr>" "w_sent w = []" for w fs
    using that by (simp add: logged_def db_empty_def)
  show "logged {} w" if "logged j w" for j w
    using that by (simp add: logged_def)
  show "guided logged (\<lambda>_ _. True) {} (tick_steps D t answer)" if "t \<noteq> FeedTask" for t answer
    using that by (cases t) (auto simp: tick_steps_def guided_evaluate guided_fills guided_keeps pkeeps_logged_poll
        intro!: guided_keeps pkeeps_bnd pkeeps_logged_periodic pkeeps_logged_snapshot pkeeps_pure)
  show "logged j w'" if "outside w w'" "logged j w" for w w' j
    using that by (induction rule: outside.induct)
      (simp_all add: logged_def resolve_keeps, simp_all add: hard_event_def)
  show "logged j (w\<lparr> w_applied_seq := 0 \<rparr>)" if "logged j w" for j w
    using that by (simp add: logged_def)
qed

end
