(* ===== verification/Overlap_Run.thy ===== *)
theory Overlap_Run
  imports Pool_Events Ledger_Properties
begin

text \<open>A concrete run of the pool.  The processor sends an order and waits for the answer; while it waits the
  whole order is filled and the fill reconciler books the fill; then the wait ends in a timeout.\<close>

section \<open>Up to the sending\<close>

text \<open>The order is out, its row is there, and no answer has come.\<close>
definition demo_sent :: world where
  "demo_sent = demo_cleared\<lparr> w_db := (w_db demo_cleared)\<lparr> db_orders :=
     [pending_row demo_lib 1 7 demo_order (iso_fixed 1200000000)] \<rparr>, w_sent := [demo_order] \<rparr>"

lemma advances_runs: "run p s = (s1, Ok a) \<Longrightarrow> advances (k a) s1 q s2 \<Longrightarrow> advances (pbnd p k) s q s2"
  by (rule advances_trans [OF advances_through])

lemma advances_catches: "run p s = (s1, Ok a) \<Longrightarrow> advances (k (Inr a)) s1 q s2 \<Longrightarrow> advances (pcatch p k) s q s2"
  by (rule advances_trans [OF advances_caught])

lemma sent_place: "advances (place_steps demo_lib demo_signal None demo_order) demo_cleared (await_steps demo_lib 7 1) demo_sent"
  unfolding place_steps_def option.case
proof (intro advances_runs)
  show "run (atom (now_iso demo_lib)) demo_cleared = (demo_cleared, Ok (iso_fixed 1200000000))"
    by (simp add: run_atom now_iso_def demo_cleared_def demo_world_def demo_start_def canonical_iso_def)
  show "run (psql (insert_pending_order (Some (sg_id demo_signal)) broker_tag (ins_symbol (or_instrument demo_order))
      (side_text (or_side demo_order)) (order_type_text (or_order_type demo_order)) (tif_text (or_time_in_force demo_order))
      (l_show demo_lib (or_quantity demo_order)) (map_option (l_show demo_lib) (or_limit_price demo_order)) None
      (iso_fixed 1200000000) (or_cli_ord_id demo_order))) demo_cleared = (demo_sent\<lparr> w_sent := [] \<rparr>, Ok 1)"
    by (simp add: run_sql insert_pending_order_def demo_cleared_def demo_world_def demo_start_def
      demo_order_def demo_signal_def demo_row_def db_empty_def signal_exists_def next_id_def sql_def
      lift_with_def stmt_def perp_instrument_def Let_def demo_sent_def pending_row_def)
  show "run (atom (send_order_out demo_order)) (demo_sent\<lparr> w_sent := [] \<rparr>) = (demo_sent, Ok ())"
    by (simp add: run_atom send_order_out_def demo_sent_def)
  show "advances (await_steps demo_lib (sg_id demo_signal) 1) demo_sent (await_steps demo_lib 7 1) demo_sent"
    by (simp add: demo_signal_def advances.stay)
qed

lemma sent_broker: "advances (broker_steps demo_lib demo_processor demo_signal demo_market pf) demo_cleared
    (await_steps demo_lib 7 1) demo_sent"
proof -
  have sg: "sg_sleeve demo_signal = CryptoLeverage" "sg_id demo_signal = 7" "sp_has_broker demo_processor"
    "sp_instruments demo_processor = registry_new"
    by (simp_all add: demo_signal_def demo_processor_def)
  have found: "run (reconcile_order_steps demo_lib 7) demo_cleared = (demo_cleared, Ok NoExistingOrder)"
    unfolding run_reconcile_order
    by (simp add: try_reconcile_uncertain_order_def pending_order_for_signal_def)
      (simp add: demo_cleared_def db_empty_def)
  have now: "run (atom clock) demo_cleared = (demo_cleared, Ok 1200000000)"
    by (simp add: run_atom clock_def demo_cleared_def demo_world_def demo_start_def)
  have build: "advances (build_steps demo_lib demo_processor demo_signal demo_market pf None) demo_cleared
      (await_steps demo_lib 7 1) demo_sent"
    unfolding build_steps_def
    by (rule advances_runs [OF now]) (simp add: sg demo_build sent_place)
  show ?thesis
    unfolding broker_steps_def sg
    by (simp add: advances_runs [OF found] build sg)
qed


lemma sent_checklist: "advances (checklist_steps demo_lib demo_processor demo_signal demo_market demo_portfolio)
    (demo_world\<lparr> w_db := loaded_db demo_lib 1200000000 (w_db demo_world) \<rparr>) (await_steps demo_lib 7 1) demo_sent"
proof -
  let ?w = "demo_world\<lparr> w_db := loaded_db demo_lib 1200000000 (w_db demo_world) \<rparr>"
  have now: "run (atom clock) ?w = (?w, Ok 1200000000)"
    by (simp add: run_atom clock_def demo_world_def demo_start_def)
  have rec: "run (psql (record_checklist_evaluation 7 (iso_fixed 1200000000) True
      (outcomes_json demo_lib (cr_outcomes demo_result)))) ?w = (demo_cleared, Ok ())"
    by (simp add: run_sql sql_def lift_with_def record_checklist_evaluation_def stmt_def loaded_db_def demo_world_def
        demo_start_def db_empty_def signal_exists_def demo_row_def demo_cleared_def next_id_def canonical_iso_def)
  have ev: "por_panic (evaluate standard_checks demo_lib \<lparr> cx_signal = demo_signal, cx_market = demo_market,
      cx_portfolio = demo_portfolio, cx_config = sp_risk demo_processor, cx_now = 1200000000 \<rparr>) = pret demo_result"
    using demo_evaluate by (simp add: demo_ctx_def demo_processor_def por_panic_def pret_def)
  have ids: "sg_id demo_signal = 7" "cr_approved demo_result = True" "cr_evaluated_at demo_result = 1200000000"
    "sp_mode demo_processor = Live"
    by (simp_all add: demo_signal_def demo_result_def demo_processor_def)
  show ?thesis
    unfolding checklist_steps_def
    by (rule advances_runs [OF now])
      (simp add: ev ids pret_def canonical_iso_def advances_runs [OF rec] approval_steps_def sent_broker)
qed

lemma sent_process: "advances (process_steps demo_lib demo_processor demo_row) demo_world (await_steps demo_lib 7 1) demo_sent"
proof -
  have now: "run (atom clock) demo_world = (demo_world, Ok 1200000000)"
    and feeds: "run (atom (gets w_feeds)) demo_world = (demo_world, Ok demo_feeds)"
    by (simp_all add: run_atom clock_def demo_world_def demo_start_def)
  have sg: "sg_instrument_symbol demo_signal = ''PI_XBTUSD''" "sg_metadata demo_signal = Some demo_metadata"
    "is_expired demo_signal t \<longleftrightarrow> False" for t
    by (simp_all add: demo_signal_def is_expired_def)
  have load: "run (load_steps demo_lib 1200000000) demo_world
      = (demo_world\<lparr> w_db := loaded_db demo_lib 1200000000 (w_db demo_world) \<rparr>, Ok demo_portfolio)"
    unfolding run_load using load_calm [OF demo_calm(1)] by (simp add: demo_loaded demo_world_def)
  have market: "por_panic (snapshot_for_signal demo_lib demo_feeds ''PI_XBTUSD'' (Some demo_metadata) 1200000000)
      = pret (Inr demo_market)"
    by (simp add: demo_snapshot por_panic_def pret_def)
  show ?thesis
    unfolding process_steps_def demo_row_signal sum.case
    by (rule advances_runs [OF now])
      (simp add: sg market pret_def advances_runs [OF feeds] advances_runs [OF now] advances_catches [OF load] sent_checklist)
qed

text \<open>What the processor still has to do then.\<close>
definition demo_waiting :: "unit dproc" where
  "demo_waiting = pbnd (pcatch (await_steps demo_lib 7 1) (\<lambda>_. pret ())) (\<lambda>_. pfor_each []
     (\<lambda>row. pcatch (process_steps demo_lib demo_processor row) (\<lambda>_. pret ())))"

lemma sent_poll: "advances (poll_steps demo_lib demo_processor) demo_world demo_waiting demo_sent"
proof -
  have now: "run (atom (now_iso demo_lib)) demo_world = (demo_world, Ok (iso_fixed 1200000000))"
    by (simp add: run_atom now_iso_def demo_world_def demo_start_def canonical_iso_def)
  have rows: "run (psql (pending_signals 64 t)) demo_world = (demo_world, Ok [demo_row])" for t
    by (simp add: run_sql pending_signals_def demo_world_def query_def stmt_def db_empty_def pollable_def demo_row_def
        sql_limit_def sql_def lift_with_def)
  have "advances (pfor_each [demo_row] (\<lambda>row. pcatch (process_steps demo_lib demo_processor row) (\<lambda>_. pret ())))
      demo_world demo_waiting demo_sent"
    unfolding demo_waiting_def pfor_each.simps(2) by (intro advances_bnd advances_catch sent_process)
  then show ?thesis
    unfolding poll_steps_def by (intro advances_runs [OF now] advances_runs [OF rows])
qed

section \<open>The fill in between\<close>

definition demo_fill :: fill_entry where
  "demo_fill = \<lparr> fe_instrument = ''PI_XBTUSD'', fe_time = 0, fe_price = 50000, fe_seq = 4, fe_buy = True,
     fe_qty = 500, fe_remaining_order_qty = None, fe_order_id = ''X1'', fe_fill_id = ''F7'',
     fe_fill_type = ''maker'', fe_fee_paid = 0, fe_fee_currency = ''BTC'', fe_cli_ord_id = Some (signal_cli 7),
     fe_order_type = None, fe_taker_order_type = None \<rparr>"

text \<open>The feed delivers the fill of the whole order.\<close>
definition demo_delivered :: world where
  "demo_delivered = demo_sent\<lparr> w_feeds := demo_feeds\<lparr> fd_fills :=
     \<lparr> fr_fills = [demo_fill], fr_capacity = 200, fr_highest_seq = 4, fr_is_synced = True \<rparr> \<rparr> \<rparr>"

definition demo_filled_row :: order_row where
  "demo_filled_row = (pending_row demo_lib 1 7 demo_order (iso_fixed 1200000000))\<lparr>
     od_broker_order_id := Some ''X1'', od_status := ''filled'', od_filled_quantity := show_dec 500,
     od_avg_fill_price := Some (show_dec 50000), od_fees_paid := show_dec 0, od_updated_at := iso_fixed 1200000000 \<rparr>"

definition demo_position :: position_row where
  "demo_position = \<lparr> pn_id = 1, pn_instrument_symbol = ''PI_XBTUSD'', pn_broker = broker_tag, pn_sleeve = lev,
     pn_quantity = show_dec 500, pn_avg_entry_price = show_dec 50000, pn_leverage = ''1'',
     pn_liquidation_price = None, pn_opened_at = iso_fixed 1200000000, pn_updated_at = iso_fixed 1200000000,
     pn_closed_at = None, pn_realized_pnl_chf = None, pn_realized_pnl_btc = Some ''0'' \<rparr>"

definition demo_booked :: world where
  "demo_booked = demo_delivered\<lparr> w_db := (w_db demo_sent)\<lparr> db_orders := [demo_filled_row],
     db_positions := [demo_position], db_applied := [\<lparr> af_broker = fill_broker, af_fill_id = ''F7'',
       af_applied_at = iso_fixed 1200000000 \<rparr>] \<rparr>, w_applied_seq := 4 \<rparr>"


lemma delivered_db: "w_db demo_delivered = db_empty\<lparr> db_signals := [demo_row],
     db_orders := [pending_row demo_lib 1 7 demo_order (iso_fixed 1200000000)],
     db_equity := [bootstrap_row (iso_fixed 1200000000)], db_checklists := db_checklists (w_db demo_cleared) \<rparr>"
  by (simp add: demo_delivered_def demo_sent_def demo_cleared_def)

lemma demo_order_text: "pending_row demo_lib 1 7 demo_order t = \<lparr> od_id = 1, od_signal_id = Some 7, od_broker = broker_tag,
     od_broker_order_id = None, od_instrument_symbol = ''PI_XBTUSD'', od_side = ''buy'', od_order_type = ''post_only'',
     od_time_in_force = ''gtc'', od_quantity = show_dec 500, od_limit_price = Some (show_dec 50000),
     od_stop_price = None, od_status = ''pending_submission'', od_filled_quantity = ''0'', od_avg_fill_price = None,
     od_fees_paid = ''0'', od_created_at = t, od_updated_at = t, od_error_message = None,
     od_cli_ord_id = Some (signal_cli 7) \<rparr>"
  by (simp add: pending_row_def demo_order_def perp_instrument_def Let_def)

text \<open>The order is found by its client id once the broker id is unknown.\<close>
definition demo_linked_db :: db where
  "demo_linked_db = (w_db demo_delivered)\<lparr> db_orders :=
     [(pending_row demo_lib 1 7 demo_order (iso_fixed 1200000000))\<lparr> od_broker_order_id := Some ''X1'', od_status := ''acknowledged'' \<rparr>] \<rparr>"

lemma booked_order:
  "\<exists>out. apply_fill_to_order demo_lib ''X1'' 500 50000 0 (iso_fixed 1200000000) demo_linked_db
     = (demo_linked_db\<lparr> db_orders := [demo_filled_row] \<rparr>, Ok (Some out)) \<and> fo_sleeve out = Some lev \<and>
     fo_instrument_symbol out = ''PI_XBTUSD'' \<and> fo_broker out = broker_tag \<and> fo_is_buy out"
  by (simp add: apply_fill_to_order_def transaction_def order_fill_body_def bnd_def query_def stmt_def
        demo_linked_db_def delivered_db order_with_sleeve_def demo_order_text demo_row_def side_is_buy_def parse_col_def
        parse_opt_col_def fill_average_def dec_ops write_fill_def update_order_def exec_def update_where_def
        Let_def db_empty_def lev_def parse_demo demo_filled_row_def)

lemma booked_position:
  "\<exists>out. apply_fill_to_position demo_lib ''PI_XBTUSD'' broker_tag lev True 500 50000 (iso_fixed 1200000000)
     (demo_linked_db\<lparr> db_orders := [demo_filled_row] \<rparr>)
     = (demo_linked_db\<lparr> db_orders := [demo_filled_row], db_positions := [demo_position] \<rparr>, Ok out)"
  by (simp add: apply_fill_to_position_def transaction_def position_fill_body_def bnd_def query_def stmt_def
        demo_linked_db_def delivered_db insert_position_def Let_def db_empty_def demo_position_def next_id_def
        signed_fill_def lev_def)


lemma booked_loaded: "\<exists>pf. loaded demo_lib 1200000000 (demo_linked_db\<lparr> db_orders := [demo_filled_row], db_positions := [demo_position] \<rparr>) = Inr pf \<and>
    leverage_effective_pnl demo_lib pf = Some 0 \<and> \<not> pf_kill_switch_active pf \<and> leverage_realized_pnl pf = 0 \<and>
    drawdown_fraction demo_lib pf = Some 0"
  by (simp add: loaded_def leverage_rows_def demo_position_def lev_def demo_linked_db_def delivered_db db_empty_def
      position_summary_def materialise_def snapshot_decimal_def latest_row_def bootstrap_row_def parse_demo
      leverage_effective_pnl_def leverage_realized_pnl_def leverage_unrealized_pnl_def find_sleeve_def dec_ops
      drawdown_fraction_def)

lemma booked_quiet:
  assumes "w_db w = demo_linked_db\<lparr> db_orders := [demo_filled_row], db_positions := [demo_position] \<rparr>" "w_now w = 1200000000"
  shows "evaluate_kill_switch_once demo_lib risk_config_default registry_new True w = (w, Ok ())"
proof -
  have c: "calm w" using assms(1) by (simp add: calm_def demo_linked_db_def delivered_db)
  obtain pf where pf: "loaded demo_lib 1200000000 (w_db w) = Inr pf" "leverage_effective_pnl demo_lib pf = Some 0"
    "\<not> pf_kill_switch_active pf" "leverage_realized_pnl pf = 0" "drawdown_fraction demo_lib pf = Some 0"
    using booked_loaded assms(1) by auto
  have "ks_evaluate demo_lib pf risk_config_default 1200000000 = Some NoChange"
    using pf by (simp add: ks_evaluate_def risk_config_default_def)
  moreover have "loaded_db demo_lib 1200000000 (w_db w) = w_db w"
    by (simp add: loaded_db_def assms(1) demo_linked_db_def delivered_db)
  ultimately show ?thesis
    using iteration_calm [OF c, of demo_lib pf] pf(1) assms(2) by (simp add: act_on_def)
qed

text \<open>The order half of the fill is booked and the position half is still to come.\<close>
definition half_booked :: world where
  "half_booked = demo_delivered\<lparr> w_db := demo_linked_db\<lparr> db_orders := [demo_filled_row] \<rparr> \<rparr>"

lemma booked_halves:
  "fill_order demo_lib demo_fill (iso_fixed 1200000000) demo_delivered = (demo_delivered, Ok None)"
  "try_backfill demo_fill (iso_fixed 1200000000) demo_delivered = (demo_delivered\<lparr> w_db := demo_linked_db \<rparr>, Ok True)"
  "\<exists>out. fill_order demo_lib demo_fill (iso_fixed 1200000000) (demo_delivered\<lparr> w_db := demo_linked_db \<rparr>)
     = (half_booked, Ok (Some out)) \<and> fo_sleeve out = Some lev \<and> fo_instrument_symbol out = ''PI_XBTUSD'' \<and>
     fo_broker out = broker_tag \<and> fo_is_buy out"
proof -
  have f: "fe_order_id demo_fill = ''X1''" "fe_qty demo_fill = 500" "fe_price demo_fill = 50000"
    "fe_fee_paid demo_fill = 0" "fe_cli_ord_id demo_fill = Some (signal_cli 7)"
    by (simp_all add: demo_fill_def)
  have "apply_fill_to_order demo_lib ''X1'' 500 50000 0 (iso_fixed 1200000000) (w_db demo_delivered)
      = (w_db demo_delivered, Ok None)"
    by (simp add: apply_fill_to_order_def transaction_def order_fill_body_def bnd_def query_def stmt_def delivered_db
        order_with_sleeve_def demo_order_text db_empty_def)
  then show "fill_order demo_lib demo_fill (iso_fixed 1200000000) demo_delivered = (demo_delivered, Ok None)"
    unfolding fill_order_def f using sql_run [of _ demo_delivered "w_db demo_delivered"] by simp
  show "try_backfill demo_fill (iso_fixed 1200000000) demo_delivered = (demo_delivered\<lparr> w_db := demo_linked_db \<rparr>, Ok True)"
    by (simp add: try_backfill_def f catch_def find_order_id_by_cli_ord_id_def backfill_broker_order_id_def update_order_def
        calm_def delivered_db fill_broker_def broker_tag_def demo_order_text update_where_def demo_linked_db_def)
  show "\<exists>out. fill_order demo_lib demo_fill (iso_fixed 1200000000) (demo_delivered\<lparr> w_db := demo_linked_db \<rparr>)
     = (half_booked, Ok (Some out)) \<and> fo_sleeve out = Some lev \<and> fo_instrument_symbol out = ''PI_XBTUSD'' \<and>
     fo_broker out = broker_tag \<and> fo_is_buy out"
    using booked_order unfolding fill_order_def f half_booked_def by (auto simp: sql_Ok)
qed

lemma booked_settle:
  "settle_fill demo_lib sample_reconciler demo_fill (iso_fixed 1200000000) demo_delivered
     = (demo_delivered\<lparr> w_db := demo_linked_db\<lparr> db_orders := [demo_filled_row], db_positions := [demo_position] \<rparr> \<rparr>, Ok ())"
proof -
  let ?w3 = "demo_delivered\<lparr> w_db := demo_linked_db\<lparr> db_orders := [demo_filled_row], db_positions := [demo_position] \<rparr> \<rparr>"
  have f: "fe_qty demo_fill = 500" "fe_price demo_fill = 50000" by (simp_all add: demo_fill_def)
  obtain out where third: "fill_order demo_lib demo_fill (iso_fixed 1200000000) (demo_delivered\<lparr> w_db := demo_linked_db \<rparr>)
      = (half_booked, Ok (Some out))"
    and out: "fo_sleeve out = Some lev" "fo_instrument_symbol out = ''PI_XBTUSD''" "fo_broker out = broker_tag" "fo_is_buy out"
    using booked_halves(3) by blast
  obtain o2 where "sql (apply_fill_to_position demo_lib ''PI_XBTUSD'' broker_tag lev True 500 50000 (iso_fixed 1200000000))
      half_booked = (?w3, Ok o2)"
    using booked_position by (auto simp: sql_Ok half_booked_def)
  moreover have "evaluate_kill_switch_once demo_lib risk_config_default registry_new True ?w3 = (?w3, Ok ())"
    by (rule booked_quiet) (simp_all add: demo_delivered_def demo_sent_def demo_cleared_def demo_world_def demo_start_def)
  ultimately have fourth: "fill_position demo_lib sample_reconciler demo_fill (iso_fixed 1200000000) out lev half_booked
      = (?w3, Ok ())"
    by (simp add: fill_position_def out f bnd_def trigger_kill_switch_def whenM_def lev_def sample_reconciler_def catch_def)
  show ?thesis
    by (simp add: settle_fill_def retry_fill_def bnd_def booked_halves(1,2) third out fourth)
qed

lemma booked_steps: "\<exists>p. advances (fills_steps demo_lib sample_reconciler) demo_delivered p half_booked"
proof -
  let ?ring = "\<lparr> fr_fills = [demo_fill], fr_capacity = 200, fr_highest_seq = 4, fr_is_synced = True \<rparr>"
  obtain out where third: "run (atom (fill_order demo_lib demo_fill (iso_fixed 1200000000)))
      (demo_delivered\<lparr> w_db := demo_linked_db \<rparr>) = (half_booked, Ok (Some out))"
    using booked_halves(3) by (auto simp: run_atom)
  have d: "w_now demo_delivered = 1200000000" "fd_fills (w_feeds demo_delivered) = ?ring" "w_applied_seq demo_delivered = 0"
    "db_applied (w_db demo_delivered) = []" "calm demo_delivered" "fe_seq demo_fill = 4"
    by (simp_all add: demo_delivered_def demo_sent_def demo_cleared_def demo_world_def demo_start_def calm_def
        no_faults_def db_empty_def demo_fill_def)
  have ring: "run (atom (gets (\<lambda>w. (fd_fills (w_feeds w), w_applied_seq w)))) demo_delivered = (demo_delivered, Ok (?ring, 0))"
    by (simp add: run_atom d)
  have now: "run (atom (now_iso demo_lib)) demo_delivered = (demo_delivered, Ok (iso_fixed 1200000000))"
    by (simp add: run_atom now_iso_def d canonical_iso_def)
  have new: "run (psql (has_fill_been_applied fill_broker (fe_fill_id demo_fill))) demo_delivered = (demo_delivered, Ok False)"
    by (simp add: run_sql has_fill_been_applied_def d)
  have first: "run (atom (fill_order demo_lib demo_fill (iso_fixed 1200000000))) demo_delivered = (demo_delivered, Ok None)"
    by (simp add: run_atom booked_halves(1))
  have second: "run (backfill_steps demo_fill (iso_fixed 1200000000)) demo_delivered
      = (demo_delivered\<lparr> w_db := demo_linked_db \<rparr>, Ok True)"
    by (simp add: run_backfill booked_halves(2))
  have settle: "\<exists>p. advances (settle_steps demo_lib sample_reconciler demo_fill (iso_fixed 1200000000)) demo_delivered p half_booked"
    unfolding settle_steps_def retry_steps_def
    by (intro exI, rule advances_runs [OF first], simp, rule advances_runs [OF second], simp,
        rule advances_runs [OF third], rule advances.stay)
  then obtain p where p: "advances (settle_steps demo_lib sample_reconciler demo_fill (iso_fixed 1200000000)) demo_delivered p half_booked"
    by blast
  have "\<exists>p. advances (fill_steps demo_lib sample_reconciler demo_fill) demo_delivered p half_booked"
    unfolding fill_steps_def
    by (intro exI, rule advances_runs [OF now], rule advances_runs [OF new]) (simp, rule advances_bnd [OF p])
  then obtain p' where "advances (fill_steps demo_lib sample_reconciler demo_fill) demo_delivered p' half_booked" by blast
  then have all: "advances (pfor_each [demo_fill] (fill_steps demo_lib sample_reconciler)) demo_delivered
      (pbnd p' (\<lambda>_. pfor_each [] (fill_steps demo_lib sample_reconciler))) half_booked"
    unfolding pfor_each.simps(2) by (rule advances_bnd)
  show ?thesis
    unfolding fills_steps_def by (intro exI, rule advances_runs [OF ring]) (use all in \<open>simp add: d(6)\<close>)
qed

lemma booked_fills: "reconcile_once demo_lib sample_reconciler demo_delivered = (demo_booked, Ok ())"
proof -
  have f: "fe_fill_id demo_fill = ''F7''" "fe_seq demo_fill = 4" by (simp_all add: demo_fill_def)
  have due: "due_fills demo_delivered = [demo_fill]"
    by (simp add: due_fills_def demo_delivered_def demo_sent_def demo_cleared_def demo_world_def demo_start_def f)
  have c: "calm demo_delivered" by (simp add: calm_def delivered_db)
  have now: "w_now demo_delivered = 1200000000"
    by (simp add: demo_delivered_def demo_sent_def demo_cleared_def demo_world_def demo_start_def)
  have "reconcile_fill demo_lib sample_reconciler demo_fill demo_delivered = (demo_booked, Ok ())"
    using c booked_settle
    by (simp add: reconcile_fill_def has_fill_been_applied_def f now canonical_iso_def
        bnd_def [of "settle_fill _ _ _ _"])
      (simp add: delivered_db db_empty_def demo_linked_db_def bnd_def record_fill_applied_def advance_def f calm_def
        demo_booked_def demo_delivered_def demo_sent_def demo_cleared_def demo_world_def demo_start_def no_faults_def)
  then show ?thesis by (simp add: reconcile_due due)
qed

section \<open>In the pool\<close>

lemma demo_build_at: "build_kraken_futures_order demo_lib demo_signal demo_market pf registry_new now
    = Inr (demo_order\<lparr> or_created_at := now, or_updated_at := now \<rparr>)"
  by (simp add: build_kraken_futures_order_def demo_signal_def demo_market_def demo_order_def best_bid_def
      dec_ops max_contracts_per_order_def)

definition waiting_threads :: threads where
  "waiting_threads = idle_threads(ProcessorTask := Some demo_waiting)"

lemma sent_in_pool:
  assumes D: "dm_lib D = demo_lib" "dm_processor D = demo_processor"
  shows "pool_reachable D (waiting_threads, demo_sent)"
proof -
  let ?T = "idle_threads(ProcessorTask := Some (poll_steps demo_lib demo_processor))"
  have "pool_reachable D (idle_threads, demo_world)" by (rule reachable_in_pool [OF demo_world_reachable])
  moreover have "pool_step D (idle_threads, demo_world) (?T, demo_world)"
    using pool_step.wake [of idle_threads ProcessorTask D demo_world] by (simp add: tick_steps_def D idle_threads_def)
  ultimately have "pool_reachable D (?T, demo_world)" by (rule pool_reachable.step)
  then have "pool_reachable D (?T(ProcessorTask := Some demo_waiting), demo_sent)"
    by (rule pool_advances [OF sent_poll, rotated]) simp
  then show ?thesis by (simp add: waiting_threads_def)
qed

lemma delivered_in_pool:
  assumes D: "dm_lib D = demo_lib" "dm_processor D = demo_processor"
  shows "pool_reachable D (waiting_threads, demo_delivered)"
proof -
  have "outside demo_sent demo_delivered"
    using outside.environment [where w = demo_sent and now = "w_now demo_sent" and fd = "w_feeds demo_delivered"
        and a = "w_submits demo_sent" and b = "w_lookups demo_sent" and c = "w_listings demo_sent"
        and fs = "db_faults (w_db demo_sent)"]
    by (simp add: demo_delivered_def)
  then show ?thesis by (rule pool_reachable.step [OF sent_in_pool [OF D] pool_step.outer])
qed

text \<open>The run of this theory, in the pool.\<close>
lemma overlap_in_pool:
  assumes D: "dm_lib D = demo_lib" "dm_processor D = demo_processor" "dm_reconciler D = sample_reconciler"
  shows "\<exists>T. pool_reachable D (T, demo_booked) \<and> T ProcessorTask = Some demo_waiting \<and>
     (\<forall>t. t \<noteq> ProcessorTask \<longrightarrow> T t = None)"
proof -
  have "pool_reachable D (waiting_threads, demo_booked)"
    by (rule pool_tick [OF delivered_in_pool [OF D(1,2)], where t = FillTask])
      (simp_all add: waiting_threads_def idle_threads_def tick_steps_def D run_fills booked_fills)
  then show ?thesis
    by (rule exI [of _ waiting_threads, OF conjI]) (simp add: waiting_threads_def idle_threads_def)
qed

lemma demo_parts: "dm_lib demo_daemon = demo_lib" "dm_processor demo_daemon = demo_processor"
  "dm_reconciler demo_daemon = sample_reconciler"
  by (simp_all add: demo_daemon_def sample_reconciler_def)

text \<open>The process stops between the halves of the fill, and while it waits for the broker.\<close>
lemma stopped_in_pool:
  "pool_reachable demo_daemon (idle_threads, half_booked)" "pool_reachable demo_daemon (idle_threads, demo_sent)"
proof -
  have stop: "w\<lparr> w_applied_seq := 0 \<rparr> = w" if "w_applied_seq w = 0" for w :: world using that by simp
  have seq: "w_applied_seq half_booked = 0" "w_applied_seq demo_sent = 0"
    by (simp_all add: half_booked_def demo_delivered_def demo_sent_def demo_cleared_def demo_world_def demo_start_def)
  obtain p where p: "advances (fills_steps demo_lib sample_reconciler) demo_delivered p half_booked"
    using booked_steps by blast
  let ?T = "waiting_threads(FillTask := Some (fills_steps demo_lib sample_reconciler))"
  have "pool_step demo_daemon (waiting_threads, demo_delivered) (?T, demo_delivered)"
    using pool_step.wake [of waiting_threads FillTask demo_daemon demo_delivered]
    by (simp add: tick_steps_def demo_parts waiting_threads_def idle_threads_def)
  then have "pool_reachable demo_daemon (?T, demo_delivered)"
    by (rule pool_reachable.step [OF delivered_in_pool [OF demo_parts(1,2)]])
  then have "pool_reachable demo_daemon (?T(FillTask := Some p), half_booked)"
    by (rule pool_advances [OF p, rotated]) simp
  then show "pool_reachable demo_daemon (idle_threads, half_booked)"
    using pool_reachable.step [OF _ pool_step.crash] stop [OF seq(1)] by metis
  show "pool_reachable demo_daemon (idle_threads, demo_sent)"
    using pool_reachable.step [OF sent_in_pool [OF demo_parts(1,2)] pool_step.crash] stop [OF seq(2)] by metis
qed

end
