(* ===== verification/Races.thy ===== *)
theory Races
  imports Overlap_Run Supervision_Properties
begin

text \<open>What the interleaving of the tasks breaks and what it does not: an answer that comes after the order was
  filled, two evaluations of the kill switch at a time; and that every closing order is on record all the
  same.\<close>

section \<open>A late answer\<close>

lemma await_late:
  assumes "calm w" "w_submits w = (t, Inl e) # rest" "is_uncertain_error e"
  shows "run (await_steps L i n) w = (w\<lparr> w_submits := rest, w_now := w_now w + int t,
      w_db := (w_db w)\<lparr> db_orders := update_where (\<lambda>r. od_id r = n) (\<lambda>r. r\<lparr> od_status := ''uncertain'',
          od_error_message := Some (exec_error_text e), od_updated_at := canonical_iso L (w_now w + int t) \<rparr>)
          (db_orders (w_db w)),
        db_signals := update_where (\<lambda>s. sr_id s = i) (\<lambda>s. s\<lparr> sr_retry_after_at :=
          Some (canonical_iso L (w_now w + int t + seconds 90)) \<rparr>) (db_signals (w_db w)) \<rparr> \<rparr>, Ok ())"
proof -
  let ?v = "w\<lparr> w_submits := rest, w_now := w_now w + int t \<rparr>"
  have c: "calm ?v" using assms(1) by (simp add: calm_def)
  have "receive_answer w = (?v, Ok (Inl e))" using assms(2) by (simp add: receive_answer_def next_answer_def)
  then have "run (await_steps L i n) w = after_submit L i n (Inl e) (canonical_iso L (w_now w + int t)) ?v"
    by (simp add: await_steps_def solo_simps bnd_def [of receive_answer])
  then show ?thesis
    using c assms(1) [unfolded calm_def no_faults_def] assms(3)
    by (simp add: after_submit_def mark_order_uncertain_def update_order_def set_cooldown_def set_signal_retry_after_def
        update_signal_def calm_def no_faults_def del: exec_error_text.simps)
qed

text \<open>An order that is sent again has its row already.\<close>
lemma place_again: "w_sent (fst (place_order L sg (Some n) o' w)) = w_sent w @ [o']"
proof -
  obtain t q script where a: "next_answer (w_submits w) = ((t, q), script)"
    by (cases "next_answer (w_submits w)") auto
  let ?w = "w\<lparr> w_submits := script, w_sent := w_sent w @ [o'], w_now := w_now w + int t \<rparr>"
  have sub: "submit_order o' w = (?w, Ok q)" using a by (simp add: submit_order_def)
  have run: "place_order L sg (Some n) o' w = after_submit L (sg_id sg) n q (canonical_iso L (w_now ?w)) ?w"
    by (simp add: place_order_def bnd_eq [of "submit_order o'", OF sub])
  have "w_sent (fst (after_submit L (sg_id sg) n q (canonical_iso L (w_now ?w)) ?w)) = w_sent ?w"
    by (rule kept_sent [OF keeps_sent_after prod.collapse [symmetric]])
  then show ?thesis unfolding run by simp
qed

text \<open>C14. A late timeout undoes a fill.  While the processor waits for the broker, another task may book the fill
  of its order.  When the wait then ends in a timeout, the row of the order, though filled, is uncertain
  again, with all its quantity filled, and its signal waits for another attempt; at the next attempt a broker
  that no longer lists the order, because it is done, makes the processor send it a second time.  (Only the
  checklist stands in between: it stops the attempt where the first order left a position on the signal's
  side, and then the signal of a filled order ends up rejected.)\<close>
theorem late_timeout_trades_again:
  assumes "calm w" "w_submits w = (t, Inl e) # rest" "is_uncertain_error e"
    and "filter (\<lambda>r. od_signal_id r = Some (sg_id sg)) (db_orders (w_db w)) = [row]" "od_id row = n"
    and "od_cli_ord_id row = Some (signal_cli (sg_id sg))"
    and "run (await_steps L (sg_id sg) n) w = (w1, r)"
    and "w_db v = w_db w1" "w_lookups v = (t', Inr None) # later" "sg_sleeve sg = CryptoLeverage" "sp_has_broker P"
    and "build_kraken_futures_order L sg m pf (sp_instruments P) (w_now v + int t') = Inr o'"
  shows "r = Ok () \<and> w_sent w1 = w_sent w \<and>
     (\<exists>row'. filter (\<lambda>r. od_signal_id r = Some (sg_id sg)) (db_orders (w_db w1)) = [row'] \<and> od_id row' = n \<and>
        od_status row' = ''uncertain'' \<and> od_quantity row' = od_quantity row \<and>
        od_filled_quantity row' = od_filled_quantity row) \<and>
     map sr_status (db_signals (w_db w1)) = map sr_status (db_signals (w_db w)) \<and>
     w_sent (fst (run (broker_steps L P sg m pf) v)) = w_sent v @ [o']"
proof -
  let ?f = "\<lambda>r. r\<lparr> od_status := ''uncertain'', od_error_message := Some (exec_error_text e),
     od_updated_at := canonical_iso L (w_now w + int t) \<rparr>"
  note run1 = assms(7) [unfolded await_late [OF assms(1-3)]]
  have r: "r = Ok ()" "w_sent w1 = w_sent w" using run1 by auto
  have orders: "db_orders (w_db w1) = update_where (\<lambda>r. od_id r = n) ?f (db_orders (w_db w))"
    and signals: "map sr_status (db_signals (w_db w1)) = map sr_status (db_signals (w_db w))"
    and calm1: "no_faults (w_db w1)"
    using run1 assms(1) by (auto simp: calm_def no_faults_def update_where_def)
  have filt: "filter (\<lambda>r. od_signal_id r = Some (sg_id sg)) (update_where (\<lambda>r. od_id r = n) ?f rs)
      = update_where (\<lambda>r. od_id r = n) ?f (filter (\<lambda>r. od_signal_id r = Some (sg_id sg)) rs)" for rs
    by (induction rs) (auto simp: update_where_def)
  have row1: "filter (\<lambda>r. od_signal_id r = Some (sg_id sg)) (db_orders (w_db w1)) = [?f row]"
    unfolding orders filt assms(4) update_where_single using assms(5) by simp
  have "find (\<lambda>r. od_signal_id r = Some (sg_id sg) \<and> od_status r \<in> set pending_statuses) (rev (db_orders (w_db w1)))
      = Some (?f row)"
  proof (rule find_rev_one)
    have "filter (\<lambda>r. od_signal_id r = Some (sg_id sg) \<and> od_status r \<in> set pending_statuses) (db_orders (w_db w1))
        = filter (\<lambda>r. od_status r \<in> set pending_statuses)
            (filter (\<lambda>r. od_signal_id r = Some (sg_id sg)) (db_orders (w_db w1)))"
      by (simp add: conj_commute)
    then show "filter (\<lambda>r. od_signal_id r = Some (sg_id sg) \<and> od_status r \<in> set pending_statuses) (db_orders (w_db w1))
        = [?f row]" unfolding row1 by (simp add: pending_statuses_def)
  qed
  then have "open_row_of (sg_id sg) (w_db v) = Some (?f row)" by (simp add: open_row_of_def assms(8))
  moreover have c: "calm v" using calm1 by (simp add: calm_def assms(8))
  ultimately have "run (broker_steps L P sg m pf) v = build_and_place L P sg m pf (Some n)
      (v\<lparr> w_lookups := later, w_now := w_now v + int t' \<rparr>)"
    using assms(5,6,9-11)
    by (simp add: run_broker submit_via_broker_def try_reconcile_uncertain_order_def bnd_assoc pending_calm [OF c]
        settled_statuses_def reconcile_uncertain_def)
      (simp add: bnd_def get_order_by_cli_ord_id_def next_answer_def)
  also have "\<dots> = place_order L sg (Some n) o' (v\<lparr> w_lookups := later, w_now := w_now v + int t' \<rparr>)"
    using assms(12) by (simp add: build_and_place_def)
  finally have again: "w_sent (fst (run (broker_steps L P sg m pf) v)) = w_sent v @ [o']"
    by (simp add: place_again)
  show ?thesis
    using r signals row1 again assms(5) by simp
qed

text \<open>The order of the signal is filled and its position open, yet its row ends up uncertain and the order goes out
  again.\<close>
theorem late_timeout_trades_again_witness:
  "\<exists>T w1 o'. pool_reachable demo_daemon (T, w1) \<and> w_sent w1 = [demo_order] \<and>
     map (\<lambda>r. (od_status r, od_filled_quantity r = od_quantity r)) (db_orders (w_db w1)) = [(''uncertain'', True)] \<and>
     map pn_quantity (db_positions (w_db w1)) = [show_dec 500] \<and>
     w_sent (fst (run (broker_steps demo_lib demo_processor demo_signal demo_market demo_portfolio)
       (w1\<lparr> w_lookups := [(5, Inr None)] \<rparr>))) = [demo_order, o'] \<and> or_cli_ord_id o' = or_cli_ord_id demo_order"
proof -
  obtain T where T: "pool_reachable demo_daemon (T, demo_booked)" "T ProcessorTask = Some demo_waiting"
    using overlap_in_pool [OF demo_parts] by blast
  have w: "calm demo_booked" "w_submits demo_booked = [(2000000000, Inl (ETimeout 10))]" "is_uncertain_error (ETimeout 10)"
    "sg_id demo_signal = 7" "w_sent demo_booked = [demo_order]"
    by (simp_all add: demo_booked_def demo_delivered_def demo_sent_def demo_cleared_def demo_world_def demo_start_def
        calm_def no_faults_def db_empty_def is_uncertain_error_def demo_signal_def)
  have row: "filter (\<lambda>r. od_signal_id r = Some 7) (db_orders (w_db demo_booked)) = [demo_filled_row]" "od_id demo_filled_row = 1"
    "od_cli_ord_id demo_filled_row = Some (signal_cli 7)" "db_orders (w_db demo_booked) = [demo_filled_row]"
    "od_quantity demo_filled_row = od_filled_quantity demo_filled_row"
    by (simp_all add: demo_booked_def demo_filled_row_def demo_order_text)
  obtain w1 r where run: "run (await_steps demo_lib 7 1) demo_booked = (w1, r)"
    by (cases "run (await_steps demo_lib 7 1) demo_booked")
  have w1: "db_positions (w_db w1) = db_positions (w_db demo_booked)" "w_now w1 = 3200000000"
    "map od_signal_id (db_orders (w_db w1)) = [Some 7]"
    using run unfolding await_late [OF w(1-3)]
    by (auto simp: demo_booked_def demo_delivered_def demo_sent_def demo_cleared_def demo_world_def demo_start_def
        update_where_def demo_filled_row_def demo_order_text)
  let ?v = "w1\<lparr> w_lookups := [(5, Inr None)] \<rparr>"
  have sp: "sg_sleeve demo_signal = CryptoLeverage" "sp_has_broker demo_processor" "sp_instruments demo_processor = registry_new"
    by (simp_all add: demo_signal_def demo_processor_def)
  have build: "build_kraken_futures_order demo_lib demo_signal demo_market demo_portfolio (sp_instruments demo_processor)
      (w_now ?v + int 5) = Inr (demo_order\<lparr> or_created_at := w_now ?v + int 5, or_updated_at := w_now ?v + int 5 \<rparr>)"
    unfolding sp(3) by (rule demo_build_at)
  have "w_db ?v = w_db w1" "w_lookups ?v = [(5, Inr None)]" by simp_all
  note late = late_timeout_trades_again [OF w(1-3) row(1-3) [folded w(4)] run [folded w(4)] this sp(1,2) build,
      unfolded w(4,5)]
  have ended: "r = Ok ()" "w_sent w1 = [demo_order]"
    and rows: "\<exists>row'. filter (\<lambda>r. od_signal_id r = Some 7) (db_orders (w_db w1)) = [row'] \<and> od_status row' = ''uncertain'' \<and>
      od_quantity row' = od_quantity demo_filled_row \<and> od_filled_quantity row' = od_filled_quantity demo_filled_row"
    and again: "w_sent (fst (run (broker_steps demo_lib demo_processor demo_signal demo_market demo_portfolio) ?v))
      = [demo_order, demo_order\<lparr> or_created_at := w_now ?v + int 5, or_updated_at := w_now ?v + int 5 \<rparr>]"
    using late by (blast, simp, blast, simp)
  have "pool_reachable demo_daemon (T(ProcessorTask := Some (Done (Ok ()))), w1)"
  proof (rule pool_advances [OF advances_run T(2) T(1)])
    show "run demo_waiting demo_booked = (w1, Ok ())"
      using run ended(1) by (simp add: demo_waiting_def solo_simps bnd_def catch_def)
  qed
  moreover have "map (\<lambda>r. (od_status r, od_filled_quantity r = od_quantity r)) (db_orders (w_db w1)) = [(''uncertain'', True)]"
    using rows w1(3) row(5) by (cases "db_orders (w_db w1)") auto
  moreover have "map pn_quantity (db_positions (w_db w1)) = [show_dec 500]"
    by (simp add: w1(1) demo_booked_def demo_position_def)
  ultimately show ?thesis
    using ended(2) again
    by (intro exI [of _ "T(ProcessorTask := Some (Done (Ok ())))"] exI [of _ w1] exI [of _ "demo_order\<lparr>
        or_created_at := w_now ?v + int 5, or_updated_at := w_now ?v + int 5 \<rparr>"] conjI) (assumption | simp)+
qed


section \<open>Two evaluations at a time\<close>

text \<open>C16. The guard against a second panic-close is not atomic.  An evaluation reads whether a hard event is open
  before it records its own, and the supervisor and the fill reconciler both evaluate.  When one evaluation
  runs between this reading and this recording of another, both record a hard event and both send a closing
  order for every open leverage position: each position is closed twice, and only the reduce-only flag of
  the orders, which is the exchange's to honour, keeps the second close from reversing it.\<close>
theorem overlapping_panic_closes:
  assumes "calm w" "loaded L (w_now w) (w_db w) = Inr pf" "leverage_effective_pnl L pf = Some e"
    and "e \<le> rc_kill_switch_effective_threshold_chf cfg" "\<not> hard_unresolved (w_db w)"
  shows "\<exists>p w1 w2 w3 e1 e2 os1 os2. advances (evaluate_steps L cfg ins True) w p w1 \<and> w_sent w1 = w_sent w \<and>
     run (evaluate_steps L cfg ins True) w1 = (w2, Ok ()) \<and> run p w2 = (w3, Ok ()) \<and>
     db_kill_events (w_db w3) = db_kill_events (w_db w) @ [e1, e2] \<and>
     ke_reason_kind e1 = hard_kind \<and> ke_reason_kind e2 = hard_kind \<and>
     w_sent w3 = w_sent w @ os1 @ os2 \<and>
     closes L os1 (leverage_rows L (w_db w)) \<and> closes L os2 (leverage_rows L (w_db w)) \<and>
     (\<forall>o' \<in> set (os1 @ os2). or_reduce_only o' = Some True)"
proof -
  let ?w1 = "w\<lparr> w_db := loaded_db L (w_now w) (w_db w) \<rparr>"
  let ?p = "pbnd (por_panic (ks_evaluate L pf cfg (w_now w))) (act_steps L ins True pf False)"
  obtain reason since where ks: "ks_evaluate L pf cfg (w_now w) = Some (PanicClose reason since)"
    using assms(3,4) by (simp add: ks_evaluate_def)
  have c1: "calm ?w1" "\<not> hard_unresolved (w_db ?w1)" "leverage_rows L (w_db ?w1) = leverage_rows L (w_db w)"
    using assms(1,5) by (simp_all add: calm_def hard_unresolved_def leverage_rows_def)
  have clock: "run (atom clock) w = (w, Ok (w_now w))" by (simp add: run_atom clock_def)
  have load: "run (load_steps L (w_now w)) w = (?w1, Ok pf)" by (simp add: run_load load_calm [OF assms(1)] assms(2))
  have ask: "run (psql has_active_hard_trigger) ?w1 = (?w1, Ok False)"
    using c1(1,2) by (simp add: run_sql has_active_hard_trigger_def hard_unresolved_def)
  have adv: "advances (evaluate_steps L cfg ins True) w ?p ?w1"
    unfolding evaluate_steps_def
    by (rule advances_runs [OF clock], rule advances_runs [OF load], rule advances_runs [OF ask]) (rule advances.stay)
  have l1: "loaded L (w_now ?w1) (w_db ?w1) = Inr pf" by (simp add: loaded_again assms(2))
  obtain w2 os1 e1 where second: "evaluate_kill_switch_once L cfg ins True ?w1 = (w2, Ok ())" "calm w2"
    "db_kill_events (w_db w2) = db_kill_events (w_db w) @ [e1]" "ke_reason_kind e1 = hard_kind"
    "leverage_rows L (w_db w2) = leverage_rows L (w_db w)" "w_sent w2 = w_sent w @ os1"
    "closes L os1 (leverage_rows L (w_db w))"
    using hard_trigger_run [OF c1(1) l1 assms(3,4) c1(2), of ins] c1(3) by auto
  obtain w3 os2 e2 where first: "act_on L ins True pf False (PanicClose reason since) w2 = (w3, Ok ())"
    "db_kill_events (w_db w3) = db_kill_events (w_db w2) @ [e2]" "ke_reason_kind e2 = hard_kind"
    "w_sent w3 = w_sent w2 @ os2" "closes L os2 (leverage_rows L (w_db w2))"
    using panic_act_run [OF second(2), of L ins pf reason since] loaded_readable [OF assms(2)] second(5) by auto
  have only: "\<forall>o' \<in> set os. or_reduce_only o' = Some True" if "closes L os ps" for os ps
    using that unfolding closes_def
    by (auto simp: list_all2_conv_all_nth in_set_conv_nth flattens_def)
  have "run ?p w2 = (w3, Ok ())" using first(1) by (simp add: solo_simps ks)
  then show ?thesis
    using adv second first only by (intro exI [of _ ?p] exI [of _ ?w1] exI [of _ w2] exI [of _ w3] exI [of _ e1]
        exI [of _ e2] exI [of _ os1] exI [of _ os2]) (auto simp: run_evaluate)
qed

text \<open>Two positions, four closing orders.\<close>
theorem overlapping_panic_closes_witness:
  "\<exists>p w1 w2 w3. advances (evaluate_steps lib0 risk_config_default registry_new True) falling_world p w1 \<and>
     run (evaluate_steps lib0 risk_config_default registry_new True) w1 = (w2, Ok ()) \<and> run p w2 = (w3, Ok ()) \<and>
     length (w_sent w3) = 4 \<and> length (db_kill_events (w_db w3)) = 2"
proof -
  obtain pf where pf: "loaded lib0 1200000000 (w_db falling_world) = Inr pf" "leverage_effective_pnl lib0 pf = Some (- 1300)"
    using falling_loaded by blast
  have thr: "- 1300 \<le> rc_kill_switch_effective_threshold_chf risk_config_default"
    by (simp add: risk_config_default_def)
  have no: "db_kill_events (w_db falling_world) = []" by (simp add: falling_world_def db_empty_def)
  obtain p w1 w2 w3 e1 e2 os1 os2 where run: "advances (evaluate_steps lib0 risk_config_default registry_new True) falling_world p w1"
      "run (evaluate_steps lib0 risk_config_default registry_new True) w1 = (w2, Ok ())" "run p w2 = (w3, Ok ())"
    and res: "db_kill_events (w_db w3) = [e1, e2]" "w_sent w3 = os1 @ os2"
      "closes lib0 os1 (leverage_rows lib0 (w_db falling_world))" "closes lib0 os2 (leverage_rows lib0 (w_db falling_world))"
    using overlapping_panic_closes [OF falling_facts(1), unfolded falling_facts, OF pf thr falling_facts(3), of registry_new]
    unfolding no by auto
  have "length os1 = 2" "length os2 = 2"
    using res(3,4) by (auto simp: closes_def falling_rows dest: list_all2_lengthD)
  then show ?thesis using run res(1,2) by (intro exI conjI) (assumption | simp)+
qed


section \<open>Closing orders are on record\<close>

text \<open>C3. No closing order off the record.  At every moment of every run of the tasks, an order that went to the
  broker for no signal is a reduce-only market order whose client id names a hard event of the kill-switch
  table, and the ids of the events are distinct; whatever else ran between the recording of the event and
  the sending of the order, whatever statement failed and wherever the process stopped.\<close>
theorem closing_orders_on_record:
  assumes "pool_reachable D (T, w)"
  shows "distinct (map ke_id (db_kill_events (w_db w))) \<and>
     (\<forall>o' \<in> set (w_sent w). or_signal_id o' = None \<longrightarrow>
        or_order_type o' = Market \<and> or_reduce_only o' = Some True \<and>
        (\<exists>e \<in> set (db_kill_events (w_db w)). ke_reason_kind e = hard_kind \<and>
           (\<exists>t. or_cli_ord_id o' = Some (panic_cli (ke_id e) t))))"
  using events.pool_inv [OF assms] unfolding logged_def hard_event_def closing_def
  by (simp add: strict_sorted_iff) metis

text \<open>A daemon whose account shows a loss of one bitcoin.\<close>
definition losing_daemon :: daemon where
  "losing_daemon = demo_daemon\<lparr> dm_flex := (\<lambda>j. Some demo_flex), dm_margin := (\<lambda>j. Some
     \<lparr> ma_account_type = ''marginAccount'', ma_currency = ''xbt'', ma_auxiliary = \<lparr> mx_usd = 0, mx_pv = 0, mx_pnl = - 1,
       mx_af = 0, mx_funding = 0 \<rparr>, ma_balances = Map.empty \<rparr>) \<rparr>"

definition losing_accounts :: accounts_response where
  "losing_accounts = \<lparr> ac_result = ''success'', ac_accounts = [''flex'' \<mapsto> JNull, ''fi_xbtusd'' \<mapsto> JNull],
     ac_server_time = [] \<rparr>"

definition losing_world :: world where
  "losing_world = demo_booked\<lparr> w_db := (w_db demo_booked)\<lparr> db_equity := db_equity (w_db demo_booked) @
     [written demo_lib 1200000000 2 1000 0 1000 (- 500050 / 11)] \<rparr> \<rparr>"

lemma losing_write: "write_one_snapshot demo_lib (dm_flex losing_daemon) (dm_margin losing_daemon) risk_config_default
    (Inr losing_accounts) demo_booked = (losing_world, Ok 2)"
  by (auto simp: write_one_snapshot_def losing_daemon_def losing_accounts_def losing_world_def demo_booked_def
      demo_delivered_def demo_sent_def demo_cleared_def demo_world_def demo_start_def demo_feeds_def demo_ticker_def
      perp_symbol_def btc_mark_def persist_snapshot_def accounts_margin_def accounts_flex_def demo_flex_def
      sc_margin_account_key_def btc_to_chf_def dec_ops risk_config_default_def
      sum_realized_pnl_btc_by_sleeve_def lift_with_def bnd_def now_iso_def db_empty_def demo_position_def lev_def
      leverage_sleeve_def stmt_def query_def insert_equity_snapshot_def Let_def written_def next_id_def
      bootstrap_row_def)


lemma losing_facts:
  "calm losing_world" "w_now losing_world = 1200000000" "\<not> hard_unresolved (w_db losing_world)"
  "w_sent losing_world = [demo_order]" "leverage_rows demo_lib (w_db losing_world) = [demo_position]"
  "db_kill_events (w_db losing_world) = []"
  by (simp_all add: losing_world_def demo_booked_def demo_delivered_def demo_sent_def demo_cleared_def demo_world_def
      demo_start_def calm_def hard_unresolved_def db_empty_def no_faults_def leverage_rows_def demo_position_def lev_def)

lemma losing_loaded: "\<exists>pf. loaded demo_lib 1200000000 (w_db losing_world) = Inr pf \<and>
    leverage_effective_pnl demo_lib pf = Some (- 500050 / 11)"
  using losing_facts(5)
  by (simp add: loaded_def demo_position_def lev_def position_summary_def)
    (simp add: losing_world_def demo_booked_def demo_delivered_def demo_sent_def demo_cleared_def demo_world_def
      demo_start_def latest_row_def bootstrap_row_def written_def canonical_iso_def materialise_def
      snapshot_decimal_def parse_demo leverage_effective_pnl_def leverage_realized_pnl_def
      leverage_unrealized_pnl_def find_sleeve_def dec_ops db_empty_def)

text \<open>An order is filled, the account shows the loss, and the supervisor closes the position.\<close>
theorem closing_orders_on_record_witness:
  "\<exists>T w c. pool_reachable losing_daemon (T, w) \<and> w_sent w = [demo_order, c] \<and> or_reduce_only c = Some True \<and>
     or_quantity c = 500 \<and> (\<exists>e \<in> set (db_kill_events (w_db w)). \<exists>t. or_cli_ord_id c = Some (panic_cli (ke_id e) t))"
proof -
  have parts: "dm_lib losing_daemon = demo_lib" "dm_processor losing_daemon = demo_processor"
    "dm_reconciler losing_daemon = sample_reconciler" "rk_risk sample_reconciler = risk_config_default"
    "rk_has_broker sample_reconciler" "rk_instruments sample_reconciler = registry_new"
    by (simp_all add: losing_daemon_def demo_parts sample_reconciler_def)
  obtain T where T: "pool_reachable losing_daemon (T, demo_booked)" "\<forall>t. t \<noteq> ProcessorTask \<longrightarrow> T t = None"
    using overlap_in_pool [OF parts(1-3)] by blast
  have "run (tick_steps losing_daemon EquityTask (Inr losing_accounts)) demo_booked = (losing_world, Ok ())"
    using losing_write by (simp add: tick_steps_def solo_simps parts bnd_def)
  then have low: "pool_reachable losing_daemon (T, losing_world)"
    by (rule pool_tick [OF T(1), rotated 2]) (simp_all add: T(2))
  obtain pf where pf: "loaded demo_lib 1200000000 (w_db losing_world) = Inr pf"
    "leverage_effective_pnl demo_lib pf = Some (- 500050 / 11)"
    using losing_loaded by blast
  have thr: "- 500050 / 11 \<le> rc_kill_switch_effective_threshold_chf risk_config_default"
    by (simp add: risk_config_default_def)
  obtain w os where w: "evaluate_kill_switch_once demo_lib risk_config_default registry_new True losing_world = (w, Ok ())"
    "w_sent w = [demo_order] @ os" "closes demo_lib os [demo_position]"
    using hard_trigger_run [OF losing_facts(1), unfolded losing_facts, OF pf thr losing_facts(3), of registry_new]
    by (auto simp: losing_facts)
  obtain c where c: "os = [c]" "flattens demo_lib c ''PI_XBTUSD'' (show_dec 500)"
    using w(3) by (auto simp: closes_def list_all2_Cons2 demo_position_def)
  have "run (tick_steps losing_daemon SupervisorTask (Inr losing_accounts)) losing_world = (w, Ok ())"
    using w(1) by (simp add: tick_steps_def run_evaluate parts)
  then have reach: "pool_reachable losing_daemon (T, w)"
    by (rule pool_tick [OF low, rotated 2]) (simp_all add: T(2))
  have "or_signal_id c = None" using c(2) by (auto simp: flattens_def)
  then show ?thesis
    using closing_orders_on_record [OF reach] reach w(2) c by (intro exI [of _ T] exI [of _ w] exI [of _ c]) (auto simp: flattens_def)
qed

end
