(* ===== verification/Broker_Properties.thy ===== *)
theory Broker_Properties
  imports Kraken_Rest Periodic_Reconciler Fill_Properties Uncertain_Orders
begin

text \<open>Between the daemon and the exchange: the orders it builds, the requests they become, the meaning of the
  answers, and the comparison of the two sides' order lists.\<close>

section \<open>Orders on the wire\<close>

text \<open>C22. Every order built for a signal is well-formed and can be put on the wire.  It names the signal, its
  instrument and its side and carries the client id the signal determines; an entry is a post-only limit
  order for a whole number of contracts between 1 and 10000 that the converted notional covers, at the
  positive best price of its own side; an exit is a reduce-only market order for all of an open leverage
  position, at least one contract, on its closing side.  The adapter turns it into a request of that
  type.\<close>
theorem built_orders_well_formed:
  assumes "build_kraken_futures_order L sg m pf ins now = Inr o'"
  shows "or_signal_id o' = Some (sg_id sg) \<and> or_cli_ord_id o' = Some (signal_cli (sg_id sg)) \<and>
     or_side o' = sg_side sg \<and> ins_symbol (or_instrument o') = sg_instrument_symbol sg \<and>
     (if sg_signal_type sg = TrendExit then exit_order_ok sg pf o' else entry_order_ok L sg m o') \<and>
     (\<exists>q. order_request o' = Inr q \<and> sq_size q = or_quantity o' \<and> 1 \<le> sq_size q \<and>
        sq_cli_ord_id q = Some (signal_cli (sg_id sg)) \<and>
        (if sg_signal_type sg = TrendExit then sq_order_type q = Mkt \<and> sq_reduce_only q = Some True
         else sq_order_type q = Post \<and> (\<exists>p. sq_limit_price q = Some p \<and> 0 < p)))"
proof -
  have m: "order_matches L sg m pf o'" by (rule built_order_matches [OF assms])
  show ?thesis
  proof (cases "sg_signal_type sg = TrendExit")
    case True
    then have "exit_order_ok sg pf o'" using m by (simp add: order_matches_def)
    then have "or_order_type o' = Market" "or_reduce_only o' = Some True" "1 \<le> or_quantity o'"
      by (auto simp: exit_order_ok_def)
    then show ?thesis using m True by (simp add: order_matches_def order_request_def)
  next
    case False
    then have "entry_order_ok L sg m o'" using m by (simp add: order_matches_def)
    then have "or_order_type o' = PostOnly" "\<exists>p. or_limit_price o' = Some p \<and> 0 < p" "1 \<le> or_quantity o'"
      by (auto simp: entry_order_ok_def)
    then show ?thesis using m False by (simp add: order_matches_def order_request_def)
  qed
qed

theorem built_orders_well_formed_witness:
  "entry_order_ok demo_lib demo_signal demo_market demo_order \<and>
   (\<exists>q. order_request demo_order = Inr q \<and> sq_size q = 500 \<and> sq_order_type q = Post)"
  using built_orders_well_formed [OF demo_build]
  by (auto simp: demo_signal_def [THEN arg_cong [of _ _ sg_signal_type]] demo_order_def [THEN arg_cong [of _ _ or_quantity]])

section \<open>The request form\<close>

text \<open>What the exchange reads from the form.\<close>
definition read_form :: "lib \<Rightarrow> (string \<times> string) list \<Rightarrow> send_order_request option" where
  "read_form L kvs = (let field = map_of kvs; number = (\<lambda>k. Option.bind (field k) (l_parse L)) in do {
     ty \<leftarrow> Option.bind (field ''orderType'') (variant_of kraken_order_type_text
             [Mkt, Lmt, Post, KIoc, Stp, TakeProfit, TrailingStop]);
     symbol \<leftarrow> field ''symbol'';
     sd \<leftarrow> Option.bind (field ''side'') (variant_of kraken_side_text [KBuy, KSell]);
     size \<leftarrow> number ''size'';
     Some \<lparr> sq_order_type = ty, sq_symbol = symbol, sq_side = sd, sq_size = size,
            sq_limit_price = number ''limitPrice'', sq_stop_price = number ''stopPrice'',
            sq_cli_ord_id = field ''cliOrdId'', sq_reduce_only = map_option (\<lambda>s. s = ''true'') (field ''reduceOnly''),
            sq_trigger_signal = field ''triggerSignal'' \<rparr> })"

lemma map_of_opt_field:
  "map_of (opt_field k v @ kvs) k' = (if k' = k \<and> v \<noteq> None then v else map_of kvs k')"
  "map_of (opt_field k v) k' = (if k' = k then v else None)"
  by (auto simp: opt_field_def split: option.splits)

lemma read_type: "variant_of kraken_order_type_text [Mkt, Lmt, Post, KIoc, Stp, TakeProfit, TrailingStop]
    (kraken_order_type_text t) = Some t"
  by (cases t) (simp_all add: variant_of_def)

lemma read_side: "variant_of kraken_side_text [KBuy, KSell] (kraken_side_text s) = Some s"
  by (cases s) (simp_all add: variant_of_def)

lemma read_number: "text_laws L \<Longrightarrow> pred_option (isdec L) v \<Longrightarrow> Option.bind (map_option (l_show L) v) (l_parse L) = v"
  by (cases v) (simp_all add: parse_show)

text \<open>C23. The order survives the wire.  Reading the fields of a request back gives the request: type, symbol,
  side, size, both prices, client id, reduce-only flag and trigger; an absent option stays absent.  So two
  different requests never become the same form.\<close>
theorem request_form_roundtrip:
  assumes "text_laws L" "isdec L (sq_size q)" "pred_option (isdec L) (sq_limit_price q)" "pred_option (isdec L) (sq_stop_price q)"
  shows "read_form L (send_order_fields L q) = Some q"
  using read_number [OF assms(1,3)] read_number [OF assms(1,4)] assms(1,2)
  by (cases "sq_reduce_only q")
    (auto simp: read_form_def send_order_fields_def Let_def map_of_opt_field read_type read_side parse_show
      simp del: map_of_append)

theorem request_form_roundtrip_witness:
  "\<exists>q. order_request demo_order = Inr q \<and> read_form demo_lib (send_order_fields demo_lib q) = Some q"
proof -
  obtain q where q: "order_request demo_order = Inr q" "isdec demo_lib (sq_size q)"
      "pred_option (isdec demo_lib) (sq_limit_price q)" "pred_option (isdec demo_lib) (sq_stop_price q)"
    by (simp add: order_request_def demo_order_def isdec_def)
  have "text_laws demo_lib" by (simp add: text_laws_def)
  then show ?thesis using request_form_roundtrip [OF _ q(2-4)] q(1) by blast
qed


section \<open>Answers\<close>

text \<open>The exchange of a submission.\<close>
definition submission_http :: "lib \<Rightarrow> rest_client \<Rightarrow> rest_env \<Rightarrow> order \<Rightarrow> http_answer option" where
  "submission_http L C E o' = (case rbind (map_sum (\<lambda>e. KJson) id (order_request o')) (\<lambda>q.
       rbind (encode_form E [] (send_order_fields L q)) (\<lambda>body.
       rbind (auth_headers C E body ''/api/v3/sendorder'') (\<lambda>hs. Inr
         (rv_http E (post_request C ''/api/v3/sendorder'' ''application/x-www-form-urlencoded'' body hs))))) of
     Inl e \<Rightarrow> None | Inr a \<Rightarrow> Some a)"

fun no_answer :: "http_answer \<Rightarrow> bool" where
  "no_answer (Reply s b) = False"
| "no_answer _ = True"

lemma mapped_uncertain:
  "is_uncertain_error (map_api_error E ctx e) \<longleftrightarrow> \<not> (\<exists>c m. e = KApi c m) \<and> \<not> (\<exists>t. e = KAuth t) \<and> e \<noteq> KJson"
  by (cases e) (auto simp: map_api_error_def is_uncertain_error_def)

lemma certain_errors:
  "\<not> is_uncertain_error (ERejected m)" "\<not> is_uncertain_error (EInvalidResponse m)"
  by (simp_all add: is_uncertain_error_def)

lemma update_where_sets:
  "(\<And>r. P r \<Longrightarrow> Q (f r)) \<Longrightarrow> (\<And>r. P (f r) = P r) \<Longrightarrow> \<forall>r \<in> set (update_where P f rs). P r \<longrightarrow> Q r"
  by (auto simp: update_where_def)

lemma submission_exchange:
  assumes "submission_http L C E o' = Some a"
  obtains q where "order_request o' = Inr q"
    "send_order L C E q = rbind (read_response a) (\<lambda>txt. rbind (decode_with (rv_decode_send E) txt)
       (\<lambda>r. require_success (so_result r) (so_error r) r))"
proof -
  obtain q body hs where q: "order_request o' = Inr q" "encode_form E [] (send_order_fields L q) = Inr body"
      "auth_headers C E body ''/api/v3/sendorder'' = Inr hs"
      "a = rv_http E (post_request C ''/api/v3/sendorder'' ''application/x-www-form-urlencoded'' body hs)"
    using assms by (auto simp: submission_http_def rbind_Inr_iff map_sum_Inr_iff split: sum.splits)
  then have "encode_form E ''SendOrderRequest'' (send_order_fields L q) = Inr body"
    by (cases "rv_urlencode E (send_order_fields L q)") (auto simp: encode_form_def)
  then show thesis using that q by (simp add: send_order_def authed_post_form_def)
qed

text \<open>C24. What the adapter takes for certain.  An error of a submission that reached the exchange counts as
  uncertain exactly when no answer came back; any answer other than a placed order, including a server or
  gateway error and a body that does not decode, counts as a definite refusal, and then the daemon marks
  the order failed and the signal rejected, although the exchange may hold the order.\<close>
theorem rest_error_classes:
  assumes "submission_http L C E o' = Some a" "rest_submit_order L C E o' = Inl e" "calm w"
  shows "(is_uncertain_error e \<longleftrightarrow> no_answer a) \<and>
     (\<forall>n i t. \<not> no_answer a \<longrightarrow> (\<exists>w'. after_submit L i n (Inl e) t w = (w', Ok ()) \<and>
        (\<forall>r \<in> set (db_orders (w_db w')). od_id r = n \<longrightarrow> od_status r = ''failed'') \<and>
        (\<forall>s \<in> set (db_signals (w_db w')). sr_id s = i \<longrightarrow> sr_status s = ''rejected'')))"
proof -
  obtain q where q: "order_request o' = Inr q"
    "send_order L C E q = rbind (read_response a) (\<lambda>txt. rbind (decode_with (rv_decode_send E) txt)
       (\<lambda>r. require_success (so_result r) (so_error r) r))"
    using submission_exchange [OF assms(1)] .
  have u: "is_uncertain_error e \<longleftrightarrow> no_answer a"
  proof (cases a)
    case (Reply s b)
    have "\<not> is_uncertain_error e"
      using assms(2)
      by (auto simp: rest_submit_order_def q Reply read_response_def decode_with_def require_success_def mapped_uncertain Let_def certain_errors
          split: if_splits option.splits)
    then show ?thesis using Reply by simp
  qed (use assms(2) q in \<open>auto simp: rest_submit_order_def read_response_def mapped_uncertain\<close>)
  have not_uncertain: "\<not> no_answer a \<Longrightarrow> \<not> is_uncertain_error e" using u by simp
  have "\<exists>w'. after_submit L i n (Inl e) t w = (w', Ok ()) \<and>
        (\<forall>r \<in> set (db_orders (w_db w')). od_id r = n \<longrightarrow> od_status r = ''failed'') \<and>
        (\<forall>s \<in> set (db_signals (w_db w')). sr_id s = i \<longrightarrow> sr_status s = ''rejected'')" if "\<not> no_answer a" for n i t
  proof -
    let ?o = "\<lambda>r. r\<lparr> od_status := ''failed'', od_error_message := Some (exec_error_text e), od_updated_at := t \<rparr>"
    let ?s = "\<lambda>s. s\<lparr> sr_status := ''rejected'', sr_processed_at := Some t, sr_rejection_reason := Some
       (JObj [(''detail'', JStr (exec_error_text e)), (''kind'', JStr (broker_error_kind e)),
              (''order_id'', JNum (show_int n))]) \<rparr>"
    have "after_submit L i n (Inl e) t w = (w\<lparr> w_db := (w_db w)\<lparr>
        db_orders := update_where (\<lambda>r. od_id r = n) ?o (db_orders (w_db w)),
        db_signals := update_where (\<lambda>s. sr_id s = i) ?s (db_signals (w_db w)) \<rparr> \<rparr>, Ok ())"
      using assms(3) [unfolded calm_def] assms(3) not_uncertain [OF that]
      by (simp add: after_submit_def mark_order_failed_def update_order_def mark_signal_rejected_def update_signal_def)
    then show ?thesis by simp (intro conjI update_where_sets; simp)
  qed
  then show ?thesis using u by blast
qed

definition gateway_env :: rest_env where
  "gateway_env = \<lparr> rv_nonce = Inr ''1'', rv_sign = (\<lambda>s b n p. Inr ''sig''), rv_http = (\<lambda>q. Reply 504 ''gateway timeout''),
     rv_urlencode = (\<lambda>kvs. Inr ''body''), rv_text = (\<lambda>e. []), rv_now = 0, rv_decode_send = (\<lambda>s. None),
     rv_decode_cancel = (\<lambda>s. None), rv_decode_orders = (\<lambda>s. None), rv_decode_accounts = (\<lambda>s. None),
     rv_decode_envelope = (\<lambda>s. None) \<rparr>"

definition demo_client :: rest_client where
  "demo_client = \<lparr> kc_base_url = ''https://host'', kc_credentials = Some (''key'', ''secret'') \<rparr>"

lemma gateway_run: "submission_http demo_lib demo_client gateway_env demo_order = Some (Reply 504 ''gateway timeout'')"
  "rest_submit_order demo_lib demo_client gateway_env demo_order = Inl (ERejected ''submit_order: gateway timeout'')"
proof -
  have "show_nat 504 \<noteq> ''rate_limited''"
    using parse_show_nat [of 504] by (auto simp: parse_nat_def char_digit_def Let_def simp del: parse_show_nat)
  then show "submission_http demo_lib demo_client gateway_env demo_order = Some (Reply 504 ''gateway timeout'')"
    "rest_submit_order demo_lib demo_client gateway_env demo_order = Inl (ERejected ''submit_order: gateway timeout'')"
    by (simp_all add: submission_http_def rest_submit_order_def send_order_def authed_post_form_def encode_form_def
      gateway_env_def demo_client_def auth_headers_def creds_def read_response_def is_success_status_def
      order_request_def demo_order_def map_api_error_def)
qed

text \<open>A gateway timeout while the order may be live.\<close>
theorem rest_error_classes_witness:
  "\<exists>w'. after_submit demo_lib 7 1 (Inl (ERejected ''submit_order: gateway timeout'')) ''t'' demo_after = (w', Ok ()) \<and>
     filter (\<lambda>r. od_id r = 1 \<and> od_status r \<noteq> ''failed'') (db_orders (w_db w')) = [] \<and>
     filter (\<lambda>s. sr_id s = 7 \<and> sr_status s \<noteq> ''rejected'') (db_signals (w_db w')) = []"
  using conjunct2 [OF rest_error_classes [OF gateway_run demo_after_facts(1)], rule_format, of 7 1 "''t''"]
  by (auto simp: filter_empty_conv)

section \<open>The periodic comparison\<close>

text \<open>C33. The drift report is exact and silent.  Without a fault a tick reports precisely the live orders of the
  database that share neither the exchange's id nor the client id with an order of the broker, and the
  broker's orders that share neither with a live order; it changes no table and sends nothing.  So two
  orders that match by an id are never reported, whatever their quantities.\<close>
theorem drift_report_exact:
  assumes "calm w" "w_listings w = (t, Inr bs) # rest" "periodic_once w = (w', r)"
  defines "live \<equiv> {l \<in> set (db_orders (w_db w)). od_status l \<in> set pending_statuses}"
  shows "\<exists>D. r = Ok D \<and> set (df_local_only D) = {l \<in> live. \<not> (\<exists>b \<in> set bs. same_order l b)} \<and>
     set (df_broker_only D) = {b \<in> set bs. \<not> (\<exists>l \<in> live. same_order l b)} \<and>
     w_db w' = w_db w \<and> w_sent w' = w_sent w"
  using assms(3) unfolding periodic_calm [OF assms(1,2)] live_def
  by (auto simp: drift_of_def local_unmatched_iff broker_unmatched_iff)

theorem drift_report_exact_witness:
  "\<exists>w' D. periodic_once (demo_after\<lparr> w_listings := [(5, Inr [demo_listed])] \<rparr>) = (w', Ok D) \<and>
     df_local_only D = [] \<and> df_broker_only D = []"
proof -
  let ?w = "demo_after\<lparr> w_listings := [(5, Inr [demo_listed])] \<rparr>"
  obtain w' r where run: "periodic_once ?w = (w', r)" by (cases "periodic_once ?w")
  have w: "calm ?w" "w_listings ?w = [(5, Inr [demo_listed])]" "db_orders (w_db ?w) = [demo_order_row]"
    using demo_after_facts(1) by (simp_all add: calm_def) (simp add: demo_after_def)
  have same: "same_order demo_order_row demo_listed" "od_status demo_order_row \<in> set pending_statuses"
    by (simp_all add: same_order_def demo_order_row_def demo_listed_def pending_statuses_def)
  obtain D where D: "r = Ok D" "set (df_local_only D) = {l \<in> {l \<in> set (db_orders (w_db ?w)). od_status l \<in> set pending_statuses}.
        \<not> (\<exists>b \<in> set [demo_listed]. same_order l b)}"
      "set (df_broker_only D) = {b \<in> set [demo_listed]. \<not> (\<exists>l \<in> {l \<in> set (db_orders (w_db ?w)).
        od_status l \<in> set pending_statuses}. same_order l b)}"
    using drift_report_exact [OF w(1,2) run] by (elim exE conjE)
  have "set (df_local_only D) = {}" unfolding D(2) w(3) using same by auto
  moreover have "set (df_broker_only D) = {}" unfolding D(3) w(3) using same by auto
  ultimately show ?thesis using run D(1) by simp
qed

end
