(* ===== verification/Startup_Properties.thy ===== *)
theory Startup_Properties
  imports Startup Uncertain_Orders Crash_Fill Pool_Invariant
begin

text \<open>What the start of the daemon settles for its whole run.\<close>

section \<open>The registry\<close>

lemma registry_declared:
  "registry_lookup (foldl (\<lambda>reg m. registry_insert (di_symbol m)
     \<lparr> im_min_order_size = di_min_order_size m, im_tick_size = di_tick_size m \<rparr> reg) reg ms) symbol =
   (case find (\<lambda>m. di_symbol m = symbol) (rev ms) of
      Some m \<Rightarrow> \<lparr> im_min_order_size = di_min_order_size m, im_tick_size = di_tick_size m \<rparr>
    | None \<Rightarrow> registry_lookup reg symbol)"
  by (induction ms rule: rev_induct) (auto simp: registry_lookup_insert)

section \<open>The start\<close>

lemma broker_for_Inr:
  "broker_for mode env network = Inr c \<longleftrightarrow>
     (case mode of DryRun \<Rightarrow> c = None
      | Paper \<Rightarrow> \<exists>k. credentials_from_env env = Some k \<and> c = Some (rest_demo (Some k)) \<and>
          rest_health_check (rest_demo (Some k)) (network (rest_demo (Some k))) = Inr ()
      | Live \<Rightarrow> \<exists>k. credentials_from_env env = Some k \<and> c = Some (rest_production (Some k)) \<and>
          rest_health_check (rest_production (Some k)) (network (rest_production (Some k))) = Inr ())"
  by (cases mode) (auto simp: broker_for_def Let_def split: option.splits sum.splits)

lemma started_parts:
  assumes "start_daemon cfg env opened network = Inr s"
  shows "opened = Inr ()" "broker_for (dc_mode cfg) env network = Inr (st_rest s)"
    "st_feed s = feed_config (dc_kraken cfg)" "st_feed_credentials s = credentials_from_env env"
    "st_processor s = \<lparr> sp_mode = dc_mode cfg, sp_has_broker = (st_rest s \<noteq> None), sp_risk = dc_risk cfg,
       sp_instruments = instrument_registry (dc_instruments cfg) \<rparr>"
    "st_reconciler s = \<lparr> rk_risk = dc_risk cfg, rk_has_broker = (st_rest s \<noteq> None),
       rk_instruments = instrument_registry (dc_instruments cfg) \<rparr>"
    "st_tasks s = [FeedTask, ProcessorTask, SupervisorTask, FillTask]
       @ (if st_rest s \<noteq> None then [PeriodicTask, EquityTask] else [])"
proof -
  obtain u where o': "opened = Inr u" using assms by (cases opened) (simp_all add: start_daemon_def)
  obtain c where c: "broker_for (dc_mode cfg) env network = Inr c"
    using assms unfolding o' by (cases "broker_for (dc_mode cfg) env network") (simp_all add: start_daemon_def)
  have s: "s = \<lparr> st_feed = feed_config (dc_kraken cfg), st_feed_credentials = credentials_from_env env, st_rest = c,
     st_processor = \<lparr> sp_mode = dc_mode cfg, sp_has_broker = (c \<noteq> None), sp_risk = dc_risk cfg,
       sp_instruments = instrument_registry (dc_instruments cfg) \<rparr>,
     st_reconciler = \<lparr> rk_risk = dc_risk cfg, rk_has_broker = (c \<noteq> None),
       rk_instruments = instrument_registry (dc_instruments cfg) \<rparr>,
     st_tasks = [FeedTask, ProcessorTask, SupervisorTask, FillTask]
       @ (if c \<noteq> None then [PeriodicTask, EquityTask] else []) \<rparr>"
    using assms unfolding start_daemon_def o' by (simp add: c Let_def)
  show "opened = Inr ()" by (simp add: o')
  show "broker_for (dc_mode cfg) env network = Inr (st_rest s)" by (simp add: c s)
  show "st_feed s = feed_config (dc_kraken cfg)" "st_feed_credentials s = credentials_from_env env"
    "st_processor s = \<lparr> sp_mode = dc_mode cfg, sp_has_broker = (st_rest s \<noteq> None), sp_risk = dc_risk cfg,
       sp_instruments = instrument_registry (dc_instruments cfg) \<rparr>"
    "st_reconciler s = \<lparr> rk_risk = dc_risk cfg, rk_has_broker = (st_rest s \<noteq> None),
       rk_instruments = instrument_registry (dc_instruments cfg) \<rparr>"
    "st_tasks s = [FeedTask, ProcessorTask, SupervisorTask, FillTask]
       @ (if st_rest s \<noteq> None then [PeriodicTask, EquityTask] else [])"
    by (simp_all add: s)
qed

text \<open>C21. The endpoints of a started daemon follow its mode.  In dry-run mode there is no client of the exchange and
  neither the periodic comparison nor the equity writer runs.  In paper mode the client is the demo one and
  in live mode the production one, with the credentials of the environment and a passed health check;
  otherwise the daemon does not start.  Every task works with the same mode, risk limits and instruments,
  where the last declaration of a symbol counts.  The feed alone follows a switch of its own: a live daemon
  whose configuration leaves that switch out trades in production on the prices of the demo feed.\<close>
theorem startup_by_mode:
  assumes "start_daemon cfg env opened network = Inr s"
  shows "st_rest s = (case dc_mode cfg of DryRun \<Rightarrow> None
           | Paper \<Rightarrow> Some (rest_demo (credentials_from_env env))
           | Live \<Rightarrow> Some (rest_production (credentials_from_env env))) \<and>
     (case st_rest s of None \<Rightarrow> True | Some c \<Rightarrow> credentials_from_env env \<noteq> None \<and>
        rest_health_check c (network c) = Inr ()) \<and>
     sp_mode (st_processor s) = dc_mode cfg \<and>
     sp_has_broker (st_processor s) = submits_orders (dc_mode cfg) \<and>
     rk_has_broker (st_reconciler s) = submits_orders (dc_mode cfg) \<and>
     filter (\<lambda>t. t \<in> {PeriodicTask, EquityTask}) (st_tasks s) =
       (if submits_orders (dc_mode cfg) then [PeriodicTask, EquityTask] else []) \<and>
     sp_risk (st_processor s) = rk_risk (st_reconciler s) \<and>
     sp_instruments (st_processor s) = rk_instruments (st_reconciler s) \<and>
     registry_lookup (sp_instruments (st_processor s)) symbol =
       (case find (\<lambda>m. di_symbol m = symbol) (rev (dc_instruments cfg)) of
          Some m \<Rightarrow> \<lparr> im_min_order_size = di_min_order_size m, im_tick_size = di_tick_size m \<rparr>
        | None \<Rightarrow> \<lparr> im_min_order_size = 1, im_tick_size = 1 / 2 \<rparr>) \<and>
     wc_url (st_feed s) = (if kf_demo (dc_kraken cfg) then kraken_demo_ws_url else kraken_ws_url)"
proof -
  note p = started_parts [OF assms]
  have r: "registry_lookup (instrument_registry (dc_instruments cfg)) symbol =
       (case find (\<lambda>m. di_symbol m = symbol) (rev (dc_instruments cfg)) of
          Some m \<Rightarrow> \<lparr> im_min_order_size = di_min_order_size m, im_tick_size = di_tick_size m \<rparr>
        | None \<Rightarrow> \<lparr> im_min_order_size = 1, im_tick_size = 1 / 2 \<rparr>)"
    unfolding instrument_registry_def registry_declared registry_lookup_new ..
  have f: "wc_url (st_feed s) = (if kf_demo (dc_kraken cfg) then kraken_demo_ws_url else kraken_ws_url)"
    unfolding p(3) by (simp add: feed_config_def Let_def ws_config_new_def kraken_ws_url_def)
  show ?thesis
    using p(2) unfolding broker_for_Inr p(5-7) f
    by (cases "dc_mode cfg") (auto simp: r)
qed

definition sample_env :: environment where
  "sample_env = [''RT_KRAKEN_API_KEY'' \<mapsto> ''key'', ''RT_KRAKEN_API_SECRET'' \<mapsto> ''c2VjcmV0'']"

text \<open>Only the production host answers.\<close>
definition sample_network :: "rest_client \<Rightarrow> rest_env" where
  "sample_network c = \<lparr> rv_nonce = Inr ''1'', rv_sign = (\<lambda>s b n p. Inr ''sig''),
     rv_http = (\<lambda>q. if kc_base_url c = kraken_rest_base then Reply 200 ''{}'' else SendError True),
     rv_urlencode = (\<lambda>kvs. Inr ''body''), rv_text = (\<lambda>e. []), rv_now = 0, rv_decode_send = (\<lambda>s. None),
     rv_decode_cancel = (\<lambda>s. None), rv_decode_orders = (\<lambda>s. None), rv_decode_accounts = (\<lambda>s. None),
     rv_decode_envelope = (\<lambda>s. None) \<rparr>"

definition live_config :: daemon_config where
  "live_config = daemon_config_default\<lparr> dc_mode := Live, dc_instruments :=
     [\<lparr> di_symbol = ''PI_ETHUSD'', di_min_order_size = 1, di_tick_size = 1 / 20 \<rparr>,
      \<lparr> di_symbol = ''PI_ETHUSD'', di_min_order_size = 1, di_tick_size = 1 / 100 \<rparr>] \<rparr>"

lemma live_broker: "broker_for Live sample_env sample_network = Inr (Some (rest_production (Some (''key'', ''c2VjcmV0''))))"
  by (simp add: broker_for_def sample_env_def credentials_from_env_def rest_production_def rest_health_check_def
      authed_get_def auth_headers_def creds_def sample_network_def read_response_def is_success_status_def)

lemma live_start: "\<exists>s. start_daemon live_config sample_env (Inr ()) sample_network = Inr s"
  by (simp add: start_daemon_def live_config_def live_broker Let_def)

text \<open>A live start from a configuration that does not mention the feed's switch.\<close>
theorem startup_by_mode_witness:
  "\<exists>s. start_daemon live_config sample_env (Inr ()) sample_network = Inr s \<and>
     map_option kc_base_url (st_rest s) = Some ''https://futures.kraken.com'' \<and>
     wc_url (st_feed s) = ''wss://demo-futures.kraken.com/ws/v1'' \<and>
     im_tick_size (registry_lookup (sp_instruments (st_processor s)) ''PI_ETHUSD'') = 1 / 100"
proof -
  obtain s where s: "start_daemon live_config sample_env (Inr ()) sample_network = Inr s" using live_start by blast
  have c: "dc_mode live_config = Live" "kf_demo (dc_kraken live_config)"
    "dc_instruments live_config = [\<lparr> di_symbol = ''PI_ETHUSD'', di_min_order_size = 1, di_tick_size = 1 / 20 \<rparr>,
      \<lparr> di_symbol = ''PI_ETHUSD'', di_min_order_size = 1, di_tick_size = 1 / 100 \<rparr>]"
    by (simp_all add: live_config_def daemon_config_default_def)
  show ?thesis
    using s startup_by_mode [OF s, of "''PI_ETHUSD''"]
    by (intro exI [of _ s], elim conjE) (simp add: c rest_production_def kraken_rest_base_def kraken_demo_ws_url_def)
qed

section \<open>Dry-run\<close>

text \<open>The daemon that a start sets up.\<close>
definition runs :: "started \<Rightarrow> daemon \<Rightarrow> bool" where
  "runs s D \<longleftrightarrow> dm_processor D = st_processor s \<and> dm_reconciler D = st_reconciler s"

lemma keeps_idle_lift:
  assumes "keeps (orders_are R) m"
  shows "keeps (idle os R) (sql m)" "keeps (idle os R) (sql_context msg m)"
    "keeps (idle os R) (lift_with f m)"
  by (rule keeps_idle; intro keeps_intro assms)+

abbreviation at_rest :: "unit \<Rightarrow> world \<Rightarrow> bool" where
  "at_rest \<equiv> \<lambda>_. idle [] []"

lemma keeps_no_orders:
  "keeps (orders_are []) (apply_fill_to_position L i b s y q p t)"
  "keeps (orders_are []) (apply_fill_to_order L a1 b1 c1 d1 e1)"
  "keeps (orders_are []) (backfill_broker_order_id n1 x t)"
proof -
  have upd: "keeps (orders_are []) (update_order P f)" for P f
    unfolding update_order_def by (rule keeps_exec) (simp_all add: orders_are_def update_where_def)
  have pos: "keeps (orders_are []) (insert_position i b s q e t)" "keeps (orders_are []) (update_position n g)" for i b s q e t n g
    unfolding insert_position_def update_position_def exec_def
    by (intro keeps_stmt keeps_modify; simp add: keeps_def Let_def orders_are_def)+
  show "keeps (orders_are []) (apply_fill_to_position L i b s y q p t)"
    unfolding apply_fill_to_position_def position_fill_body_def add_to_position_def reduce_position_def
      flat_position_def by (intro keeps_intro keeps_transaction orders_are_blind pos)
  show "keeps (orders_are []) (apply_fill_to_order L a1 b1 c1 d1 e1)"
    unfolding apply_fill_to_order_def order_fill_body_def write_fill_def Let_def
    by (intro keeps_intro keeps_transaction orders_are_blind upd)
  show "keeps (orders_are []) (backfill_broker_order_id n1 x t)"
    unfolding backfill_broker_order_id_def by (rule upd)
qed

lemma keeps_idle_reads [keeps_intro]:
  "keeps (idle os R) clock" "keeps (idle os R) (now_iso L)" "keeps (idle os R) (gets g)"
  "keeps (idle os R) open_orders" "keeps (idle os R) (advance f)"
  by (auto simp: keeps_def clock_def now_iso_def open_orders_def advance_def idle_def sent_is_def on_db_def split: prod.splits)

lemma pkeeps_rest [pkeeps_intro]:
  assumes "keeps (orders_are []) m"
  shows "pkeeps at_rest (psql m)" "pkeeps at_rest (atom (sql_context msg m))" "pkeeps at_rest (atom (lift_with f m))"
  unfolding psql_def by (intro pkeeps_atom keeps_idle_lift assms)+

lemma pkeeps_rest_load [pkeeps_intro]: "pkeeps at_rest (load_steps L t)"
  unfolding load_steps_def latest_equity_snapshot_def write_bootstrap_equity_snapshot_def kill_switch_active_def
    list_open_leverage_positions_def
  by (intro pkeeps_intro keeps_intro orders_are_blind)

lemma pkeeps_rest_evaluate [pkeeps_intro]: "pkeeps at_rest (evaluate_steps L cfg ins False)"
proof -
  have rec: "keeps (orders_are R) (record_kill_switch a b c e)" for R a b c e
    unfolding record_kill_switch_def by (intro keeps_stmt) (simp_all add: keeps_def Let_def orders_are_def)
  have "pkeeps at_rest (act_steps L ins False pf h d)" for pf h d
    by (cases d) (auto simp: act_steps_def intro!: pkeeps_intro rec)
  then show ?thesis
    unfolding evaluate_steps_def has_active_hard_trigger_def
    by (intro pkeeps_intro keeps_intro orders_are_blind)
qed

lemma pkeeps_rest_poll:
  assumes "sp_mode P = DryRun"
  shows "pkeeps at_rest (poll_steps L P)"
  unfolding poll_steps_def process_steps_def checklist_steps_def approval_steps_def assms execution_mode.case
    reject_steps_def dry_run_steps_def reject_expired_def Let_def pending_signals_def sql_def
  by (intro pkeeps_intro keeps_intro orders_are_blind)

lemma pkeeps_rest_fills:
  assumes "\<not> rk_has_broker R"
  shows "pkeeps at_rest (fills_steps L R)"
proof -
  have broker: "rk_has_broker R = False" using assms by simp
  show ?thesis
    unfolding fills_steps_def fill_steps_def settle_steps_def retry_steps_def fill_order_def sql_def fill_position_steps_def
      trigger_steps_def broker backfill_steps_def find_order_id_by_cli_ord_id_def has_fill_been_applied_def
    by (intro pkeeps_intro keeps_intro keeps_no_orders orders_are_blind keeps_orders_settle(2))
qed

lemma pkeeps_rest_others:
  "pkeeps at_rest periodic_steps" "pkeeps at_rest (snapshot_steps L flex_of margin_of cfg answer)"
proof -
  have texts: "keeps (orders_are R) (sum_texts L acc rows)" for R acc rows
    by (induction rows arbitrary: acc) (auto intro!: keeps_intro)
  show "pkeeps at_rest periodic_steps"
    unfolding periodic_steps_def list_live_orders_def by (intro pkeeps_intro keeps_intro orders_are_blind)
  show "pkeeps at_rest (snapshot_steps L flex_of margin_of cfg answer)"
    unfolding snapshot_steps_def persist_steps_def Let_def sum_realized_pnl_btc_by_sleeve_def
    by (intro pkeeps_intro keeps_intro texts orders_are_blind) (auto simp: keeps_def)
qed

text \<open>The pool of a daemon without broker stays at rest.\<close>
lemma dry_run_pool:
  assumes "sp_mode (dm_processor D) = DryRun" "\<not> rk_has_broker (dm_reconciler D)"
  shows "pool_family D at_rest ()"
proof
  have "rk_has_broker (dm_reconciler D) = False" using assms(2) by simp
  then show "guided at_rest (\<lambda>_ _. True) () (tick_steps D t answer)" if "t \<noteq> FeedTask" for t answer
    using that assms by (cases t) (auto simp: tick_steps_def pkeeps_rest_poll pkeeps_rest_fills pkeeps_rest_others
        intro!: guided_keeps pkeeps_rest_evaluate pkeeps_bnd pkeeps_pure)
  show "at_rest j w'" if "outside w w'" "at_rest j w" for w w' j
    using that by (induction rule: outside.induct)
      (simp_all add: idle_def sent_is_def on_db_def orders_are_def resolve_event_def)
qed (simp_all add: idle_def sent_is_def on_db_def orders_are_def db_empty_def)

text \<open>C10. A daemon started in dry-run mode never trades.  Whatever signals arrive, whatever the feeds and the
  clock show, whatever statement fails, whichever kill switch triggers, however its tasks are interleaved
  statement by statement and wherever it crashes: no order is ever sent, and the orders table stays empty.\<close>
theorem dry_run_daemon_never_trades:
  assumes "start_daemon cfg env opened network = Inr s" "dc_mode cfg = DryRun" "runs s D" "pool_reachable D (T, w)"
  shows "w_sent w = [] \<and> db_orders (w_db w) = []"
proof -
  note p = started_parts [OF assms(1)]
  have "st_rest s = None" using p(2) by (simp add: assms(2) broker_for_def)
  then have mode: "sp_mode (dm_processor D) = DryRun" "\<not> rk_has_broker (dm_reconciler D)"
    using assms(2,3) by (simp_all add: runs_def p(5,6))
  show ?thesis
    using pool_family.pool_inv [OF dry_run_pool [OF mode] assms(4)]
    by (simp add: idle_def sent_is_def on_db_def orders_are_def)
qed

text \<open>A dry-run daemon polls the signal that a live one trades.\<close>
definition dry_daemon :: daemon where
  "dry_daemon = \<lparr> dm_lib = demo_lib,
     dm_processor = \<lparr> sp_mode = DryRun, sp_has_broker = False, sp_risk = risk_config_default, sp_instruments = registry_new \<rparr>,
     dm_reconciler = \<lparr> rk_risk = risk_config_default, rk_has_broker = False, rk_instruments = registry_new \<rparr>,
     dm_flex = (\<lambda>j. None), dm_margin = (\<lambda>j. None) \<rparr>"

lemma dry_start:
  "\<exists>s. start_daemon daemon_config_default env (Inr ()) network = Inr s \<and> runs s dry_daemon"
  by (simp add: start_daemon_def daemon_config_default_def broker_for_def execution_mode_default_def runs_def
      dry_daemon_def instrument_registry_def Let_def)

theorem dry_run_daemon_never_trades_witness:
  "w_sent (fst (poll_once demo_lib (dm_processor dry_daemon) demo_world)) = [] \<and>
   w_sent (fst (poll_once demo_lib demo_processor demo_world)) = [demo_order]"
proof
  obtain s where s: "start_daemon daemon_config_default (\<lambda>k. None) (Inr ()) sample_network = Inr s" "runs s dry_daemon"
    using dry_start by blast
  have "daemon_step dry_daemon demo_world (fst (poll_once demo_lib (dm_processor dry_daemon) demo_world))"
    by (rule daemon_step.poll [where r = "snd (poll_once demo_lib (dm_processor dry_daemon) demo_world)"])
      (simp add: dry_daemon_def)
  then have "reachable dry_daemon (fst (poll_once demo_lib (dm_processor dry_daemon) demo_world))"
    by (rule reachable.step [OF demo_world_reachable])
  then show "w_sent (fst (poll_once demo_lib (dm_processor dry_daemon) demo_world)) = []"
    using dry_run_daemon_never_trades [OF s(1) _ s(2) reachable_in_pool]
    by (simp add: daemon_config_default_def execution_mode_default_def)
  show "w_sent (fst (poll_once demo_lib demo_processor demo_world)) = [demo_order]"
    by (simp add: demo_poll) (simp add: demo_after_def)
qed

section \<open>The loops\<close>

text \<open>A loop whose ticks are ticks of the daemon, statement by statement.\<close>
lemma loop_in_pool:
  assumes "\<And>i w w' r. tick i w = (w', r) \<Longrightarrow> daemon_step D w w'" "pool_reachable D (idle_threads, w)"
  shows "pool_reachable D (idle_threads, fst (task_loop tick es w))"
proof (rule task_loop_keeps [where P = "\<lambda>v. pool_reachable D (idle_threads, v)"])
  show "task_loop tick es w = (fst (task_loop tick es w), snd (task_loop tick es w))" by simp
qed (auto intro: daemon_step_in_pool assms)

text \<open>C20. The tasks as they run refine the steps of the pool.  From a world of the pool, the whole loop of each
  of the five tasks, over any sequence of timer ticks and changes of the shutdown flag and whether its ticks
  succeed, fail or panic, ends in a world that the statements and waits of the tasks reach one at a time, so
  everything shown of the pool holds throughout.  A tick that fails is followed by the next all the same; and
  once the shutdown flag is set, no task does anything more.\<close>
theorem loops_refine_daemon:
  fixes es later :: "unit wake list"
  assumes "pool_reachable D (idle_threads, w)"
  defines "L \<equiv> dm_lib D" and "P \<equiv> dm_processor D" and "R \<equiv> dm_reconciler D"
  defines "supervise \<equiv> evaluate_kill_switch_once L (rk_risk R) (rk_instruments R) (rk_has_broker R)"
    and "supervisor \<equiv> supervisor_run L (rk_risk R) (rk_instruments R) (rk_has_broker R)"
    and "write \<equiv> write_one_snapshot L (dm_flex D) (dm_margin D) (rk_risk R)"
    and "writer \<equiv> equity_run L (dm_flex D) (dm_margin D) (rk_risk R)"
  shows "pool_reachable D (idle_threads, fst (processor_run L P es w)) \<and>
     pool_reachable D (idle_threads, fst (supervisor es w)) \<and>
     pool_reachable D (idle_threads, fst (fill_run L R es w)) \<and>
     pool_reachable D (idle_threads, fst (periodic_run es w)) \<and>
     pool_reachable D (idle_threads, fst (writer answers w)) \<and>
     (snd (poll_once L P w) \<noteq> Panic \<longrightarrow> processor_run L P (Tick () # es) w = processor_run L P es (fst (poll_once L P w))) \<and>
     (snd (supervise w) \<noteq> Panic \<longrightarrow> supervisor (Tick () # es) w = supervisor es (fst (supervise w))) \<and>
     (snd (reconcile_once L R (w\<lparr> w_applied_seq := 0 \<rparr>)) \<noteq> Panic \<longrightarrow> fill_run L R (Tick () # es) w
        = task_loop (\<lambda>_. reconcile_once L R) es (fst (reconcile_once L R (w\<lparr> w_applied_seq := 0 \<rparr>)))) \<and>
     (snd (periodic_once w) \<noteq> Panic \<longrightarrow> periodic_run (Tick () # es) w = periodic_run es (fst (periodic_once w))) \<and>
     (snd (write answer w) \<noteq> Panic \<longrightarrow> writer (Tick answer # answers) w = writer answers (fst (write answer w))) \<and>
     processor_run L P (es @ FlagChanged True # later) w = processor_run L P es w \<and>
     supervisor (es @ FlagChanged True # later) w = supervisor es w \<and>
     fill_run L R (es @ FlagChanged True # later) w = fill_run L R es w \<and>
     periodic_run (es @ FlagChanged True # later) w = periodic_run es w \<and>
     writer (answers @ FlagChanged True # more_answers) w = writer answers w"
proof -
  note runs = processor_run_def supervisor_run_def fill_run_def periodic_run_def equity_run_def
  have "pool_reachable D (idle_threads, w\<lparr> w_applied_seq := 0 \<rparr>)"
    by (rule pool_reachable.step [OF assms(1) pool_step.crash])
  then have fills: "pool_reachable D (idle_threads, fst (fill_run L R es w))"
    unfolding fill_run_def bnd_def L_def R_def using loop_in_pool [OF daemon_step.fills] by simp
  have others: "pool_reachable D (idle_threads, fst (processor_run L P es w))"
    "pool_reachable D (idle_threads, fst (supervisor es w))" "pool_reachable D (idle_threads, fst (periodic_run es w))"
    "pool_reachable D (idle_threads, fst (writer answers w))"
    unfolding assms(2-) runs
    by (rule loop_in_pool [OF daemon_step.poll assms(1)] loop_in_pool [OF daemon_step.supervise assms(1)]
        loop_in_pool [OF daemon_step.periodic assms(1)] loop_in_pool [OF daemon_step.equity assms(1)]; assumption)+
  show ?thesis
    using fills others unfolding supervise_def supervisor_def write_def writer_def runs
    by (auto simp: task_loop_goes_on task_loop_shutdown bnd_def simp del: task_loop.simps)
qed

text \<open>A live daemon that polls, is told to stop, and would poll again.\<close>
theorem loops_refine_daemon_witness:
  "pool_reachable demo_daemon (idle_threads, demo_after) \<and>
   processor_run demo_lib demo_processor [Tick (), FlagChanged True, Tick ()] demo_world = (demo_after, Ok ())"
proof -
  note r = loops_refine_daemon [OF reachable_in_pool [OF demo_reachable(1)], of "[Tick ()]" "[]" undefined "[Tick ()]"]
  have "processor_run demo_lib demo_processor [Tick ()] demo_world = (demo_after, Ok ())"
    using demo_poll by (simp add: processor_run_def catch_def)
  then show ?thesis using r by (simp add: demo_daemon_def)
qed

end
