(* ===== verification/Serde.thy ===== *)
theory Serde
  imports Json_Encoding
begin

text \<open>What the attributes of \<^verbatim>\<open>derive(Deserialize)\<close> stand for: a reader takes the document of a message to a
  value, or to \<^verbatim>\<open>None\<close> when it does not fit.  A document keeps the pairs of an object in the order of
  the text, repeated keys included, and a number as its text.  A struct is read from an object (unknown
  keys ignored, a repeated field refused) or from an array of its fields in order; \<^verbatim>\<open>Option\<close> takes
  \<^verbatim>\<open>null\<close> and an absent key, \<^verbatim>\<open>serde(default)\<close> an absent key or a short array.  Reading a decimal is
  \<^verbatim>\<open>rust_decimal\<close>'s own and an argument.\<close>

section \<open>Values\<close>

type_synonym 'a reader = "json \<Rightarrow> 'a option"

fun js_string :: "string reader" where
  "js_string (JStr s) = Some s"
| "js_string _ = None"

fun js_bool :: "bool reader" where
  "js_bool (JBool b) = Some b"
| "js_bool _ = None"

text \<open>An unsigned integer is written with digits only and must fit the type.\<close>
definition text_uint :: "nat \<Rightarrow> string \<Rightarrow> nat option" where
  "text_uint w s = Option.bind (parse_nat s) (\<lambda>n. if n < 2 ^ w then Some n else None)"

fun js_u64 :: "64 word reader" where
  "js_u64 (JNum t) = map_option of_nat (text_uint 64 t)"
| "js_u64 _ = None"

fun js_u8 :: "8 word reader" where
  "js_u8 (JNum t) = map_option of_nat (text_uint 8 t)"
| "js_u8 _ = None"

text \<open>A signed integer; \<^verbatim>\<open>-0\<close> is a float.\<close>
fun js_i64 :: "64 word reader" where
  "js_i64 (JNum (CHR ''-'' # t)) =
     Option.bind (parse_nat t) (\<lambda>n. if 0 < n \<and> n \<le> 2 ^ 63 then Some (- of_nat n) else None)"
| "js_i64 (JNum t) = map_option of_nat (text_uint 63 t)"
| "js_i64 _ = None"

fun js_option :: "'a reader \<Rightarrow> 'a option reader" where
  "js_option r JNull = Some None"
| "js_option r j = map_option Some (r j)"

fun js_list :: "'a reader \<Rightarrow> 'a list reader" where
  "js_list r (JArr js) = those (map r js)"
| "js_list r _ = None"

text \<open>A \<^verbatim>\<open>HashMap\<close>: the last pair of a key stands.\<close>
fun js_map :: "'a reader \<Rightarrow> (string \<rightharpoonup> 'a) reader" where
  "js_map r (JObj kvs) =
     map_option (\<lambda>ps. map_of (rev ps)) (those (map (\<lambda>(k, v). map_option (Pair k) (r v)) kvs))"
| "js_map r _ = None"

section \<open>Structs\<close>

text \<open>The fields of a struct, each with whether it has \<^verbatim>\<open>serde(default)\<close>, and what the document gives
  for them.\<close>
fun js_slots :: "(string \<times> bool) list \<Rightarrow> json \<Rightarrow> (string \<rightharpoonup> json) option" where
  "js_slots fs (JObj kvs) = (let own = filter (\<lambda>kv. fst kv \<in> set (map fst fs)) kvs in
     if distinct (map fst own) then Some (map_of own) else None)"
| "js_slots fs (JArr vs) =
     (if length vs \<le> length fs \<and> list_all snd (drop (length vs) fs)
      then Some (map_of (zip (map fst fs) vs)) else None)"
| "js_slots fs _ = None"

definition js_field :: "(string \<rightharpoonup> json) \<Rightarrow> string \<Rightarrow> 'a reader \<Rightarrow> 'a option" where
  "js_field s k r = Option.bind (s k) r"

definition js_opt_field :: "(string \<rightharpoonup> json) \<Rightarrow> string \<Rightarrow> 'a reader \<Rightarrow> 'a option option" where
  "js_opt_field s k r = (case s k of None \<Rightarrow> Some None | Some j \<Rightarrow> js_option r j)"

definition js_default_field :: "(string \<rightharpoonup> json) \<Rightarrow> string \<Rightarrow> 'a \<Rightarrow> 'a reader \<Rightarrow> 'a option" where
  "js_default_field s k d r = (case s k of None \<Rightarrow> Some d | Some j \<Rightarrow> r j)"

section \<open>Enums\<close>

text \<open>A variant without data: its name, or an object whose only key is the name with a unit value.\<close>
fun js_variant :: "(json \<Rightarrow> bool) \<Rightarrow> ('a \<Rightarrow> string) \<Rightarrow> 'a list \<Rightarrow> 'a reader" where
  "js_variant void name vs (JStr s) = variant_of name vs s"
| "js_variant void name vs (JObj [(k, v)]) = (if void v then variant_of name vs k else None)"
| "js_variant void name vs _ = None"

text \<open>The tag of a tagged enum: a name, or a number counting the variants (no variant has the empty
  name).\<close>
fun js_tag :: "string list \<Rightarrow> string reader" where
  "js_tag names (JStr s) = Some s"
| "js_tag names (JNum t) =
     map_option (\<lambda>n. if n < length names then names ! n else []) (text_uint 64 t)"
| "js_tag names _ = None"

text \<open>\<^verbatim>\<open>serde(tag = k)\<close>: takes the tag out of the document.\<close>
fun js_untag :: "string \<Rightarrow> string list \<Rightarrow> json \<Rightarrow> (string \<times> json) option" where
  "js_untag k names (JObj kvs) = (case filter (\<lambda>kv. fst kv = k) kvs of
      [(_, v)] \<Rightarrow> map_option (\<lambda>n. (n, JObj (filter (\<lambda>kv. fst kv \<noteq> k) kvs))) (js_tag names v)
    | _ \<Rightarrow> None)"
| "js_untag k names (JArr (v # vs)) = map_option (\<lambda>n. (n, JArr vs)) (js_tag names v)"
| "js_untag k names _ = None"

text \<open>What is left of the document of a variant without data.\<close>
fun js_no_data :: "json \<Rightarrow> bool" where
  "js_no_data (JObj _) = True"
| "js_no_data (JArr vs) \<longleftrightarrow> vs = []"
| "js_no_data _ = False"

section \<open>Names of an enum\<close>

text \<open>The variants an enum lists are all of them and have distinct names: then its names are read back
  and nothing else is.\<close>
locale enum_names =
  fixes name :: "'a \<Rightarrow> string" and variants :: "'a list"
  assumes names_distinct: "distinct (map name variants)"
    and all_variants: "v \<in> set variants"
begin

lemma name_inject: "name v = name w \<longleftrightarrow> v = w"
  using names_distinct all_variants by (auto simp: distinct_map dest: inj_onD)

lemma variant_iff: "variant_of name variants s = Some v \<longleftrightarrow> name v = s"
proof
  assume "name v = s"
  moreover have "variant_of name variants s \<noteq> None"
    using \<open>name v = s\<close> all_variants [of v] unfolding variant_of_def find_None_iff by auto
  ultimately show "variant_of name variants s = Some v"
    using variant_of_Some [of name variants s] name_inject by fastforce
qed (rule variant_of_Some)

lemma reads_back: "js_variant u name variants (JStr (name v)) = Some v"
  by (simp add: variant_iff)

lemma reads_only: "js_variant u name variants (JStr s) = Some v \<Longrightarrow> s = name v"
  by (simp add: variant_iff)

end

section \<open>Facts about the readers\<close>

text \<open>A decimal reader for witnesses: a string or a number.\<close>
fun text_decimal :: "lib \<Rightarrow> dec reader" where
  "text_decimal L (JStr t) = l_parse L t"
| "text_decimal L (JNum t) = l_parse L t"
| "text_decimal L _ = None"


lemma text_uint_show: "n < 2 ^ w \<Longrightarrow> text_uint w (show_nat n) = Some n"
  by (simp add: text_uint_def)

lemma js_u64_show [simp]: "js_u64 (JNum (show_u64 x)) = Some x"
proof -
  have "unat x < 2 ^ 64"
    using unsigned_less [of x, where 'a = nat] by simp
  then show ?thesis by (simp add: show_u64_def text_uint_show)
qed

lemma js_untag_absent: "k \<notin> fst ` set kvs \<Longrightarrow> js_untag k names (JObj kvs) = None"
proof -
  assume "k \<notin> fst ` set kvs"
  then have "filter (\<lambda>kv. fst kv = k) kvs = []"
    by (force simp: filter_empty_conv)
  then show ?thesis by simp
qed

text \<open>The document of an object whose tag is a name.\<close>
lemma js_untag_front:
  "k \<notin> fst ` set kvs \<Longrightarrow> js_untag k names (JObj ((k, JStr n) # kvs)) = Some (n, JObj kvs)"
proof -
  assume k: "k \<notin> fst ` set kvs"
  then have "filter (\<lambda>kv. fst kv = k) kvs = []" "filter (\<lambda>kv. fst kv \<noteq> k) kvs = kvs"
    by (force simp: filter_empty_conv filter_id_conv)+
  then show ?thesis by simp
qed

lemma js_untag_obj:
  assumes "distinct (map fst kvs)" and "map_of kvs k = Some (JStr n)"
  shows "js_untag k names (JObj kvs) = Some (n, JObj (filter (\<lambda>kv. fst kv \<noteq> k) kvs))"
proof -
  have "filter (\<lambda>kv. fst kv = k) kvs = [(k, JStr n)]"
    using assms
  proof (induction kvs)
    case (Cons kv kvs)
    show ?case
    proof (cases "fst kv = k")
      case True
      then have "filter (\<lambda>kv. fst kv = k) kvs = []"
        using Cons.prems(1) by (auto simp: filter_empty_conv rev_image_eqI)
      then show ?thesis using True Cons.prems(2) by (cases kv) simp
    next
      case False
      then show ?thesis using Cons by (cases kv) simp
    qed
  qed simp
  then show ?thesis by simp
qed

text \<open>An object without repeated keys: its fields are its lookups.\<close>
lemma map_of_filter_keys:
  "map_of (filter (\<lambda>kv. P (fst kv)) kvs) k = (if P k then map_of kvs k else None)"
  by (induction kvs) auto

lemma js_slots_obj:
  assumes "distinct (map fst kvs)"
  shows "\<exists>s. js_slots fs (JObj kvs) = Some s \<and> (\<forall>k \<in> set (map fst fs). s k = map_of kvs k)"
proof -
  let ?own = "filter (\<lambda>kv. fst kv \<in> set (map fst fs)) kvs"
  have "distinct (map fst ?own)"
    using assms by (induction kvs) auto
  then have "js_slots fs (JObj kvs) = Some (map_of ?own)"
    by (simp add: Let_def)
  moreover have "map_of ?own k = map_of kvs k" if "k \<in> set (map fst fs)" for k
    using that map_of_filter_keys [of "\<lambda>k. k \<in> set (map fst fs)" kvs k] by simp
  ultimately show ?thesis by blast
qed

end
