(* ===== verification/Message_Decoding.thy ===== *)
theory Message_Decoding
  imports Serde Feeds
begin

text \<open>Reading the WebSocket messages of \<^verbatim>\<open>crates/rt-kraken-futures/src/messages.rs\<close>: the readers their
  serde attributes stand for, the routing of an inbound document, and the documents of the requests the
  client sends.  \<open>rd\<close> is the decimal's own reader.\<close>

section \<open>The bodies of the feeds\<close>

fun book_side_text :: "book_side \<Rightarrow> string" where
  "book_side_text BBuy = ''buy''"
| "book_side_text BSell = ''sell''"

text \<open>Below a tag a unit is \<^verbatim>\<open>null\<close> or an empty object.\<close>
fun buffered_unit :: "json \<Rightarrow> bool" where
  "buffered_unit JNull = True"
| "buffered_unit (JObj kvs) \<longleftrightarrow> kvs = []"
| "buffered_unit _ = False"

definition read_book_side :: "book_side reader" where
  "read_book_side = js_variant buffered_unit book_side_text [BBuy, BSell]"

definition read_price_level :: "dec reader \<Rightarrow> price_level reader" where
  "read_price_level rd j = do {
     s \<leftarrow> js_slots [(''price'', False), (''qty'', False)] j;
     price \<leftarrow> js_field s ''price'' rd;
     qty \<leftarrow> js_field s ''qty'' rd;
     Some \<lparr> pl_price = price, pl_qty = qty \<rparr> }"

definition read_book_snapshot :: "dec reader \<Rightarrow> book_snapshot_msg reader" where
  "read_book_snapshot rd j = do {
     s \<leftarrow> js_slots [(''product_id'', False), (''timestamp'', False), (''seq'', False),
            (''bids'', False), (''asks'', False)] j;
     product_id \<leftarrow> js_field s ''product_id'' js_string;
     timestamp \<leftarrow> js_field s ''timestamp'' js_u64;
     sq \<leftarrow> js_field s ''seq'' js_u64;
     bids \<leftarrow> js_field s ''bids'' (js_list (read_price_level rd));
     asks \<leftarrow> js_field s ''asks'' (js_list (read_price_level rd));
     Some \<lparr> bs_product_id = product_id, bs_timestamp = timestamp, bs_seq = sq,
            bs_bids = bids, bs_asks = asks \<rparr> }"

definition read_book_delta :: "dec reader \<Rightarrow> book_delta_msg reader" where
  "read_book_delta rd j = do {
     s \<leftarrow> js_slots [(''product_id'', False), (''timestamp'', False), (''seq'', False),
            (''side'', False), (''price'', False), (''qty'', False)] j;
     product_id \<leftarrow> js_field s ''product_id'' js_string;
     timestamp \<leftarrow> js_field s ''timestamp'' js_u64;
     sq \<leftarrow> js_field s ''seq'' js_u64;
     side \<leftarrow> js_field s ''side'' read_book_side;
     price \<leftarrow> js_field s ''price'' rd;
     qty \<leftarrow> js_field s ''qty'' rd;
     Some \<lparr> bd_product_id = product_id, bd_timestamp = timestamp, bd_seq = sq, bd_side = side,
            bd_price = price, bd_qty = qty \<rparr> }"

definition read_ticker :: "dec reader \<Rightarrow> ticker_msg reader" where
  "read_ticker rd j = do {
     s \<leftarrow> js_slots [(''product_id'', False), (''bid'', True), (''ask'', True), (''bid_size'', True),
            (''ask_size'', True), (''funding_rate'', True), (''funding_rate_prediction'', True),
            (''relative_funding_rate'', True), (''next_funding_rate_time'', True), (''time'', True),
            (''last'', True)] j;
     product_id \<leftarrow> js_field s ''product_id'' js_string;
     bid \<leftarrow> js_opt_field s ''bid'' rd;
     ask \<leftarrow> js_opt_field s ''ask'' rd;
     bid_size \<leftarrow> js_opt_field s ''bid_size'' rd;
     ask_size \<leftarrow> js_opt_field s ''ask_size'' rd;
     funding_rate \<leftarrow> js_opt_field s ''funding_rate'' rd;
     prediction \<leftarrow> js_opt_field s ''funding_rate_prediction'' rd;
     relative \<leftarrow> js_opt_field s ''relative_funding_rate'' rd;
     next_time \<leftarrow> js_opt_field s ''next_funding_rate_time'' js_u64;
     stamp \<leftarrow> js_opt_field s ''time'' js_u64;
     final \<leftarrow> js_opt_field s ''last'' rd;
     Some \<lparr> tk_product_id = product_id, tk_bid = bid, tk_ask = ask, tk_bid_size = bid_size,
            tk_ask_size = ask_size, tk_funding_rate = funding_rate,
            tk_funding_rate_prediction = prediction, tk_relative_funding_rate = relative,
            tk_next_funding_rate_time = next_time, tk_time = stamp, tk_last = final \<rparr> }"

definition read_fill_entry :: "dec reader \<Rightarrow> fill_entry reader" where
  "read_fill_entry rd j = do {
     s \<leftarrow> js_slots [(''instrument'', False), (''time'', False), (''price'', False), (''seq'', False),
            (''buy'', False), (''qty'', False), (''remaining_order_qty'', True), (''order_id'', False),
            (''fill_id'', False), (''fill_type'', False), (''fee_paid'', False),
            (''fee_currency'', False), (''cli_ord_id'', True), (''order_type'', True),
            (''taker_order_type'', True)] j;
     instrument \<leftarrow> js_field s ''instrument'' js_string;
     stamp \<leftarrow> js_field s ''time'' js_u64;
     price \<leftarrow> js_field s ''price'' rd;
     sq \<leftarrow> js_field s ''seq'' js_u64;
     buy \<leftarrow> js_field s ''buy'' js_bool;
     qty \<leftarrow> js_field s ''qty'' rd;
     remaining \<leftarrow> js_opt_field s ''remaining_order_qty'' rd;
     order_id \<leftarrow> js_field s ''order_id'' js_string;
     fill_id \<leftarrow> js_field s ''fill_id'' js_string;
     fill_type \<leftarrow> js_field s ''fill_type'' js_string;
     fee_paid \<leftarrow> js_field s ''fee_paid'' rd;
     fee_currency \<leftarrow> js_field s ''fee_currency'' js_string;
     cli_ord_id \<leftarrow> js_opt_field s ''cli_ord_id'' js_string;
     order_type \<leftarrow> js_opt_field s ''order_type'' js_string;
     taker_order_type \<leftarrow> js_opt_field s ''taker_order_type'' js_string;
     Some \<lparr> fe_instrument = instrument, fe_time = stamp, fe_price = price, fe_seq = sq, fe_buy = buy,
            fe_qty = qty, fe_remaining_order_qty = remaining, fe_order_id = order_id,
            fe_fill_id = fill_id, fe_fill_type = fill_type, fe_fee_paid = fee_paid,
            fe_fee_currency = fee_currency, fe_cli_ord_id = cli_ord_id, fe_order_type = order_type,
            fe_taker_order_type = taker_order_type \<rparr> }"

text \<open>\<^verbatim>\<open>FillsSnapshotMessage\<close> and \<^verbatim>\<open>FillsMessage\<close> have the same fields.\<close>
definition read_fills :: "dec reader \<Rightarrow> (string \<times> fill_entry list) reader" where
  "read_fills rd j = do {
     s \<leftarrow> js_slots [(''account'', False), (''fills'', True)] j;
     account \<leftarrow> js_field s ''account'' js_string;
     fills \<leftarrow> js_default_field s ''fills'' [] (js_list (read_fill_entry rd));
     Some (account, fills) }"

definition read_open_order_entry :: "dec reader \<Rightarrow> open_order_entry reader" where
  "read_open_order_entry rd j = do {
     s \<leftarrow> js_slots [(''instrument'', False), (''time'', False), (''last_update_time'', True),
            (''qty'', False), (''filled'', True), (''limit_price'', True), (''stop_price'', True),
            (''type'', True), (''order_id'', False), (''cli_ord_id'', True), (''direction'', False),
            (''reduce_only'', True), (''triggerSignal'', True)] j;
     instrument \<leftarrow> js_field s ''instrument'' js_string;
     stamp \<leftarrow> js_field s ''time'' js_u64;
     last_update_time \<leftarrow> js_opt_field s ''last_update_time'' js_u64;
     qty \<leftarrow> js_field s ''qty'' rd;
     filled \<leftarrow> js_opt_field s ''filled'' rd;
     limit_price \<leftarrow> js_opt_field s ''limit_price'' rd;
     stop_price \<leftarrow> js_opt_field s ''stop_price'' rd;
     order_type \<leftarrow> js_opt_field s ''type'' js_string;
     order_id \<leftarrow> js_field s ''order_id'' js_string;
     cli_ord_id \<leftarrow> js_opt_field s ''cli_ord_id'' js_string;
     direction \<leftarrow> js_field s ''direction'' js_u8;
     reduce_only \<leftarrow> js_opt_field s ''reduce_only'' js_bool;
     trigger_signal \<leftarrow> js_opt_field s ''triggerSignal'' js_string;
     Some \<lparr> oe_instrument = instrument, oe_time = stamp, oe_last_update_time = last_update_time,
            oe_qty = qty, oe_filled = filled, oe_limit_price = limit_price,
            oe_stop_price = stop_price, oe_order_type = order_type, oe_order_id = order_id,
            oe_cli_ord_id = cli_ord_id, oe_direction = direction, oe_reduce_only = reduce_only,
            oe_trigger_signal = trigger_signal \<rparr> }"

definition read_open_orders_snapshot :: "dec reader \<Rightarrow> (string \<times> open_order_entry list) reader" where
  "read_open_orders_snapshot rd j = do {
     s \<leftarrow> js_slots [(''account'', False), (''orders'', True)] j;
     account \<leftarrow> js_field s ''account'' js_string;
     orders \<leftarrow> js_default_field s ''orders'' [] (js_list (read_open_order_entry rd));
     Some (account, orders) }"

definition read_open_orders_update :: "dec reader \<Rightarrow> open_orders_update reader" where
  "read_open_orders_update rd j = do {
     s \<leftarrow> js_slots [(''order'', True), (''is_cancel'', True), (''order_id'', True), (''reason'', True)] j;
     order \<leftarrow> js_opt_field s ''order'' (read_open_order_entry rd);
     is_cancel \<leftarrow> js_default_field s ''is_cancel'' False js_bool;
     order_id \<leftarrow> js_opt_field s ''order_id'' js_string;
     reason \<leftarrow> js_opt_field s ''reason'' js_string;
     Some \<lparr> ou_order = order, ou_is_cancel = is_cancel, ou_order_id = order_id, ou_reason = reason \<rparr> }"

section \<open>Routing\<close>

definition feed_names :: "string list" where
  "feed_names = [''heartbeat'', ''book_snapshot'', ''book'', ''ticker'', ''fills_snapshot'', ''fills'',
     ''open_orders_snapshot'', ''open_orders'', ''open_orders_verbose_snapshot'',
     ''open_orders_verbose'', ''other'']"

definition read_heartbeat :: "64 word option reader" where
  "read_heartbeat j = Option.bind (js_slots [(''time'', False)] j) (\<lambda>s. js_opt_field s ''time'' js_u64)"

definition read_feed_body :: "dec reader \<Rightarrow> string \<Rightarrow> ws_feed reader" where
  "read_feed_body rd n j =
     (if n = ''heartbeat'' then map_option Heartbeat (read_heartbeat j)
      else if n = ''book_snapshot'' then map_option BookSnapshot (read_book_snapshot rd j)
      else if n = ''book'' then map_option BookDelta (read_book_delta rd j)
      else if n = ''ticker'' then map_option Ticker (read_ticker rd j)
      else if n = ''fills_snapshot'' then map_option (case_prod FillsSnapshot) (read_fills rd j)
      else if n = ''fills'' then map_option (case_prod Fills) (read_fills rd j)
      else if n = ''open_orders_snapshot''
        then map_option (case_prod OpenOrdersSnapshot) (read_open_orders_snapshot rd j)
      else if n = ''open_orders'' then map_option OpenOrders (read_open_orders_update rd j)
      else if n = ''open_orders_verbose_snapshot''
        then map_option (case_prod OpenOrdersVerboseSnapshot) (read_open_orders_snapshot rd j)
      else if n = ''open_orders_verbose''
        then map_option OpenOrdersVerbose (read_open_orders_update rd j)
      else if js_no_data j then Some FeedOther else None)"

definition read_feed :: "dec reader \<Rightarrow> ws_feed reader" where
  "read_feed rd j = Option.bind (js_untag ''feed'' feed_names j) (\<lambda>(n, body). read_feed_body rd n body)"

definition event_names :: "string list" where
  "event_names = [''info'', ''subscribed'', ''unsubscribed'', ''challenge'', ''alert'', ''error'', ''pong'']"

definition read_subscription :: "(string \<times> string list option) reader" where
  "read_subscription j = do {
     s \<leftarrow> js_slots [(''feed'', False), (''product_ids'', False)] j;
     feed \<leftarrow> js_field s ''feed'' js_string;
     products \<leftarrow> js_opt_field s ''product_ids'' (js_list js_string);
     Some (feed, products) }"

definition read_message :: "string reader" where
  "read_message j =
     Option.bind (js_slots [(''message'', False)] j) (\<lambda>s. js_field s ''message'' js_string)"

text \<open>The code of an error must be an integer when it is given; it is not used.\<close>
definition read_error_message :: "string reader" where
  "read_error_message j = do {
     s \<leftarrow> js_slots [(''message'', False), (''code'', True)] j;
     message \<leftarrow> js_field s ''message'' js_string;
     code \<leftarrow> js_opt_field s ''code'' js_i64;
     Some message }"

definition read_event_body :: "string \<Rightarrow> ws_event reader" where
  "read_event_body n j =
     (if n = ''info'' then map_option EvInfo
        (Option.bind (js_slots [(''version'', False)] j) (\<lambda>s. js_opt_field s ''version'' js_u64))
      else if n = ''subscribed'' then map_option (case_prod EvSubscribed) (read_subscription j)
      else if n = ''unsubscribed'' then map_option (case_prod EvUnsubscribed) (read_subscription j)
      else if n = ''challenge'' then map_option EvChallenge (read_message j)
      else if n = ''alert'' then map_option EvAlert (read_message j)
      else if n = ''error'' then map_option EvError (read_error_message j)
      else if n = ''pong'' \<and> js_no_data j then Some EvPong
      else None)"

definition read_event :: "ws_event reader" where
  "read_event j = Option.bind (js_untag ''event'' event_names j) (\<lambda>(n, body). read_event_body n body)"

text \<open>\<^verbatim>\<open>serde(untagged)\<close>: the first alternative that reads.\<close>
definition read_inbound :: "dec reader \<Rightarrow> ws_inbound reader" where
  "read_inbound rd j = (case read_event j of
      Some e \<Rightarrow> Some (InEvent e)
    | None \<Rightarrow> map_option InFeed (read_feed rd j))"

text \<open>A text frame: \<open>parse\<close> is the JSON parser.\<close>
definition read_frame :: "dec reader \<Rightarrow> (string \<Rightarrow> json option) \<Rightarrow> string \<Rightarrow> ws_inbound option" where
  "read_frame rd parse text = Option.bind (parse text) (read_inbound rd)"

section \<open>Requests\<close>

record subscribe_request =
  rq_feed :: string
  rq_product_ids :: "string list"
  rq_original_challenge :: "string option"
  rq_signed_challenge :: "string option"
  rq_api_key :: "string option"

record unsubscribe_request =
  uq_feed :: string
  uq_product_ids :: "string list"

datatype ws_outbound_event =
    Subscribe subscribe_request
  | Unsubscribe unsubscribe_request
  | AskChallenge string
  | SendPong

text \<open>\<^verbatim>\<open>skip_serializing_if = "Option::is_none"\<close>.\<close>
definition present :: "string \<Rightarrow> string option \<Rightarrow> (string \<times> json) list" where
  "present k v = (case v of None \<Rightarrow> [] | Some s \<Rightarrow> [(k, JStr s)])"

fun outbound_event_json :: "ws_outbound_event \<Rightarrow> json" where
  "outbound_event_json (Subscribe q) = JObj
     ([(''event'', JStr ''subscribe''), (''feed'', JStr (rq_feed q)),
       (''product_ids'', JArr (map JStr (rq_product_ids q)))]
      @ present ''original_challenge'' (rq_original_challenge q)
      @ present ''signed_challenge'' (rq_signed_challenge q)
      @ present ''api_key'' (rq_api_key q))"
| "outbound_event_json (Unsubscribe q) = JObj
     [(''event'', JStr ''unsubscribe''), (''feed'', JStr (uq_feed q)),
      (''product_ids'', JArr (map JStr (uq_product_ids q)))]"
| "outbound_event_json (AskChallenge k) = JObj [(''event'', JStr ''challenge''), (''api_key'', JStr k)]"
| "outbound_event_json SendPong = JObj [(''event'', JStr ''pong'')]"

text \<open>The request of a text frame of the client, whose API key is \<open>key\<close>; pings and pongs are control
  frames.\<close>
fun outbound_request :: "string option \<Rightarrow> outbound \<Rightarrow> ws_outbound_event option" where
  "outbound_request key (OutSubscribe feed ps auth) = Some (Subscribe
     \<lparr> rq_feed = feed, rq_product_ids = ps, rq_original_challenge = map_option fst auth,
       rq_signed_challenge = map_option snd auth,
       rq_api_key = (case auth of None \<Rightarrow> None | Some _ \<Rightarrow> key) \<rparr>)"
| "outbound_request key (OutChallenge k) = Some (AskChallenge k)"
| "outbound_request key OutPing = None"
| "outbound_request key OutPong = None"

text \<open>The documents of the text frames, in the order they are sent.\<close>
definition sent_documents :: "string option \<Rightarrow> outbound list \<Rightarrow> json list" where
  "sent_documents key out = map outbound_event_json (List.map_filter (outbound_request key) out)"

section \<open>Facts about routing\<close>

interpretation book_sides: enum_names book_side_text "[BBuy, BSell]"
proof
  fix v :: book_side show "v \<in> set [BBuy, BSell]" by (cases v) simp_all
qed simp

lemma read_book_side_text: "read_book_side (JStr (book_side_text s)) = Some s"
  unfolding read_book_side_def by (rule book_sides.reads_back)

text \<open>The name of the feed a message came on.\<close>
fun feed_text :: "ws_feed \<Rightarrow> string" where
  "feed_text (Heartbeat _) = ''heartbeat''"
| "feed_text (BookSnapshot _) = ''book_snapshot''"
| "feed_text (BookDelta _) = ''book''"
| "feed_text (Ticker _) = ''ticker''"
| "feed_text (FillsSnapshot _ _) = ''fills_snapshot''"
| "feed_text (Fills _ _) = ''fills''"
| "feed_text (OpenOrdersSnapshot _ _) = ''open_orders_snapshot''"
| "feed_text (OpenOrders _) = ''open_orders''"
| "feed_text (OpenOrdersVerboseSnapshot _ _) = ''open_orders_verbose_snapshot''"
| "feed_text (OpenOrdersVerbose _) = ''open_orders_verbose''"
| "feed_text FeedOther = ''other''"

fun event_text :: "ws_event \<Rightarrow> string" where
  "event_text (EvInfo _) = ''info''"
| "event_text (EvSubscribed _ _) = ''subscribed''"
| "event_text (EvUnsubscribed _ _) = ''unsubscribed''"
| "event_text (EvChallenge _) = ''challenge''"
| "event_text (EvAlert _) = ''alert''"
| "event_text (EvError _) = ''error''"
| "event_text EvPong = ''pong''"

text \<open>The feeds the client knows.\<close>
definition known_feeds :: "string list" where
  "known_feeds = butlast feed_names"

lemma known_feeds_simp:
  "known_feeds = [''heartbeat'', ''book_snapshot'', ''book'', ''ticker'', ''fills_snapshot'', ''fills'',
     ''open_orders_snapshot'', ''open_orders'', ''open_orders_verbose_snapshot'', ''open_orders_verbose'']"
  by (simp add: known_feeds_def feed_names_def)

lemma read_feed_body_known:
  "read_feed_body rd n j = Some f \<Longrightarrow> n \<in> set known_feeds \<Longrightarrow> feed_text f = n"
  unfolding read_feed_body_def known_feeds_simp by (auto split: if_splits)

lemma read_feed_body_other:
  "n \<notin> set known_feeds \<Longrightarrow> read_feed_body rd n (JObj kvs) = Some FeedOther"
  unfolding read_feed_body_def known_feeds_simp by simp

lemma read_event_body_name: "read_event_body n j = Some e \<Longrightarrow> event_text e = n"
  unfolding read_event_body_def by (auto split: if_splits)

lemma read_event_absent: "''event'' \<notin> fst ` set kvs \<Longrightarrow> read_event (JObj kvs) = None"
  by (simp only: read_event_def js_untag_absent Option.bind.simps not_False_eq_True)

lemma read_event_named:
  "distinct (map fst kvs) \<Longrightarrow> map_of kvs ''event'' = Some (JStr n) \<Longrightarrow>
   read_event (JObj kvs) = read_event_body n (JObj (filter (\<lambda>kv. fst kv \<noteq> ''event'') kvs))"
  unfolding read_event_def by (simp only: js_untag_obj Option.bind.simps prod.case)

lemma read_feed_named:
  "distinct (map fst kvs) \<Longrightarrow> map_of kvs ''feed'' = Some (JStr n) \<Longrightarrow>
   read_feed rd (JObj kvs) = read_feed_body rd n (JObj (filter (\<lambda>kv. fst kv \<noteq> ''feed'') kvs))"
  unfolding read_feed_def by (simp only: js_untag_obj Option.bind.simps prod.case)

lemma read_inbound_feed:
  "distinct (map fst kvs) \<Longrightarrow> map_of kvs ''feed'' = Some (JStr n) \<Longrightarrow> read_event (JObj kvs) = None \<Longrightarrow>
   read_inbound rd (JObj kvs) =
     map_option InFeed (read_feed_body rd n (JObj (filter (\<lambda>kv. fst kv \<noteq> ''feed'') kvs)))"
  by (simp only: read_inbound_def option.case read_feed_named)

end
