(* ===== verification/Message_Properties.thy ===== *)
theory Message_Properties
  imports Message_Decoding
begin

text \<open>What the client makes of the documents it receives and which documents it sends: routing of
  inbound messages, messages whose shape has drifted, and the signed requests of a connection.\<close>

section \<open>Inbound\<close>

lemma handle_undecoded:
  "handle_text None now fd = Some (fd\<lparr> fd_text_counter := fd_text_counter fd + 1 \<rparr>, Inl KJson)"
  by (simp add: handle_text_def Let_def)

text \<open>C26. A message that names a feed: a control event the client can read wins over the feed; a feed the
  client does not know is skipped; a message of a known feed is read as that feed or refused, and a
  refused frame changes nothing but the frame counter.\<close>
theorem inbound_routing:
  assumes keys: "distinct (map fst kvs)"
    and feed: "map_of kvs ''feed'' = Some (JStr n)"
  shows "case read_inbound rd (JObj kvs) of
      Some (InEvent e) \<Rightarrow> read_event (JObj kvs) = Some e \<and> ''event'' \<in> fst ` set kvs
        \<and> (\<forall>m. map_of kvs ''event'' = Some (JStr m) \<longrightarrow> event_text e = m)
    | Some (InFeed f) \<Rightarrow> read_event (JObj kvs) = None
        \<and> (if n \<in> set known_feeds then feed_text f = n else f = FeedOther)
    | None \<Rightarrow> read_event (JObj kvs) = None \<and> n \<in> set known_feeds
        \<and> (\<forall>now fd. handle_text (read_inbound rd (JObj kvs)) now fd
             = Some (fd\<lparr> fd_text_counter := fd_text_counter fd + 1 \<rparr>, Inl KJson))"
proof (cases "read_event (JObj kvs)")
  case None
  note here = read_inbound_feed [OF keys feed None, of rd]
  show ?thesis
  proof (cases "n \<in> set known_feeds")
    case True
    then show ?thesis
      using here None by (auto simp: handle_undecoded dest: read_feed_body_known split: option.split)
  next
    case False
    then show ?thesis
      using here None by (simp add: read_feed_body_other)
  qed
next
  case (Some e)
  then have "''event'' \<in> fst ` set kvs"
    using read_event_absent [of kvs] by force
  moreover have "event_text e = m" if "map_of kvs ''event'' = Some (JStr m)" for m
    using Some read_event_named [OF keys that] by (simp add: read_event_body_name)
  ultimately show ?thesis
    using Some by (simp add: read_inbound_def)
qed

text \<open>A field of an object without repeated keys, below the tag.\<close>
lemma slots_below_tag:
  assumes "distinct (map fst kvs)" and "\<forall>k \<in> set (map fst fs). k \<noteq> t"
  obtains s where "js_slots fs (JObj (filter (\<lambda>kv. fst kv \<noteq> t) kvs)) = Some s"
    and "\<And>k. k \<in> set (map fst fs) \<Longrightarrow> s k = map_of kvs k"
proof -
  have "distinct (map fst (filter (\<lambda>kv. fst kv \<noteq> t) kvs))"
    using assms(1) by (induction kvs) auto
  from js_slots_obj [OF this, of fs] obtain s where
    s: "js_slots fs (JObj (filter (\<lambda>kv. fst kv \<noteq> t) kvs)) = Some s"
      "\<forall>k \<in> set (map fst fs). s k = map_of (filter (\<lambda>kv. fst kv \<noteq> t) kvs) k"
    by blast
  show thesis
  proof (rule that [OF s(1)])
    fix k assume k: "k \<in> set (map fst fs)"
    then have "k \<noteq> t" using assms(2) by blast
    then show "s k = map_of kvs k"
      using bspec [OF s(2) k] map_of_filter_keys [of "\<lambda>k. k \<noteq> t" kvs k] by simp
  qed
qed

lemma listless_snapshot:
  assumes "distinct (map fst kvs)" and "map_of kvs ''account'' = Some (JStr a)"
    and "''orders'' \<notin> fst ` set kvs"
  shows "read_open_orders_snapshot rd (JObj (filter (\<lambda>kv. fst kv \<noteq> ''feed'') kvs)) = Some (a, [])"
proof (rule slots_below_tag [OF assms(1), of "[(''account'', False), (''orders'', True)]" "''feed''"])
  fix s
  assume s: "js_slots [(''account'', False), (''orders'', True)]
      (JObj (filter (\<lambda>kv. fst kv \<noteq> ''feed'') kvs)) = Some s"
    and at: "\<And>k. k \<in> set (map fst [(''account'', False), (''orders'', True)]) \<Longrightarrow> s k = map_of kvs k"
  have "s ''account'' = Some (JStr a)" "s ''orders'' = None"
    using at [of "''account''"] at [of "''orders''"] assms(2,3) by (simp_all add: map_of_eq_None_iff)
  then show ?thesis
    unfolding read_open_orders_snapshot_def s
    by (simp add: js_field_def js_default_field_def)
qed simp

definition update_keys :: "string list" where
  "update_keys = [''order'', ''is_cancel'', ''order_id'', ''reason'']"

lemma empty_update:
  assumes "distinct (map fst kvs)" and "\<forall>k \<in> set update_keys. k \<notin> fst ` set kvs"
  shows "read_open_orders_update rd (JObj (filter (\<lambda>kv. fst kv \<noteq> ''feed'') kvs))
    = Some \<lparr> ou_order = None, ou_is_cancel = False, ou_order_id = None, ou_reason = None \<rparr>"
proof (rule slots_below_tag [OF assms(1), of "[(''order'', True), (''is_cancel'', True),
    (''order_id'', True), (''reason'', True)]" "''feed''"])
  fix s
  assume s: "js_slots [(''order'', True), (''is_cancel'', True), (''order_id'', True), (''reason'', True)]
      (JObj (filter (\<lambda>kv. fst kv \<noteq> ''feed'') kvs)) = Some s"
    and at: "\<And>k. k \<in> set (map fst [(''order'', True), (''is_cancel'', True), (''order_id'', True),
      (''reason'', True)]) \<Longrightarrow> s k = map_of kvs k"
  have "s k = None" if "k \<in> set update_keys" for k
  proof -
    have "k \<notin> fst ` set kvs" using assms(2) that by blast
    then show ?thesis
      using at [of k] that by (auto simp: update_keys_def simp flip: map_of_eq_None_iff)
  qed
  then show ?thesis
    unfolding read_open_orders_update_def s
    by (simp add: js_opt_field_def js_default_field_def update_keys_def)
qed simp

lemma drifted_snapshot:
  assumes "n = ''open_orders_snapshot'' \<or> n = ''open_orders_verbose_snapshot''"
    and "read_inbound rd j = map_option InFeed (read_feed_body rd n body)"
    and "read_open_orders_snapshot rd body = Some (a, [])"
  shows "handle_text (read_inbound rd j) now fd = Some (fd\<lparr> fd_text_counter := fd_text_counter fd + 1,
    fd_open_orders := \<lparr> oo_orders = Map.empty, oo_last_seen_at = Some now, oo_is_synced = True \<rparr> \<rparr>, Inr None)"
proof -
  have "oo_apply_snapshot [] now s = \<lparr> oo_orders = Map.empty, oo_last_seen_at = Some now, oo_is_synced = True \<rparr>"
    for s :: open_orders_state
    by (simp add: oo_apply_snapshot_def)
  then show ?thesis
    using assms by (auto simp: read_feed_body_def handle_text_def Let_def handle_open_orders_snapshot_def)
qed

lemma drifted_update:
  assumes "n = ''open_orders'' \<or> n = ''open_orders_verbose''"
    and "read_inbound rd j = map_option InFeed (read_feed_body rd n body)"
    and "read_open_orders_update rd body
      = Some \<lparr> ou_order = None, ou_is_cancel = False, ou_order_id = None, ou_reason = None \<rparr>"
  shows "handle_text (read_inbound rd j) now fd = Some (fd\<lparr> fd_text_counter := fd_text_counter fd + 1,
    fd_open_orders := (fd_open_orders fd)\<lparr> oo_last_seen_at := Some now \<rparr> \<rparr>, Inr None)"
  using assms
  by (auto simp: read_feed_body_def handle_text_def Let_def handle_open_orders_update_def oo_apply_update_def)

text \<open>C27. A drift of the schema need not show: an open-orders snapshot whose list comes under another key
  is read as the empty snapshot, so the client forgets every open order and counts itself in step; an
  update without any of its four keys, such as a control message of an unknown event that names the
  feed, is read as an update, moves the time of the last message and is otherwise lost.\<close>
theorem schema_drift_unnoticed:
  assumes keys: "distinct (map fst kvs)"
    and control: "read_event (JObj kvs) = None"
    and feed: "map_of kvs ''feed'' = Some (JStr n)"
    and body: "if n = ''open_orders_snapshot'' \<or> n = ''open_orders_verbose_snapshot''
        then map_of kvs ''account'' = Some (JStr a) \<and> ''orders'' \<notin> fst ` set kvs
        else (n = ''open_orders'' \<or> n = ''open_orders_verbose'')
          \<and> (\<forall>k \<in> set update_keys. k \<notin> fst ` set kvs)"
  shows "handle_text (read_inbound rd (JObj kvs)) now fd = Some (fd\<lparr>
      fd_text_counter := fd_text_counter fd + 1,
      fd_open_orders := (if n = ''open_orders_snapshot'' \<or> n = ''open_orders_verbose_snapshot''
        then \<lparr> oo_orders = Map.empty, oo_last_seen_at = Some now, oo_is_synced = True \<rparr>
        else (fd_open_orders fd)\<lparr> oo_last_seen_at := Some now \<rparr>) \<rparr>, Inr None)"
proof (cases "n = ''open_orders_snapshot'' \<or> n = ''open_orders_verbose_snapshot''")
  case True
  then have "read_open_orders_snapshot rd (JObj (filter (\<lambda>kv. fst kv \<noteq> ''feed'') kvs)) = Some (a, [])"
    using body listless_snapshot [OF keys] by simp
  from drifted_snapshot [OF True read_inbound_feed [OF keys feed control] this] True
  show ?thesis by (simp only: if_True)
next
  case False
  note b = body [unfolded if_not_P [OF False]]
  from drifted_update [OF conjunct1 [OF b] read_inbound_feed [OF keys feed control]
      empty_update [OF keys conjunct2 [OF b]]] False
  show ?thesis by (simp only: if_False)
qed

section \<open>Signed requests\<close>

fun carries_auth :: "outbound \<Rightarrow> bool" where
  "carries_auth (OutSubscribe _ _ (Some _)) = True"
| "carries_auth _ = False"

lemma public_unsigned: "filter carries_auth (public_subscriptions cfg key) = []"
  by (simp add: public_subscriptions_def split: option.split)

lemma private_signed:
  "private_subscriptions cfg key challenge sg = Some subs \<Longrightarrow> filter carries_auth subs = subs"
  by (auto simp: private_subscriptions_def bind_eq_Some_conv)

lemma map_sum_None: "map_sum f (\<lambda>_. None) r = Inr (Some x) \<Longrightarrow> P"
  by (cases r) simp_all

lemma challenge_text:
  "handle_text msg now fd = Some (fd', Inr (Some ch)) \<Longrightarrow> msg = Some (InEvent (EvChallenge ch))"
proof -
  have event: "handle_event e = Inr (Some ch) \<Longrightarrow> e = EvChallenge ch" for e
    by (cases e) auto
  assume "handle_text msg now fd = Some (fd', Inr (Some ch))"
  then show ?thesis
    by (cases msg) (auto simp: handle_text_def Let_def bind_eq_Some_conv dest: event
        split: ws_inbound.splits elim!: map_sum_None)
qed

text \<open>What the loop adds to the frames sent: at most one answer to a challenge of the script.\<close>
definition answers :: "ws_config \<Rightarrow> string option \<Rightarrow> ws_item list \<Rightarrow> outbound list \<Rightarrow> bool" where
  "answers cfg key its sgd \<longleftrightarrow> sgd = [] \<or> (\<exists>ch now sg.
     WText (Some (InEvent (EvChallenge ch))) now (Inr sg) \<in> set its
     \<and> private_subscriptions cfg key ch sg = Some sgd)"

lemma answers_Nil [simp]: "answers cfg key its []"
  by (simp add: answers_def)

lemma answers_more: "answers cfg key its sgd \<Longrightarrow> answers cfg key (it # its) sgd"
  by (auto simp: answers_def)

definition signed_by ::
    "ws_config \<Rightarrow> string option \<Rightarrow> ws_item list \<Rightarrow> bool \<Rightarrow> outbound list \<Rightarrow> outbound list \<Rightarrow> bool" where
  "signed_by cfg key its completed out out' \<longleftrightarrow>
     (\<exists>sgd. filter carries_auth out' = filter carries_auth out @ sgd
       \<and> (if completed then sgd = [] else answers cfg key its sgd))"

lemma signed_by_same [simp]: "signed_by cfg key its completed out out"
  by (simp add: signed_by_def)

lemma signed_by_more: "signed_by cfg key its completed out out' \<Longrightarrow> signed_by cfg key (it # its) completed out out'"
  by (auto simp: signed_by_def intro: answers_more split: if_splits)

lemma signed_by_unsigned [simp]:
  "\<not> carries_auth fr \<Longrightarrow> signed_by cfg key its completed (out @ [fr]) out' \<longleftrightarrow> signed_by cfg key its completed out out'"
  by (simp add: signed_by_def)

lemma signed_by_answer:
  assumes "handle_text msg now fd = Some (fd1, Inr (Some ch))" "private_subscriptions cfg key ch sg = Some subs"
    and "signed_by cfg key its True (out @ subs) out'"
  shows "signed_by cfg key (WText msg now (Inr sg) # its) False out out'"
proof -
  have "filter carries_auth out' = filter carries_auth out @ subs"
    using assms(3) by (simp add: signed_by_def private_signed [OF assms(2)])
  moreover have "msg = Some (InEvent (EvChallenge ch))" using assms(1) by (rule challenge_text)
  ultimately show ?thesis using assms(2) unfolding signed_by_def answers_def by auto
qed

lemma ws_loop_signed:
  "ws_loop cfg key its completed fd out = Some (fd', out', ex) \<Longrightarrow> signed_by cfg key its completed out out'"
proof (induction cfg key its completed fd out arbitrary: fd' out' ex rule: ws_loop.induct)
  case (4 cfg key msg now sgd its completed fd out)
  from 4(5) obtain fd1 r where h: "handle_text msg now fd = Some (fd1, r)"
    by (auto simp: bind_eq_Some_conv)
  show ?case
  proof (cases r)
    case (Inl e)
    show ?thesis
    proof (cases "is_sequence_gap e")
      case True
      then show ?thesis using 4(5) h Inl by simp
    next
      case False
      then show ?thesis
        using 4(5) h Inl by (simp add: signed_by_more [OF 4(1) [OF h refl Inl False]])
    qed
  next
    case (Inr action)
    show ?thesis
    proof (cases action)
      case None
      then show ?thesis
        using 4(5) h Inr by (simp add: signed_by_more [OF 4(2) [OF h refl Inr None]])
    next
      case (Some ch)
      consider (settled) completed | (failed) e where "\<not> completed" "sgd = Inl e" | (answered) sg where "\<not> completed" "sgd = Inr sg"
        by (cases sgd) auto
      then show ?thesis
      proof cases
        case settled
        then have "ws_loop cfg key its completed fd1 out = Some (fd', out', ex)" using 4(5) h Inr Some by simp
        then show ?thesis by (rule signed_by_more [OF 4(3) [OF h refl Inr Some settled]])
      next
        case failed
        then show ?thesis using 4(5) h Inr Some by simp
      next
        case answered
        then obtain subs where subs: "private_subscriptions cfg key ch sg = Some subs"
          and run: "ws_loop cfg key its True fd1 (out @ subs) = Some (fd', out', ex)"
          using 4(5) h Inr Some by (auto simp: bind_eq_Some_conv)
        show ?thesis
          using signed_by_answer [OF h [unfolded Inr Some] subs
              4(4) [OF h refl Inr Some answered subs run]] answered by simp
      qed
    qed
  qed
qed (simp_all add: signed_by_more split: if_splits)

text \<open>The private feeds a configuration asks for and the document that asks for one.\<close>
definition private_feeds :: "ws_config \<Rightarrow> string list" where
  "private_feeds cfg = (if wc_subscribe_fills cfg then [''fills''] else [])
     @ (if wc_subscribe_open_orders cfg
        then [if wc_open_orders_verbose cfg then ''open_orders_verbose'' else ''open_orders''] else [])"

definition signed_request :: "string \<Rightarrow> string \<Rightarrow> string \<Rightarrow> string \<Rightarrow> json" where
  "signed_request k challenge sg feed = JObj [(''event'', JStr ''subscribe''), (''feed'', JStr feed),
     (''product_ids'', JArr []), (''original_challenge'', JStr challenge),
     (''signed_challenge'', JStr sg), (''api_key'', JStr k)]"

definition has_key :: "string \<Rightarrow> json \<Rightarrow> bool" where
  "has_key k j \<longleftrightarrow> json_get k j \<noteq> None"

lemma sent_documents_Cons:
  "sent_documents key (fr # out) = (case outbound_request key fr of
      None \<Rightarrow> sent_documents key out | Some q \<Rightarrow> outbound_event_json q # sent_documents key out)"
  by (simp add: sent_documents_def map_filter_simps split: option.split)

lemma sent_documents_Nil [simp]: "sent_documents key [] = []"
  by (simp add: sent_documents_def map_filter_simps)

lemma signed_frame:
  "(case outbound_request key fr of None \<Rightarrow> False
     | Some q \<Rightarrow> has_key ''signed_challenge'' (outbound_event_json q)) \<longleftrightarrow> carries_auth fr"
  by (cases "(key, fr)" rule: outbound_request.cases)
     (auto simp: has_key_def present_def split: option.splits elim!: carries_auth.elims)

lemma signed_documents:
  "filter (has_key ''signed_challenge'') (sent_documents key out) = sent_documents key (filter carries_auth out)"
proof (induction out)
  case (Cons fr out)
  then show ?case
    using signed_frame [of key fr] by (auto simp: sent_documents_Cons split: option.splits)
qed simp

lemma private_documents:
  "private_subscriptions cfg (Some k) challenge sg = Some subs \<Longrightarrow>
   sent_documents (Some k) subs = map (signed_request k challenge sg) (private_feeds cfg)"
  by (auto simp: private_subscriptions_def private_feeds_def signed_request_def sent_documents_Cons present_def)

lemma run_once_signed:
  assumes "run_once cfg key c fd = Some (fd', out, ex)"
  shows "filter carries_auth out = [] \<or> (wants_private cfg key \<and> (\<exists>ch now sg.
     WText (Some (InEvent (EvChallenge ch))) now (Inr sg) \<in> set (cn_items c)
     \<and> private_subscriptions cfg key ch sg = Some (filter carries_auth out)))"
proof (cases "cn_connected c \<and> cn_public_ok c")
  case True
  then have "ws_loop cfg key (cn_items c) (\<not> wants_private cfg key) fd (public_subscriptions cfg key)
      = Some (fd', out, ex)"
    using assms by (simp add: run_once_def)
  from ws_loop_signed [OF this] show ?thesis
    by (auto simp: signed_by_def public_unsigned answers_def split: if_splits)
next
  case False
  then have "out = []" using assms by (auto simp: run_once_def split: if_splits)
  then show ?thesis by simp
qed

text \<open>C28. On one connection a signed request is sent only with credentials and a private feed switched on,
  only as the answer to a challenge the server sent, once for each private feed of the configuration, and
  each carries that challenge, its signature and the API key.\<close>
theorem signed_requests:
  assumes "run_once cfg key c fd = Some (fd', out, ex)"
  shows "filter (has_key ''signed_challenge'') (sent_documents key out) = []
    \<or> (\<exists>k ch now sg. key = Some k \<and> wants_private cfg key
        \<and> WText (Some (InEvent (EvChallenge ch))) now (Inr sg) \<in> set (cn_items c)
        \<and> filter (has_key ''signed_challenge'') (sent_documents key out)
          = map (signed_request k ch sg) (private_feeds cfg))"
proof -
  from run_once_signed [OF assms] consider "filter carries_auth out = []"
    | ch now sg where "wants_private cfg key"
      "WText (Some (InEvent (EvChallenge ch))) now (Inr sg) \<in> set (cn_items c)"
      "private_subscriptions cfg key ch sg = Some (filter carries_auth out)"
    by blast
  then show ?thesis
  proof cases
    case 1
    then show ?thesis by (simp add: signed_documents)
  next
    case 2
    then obtain k where k: "key = Some k"
      by (auto simp: wants_private_def)
    with 2 private_documents [of cfg k ch sg] show ?thesis
      unfolding signed_documents by blast
  qed
qed

section \<open>Witnesses\<close>

definition demo_delta :: "(string \<times> json) list" where
  "demo_delta = [(''feed'', JStr ''book''), (''product_id'', JStr ''PF_XBTUSD''),
     (''side'', JStr ''sell''), (''seq'', JNum ''7''), (''price'', JStr ''3''),
     (''qty'', JNum ''0''), (''timestamp'', JNum ''5'')]"

lemma inbound_routing_witness:
  "(case read_inbound (text_decimal lib0) (JObj demo_delta) of
      Some (InEvent e) \<Rightarrow> False
    | Some (InFeed f) \<Rightarrow> feed_text f = ''book'' \<and> (case f of BookDelta d \<Rightarrow> bd_side d = BSell | _ \<Rightarrow> False)
    | None \<Rightarrow> False)
   \<and> (case read_inbound (text_decimal lib0) (JObj [(''feed'', JStr ''book'')]) of
      None \<Rightarrow> handle_text (read_inbound (text_decimal lib0) (JObj [(''feed'', JStr ''book'')])) 0
          (feeds_new (ws_config_new [])) = Some ((feeds_new (ws_config_new []))\<lparr> fd_text_counter := 1 \<rparr>, Inl KJson)
    | Some m \<Rightarrow> False)"
proof -
  have read: "case read_inbound (text_decimal lib0) (JObj demo_delta) of
      Some (InFeed (BookDelta d)) \<Rightarrow> bd_side d = BSell | _ \<Rightarrow> False"
    by (simp add: demo_delta_def read_inbound_def read_event_def read_feed_def read_feed_body_def
        read_book_delta_def js_field_def read_book_side_def variant_of_def text_uint_def parse_nat_def
        parse_dec_def char_digit_def Let_def)
  have refused: "read_inbound (text_decimal lib0) (JObj [(''feed'', JStr ''book'')]) = None"
    by code_simp
  have keys: "distinct (map fst demo_delta)" "map_of demo_delta ''feed'' = Some (JStr ''book'')"
    by (simp_all add: demo_delta_def)
  have known: "''book'' \<in> set known_feeds" by (simp add: known_feeds_simp)
  have zero: "fd_text_counter (feeds_new (ws_config_new [])) = 0" by (simp add: feeds_new_def)
  from read obtain d where d: "read_inbound (text_decimal lib0) (JObj demo_delta) = Some (InFeed (BookDelta d))"
    "bd_side d = BSell" by (auto split: option.splits ws_inbound.splits ws_feed.splits)
  show ?thesis
    using inbound_routing [of demo_delta "''book''" "text_decimal lib0", OF keys] d known
      inbound_routing [of "[(''feed'', JStr ''book'')]" "''book''" "text_decimal lib0"] refused zero
    by simp
qed

lemma schema_drift_unnoticed_witness:
  "handle_text (read_inbound (text_decimal lib0) (JObj [(''event'', JStr ''subscribed_failed''),
      (''feed'', JStr ''open_orders'')])) 7 (feeds_new (ws_config_new []))
    = Some ((feeds_new (ws_config_new []))\<lparr> fd_text_counter := 1,
        fd_open_orders := open_orders_new\<lparr> oo_last_seen_at := Some 7 \<rparr> \<rparr>, Inr None)
   \<and> handle_text (read_inbound (text_decimal lib0) (JObj [(''feed'', JStr ''open_orders_snapshot''),
      (''account'', JStr ''a''), (''open_orders'', JArr [JNull])])) 7 (feeds_new (ws_config_new []))
    = Some ((feeds_new (ws_config_new []))\<lparr> fd_text_counter := 1, fd_open_orders :=
        \<lparr> oo_orders = Map.empty, oo_last_seen_at = Some 7, oo_is_synced = True \<rparr> \<rparr>, Inr None)"
proof -
  have control: "read_event (JObj [(''event'', JStr ''subscribed_failed''), (''feed'', JStr ''open_orders'')]) = None"
    "read_event (JObj [(''feed'', JStr ''open_orders_snapshot''), (''account'', JStr ''a''),
      (''open_orders'', JArr [JNull])]) = None"
    by code_simp+
  have fresh: "fd_text_counter (feeds_new (ws_config_new [])) = 0"
    "fd_open_orders (feeds_new (ws_config_new [])) = open_orders_new"
    by (simp_all add: feeds_new_def)
  show ?thesis
    using schema_drift_unnoticed [OF _ control(1), of "''open_orders''" "[]" "text_decimal lib0" 7 "feeds_new (ws_config_new [])"]
      schema_drift_unnoticed [OF _ control(2), of "''open_orders_snapshot''" "''a''" "text_decimal lib0" 7 "feeds_new (ws_config_new [])"]
    by (simp add: update_keys_def fresh)
qed

definition demo_connection :: connection where
  "demo_connection = \<lparr> cn_shutdown_before = False, cn_connected = True, cn_public_ok = True,
     cn_items = [WText (Some (InEvent (EvChallenge ''226aee50''))) 5 (Inr ''signature'')],
     cn_shutdown_in_backoff = False \<rparr>"

lemma signed_requests_witness:
  "\<exists>fd' out ex. run_once (ws_config_new [''PF_XBTUSD'']) (Some ''key'') demo_connection
      (feeds_new (ws_config_new [''PF_XBTUSD''])) = Some (fd', out, ex)
    \<and> filter (has_key ''signed_challenge'') (sent_documents (Some ''key'') out)
      = [signed_request ''key'' ''226aee50'' ''signature'' ''fills'',
         signed_request ''key'' ''226aee50'' ''signature'' ''open_orders_verbose'']"
proof -
  let ?cfg = "ws_config_new [''PF_XBTUSD'']"
  have cfg: "wants_private ?cfg (Some ''key'')" "private_feeds ?cfg = [''fills'', ''open_orders_verbose'']"
    by (simp_all add: wants_private_def private_feeds_def ws_config_new_def)
  let ?subs = "[OutSubscribe ''fills'' [] (Some (''226aee50'', ''signature'')),
    OutSubscribe ''open_orders_verbose'' [] (Some (''226aee50'', ''signature''))]"
  have subs: "private_subscriptions ?cfg (Some ''key'') ''226aee50'' ''signature'' = Some ?subs"
    by (simp add: private_subscriptions_def ws_config_new_def)
  obtain fd' out ex where run: "run_once ?cfg (Some ''key'') demo_connection (feeds_new ?cfg) = Some (fd', out, ex)"
    and signed: "filter carries_auth out \<noteq> []"
  proof
    show "run_once ?cfg (Some ''key'') demo_connection (feeds_new ?cfg)
      = Some ((feeds_new ?cfg)\<lparr> fd_text_counter := fd_text_counter (feeds_new ?cfg) + 1 \<rparr>,
          public_subscriptions ?cfg (Some ''key'') @ ?subs, StillRunning)"
      by (simp add: run_once_def demo_connection_def cfg handle_text_def Let_def subs)
  qed simp
  have "filter (has_key ''signed_challenge'') (sent_documents (Some ''key'') out) \<noteq> []"
    using signed unfolding signed_documents
    by (cases "filter carries_auth out") (auto simp: sent_documents_Cons filter_eq_Cons_iff elim!: carries_auth.elims)
  with signed_requests [OF run] cfg have
    "filter (has_key ''signed_challenge'') (sent_documents (Some ''key'') out)
      = map (signed_request ''key'' ''226aee50'' ''signature'') [''fills'', ''open_orders_verbose'']"
    by (auto simp: demo_connection_def)
  with run show ?thesis by fastforce
qed

end
