(* ===== verification/Rest_Decoding.thy ===== *)
theory Rest_Decoding
  imports Serde Kraken_Rest "HOL-Library.AList"
begin

text \<open>Reading the REST answers of \<^verbatim>\<open>crates/rt-kraken-futures/src/messages.rs\<close> and the accounts of
  \<^verbatim>\<open>accounts.rs\<close>: the readers their serde attributes stand for, and the REST client with them.\<close>

section \<open>Order answers\<close>

text \<open>Read from the text itself: a unit is \<^verbatim>\<open>null\<close>.\<close>
definition text_unit :: "json \<Rightarrow> bool" where
  "text_unit j \<longleftrightarrow> j = JNull"

definition read_kraken_side :: "kraken_side reader" where
  "read_kraken_side = js_variant text_unit kraken_side_text [KBuy, KSell]"

definition read_kraken_order_type :: "kraken_order_type reader" where
  "read_kraken_order_type = js_variant text_unit kraken_order_type_text
     [Mkt, Lmt, Post, KIoc, Stp, TakeProfit, TrailingStop]"

definition read_envelope :: "response_envelope reader" where
  "read_envelope j = do {
     s \<leftarrow> js_slots [(''result'', False), (''error'', False), (''serverTime'', False)] j;
     result \<leftarrow> js_field s ''result'' js_string;
     err \<leftarrow> js_opt_field s ''error'' js_string;
     server_time \<leftarrow> js_opt_field s ''serverTime'' js_string;
     Some \<lparr> re_result = result, re_error = err, re_server_time = server_time \<rparr> }"

text \<open>\<^verbatim>\<open>SendStatus\<close> and \<^verbatim>\<open>CancelStatus\<close> have the same fields.\<close>
definition read_status :: "send_status reader" where
  "read_status j = do {
     s \<leftarrow> js_slots [(''order_id'', False), (''status'', False), (''receivedTime'', False)] j;
     order_id \<leftarrow> js_opt_field s ''order_id'' js_string;
     status \<leftarrow> js_opt_field s ''status'' js_string;
     received \<leftarrow> js_opt_field s ''receivedTime'' js_string;
     Some \<lparr> st_order_id = order_id, st_status = status, st_received_time = received \<rparr> }"

definition read_send_response :: "send_order_response reader" where
  "read_send_response j = do {
     s \<leftarrow> js_slots [(''result'', False), (''error'', False), (''sendStatus'', False)] j;
     result \<leftarrow> js_field s ''result'' js_string;
     err \<leftarrow> js_opt_field s ''error'' js_string;
     status \<leftarrow> js_opt_field s ''sendStatus'' read_status;
     Some \<lparr> so_result = result, so_error = err, so_send_status = status \<rparr> }"

definition read_cancel_response :: "cancel_order_response reader" where
  "read_cancel_response j = do {
     s \<leftarrow> js_slots [(''result'', False), (''error'', False), (''cancelStatus'', False)] j;
     result \<leftarrow> js_field s ''result'' js_string;
     err \<leftarrow> js_opt_field s ''error'' js_string;
     status \<leftarrow> js_opt_field s ''cancelStatus'' read_status;
     Some \<lparr> cl_result = result, cl_error = err, cl_cancel_status = status \<rparr> }"

definition read_order_entry :: "dec reader \<Rightarrow> rest_order_entry reader" where
  "read_order_entry rd j = do {
     s \<leftarrow> js_slots [(''orderId'', False), (''symbol'', False), (''side'', False), (''orderType'', False),
            (''limitPrice'', False), (''filledSize'', False), (''unfilledSize'', False),
            (''status'', False), (''receivedTime'', False), (''lastUpdateTime'', False),
            (''cliOrdId'', True)] j;
     order_id \<leftarrow> js_field s ''orderId'' js_string;
     symbol \<leftarrow> js_field s ''symbol'' js_string;
     side \<leftarrow> js_field s ''side'' read_kraken_side;
     order_type \<leftarrow> js_opt_field s ''orderType'' js_string;
     limit_price \<leftarrow> js_opt_field s ''limitPrice'' rd;
     filled \<leftarrow> js_opt_field s ''filledSize'' rd;
     unfilled \<leftarrow> js_opt_field s ''unfilledSize'' rd;
     status \<leftarrow> js_opt_field s ''status'' js_string;
     received \<leftarrow> js_opt_field s ''receivedTime'' js_string;
     updated \<leftarrow> js_opt_field s ''lastUpdateTime'' js_string;
     cli_ord_id \<leftarrow> js_opt_field s ''cliOrdId'' js_string;
     Some \<lparr> ro_order_id = order_id, ro_symbol = symbol, ro_side = side, ro_order_type = order_type,
            ro_limit_price = limit_price, ro_filled_size = filled, ro_unfilled_size = unfilled,
            ro_status = status, ro_received_time = received, ro_last_update_time = updated,
            ro_cli_ord_id = cli_ord_id \<rparr> }"

definition read_open_orders :: "dec reader \<Rightarrow> open_orders_response reader" where
  "read_open_orders rd j = do {
     s \<leftarrow> js_slots [(''result'', False), (''error'', False), (''openOrders'', True)] j;
     result \<leftarrow> js_field s ''result'' js_string;
     err \<leftarrow> js_opt_field s ''error'' js_string;
     orders \<leftarrow> js_default_field s ''openOrders'' [] (js_list (read_order_entry rd));
     Some \<lparr> ol_result = result, ol_error = err, ol_open_orders = orders \<rparr> }"

section \<open>Accounts\<close>

text \<open>\<^verbatim>\<open>serde_json::Value\<close> keeps the last pair of a repeated key; the order of the keys matters to no
  reader.\<close>
fun json_value :: "json \<Rightarrow> json" where
  "json_value (JArr js) = JArr (map json_value js)"
| "json_value (JObj kvs) = JObj (AList.clearjunk (rev (map (\<lambda>(k, v). (k, json_value v)) kvs)))"
| "json_value j = j"

definition read_accounts :: "accounts_response reader" where
  "read_accounts j = do {
     s \<leftarrow> js_slots [(''result'', False), (''accounts'', False), (''serverTime'', False)] j;
     result \<leftarrow> js_field s ''result'' js_string;
     accounts \<leftarrow> js_field s ''accounts'' (js_map (\<lambda>v. Some (json_value v)));
     server_time \<leftarrow> js_field s ''serverTime'' js_string;
     Some \<lparr> ac_result = result, ac_accounts = accounts, ac_server_time = server_time \<rparr> }"

definition read_auxiliary :: "dec reader \<Rightarrow> margin_auxiliary reader" where
  "read_auxiliary rd j = do {
     s \<leftarrow> js_slots [(''usd'', False), (''pv'', False), (''pnl'', False), (''af'', False), (''funding'', False)] j;
     usd \<leftarrow> js_field s ''usd'' rd;
     pv \<leftarrow> js_field s ''pv'' rd;
     pnl \<leftarrow> js_field s ''pnl'' rd;
     af \<leftarrow> js_field s ''af'' rd;
     funding \<leftarrow> js_field s ''funding'' rd;
     Some \<lparr> mx_usd = usd, mx_pv = pv, mx_pnl = pnl, mx_af = af, mx_funding = funding \<rparr> }"

definition read_margin :: "dec reader \<Rightarrow> margin_account reader" where
  "read_margin rd j = do {
     s \<leftarrow> js_slots [(''type'', False), (''currency'', False), (''auxiliary'', False), (''balances'', False)] j;
     account_type \<leftarrow> js_field s ''type'' js_string;
     currency \<leftarrow> js_field s ''currency'' js_string;
     auxiliary \<leftarrow> js_field s ''auxiliary'' (read_auxiliary rd);
     balances \<leftarrow> js_field s ''balances'' (js_map rd);
     Some \<lparr> ma_account_type = account_type, ma_currency = currency, ma_auxiliary = auxiliary,
            ma_balances = balances \<rparr> }"

definition read_cash :: "dec reader \<Rightarrow> cash_account reader" where
  "read_cash rd j = do {
     s \<leftarrow> js_slots [(''type'', False), (''balances'', False)] j;
     account_type \<leftarrow> js_field s ''type'' js_string;
     balances \<leftarrow> js_field s ''balances'' (js_map rd);
     Some \<lparr> ca_account_type = account_type, ca_balances = balances \<rparr> }"

definition read_flex_currency :: "dec reader \<Rightarrow> flex_currency reader" where
  "read_flex_currency rd j = do {
     s \<leftarrow> js_slots [(''quantity'', False), (''value'', False), (''collateral'', False),
            (''available'', False), (''excludedCollateral'', False)] j;
     quantity \<leftarrow> js_field s ''quantity'' rd;
     val \<leftarrow> js_field s ''value'' rd;
     collateral \<leftarrow> js_field s ''collateral'' rd;
     available \<leftarrow> js_field s ''available'' rd;
     excluded \<leftarrow> js_field s ''excludedCollateral'' rd;
     Some \<lparr> fc_quantity = quantity, fc_value = val, fc_collateral = collateral,
            fc_available = available, fc_excluded_collateral = excluded \<rparr> }"

definition flex_fields :: "string list" where
  "flex_fields = [''type'', ''currencies'', ''initialMargin'', ''initialMarginWithOrders'', ''maintenanceMargin'',
     ''balanceValue'', ''portfolioValue'', ''collateralValue'', ''pnl'', ''unrealizedFunding'',
     ''totalUnrealized'', ''totalUnrealizedAsMargin'', ''availableMargin'', ''marginEquity'']"

definition read_flex :: "dec reader \<Rightarrow> flex_account reader" where
  "read_flex rd j = do {
     s \<leftarrow> js_slots (map (\<lambda>k. (k, False)) flex_fields) j;
     account_type \<leftarrow> js_field s ''type'' js_string;
     currencies \<leftarrow> js_field s ''currencies'' (js_map (read_flex_currency rd));
     initial \<leftarrow> js_field s ''initialMargin'' rd;
     with_orders \<leftarrow> js_field s ''initialMarginWithOrders'' rd;
     maintenance \<leftarrow> js_field s ''maintenanceMargin'' rd;
     balance \<leftarrow> js_field s ''balanceValue'' rd;
     portfolio \<leftarrow> js_field s ''portfolioValue'' rd;
     collateral \<leftarrow> js_field s ''collateralValue'' rd;
     pnl \<leftarrow> js_field s ''pnl'' rd;
     funding \<leftarrow> js_field s ''unrealizedFunding'' rd;
     unrealized \<leftarrow> js_field s ''totalUnrealized'' rd;
     as_margin \<leftarrow> js_field s ''totalUnrealizedAsMargin'' rd;
     available \<leftarrow> js_field s ''availableMargin'' rd;
     equity \<leftarrow> js_field s ''marginEquity'' rd;
     Some \<lparr> fx_account_type = account_type, fx_currencies = currencies, fx_initial_margin = initial,
            fx_initial_margin_with_orders = with_orders, fx_maintenance_margin = maintenance,
            fx_balance_value = balance, fx_portfolio_value = portfolio, fx_collateral_value = collateral,
            fx_pnl = pnl, fx_unrealized_funding = funding, fx_total_unrealized = unrealized,
            fx_total_unrealized_as_margin = as_margin, fx_available_margin = available,
            fx_margin_equity = equity \<rparr> }"

section \<open>The client\<close>

text \<open>The REST client on JSON answers; \<open>parse\<close> is the JSON parser.\<close>
definition with_json :: "dec reader \<Rightarrow> (string \<Rightarrow> json option) \<Rightarrow> rest_env \<Rightarrow> rest_env" where
  "with_json rd parse E = E\<lparr>
     rv_decode_send := (\<lambda>t. Option.bind (parse t) read_send_response),
     rv_decode_cancel := (\<lambda>t. Option.bind (parse t) read_cancel_response),
     rv_decode_orders := (\<lambda>t. Option.bind (parse t) (read_open_orders rd)),
     rv_decode_accounts := (\<lambda>t. Option.bind (parse t) read_accounts),
     rv_decode_envelope := (\<lambda>t. Option.bind (parse t) read_envelope) \<rparr>"

lemma with_json_sel [simp]:
  "rv_nonce (with_json rd parse E) = rv_nonce E" "rv_sign (with_json rd parse E) = rv_sign E"
  "rv_http (with_json rd parse E) = rv_http E" "rv_urlencode (with_json rd parse E) = rv_urlencode E"
  "rv_text (with_json rd parse E) = rv_text E" "rv_now (with_json rd parse E) = rv_now E"
  "rv_decode_orders (with_json rd parse E) t = Option.bind (parse t) (read_open_orders rd)"
  "rv_decode_accounts (with_json rd parse E) t = Option.bind (parse t) read_accounts"
  "rv_decode_send (with_json rd parse E) t = Option.bind (parse t) read_send_response"
  "rv_decode_cancel (with_json rd parse E) t = Option.bind (parse t) read_cancel_response"
  by (simp_all add: with_json_def)

interpretation kraken_sides: enum_names kraken_side_text "[KBuy, KSell]"
proof
  fix v :: kraken_side show "v \<in> set [KBuy, KSell]" by (cases v) simp_all
qed simp

interpretation kraken_order_types: enum_names kraken_order_type_text
    "[Mkt, Lmt, Post, KIoc, Stp, TakeProfit, TrailingStop]"
proof
  fix v :: kraken_order_type
  show "v \<in> set [Mkt, Lmt, Post, KIoc, Stp, TakeProfit, TrailingStop]" by (cases v) simp_all
qed simp

lemma read_kraken_side_text: "read_kraken_side (JStr (kraken_side_text s)) = Some s"
  unfolding read_kraken_side_def by (rule kraken_sides.reads_back)

lemma read_kraken_order_type_text: "read_kraken_order_type (JStr (kraken_order_type_text t)) = Some t"
  unfolding read_kraken_order_type_def by (rule kraken_order_types.reads_back)

end
