(* ===== verification/Answer_Properties.thy ===== *)
theory Answer_Properties
  imports Rest_Decoding Broker_Properties Supervision_Properties
begin

text \<open>What the REST client makes of the documents the exchange answers with: the list of open orders, on
  which the fate of an uncertain order is decided, and the accounts of the captured answer of
  \<^verbatim>\<open>accounts.rs\<close>.\<close>

section \<open>The list of open orders\<close>

lemma js_slots_missing:
  "js_slots fs (JObj kvs) = Some s \<Longrightarrow> k \<notin> fst ` set kvs \<Longrightarrow> s k = None"
proof -
  assume s: "js_slots fs (JObj kvs) = Some s" and k: "k \<notin> fst ` set kvs"
  then have "s = map_of (filter (\<lambda>kv. fst kv \<in> set (map fst fs)) kvs)"
    by (simp add: Let_def split: if_splits)
  then show ?thesis using k by (auto simp: map_of_eq_None_iff)
qed

lemma entry_needs_id:
  "''orderId'' \<notin> fst ` set kvs \<Longrightarrow> read_order_entry rd (JObj kvs) = None"
  unfolding read_order_entry_def
  by (cases "js_slots [(''orderId'', False), (''symbol'', False), (''side'', False), (''orderType'', False),
            (''limitPrice'', False), (''filledSize'', False), (''unfilledSize'', False),
            (''status'', False), (''receivedTime'', False), (''lastUpdateTime'', False),
            (''cliOrdId'', True)] (JObj kvs)")
     (simp_all add: js_field_def js_slots_missing del: js_slots.simps)

lemma those_None: "None \<in> set xs \<Longrightarrow> those xs = None"
  by (induction xs) (auto split: option.splits)

lemma unreadable_entry:
  "JObj okvs \<in> set js \<Longrightarrow> ''orderId'' \<notin> fst ` set okvs \<Longrightarrow> js_list (read_order_entry rd) (JArr js) = None"
proof -
  assume "JObj okvs \<in> set js" "''orderId'' \<notin> fst ` set okvs"
  then have "None \<in> set (map (read_order_entry rd) js)"
    using entry_needs_id [of okvs rd] by force
  then show ?thesis by (simp add: those_None)
qed

text \<open>The reading of a successful answer.\<close>
lemma successful_orders:
  assumes "distinct (map fst kvs)" "map_of kvs ''result'' = Some (JStr ''success'')"
    and "map_of kvs ''error'' = None"
  shows "read_open_orders rd (JObj kvs) = map_option
    (\<lambda>os. \<lparr> ol_result = ''success'', ol_error = None, ol_open_orders = os \<rparr>)
    (case map_of kvs ''openOrders'' of None \<Rightarrow> Some [] | Some j \<Rightarrow> js_list (read_order_entry rd) j)"
proof -
  obtain s where s: "js_slots [(''result'', False), (''error'', False), (''openOrders'', True)] (JObj kvs) = Some s"
    and at: "\<forall>k \<in> set (map fst [(''result'', False), (''error'', False), (''openOrders'', True)]). s k = map_of kvs k"
    using js_slots_obj [OF assms(1)] by blast
  then show ?thesis
    using assms(2,3) unfolding read_open_orders_def s
    by (simp add: js_field_def js_opt_field_def js_default_field_def map_conv_bind_option comp_def
        split: option.split)
qed

text \<open>C25. How a successful answer to the question for open orders is taken: without a list it says that
  there are none, so a lookup finds nothing, any order counts as filled and no order is open; with a list
  in which one entry does not have its id as \<^verbatim>\<open>orderId\<close> the whole answer is refused, and every lookup
  fails whatever it asks for.\<close>
theorem open_orders_answer:
  assumes answer: "authed_get C (with_json rd parse E) ''/api/v3/openorders'' [] = Inr txt"
    and doc: "parse txt = Some (JObj kvs)" and keys: "distinct (map fst kvs)"
    and success: "map_of kvs ''result'' = Some (JStr ''success'')" "map_of kvs ''error'' = None"
  shows "case map_of kvs ''openOrders'' of
      None \<Rightarrow> rest_lookup L C (with_json rd parse E) cli = Some (Inr None)
        \<and> rest_get_order C (with_json rd parse E) i = Inr Filled
        \<and> rest_open_orders L C (with_json rd parse E) = Some (Inr [])
    | Some (JArr js) \<Rightarrow> (\<forall>okvs. JObj okvs \<in> set js \<longrightarrow> ''orderId'' \<notin> fst ` set okvs \<longrightarrow>
        (let e = EInvalidResponse (rv_text E KJson) in
         rest_lookup L C (with_json rd parse E) cli = Some (Inl e)
        \<and> rest_get_order C (with_json rd parse E) i = Inl e
        \<and> rest_open_orders L C (with_json rd parse E) = Some (Inl e)))
    | Some _ \<Rightarrow> True"
proof (cases "map_of kvs ''openOrders''")
  case None
  then have "open_orders_raw C (with_json rd parse E)
      = Inr \<lparr> ol_result = ''success'', ol_error = None, ol_open_orders = [] \<rparr>"
    using answer doc successful_orders [OF keys success, of rd]
    by (simp add: open_orders_raw_def decode_with_def require_success_def)
  then show ?thesis
    using None by (simp add: rest_lookup_def rest_get_order_def rest_open_orders_def)
next
  case (Some l)
  have "open_orders_raw C (with_json rd parse E) = Inl KJson"
    if "l = JArr js" "JObj okvs \<in> set js" "''orderId'' \<notin> fst ` set okvs" for js okvs
    using answer doc successful_orders [OF keys success, of rd] unreadable_entry [OF that(2,3), of rd] Some that(1)
    by (simp add: open_orders_raw_def decode_with_def del: js_list.simps)
  then show ?thesis
    using Some by (auto simp: rest_lookup_def rest_get_order_def rest_open_orders_def map_api_error_def Let_def
        split: json.split)
qed

text \<open>An open order whose id comes as \<^verbatim>\<open>order_id\<close>, as in the answer to a submission.\<close>
definition listed_order :: json where
  "listed_order = JObj [(''order_id'', JStr ''a''), (''symbol'', JStr ''PF_XBTUSD''), (''side'', JStr ''buy''),
     (''cliOrdId'', JStr ''c'')]"

definition orders_env :: "(string \<times> json) list \<Rightarrow> rest_env" where
  "orders_env kvs = with_json (\<lambda>j. None) (\<lambda>t. Some (JObj kvs)) (gateway_env\<lparr> rv_http := (\<lambda>q. Reply 200 ''doc'') \<rparr>)"

lemma orders_env_answer: "authed_get demo_client (orders_env kvs) ''/api/v3/openorders'' [] = Inr ''doc''"
  by (simp add: authed_get_def auth_headers_def creds_def demo_client_def orders_env_def gateway_env_def
      read_response_def is_success_status_def)

lemma open_orders_answer_witness:
  "rest_lookup demo_lib demo_client (orders_env [(''result'', JStr ''success'')]) ''c'' = Some (Inr None)
   \<and> rest_lookup demo_lib demo_client (orders_env [(''result'', JStr ''success''),
       (''openOrders'', JArr [listed_order])]) ''c'' = Some (Inl (EInvalidResponse []))"
  using open_orders_answer [OF orders_env_answer [unfolded orders_env_def], of "[(''result'', JStr ''success'')]"
      "[(''result'', JStr ''success'')]" demo_lib "''c''" "[]"]
    open_orders_answer [OF orders_env_answer [unfolded orders_env_def], of
      "[(''result'', JStr ''success''), (''openOrders'', JArr [listed_order])]"
      "[(''result'', JStr ''success''), (''openOrders'', JArr [listed_order])]" demo_lib "''c''" "[]"]
  by (simp add: orders_env_def listed_order_def gateway_env_def Let_def)

section \<open>Accounts that do not read\<close>

lemma flex_needs_all:
  assumes "read_flex rd (JObj kvs) = Some f" and "k \<in> set flex_fields"
  shows "k \<in> fst ` set kvs"
proof -
  from assms(1) obtain s where s: "js_slots (map (\<lambda>k. (k, False)) flex_fields) (JObj kvs) = Some s"
    unfolding read_flex_def by (auto simp: bind_eq_Some_conv simp del: js_slots.simps)
  have "s k \<noteq> None"
    using assms unfolding read_flex_def s
    by (auto simp: flex_fields_def js_field_def bind_eq_Some_conv)
  then show ?thesis
    using js_slots_missing [OF s, of k] by (rule contrapos_np)
qed

lemma unreadable_flex:
  "ac_accounts a ''flex'' = Some (JObj kvs) \<Longrightarrow> k \<in> set flex_fields \<Longrightarrow> k \<notin> fst ` set kvs \<Longrightarrow>
   accounts_flex (read_flex rd) a = None"
  using flex_needs_all [of rd kvs] by (cases "read_flex rd (JObj kvs)") (auto simp: accounts_flex_def)

text \<open>C29. When any one of the fourteen fields of the multi-collateral account is missing from the answer, a
  write of the equity row does not fail: the account counts for nothing, cash is written as zero and the
  total as the value of the leverage account alone.\<close>
theorem unreadable_flex_counts_nothing:
  assumes "pool_reachable D (T, w)" and laws: "dec_laws L"
    and flex: "ac_accounts accounts ''flex'' = Some (JObj kvs)" "k \<in> set flex_fields" "k \<notin> fst ` set kvs"
    and run: "write_one_snapshot L (read_flex rd) (read_margin rd) cfg (Inr accounts) w = (w', Ok i)"
  shows "\<exists>row. db_equity (w_db w') = db_equity (w_db w) @ [row] \<and> eq_cash_chf row = l_show L 0
     \<and> eq_total_equity_chf row = eq_crypto_leverage_value_chf row"
proof -
  let ?fx = "rc_usd_per_chf_fallback cfg"
  obtain mark lev cash equity un where
    lev: "btc_to_chf L (case accounts_margin (read_margin rd) accounts sc_margin_account_key of
       Some m \<Rightarrow> mx_pv (ma_auxiliary m) | None \<Rightarrow> 0) mark ?fx = Some lev"
    and cash: "ddiv L 0 ?fx = Some cash" and sum: "dadd L cash lev = Some equity"
    and row: "db_equity (w_db w') = db_equity (w_db w) @ [written L (w_now w) i equity lev cash un]"
    using written_row [OF run laws reachable_serde [OF assms(1)]] unreadable_flex [OF flex, of rd] by auto
  have "cash = 0"
    using cash rnd_0 [OF laws] by (simp add: ddiv_def split: if_splits)
  moreover have "equity = lev"
    using lev sum rnd_idem [OF laws] \<open>cash = 0\<close>
    by (auto simp: btc_to_chf_def ddiv_def dadd_def isdec_def bind_eq_Some_conv split: if_splits)
  ultimately show ?thesis
    using row by (intro exI [of _ "written L (w_now w) i equity lev cash un"]) (simp add: written_def)
qed

definition drifted_accounts :: accounts_response where
  "drifted_accounts = \<lparr> ac_result = ''success'',
     ac_accounts = [''flex'' \<mapsto> JObj [(''type'', JStr ''multiCollateralMarginAccount''), (''balanceValue'', JNum ''900'')],
       ''fi_xbtusd'' \<mapsto> JObj [(''type'', JStr ''marginAccount''), (''currency'', JStr ''xbt''),
         (''auxiliary'', JObj [(''usd'', JNum ''0''), (''pv'', JNum ''1''), (''pnl'', JNum ''0''), (''af'', JNum ''1''),
            (''funding'', JNum ''0'')]), (''balances'', JObj [])]],
     ac_server_time = [] \<rparr>"

lemma drifted_margin:
  "accounts_margin (read_margin (text_decimal demo_lib)) drifted_accounts ''fi_xbtusd'' = Some
     \<lparr> ma_account_type = ''marginAccount'', ma_currency = ''xbt'', ma_auxiliary =
       \<lparr> mx_usd = 0, mx_pv = 1, mx_pnl = 0, mx_af = 1, mx_funding = 0 \<rparr>, ma_balances = Map.empty \<rparr>"
  by (simp add: accounts_margin_def drifted_accounts_def read_margin_def read_auxiliary_def js_field_def
      parse_dec_def parse_nat_def char_digit_def Let_def)

lemma unreadable_flex_counts_nothing_witness:
  "\<exists>w' i row. write_one_snapshot demo_lib (read_flex (text_decimal demo_lib)) (read_margin (text_decimal demo_lib))
       risk_config_default (Inr drifted_accounts) demo_world = (w', Ok i)
     \<and> db_equity (w_db w') = [row] \<and> eq_cash_chf row = show_dec 0"
proof -
  have flex: "ac_accounts drifted_accounts ''flex'' = Some (JObj
      [(''type'', JStr ''multiCollateralMarginAccount''), (''balanceValue'', JNum ''900'')])"
    "''pnl'' \<in> set flex_fields"
    "''pnl'' \<notin> fst ` set [(''type'', JStr ''multiCollateralMarginAccount''), (''balanceValue'', JNum ''900'')]"
    by (simp_all add: drifted_accounts_def flex_fields_def)
  obtain w' i where run: "write_one_snapshot demo_lib (read_flex (text_decimal demo_lib))
      (read_margin (text_decimal demo_lib)) risk_config_default (Inr drifted_accounts) demo_world = (w', Ok i)"
    by (simp add: write_one_snapshot_def demo_world_def demo_start_def demo_feeds_def demo_ticker_def perp_symbol_def
      btc_mark_def persist_snapshot_def unreadable_flex [OF flex] sc_margin_account_key_def drifted_margin
      btc_to_chf_def dec_ops risk_config_default_def
      sum_realized_pnl_btc_by_sleeve_def lift_with_def bnd_def now_iso_def db_empty_def
      stmt_def insert_equity_snapshot_def Let_def)
  have "db_equity (w_db demo_world) = []" by (simp add: demo_world_def db_empty_def)
  then show ?thesis
    using unreadable_flex_counts_nothing [OF reachable_in_pool [OF demo_reachable(1)] demo_laws flex run] run by auto
qed

section \<open>The captured accounts\<close>

text \<open>Numbers as JSON writes them.\<close>
definition read_point :: "string \<Rightarrow> dec option" where
  "read_point s = (let b = drop 1 (dropWhile (\<lambda>c. c \<noteq> CHR ''.'') s) in do {
     x \<leftarrow> parse_nat (takeWhile (\<lambda>c. c \<noteq> CHR ''.'') s);
     y \<leftarrow> (if b = [] then Some 0 else parse_nat b);
     Some (of_nat x + of_nat y / 10 ^ length b) })"

fun number_decimal :: "dec reader" where
  "number_decimal (JNum t) = read_point t"
| "number_decimal _ = None"

definition fixture_margin :: json where
  "fixture_margin = JObj
     [(''auxiliary'', JObj [(''usd'', JNum ''0''), (''pv'', JNum ''0.06615619029''), (''pnl'', JNum ''0.0''),
        (''af'', JNum ''0.06615619029''), (''funding'', JNum ''0.0'')]),
      (''marginRequirements'', JObj [(''im'', JNum ''0.0''), (''mm'', JNum ''0.0''), (''lt'', JNum ''0.0''),
        (''tt'', JNum ''0.0'')]),
      (''triggerEstimates'', JObj [(''im'', JNum ''0.0''), (''mm'', JNum ''0.0''), (''lt'', JNum ''0.0''),
        (''tt'', JNum ''0.0'')]),
      (''balances'', JObj [(''xbt'', JNum ''0.06615619029'')]),
      (''currency'', JStr ''xbt''), (''type'', JStr ''marginAccount'')]"

definition fixture_cash :: json where
  "fixture_cash = JObj
     [(''balances'', JObj [(''usd'', JNum ''5000.0''), (''eur'', JNum ''5000.0''), (''xbt'', JNum ''0.06616863739'')]),
      (''type'', JStr ''cashAccount'')]"

definition fixture_flex :: json where
  "fixture_flex = JObj
     [(''currencies'', JObj
        [(''BTC'', JObj [(''quantity'', JNum ''0.06616863739''), (''value'', JNum ''5029.073837639447''),
           (''collateral'', JNum ''4928.492360886658''), (''available'', JNum ''0.06616863739''),
           (''excludedCollateral'', JNum ''0'')]),
         (''USD'', JObj [(''quantity'', JNum ''4999.02353918093''), (''value'', JNum ''4999.02353918093''),
           (''collateral'', JNum ''4999.02353918093''), (''available'', JNum ''4999.02353918093''),
           (''excludedCollateral'', JNum ''0'')])]),
      (''initialMargin'', JNum ''0''), (''initialMarginWithOrders'', JNum ''0''), (''maintenanceMargin'', JNum ''0''),
      (''balanceValue'', JNum ''20916.9328979138''), (''portfolioValue'', JNum ''20916.9328979138''),
      (''collateralValue'', JNum ''20498.27800031727''), (''pnl'', JNum ''0''), (''unrealizedFunding'', JNum ''0''),
      (''totalUnrealized'', JNum ''0''), (''totalUnrealizedAsMargin'', JNum ''0''),
      (''availableMargin'', JNum ''20498.27800031727''), (''marginEquity'', JNum ''20498.27800031727''),
      (''excludedCollateralValue'', JNum ''0''), (''type'', JStr ''multiCollateralMarginAccount'')]"

definition accounts_fixture :: json where
  "accounts_fixture = JObj
     [(''result'', JStr ''success''),
      (''accounts'', JObj [(''fi_xbtusd'', fixture_margin), (''cash'', fixture_cash), (''flex'', fixture_flex)]),
      (''serverTime'', JStr ''2026-04-19T15:28:43.530Z'')]"

lemma point_values:
  "read_point ''0'' = Some 0" "read_point ''0.0'' = Some 0" "read_point ''5000.0'' = Some 5000"
  "read_point ''0.06615619029'' = Some (6615619029 / 10 ^ 11)"
  "read_point ''0.06616863739'' = Some (6616863739 / 10 ^ 11)"
  "read_point ''20916.9328979138'' = Some (209169328979138 / 10 ^ 10)"
  "read_point ''20498.27800031727'' = Some (2049827800031727 / 10 ^ 11)"
  "read_point ''5029.073837639447'' = Some (5029073837639447 / 10 ^ 12)"
  "read_point ''4928.492360886658'' = Some (4928492360886658 / 10 ^ 12)"
  "read_point ''4999.02353918093'' = Some (499902353918093 / 10 ^ 11)"
  by (simp_all add: read_point_def Let_def parse_nat_def char_digit_def)

text \<open>The assertions of the tests of \<^verbatim>\<open>accounts.rs\<close> on the captured answer.\<close>
definition fixture_response :: accounts_response where
  "fixture_response = \<lparr> ac_result = ''success'', ac_accounts =
     [''fi_xbtusd'' \<mapsto> json_value fixture_margin, ''cash'' \<mapsto> json_value fixture_cash,
      ''flex'' \<mapsto> json_value fixture_flex], ac_server_time = ''2026-04-19T15:28:43.530Z'' \<rparr>"

lemma fixture_reads: "read_accounts accounts_fixture = Some fixture_response"
  by (simp add: read_accounts_def accounts_fixture_def js_field_def fixture_response_def)

lemma fixture_flex_account:
  "case accounts_flex (read_flex number_decimal) fixture_response of
     None \<Rightarrow> False
   | Some f \<Rightarrow> fx_account_type f = ''multiCollateralMarginAccount''
       \<and> fx_balance_value f = 209169328979138 / 10 ^ 10 \<and> fx_portfolio_value f = 209169328979138 / 10 ^ 10
       \<and> fx_margin_equity f = 2049827800031727 / 10 ^ 11 \<and> fx_pnl f = 0
       \<and> map_option fc_quantity (fx_currencies f ''BTC'') = Some (6616863739 / 10 ^ 11)
       \<and> map_option fc_quantity (fx_currencies f ''USD'') = Some (499902353918093 / 10 ^ 11)"
  by (simp add: accounts_flex_def fixture_response_def fixture_flex_def read_flex_def flex_fields_def
      read_flex_currency_def js_field_def point_values)

lemma fixture_margin_account:
  "case accounts_margin (read_margin number_decimal) fixture_response ''fi_xbtusd'' of
     None \<Rightarrow> False
   | Some m \<Rightarrow> ma_account_type m = ''marginAccount'' \<and> ma_currency m = ''xbt''
       \<and> mx_pv (ma_auxiliary m) = 6615619029 / 10 ^ 11 \<and> mx_pnl (ma_auxiliary m) = 0
       \<and> ma_balances m ''xbt'' = Some (6615619029 / 10 ^ 11)"
  by (simp add: accounts_margin_def fixture_response_def fixture_margin_def read_margin_def read_auxiliary_def
      js_field_def point_values)

lemma fixture_cash_account:
  "map_option (\<lambda>a. ca_balances a ''eur'') (accounts_cash (read_cash number_decimal) fixture_response)
     = Some (Some 5000)"
  by (simp add: accounts_cash_def fixture_response_def fixture_cash_def read_cash_def js_field_def point_values)

text \<open>An account nobody knows changes nothing for the known ones; a key that is absent is no account.\<close>
lemma unknown_account_ignored:
  "k \<noteq> ''flex'' \<Longrightarrow> accounts_flex rd (r\<lparr> ac_accounts := (ac_accounts r)(k \<mapsto> v) \<rparr>) = accounts_flex rd r"
  by (simp add: accounts_flex_def)

lemma absent_account: "accounts_margin rd fixture_response ''fi_does_not_exist'' = None"
  by (simp add: accounts_margin_def fixture_response_def)

end
