(* ===== verification/Dashboard.thy ===== *)
theory Dashboard
  imports Portfolio_Loader
begin

text \<open>The read-only endpoints of \<^verbatim>\<open>crates/rt-dashboard/src/main.rs\<close> that query the database.  A query that
  fails is logged and answered with a default.  SQLite's \<^verbatim>\<open>datetime(value, modifier)\<close> is the argument
  \<^verbatim>\<open>sql_datetime\<close> (the modifier in seconds; \<^verbatim>\<open>None\<close> is NULL).  Where SQL leaves the order of rows with equal
  keys open, the model takes the later row first.\<close>

section \<open>Queries\<close>

definition fetch_or :: "'a \<Rightarrow> 'a dbio \<Rightarrow> 'a dbio" where
  "fetch_or fallback m = catch m (\<lambda>r. case r of Inl e \<Rightarrow> ret fallback | Inr a \<Rightarrow> ret a)"

definition newest_first :: "('r \<Rightarrow> string) \<Rightarrow> 'r list \<Rightarrow> 'r list" where
  "newest_first key rows = rev (sort_key key rows)"

record summary_response =
  sm_total_equity_chf :: "string option"
  sm_cash_chf :: "string option"
  sm_crypto_leverage_value_chf :: "string option"
  sm_unrealized_pnl_leverage_chf :: "string option"
  sm_realized_pnl_chf :: "string option"
  sm_drawdown :: "string option"
  sm_nav_per_unit :: "string option"
  sm_updated_at :: "string option"

definition summary_of :: "equity_row \<Rightarrow> summary_response" where
  "summary_of r = \<lparr> sm_total_equity_chf = Some (eq_total_equity_chf r), sm_cash_chf = Some (eq_cash_chf r),
     sm_crypto_leverage_value_chf = Some (eq_crypto_leverage_value_chf r),
     sm_unrealized_pnl_leverage_chf = Some (eq_unrealized_pnl_leverage_chf r),
     sm_realized_pnl_chf = Some (eq_realized_pnl_leverage_lifetime r),
     sm_drawdown = Some (eq_drawdown_fraction r), sm_nav_per_unit = Some (eq_nav_per_unit r),
     sm_updated_at = Some (eq_timestamp r) \<rparr>"

definition summary_default :: summary_response where
  "summary_default = \<lparr> sm_total_equity_chf = None, sm_cash_chf = None, sm_crypto_leverage_value_chf = None,
     sm_unrealized_pnl_leverage_chf = None, sm_realized_pnl_chf = None, sm_drawdown = None,
     sm_nav_per_unit = None, sm_updated_at = None \<rparr>"

text \<open>\<^verbatim>\<open>ORDER BY id DESC LIMIT 1\<close>: ids ascend in the tables.\<close>
definition last_row :: "'r list \<Rightarrow> 'r option" where
  "last_row rs = (case rev rs of [] \<Rightarrow> None | r # _ \<Rightarrow> Some r)"

definition summary :: "summary_response dbio" where
  "summary = bnd (fetch_or None (query (\<lambda>d. last_row (db_equity d)))) (\<lambda>row.
     ret (case row of Some r \<Rightarrow> summary_of r | None \<Rightarrow> summary_default))"

record dash_position =
  dp_id :: int
  dp_instrument_symbol :: string
  dp_broker :: string
  dp_sleeve :: string
  dp_quantity :: string
  dp_avg_entry_price :: "string option"
  dp_realized_pnl_btc :: string
  dp_opened_at :: string

text \<open>A NULL profit does not decode, and the whole list is then empty.\<close>
definition positions :: "dash_position list dbio" where
  "positions = fetch_or [] (stmt (\<lambda>d.
     let rows = newest_first pn_opened_at (filter (\<lambda>p. pn_closed_at p = None) (db_positions d)) in
     (d, if \<exists>p \<in> set rows. pn_realized_pnl_btc p = None then Err (PSql (SqlNull ''realized_pnl_btc''))
         else Ok (map (\<lambda>p. \<lparr> dp_id = pn_id p, dp_instrument_symbol = pn_instrument_symbol p,
           dp_broker = pn_broker p, dp_sleeve = pn_sleeve p, dp_quantity = pn_quantity p,
           dp_avg_entry_price = Some (pn_avg_entry_price p),
           dp_realized_pnl_btc = the (pn_realized_pnl_btc p), dp_opened_at = pn_opened_at p \<rparr>) rows))))"

text \<open>\<^verbatim>\<open>rfc3339\<close> is \<^verbatim>\<open>to_rfc3339\<close> of \<^verbatim>\<open>chrono\<close>.\<close>
definition equity_history :: "(time \<Rightarrow> string) \<Rightarrow> time \<Rightarrow> (string \<times> string) list dbio" where
  "equity_history rfc3339 now = (let since = rfc3339 (now - 24 * 3600 * 1000000000) in
     fetch_or [] (query (\<lambda>d. map (\<lambda>r. (eq_timestamp r, eq_total_equity_chf r))
       (sort_key eq_timestamp (filter (\<lambda>r. since < eq_timestamp r) (db_equity d))))))"

record recent_order =
  rn_id :: int
  rn_created_at :: string
  rn_instrument_symbol :: string
  rn_side :: string
  rn_status :: string
  rn_quantity :: string
  rn_filled_quantity :: "string option"
  rn_avg_fill_price :: "string option"

definition recent_orders :: "recent_order list dbio" where
  "recent_orders = fetch_or [] (query (\<lambda>d. map (\<lambda>r. \<lparr> rn_id = od_id r, rn_created_at = od_created_at r,
     rn_instrument_symbol = od_instrument_symbol r, rn_side = od_side r, rn_status = od_status r,
     rn_quantity = od_quantity r, rn_filled_quantity = Some (od_filled_quantity r),
     rn_avg_fill_price = od_avg_fill_price r \<rparr>) (take 20 (rev (db_orders d)))))"

record recent_signal =
  rg_id :: int
  rg_created_at :: string
  rg_instrument_symbol :: string
  rg_side :: string
  rg_signal_type :: string
  rg_sleeve :: string
  rg_status :: string
  rg_rejection_reason :: "json option"

definition recent_signals :: "recent_signal list dbio" where
  "recent_signals = fetch_or [] (query (\<lambda>d. map (\<lambda>r. \<lparr> rg_id = sr_id r, rg_created_at = sr_created_at r,
     rg_instrument_symbol = sr_instrument_symbol r, rg_side = sr_side r, rg_signal_type = sr_signal_type r,
     rg_sleeve = sr_sleeve r, rg_status = sr_status r, rg_rejection_reason = sr_rejection_reason r \<rparr>)
     (take 20 (rev (db_signals d)))))"

section \<open>Freshness\<close>

record freshness =
  fs_latest_equity_snapshot_iso :: "string option"
  fs_seconds_since_equity_snapshot :: "int option"
  fs_equity_snapshot_count_total :: int
  fs_latest_signal_iso :: "string option"
  fs_seconds_since_last_signal :: "int option"
  fs_signal_count_total :: int
  fs_applied_fills_total :: int
  fs_unresolved_kill_switch_events :: int

text \<open>\<^verbatim>\<open>TimeDelta::num_seconds\<close> truncates towards zero.\<close>
definition num_seconds :: "int \<Rightarrow> int" where
  "num_seconds d = (if 0 \<le> d then d div 1000000000 else - ((- d) div 1000000000))"

definition seconds_since :: "lib \<Rightarrow> time \<Rightarrow> string option \<Rightarrow> int option" where
  "seconds_since L now stamp = map_option (\<lambda>t. num_seconds (now - t)) (Option.bind stamp (l_parse_iso L))"

definition latest_and_count :: "('r \<Rightarrow> string) \<Rightarrow> 'r list \<Rightarrow> (string \<times> int) option" where
  "latest_and_count key rs = map_option (\<lambda>r. (key r, int (length rs))) (last_row rs)"

definition count_of :: "(string \<times> int) option \<Rightarrow> int" where
  "count_of row = (case row of Some (_, n) \<Rightarrow> n | None \<Rightarrow> 0)"

definition dash_freshness :: "lib \<Rightarrow> time \<Rightarrow> freshness dbio" where
  "dash_freshness L now =
     bnd (fetch_or None (query (\<lambda>d. latest_and_count eq_timestamp (db_equity d)))) (\<lambda>eq_row.
     bnd (fetch_or None (query (\<lambda>d. latest_and_count sr_created_at (db_signals d)))) (\<lambda>sig_row.
     bnd (fetch_or 0 (query (\<lambda>d. int (length (db_applied d))))) (\<lambda>fills.
     bnd (fetch_or 0 (query (\<lambda>d. int (length (filter unresolved (db_kill_events d)))))) (\<lambda>events.
     ret \<lparr> fs_latest_equity_snapshot_iso = map_option fst eq_row,
           fs_seconds_since_equity_snapshot = seconds_since L now (map_option fst eq_row),
           fs_equity_snapshot_count_total = count_of eq_row,
           fs_latest_signal_iso = map_option fst sig_row,
           fs_seconds_since_last_signal = seconds_since L now (map_option fst sig_row),
           fs_signal_count_total = count_of sig_row,
           fs_applied_fills_total = fills, fs_unresolved_kill_switch_events = events \<rparr>))))"

section \<open>Kill switch\<close>

definition active_event :: "db \<Rightarrow> kill_event_row option" where
  "active_event d = (case sort_key ke_triggered_at (filter unresolved (db_kill_events d)) of
      [] \<Rightarrow> None | e # _ \<Rightarrow> Some e)"

definition state_label :: "kill_event_row option \<Rightarrow> string" where
  "state_label active = (case active of
      None \<Rightarrow> ''armed''
    | Some e \<Rightarrow> if take 5 (ke_reason_kind e) = ''hard_'' then ''hard_triggered'' else ''soft_triggered'')"

definition kill_switch_state :: "(string \<times> kill_event_row option \<times> kill_event_row list) dbio" where
  "kill_switch_state =
     bnd (fetch_or None (query active_event)) (\<lambda>active.
     bnd (fetch_or [] (query (\<lambda>d. take 10 (newest_first ke_triggered_at (db_kill_events d))))) (\<lambda>recent.
     ret (state_label active, active, recent)))"

section \<open>Timeline\<close>

record timeline_entry =
  te_at :: string
  te_kind :: string
  te_summary :: string
  te_severity :: string

text \<open>The separator is the UTF-8 encoding of a middle dot between spaces.\<close>
definition dot :: string where
  "dot = [CHR 0x20, CHR 0xC2, CHR 0xB7, CHR 0x20]"

definition signal_entry :: "signal_row \<Rightarrow> timeline_entry" where
  "signal_entry r = \<lparr> te_at = sr_created_at r, te_kind = ''signal'',
     te_summary = sr_instrument_symbol r @ dot @ sr_signal_type r @ dot @ sr_status r,
     te_severity = (if sr_status r \<in> {''approved'', ''processed''} then ''ok''
       else if sr_status r \<in> {''rejected'', ''expired''} then ''warn'' else ''info'') \<rparr>"

definition order_entry :: "order_row \<Rightarrow> timeline_entry" where
  "order_entry r = \<lparr> te_at = od_created_at r, te_kind = ''order'',
     te_summary = od_instrument_symbol r @ dot @ od_side r @ '' '' @ od_quantity r @ dot @ od_status r,
     te_severity = (if od_status r = ''filled'' then ''ok''
       else if od_status r \<in> {''rejected'', ''failed'', ''closed_externally''} then ''warn'' else ''info'') \<rparr>"

definition kill_entry :: "kill_event_row \<Rightarrow> timeline_entry" where
  "kill_entry r = \<lparr> te_at = ke_triggered_at r, te_kind = ''kill_switch'',
     te_summary = ke_reason_kind r @ dot @ (if unresolved r then ''active'' else ''resolved''),
     te_severity = (if unresolved r then ''err'' else ''info'') \<rparr>"

text \<open>A stable sort by descending time, cut at fifty.\<close>
definition cap_timeline :: "timeline_entry list \<Rightarrow> timeline_entry list" where
  "cap_timeline es = take 50 (rev (sort_key te_at (rev es)))"

definition event_timeline :: "timeline_entry list dbio" where
  "event_timeline =
     bnd (fetch_or [] (query (\<lambda>d. map signal_entry (take 20 (newest_first sr_created_at (db_signals d)))))) (\<lambda>a.
     bnd (fetch_or [] (query (\<lambda>d. map order_entry (take 20 (newest_first od_created_at (db_orders d)))))) (\<lambda>b.
     bnd (fetch_or [] (query (\<lambda>d. map kill_entry (take 20 (newest_first ke_triggered_at (db_kill_events d)))))) (\<lambda>c.
     ret (cap_timeline (a @ b @ c)))))"

section \<open>Pipeline and statistics\<close>

text \<open>\<^verbatim>\<open>BETWEEN\<close> on texts; a NULL bound is never satisfied.\<close>
definition text_between :: "string option \<Rightarrow> string option \<Rightarrow> string \<Rightarrow> bool" where
  "text_between lo hi s \<longleftrightarrow> (case (lo, hi) of (Some a, Some b) \<Rightarrow> a \<le> s \<and> s \<le> b | _ \<Rightarrow> False)"

definition linked_to :: "(string \<Rightarrow> int \<Rightarrow> string option) \<Rightarrow> signal_row \<Rightarrow> order_row \<Rightarrow> bool" where
  "linked_to sql_datetime s r \<longleftrightarrow> od_instrument_symbol r = sr_instrument_symbol s \<and> od_side r = sr_side s \<and>
     text_between (sql_datetime (sr_created_at s) (- 10)) (sql_datetime (sr_created_at s) 120) (od_created_at r)"

record pipeline_order =
  po_id :: int
  po_side :: string
  po_status :: string
  po_quantity :: "string option"
  po_filled_quantity :: "string option"
  po_avg_fill_price :: "string option"
  po_created_at :: string

record pipeline_signal =
  pg_id :: int
  pg_created_at :: string
  pg_instrument_symbol :: string
  pg_side :: string
  pg_signal_type :: string
  pg_status :: string
  pg_expires_at :: "string option"
  pg_rejection_reason :: "json option"
  pg_orders :: "pipeline_order list"

definition pipeline_order_of :: "order_row \<Rightarrow> pipeline_order" where
  "pipeline_order_of r = \<lparr> po_id = od_id r, po_side = od_side r, po_status = od_status r,
     po_quantity = Some (od_quantity r), po_filled_quantity = Some (od_filled_quantity r),
     po_avg_fill_price = od_avg_fill_price r, po_created_at = od_created_at r \<rparr>"

definition pipeline_signal_of :: "signal_row \<Rightarrow> pipeline_order list \<Rightarrow> pipeline_signal" where
  "pipeline_signal_of s os = \<lparr> pg_id = sr_id s, pg_created_at = sr_created_at s,
     pg_instrument_symbol = sr_instrument_symbol s, pg_side = sr_side s, pg_signal_type = sr_signal_type s,
     pg_status = sr_status s, pg_expires_at = sr_expires_at s,
     pg_rejection_reason = sr_rejection_reason s, pg_orders = os \<rparr>"

fun pipeline_rows ::
    "(string \<Rightarrow> int \<Rightarrow> string option) \<Rightarrow> signal_row list \<Rightarrow> pipeline_signal list dbio" where
  "pipeline_rows sql_datetime [] = ret []"
| "pipeline_rows sql_datetime (s # ss) =
     bnd (fetch_or [] (query (\<lambda>d. map pipeline_order_of (filter (linked_to sql_datetime s) (db_orders d))))) (\<lambda>os.
     bnd (pipeline_rows sql_datetime ss) (\<lambda>rest. ret (pipeline_signal_of s os # rest)))"

definition trade_pipeline ::
    "(string \<Rightarrow> int \<Rightarrow> string option) \<Rightarrow> pipeline_signal list dbio" where
  "trade_pipeline sql_datetime =
     bnd (fetch_or [] (query (\<lambda>d. take 15 (rev (db_signals d))))) (pipeline_rows sql_datetime)"

record signal_stats =
  sx_total :: nat
  sx_approved :: nat
  sx_rejected :: nat
  sx_processed :: nat
  sx_expired :: nat
  sx_pending :: nat
  sx_last_24h_total :: nat
  sx_last_24h_approved :: nat
  sx_last_24h_rejected :: nat

definition count_if :: "('r \<Rightarrow> bool) \<Rightarrow> 'r list \<Rightarrow> nat" where
  "count_if P rs = length (filter P rs)"

definition since_text :: "string option \<Rightarrow> string \<Rightarrow> bool" where
  "since_text lo s \<longleftrightarrow> (case lo of Some a \<Rightarrow> a \<le> s | None \<Rightarrow> False)"

text \<open>A sum over no rows is NULL, which does not decode: the answer is then the default, all zero.\<close>
definition dash_signal_stats :: "(string \<Rightarrow> int \<Rightarrow> string option) \<Rightarrow> signal_stats dbio" where
  "dash_signal_stats sql_datetime = fetch_or
     \<lparr> sx_total = 0, sx_approved = 0, sx_rejected = 0, sx_processed = 0, sx_expired = 0, sx_pending = 0,
       sx_last_24h_total = 0, sx_last_24h_approved = 0, sx_last_24h_rejected = 0 \<rparr>
     (stmt (\<lambda>d. let rs = db_signals d; day = sql_datetime ''now'' (- 86400);
         status = (\<lambda>x r. sr_status r = x); late = (\<lambda>r. since_text day (sr_created_at r)) in
      (d, if rs = [] then Err (PSql (SqlNull ''approved''))
          else Ok \<lparr> sx_total = length rs, sx_approved = count_if (status ''approved'') rs,
            sx_rejected = count_if (status ''rejected'') rs, sx_processed = count_if (status ''processed'') rs,
            sx_expired = count_if (status ''expired'') rs, sx_pending = count_if (status ''pending'') rs,
            sx_last_24h_total = count_if late rs,
            sx_last_24h_approved = count_if (\<lambda>r. late r \<and> status ''approved'' r) rs,
            sx_last_24h_rejected = count_if (\<lambda>r. late r \<and> status ''rejected'' r) rs \<rparr>)))"

end
