(* ===== verification/Dashboard_Properties.thy ===== *)
theory Dashboard_Properties
  imports Dashboard Supervision_Properties
begin

text \<open>What the dashboard shows of the kill switch, against what the supervisor does.\<close>

section \<open>The events an iteration adds\<close>

text \<open>The table of events is \<^verbatim>\<open>K\<close> with unresolved events of time \<^verbatim>\<open>t\<close> after it.\<close>
definition grown :: "kill_event_row list \<Rightarrow> string \<Rightarrow> db \<Rightarrow> bool" where
  "grown K t d \<longleftrightarrow> (\<exists>es. db_kill_events d = K @ es \<and> list_all (\<lambda>e. ke_triggered_at e = t \<and> unresolved e) es)"

lemma grown_blind [simp]: "fault_blind (grown K t)"
  by (simp add: fault_blind_def grown_def)

lemma keeps_grown: "keeps (grown K t) (insert_equity_snapshot a b c d e f g h i j k l)"
  "keeps (grown K t) (record_kill_switch t kind x y)"
proof -
  show "keeps (grown K t) (insert_equity_snapshot a b c d e f g h i j k l)"
    unfolding insert_equity_snapshot_def by (intro keeps_stmt) (simp_all add: keeps_def Let_def grown_def)
  have "grown K t (d\<lparr> db_kill_events := db_kill_events d @ [x] \<rparr>)"
    if "grown K t d" "ke_triggered_at x = t" "unresolved x" for d x
    using that unfolding grown_def by (elim exE conjE) (rule_tac x = "es @ [x]" in exI, simp)
  then show "keeps (grown K t) (record_kill_switch t kind x y)"
    unfolding record_kill_switch_def by (intro keeps_stmt) (simp_all add: keeps_def Let_def unresolved_def)
qed

lemma decision_time: "ks_evaluate L pf cfg now = Some (PanicClose r s) \<Longrightarrow> s = now"
  "ks_evaluate L pf cfg now = Some (Disable r s) \<Longrightarrow> s = now"
  by (auto simp: ks_evaluate_def Let_def split: if_splits Option.bind_splits)

lemma keeps_grown_iteration:
  assumes "t = canonical_iso L now"
  shows "keeps (on_db (grown K t)) (bnd (load_portfolio_state L now) (\<lambda>pf.
     bnd (sql has_active_hard_trigger) (\<lambda>hard_already.
     bnd (or_panic (ks_evaluate L pf cfg now)) (act_on L ins hb pf hard_already))))"
proof -
  have load: "keeps (on_db (grown K t)) (load_portfolio_state L now)"
    unfolding load_portfolio_state_def latest_equity_snapshot_def write_bootstrap_equity_snapshot_def
      kill_switch_active_def list_open_leverage_positions_def
    by (intro keeps_intro keeps_grown grown_blind)
  have panic: "keeps (on_db (grown K t)) (panic_close_leverage_positions L ins i)" for i
    unfolding panic_close_leverage_positions_def list_open_leverage_positions_def panic_close_one_def
    by (intro keeps_intro grown_blind)
  have act: "keeps (on_db (grown K t)) (bnd (or_panic (ks_evaluate L pf cfg now)) (act_on L ins hb pf h))" for pf h
  proof (cases "ks_evaluate L pf cfg now")
    case (Some d)
    have "keeps (on_db (grown K t)) (act_on L ins hb pf h d)"
      using decision_time [of L pf cfg now] unfolding Some
      by (cases d) (auto simp: act_on_def assms [symmetric] intro!: keeps_intro keeps_grown panic)
    then show ?thesis by (simp add: Some)
  qed (auto intro: keeps_intro)
  show ?thesis
    unfolding has_active_hard_trigger_def by (intro act load keeps_intro grown_blind)
qed

lemma iteration_events:
  assumes "evaluate_kill_switch_once L cfg ins hb w = (w', r)"
  shows "grown (db_kill_events (w_db w)) (canonical_iso L (w_now w)) (w_db w')"
proof -
  have "on_db (grown (db_kill_events (w_db w)) (canonical_iso L (w_now w))) w"
    by (simp add: on_db_def grown_def)
  then have "on_db (grown (db_kill_events (w_db w)) (canonical_iso L (w_now w))) w'"
    using assms unfolding evaluate_kill_switch_once_def bnd_clock
    by (rule keepsD [OF keeps_grown_iteration [OF refl]])
  then show ?thesis by (simp add: on_db_def)
qed

section \<open>The oldest event\<close>

lemma hd_insort: "ys \<noteq> [] \<Longrightarrow> hd (insort_key k x ys) = (if k x \<le> k (hd ys) then x else hd ys)"
  by (cases ys) auto

lemma hd_sort_min: "xs \<noteq> [] \<Longrightarrow> x \<in> set xs \<Longrightarrow> k (hd (sort_key k xs)) \<le> k x"
proof (induction xs)
  case (Cons y ys)
  show ?case
  proof (cases "ys = []")
    case False
    then have "sort_key k ys \<noteq> []" by (metis length_0_conv length_sort)
    then show ?thesis using Cons False by (auto simp: hd_insort)
  qed (use Cons in simp)
qed simp

text \<open>Younger rows after the others do not change which is the first.\<close>
lemma oldest_stays:
  assumes "xs \<noteq> []" "\<And>y. y \<in> set ys \<Longrightarrow> k (hd (sort_key k xs)) \<le> k y"
  shows "hd (sort_key k (xs @ ys)) = hd (sort_key k xs)"
  using assms
proof (induction xs)
  case (Cons x xs)
  have ne: "sort_key k zs \<noteq> []" if "zs \<noteq> []" for zs using that by (metis length_0_conv length_sort)
  show ?case
  proof (cases "xs = []")
    case True
    then have "k x \<le> k (hd (sort_key k ys))" if "ys \<noteq> []"
      using that Cons.prems(2) ne [OF that] by (metis hd_in_set list.sel(1) set_sort sort_key_simps(1,2) insort_key.simps(1))
    then show ?thesis using True ne by (cases "ys = []") (simp_all add: hd_insort)
  next
    case False
    have hd1: "hd (sort_key k (x # xs)) = (if k x \<le> k (hd (sort_key k xs)) then x else hd (sort_key k xs))"
      using ne [OF False] by (simp add: hd_insort)
    have hd2: "hd (sort_key k ((x # xs) @ ys)) = (if k x \<le> k (hd (sort_key k (xs @ ys))) then x else hd (sort_key k (xs @ ys)))"
      using ne [of "xs @ ys"] False by (simp add: hd_insort)
    show ?thesis
    proof (cases "k x \<le> k (hd (sort_key k xs))")
      case True
      have "k x \<le> k z" if "z \<in> set (xs @ ys)" for z
        using that True hd1 Cons.prems(2) hd_sort_min [OF False, of z k] by auto
      moreover have "hd (sort_key k (xs @ ys)) \<in> set (xs @ ys)"
        using ne [of "xs @ ys"] False by (metis append_is_Nil_conv hd_in_set set_sort)
      ultimately show ?thesis using True hd1 hd2 by simp
    next
      case low: False
      then have "hd (sort_key k (xs @ ys)) = hd (sort_key k xs)"
        using Cons.IH [OF False] Cons.prems(2) hd1 by simp
      then show ?thesis using low hd1 hd2 by simp
    qed
  qed
qed simp

lemma active_event_hd:
  "active_event d = (if filter unresolved (db_kill_events d) = [] then None
     else Some (hd (sort_key ke_triggered_at (filter unresolved (db_kill_events d)))))"
proof -
  have "sort_key ke_triggered_at es = [] \<longleftrightarrow> es = []" for es :: "kill_event_row list"
    by (metis length_0_conv length_sort)
  then show ?thesis by (auto simp: active_event_def split: list.split)
qed

lemma active_event_grown:
  assumes "grown (db_kill_events d) t d'" "active_event d = Some e" "ke_triggered_at e \<le> t"
  shows "active_event d' = Some e"
proof -
  obtain es where es: "db_kill_events d' = db_kill_events d @ es" "list_all (\<lambda>e. ke_triggered_at e = t \<and> unresolved e) es"
    using assms(1) by (auto simp: grown_def)
  have old: "filter unresolved (db_kill_events d) \<noteq> []"
    "hd (sort_key ke_triggered_at (filter unresolved (db_kill_events d))) = e"
    using assms(2) by (auto simp: active_event_hd split: if_splits)
  have f: "filter unresolved (db_kill_events d') = filter unresolved (db_kill_events d) @ es"
    using es by (simp add: filter_id_conv list_all_iff)
  have "hd (sort_key ke_triggered_at (filter unresolved (db_kill_events d) @ es)) = e"
    using oldest_stays [OF old(1), of es ke_triggered_at] old(2) assms(3) es(2) by (auto simp: list_all_iff)
  then show ?thesis by (simp add: active_event_hd f old(1))
qed

section \<open>The label\<close>

lemma hard_prefix: "take 5 k = ''hard_'' \<Longrightarrow> like_hard k"
proof -
  assume h: "take 5 k = ''hard_''"
  then have "length (take 5 k) = 5" by simp
  then have "5 \<le> length k" by simp
  moreover have "take 4 k = take 4 (take 5 k)" by simp
  ultimately show ?thesis by (simp add: h like_hard_def ascii_lower_def)
qed

text \<open>Whether the next statement of the database fails.\<close>
definition statement_fails :: "db \<Rightarrow> bool" where
  "statement_fails d \<longleftrightarrow> (case db_faults d of b # bs \<Rightarrow> b | [] \<Rightarrow> False)"

lemma fetch_reads:
  assumes "\<And>fs. f (d\<lparr> db_faults := fs \<rparr>) = f d"
  shows "fetch_or x (query f) d = (d\<lparr> db_faults := drop 1 (db_faults d) \<rparr>, Ok (if statement_fails d then x else f d))"
  using assms by (cases "db_faults d")
    (auto simp: fetch_or_def catch_def query_def stmt_def statement_fails_def split: bool.splits)

text \<open>What the endpoint answers.\<close>
lemma kill_switch_answer:
  "\<exists>d1 recent. kill_switch_state d = (d1, Ok (state_label (if statement_fails d then None else active_event d),
     if statement_fails d then None else active_event d, recent))"
proof -
  let ?recent = "fetch_or [] (query (\<lambda>d. take 10 (newest_first ke_triggered_at (db_kill_events d))))"
  obtain d1 where active: "fetch_or None (query active_event) d = (d1, Ok (if statement_fails d then None else active_event d))"
    using fetch_reads [of active_event d None] by (simp add: active_event_def)
  obtain d2 recent where "?recent d1 = (d2, Ok recent)"
    using fetch_reads [of "\<lambda>d. take 10 (newest_first ke_triggered_at (db_kill_events d))" d1 "[]"] by simp
  then show ?thesis
    unfolding kill_switch_state_def by (simp add: bnd_eq [of "fetch_or None (query active_event)", OF active] bnd_eq [of ?recent])
qed

text \<open>C31. The dashboard hides an escalation.  The endpoint always answers.  When its query for the active event
  goes through, the label says armed exactly when no event is unresolved, and it never says hard when no hard
  event is unresolved.  But it is the label of the oldest unresolved event: when the supervisor closes all
  positions while an earlier, soft event is still open, the dashboard goes on saying that the soft trigger is
  active, although the hard event is in the table it reads.  And when the query fails, the dashboard says
  armed whatever is unresolved.\<close>
theorem dashboard_hides_escalation:
  assumes "evaluate_kill_switch_once L cfg ins has_broker w = (w', r)" "w_sent w' \<noteq> w_sent w"
    and "active_event (w_db w) = Some e" "ke_triggered_at e \<le> canonical_iso L (w_now w)"
  shows "hard_unresolved (w_db w') \<and>
     (\<exists>d1 recent. kill_switch_state (w_db w') = (d1, Ok (if statement_fails (w_db w') then (''armed'', None, recent)
        else (''soft_triggered'', Some e, recent)))) \<and>
     (\<exists>d1 label active recent. kill_switch_state d = (d1, Ok (label, active, recent)) \<and>
        (if statement_fails d then label = ''armed'' \<and> active = None
         else (label = ''armed'' \<longleftrightarrow> filter unresolved (db_kill_events d) = []) \<and>
              (label = ''hard_triggered'' \<longrightarrow> hard_unresolved d)))"
proof -
  have first: "e' \<in> set (db_kill_events d) \<and> unresolved e'" if "active_event d = Some e'" for d e'
  proof -
    have ne: "filter unresolved (db_kill_events d) \<noteq> []"
      and e': "e' = hd (sort_key ke_triggered_at (filter unresolved (db_kill_events d)))"
      using that by (auto simp: active_event_hd split: if_splits)
    have "sort_key ke_triggered_at (filter unresolved (db_kill_events d)) \<noteq> []"
      using ne by (metis length_0_conv length_sort)
    then have "e' \<in> set (filter unresolved (db_kill_events d))" unfolding e' by (metis hd_in_set set_sort)
    then show ?thesis by simp
  qed
  have hard: "hard_unresolved d" if "active_event d = Some e'" "take 5 (ke_reason_kind e') = ''hard_''" for d e'
    using first [OF that(1)] hard_prefix [OF that(2)] by (auto simp: hard_unresolved_def list_ex_iff)
  have new: "hard_unresolved (w_db w')" "\<not> hard_unresolved (w_db w)"
    using iteration_sends [OF assms(1,2)] by simp_all
  have still: "active_event (w_db w') = Some e"
    by (rule active_event_grown [OF iteration_events [OF assms(1)] assms(3,4)])
  have soft: "take 5 (ke_reason_kind e) \<noteq> ''hard_''" using hard [OF assms(3)] new(2) by blast
  have lab: "state_label (active_event d) = ''armed'' \<longleftrightarrow> filter unresolved (db_kill_events d) = []"
    by (simp add: active_event_hd state_label_def)
  have "hard_unresolved d" if "state_label (active_event d) = ''hard_triggered''"
    using that hard [of d] by (cases "active_event d") (auto simp: state_label_def split: if_splits)
  then have labels: "\<exists>d1 label active recent. kill_switch_state d = (d1, Ok (label, active, recent)) \<and>
        (if statement_fails d then label = ''armed'' \<and> active = None
         else (label = ''armed'' \<longleftrightarrow> filter unresolved (db_kill_events d) = []) \<and>
              (label = ''hard_triggered'' \<longrightarrow> hard_unresolved d))"
    using kill_switch_answer [of d] lab by (cases "statement_fails d") (auto simp: state_label_def)
  have "\<exists>d1 recent. kill_switch_state (w_db w') = (d1, Ok (if statement_fails (w_db w') then (''armed'', None, recent)
        else (''soft_triggered'', Some e, recent)))"
    using kill_switch_answer [of "w_db w'"] still soft by (auto simp: state_label_def)
  then show ?thesis using new(1) labels by blast
qed

text \<open>The soft trigger fired some time earlier.\<close>
definition soft_event :: kill_event_row where
  "soft_event = \<lparr> ke_id = 1, ke_triggered_at = [], ke_reason_kind = ''portfolio_drawdown'',
     ke_reason_detail = JNull, ke_portfolio_snapshot = JNull, ke_resolved_at = None, ke_resolved_by = None,
     ke_resolved_note = None \<rparr>"

definition escalating_world :: world where
  "escalating_world = falling_world\<lparr> w_db := (w_db falling_world)\<lparr> db_kill_events := [soft_event] \<rparr> \<rparr>"

lemma escalating_facts:
  "calm escalating_world" "w_now escalating_world = 1200000000" "\<not> hard_unresolved (w_db escalating_world)"
  "w_sent escalating_world = []" "active_event (w_db escalating_world) = Some soft_event"
  "leverage_rows lib0 (w_db escalating_world) = leverage_rows lib0 (w_db falling_world)"
  by (simp_all add: escalating_world_def falling_world_def calm_def demo_start_def hard_unresolved_def db_empty_def
      no_faults_def soft_event_def unresolved_def active_event_def like_hard_def ascii_lower_def leverage_rows_def)

lemma escalating_loaded:
  "\<exists>pf. loaded lib0 1200000000 (w_db escalating_world) = Inr pf \<and> leverage_effective_pnl lib0 pf = Some (- 1300)"
  by (simp add: loaded_def escalating_facts falling_rows) (simp add: escalating_world_def falling_world_def latest_row_def
      bootstrap_row_def sample_position_row_def
      position_summary_def materialise_def snapshot_decimal_def parse_demo leverage_effective_pnl_def
      leverage_realized_pnl_def leverage_unrealized_pnl_def find_sleeve_def dec_ops)

text \<open>After a loss of 1300 francs with a soft event open, and the table with the database out of reach.\<close>
theorem dashboard_hides_escalation_witness:
  "\<exists>w'. evaluate_kill_switch_once lib0 risk_config_default registry_new True escalating_world = (w', Ok ()) \<and>
     length (w_sent w') = 2 \<and> hard_unresolved (w_db w') \<and>
     (\<exists>d1 recent. kill_switch_state (w_db w') = (d1, Ok (''soft_triggered'', Some soft_event, recent))) \<and>
     (\<exists>d1 label active recent. kill_switch_state ((w_db escalating_world)\<lparr> db_faults := [True] \<rparr>) = (d1, Ok (label, active, recent)) \<and>
        label = ''armed'')"
proof -
  obtain pf where pf: "loaded lib0 1200000000 (w_db escalating_world) = Inr pf" "leverage_effective_pnl lib0 pf = Some (- 1300)"
    using escalating_loaded by blast
  have thr: "- 1300 \<le> rc_kill_switch_effective_threshold_chf risk_config_default"
    by (simp add: risk_config_default_def)
  obtain w' os where run: "evaluate_kill_switch_once lib0 risk_config_default registry_new True escalating_world = (w', Ok ())"
    and ok: "calm w'" and os: "w_sent w' = os" and each: "list_all2 (\<lambda>o' p. flattens lib0 o' (pn_instrument_symbol p) (pn_quantity p)) os
      (leverage_rows lib0 (w_db falling_world))"
    using hard_trigger_run [OF escalating_facts(1), unfolded escalating_facts, OF pf thr, of registry_new]
      escalating_facts(3) by (auto simp: escalating_facts(6) closes_def)
  have two: "length os = 2" using list_all2_lengthD [OF each] by (simp add: falling_rows)
  have sent: "w_sent w' \<noteq> w_sent escalating_world" using os two escalating_facts(4) by auto
  have "ke_triggered_at soft_event \<le> canonical_iso lib0 (w_now escalating_world)" by (simp add: soft_event_def)
  note hides = dashboard_hides_escalation [OF run sent escalating_facts(5) this,
      where d = "(w_db escalating_world)\<lparr> db_faults := [True] \<rparr>"]
  show ?thesis
  proof (intro exI [of _ w'] conjI run)
    show "length (w_sent w') = 2" "hard_unresolved (w_db w')" using os two hides by blast+
    show "\<exists>d1 recent. kill_switch_state (w_db w') = (d1, Ok (''soft_triggered'', Some soft_event, recent))"
      using hides ok by (auto simp: statement_fails_def calm_def no_faults_def)
    show "\<exists>d1 label active recent. kill_switch_state ((w_db escalating_world)\<lparr> db_faults := [True] \<rparr>) = (d1, Ok (label, active, recent)) \<and>
        label = ''armed''"
      using hides by (simp add: statement_fails_def) blast
  qed
qed

end
