(* ===== verification/Dashboard_System.thy ===== *)
theory Dashboard_System
  imports Dashboard
begin

text \<open>The endpoints of \<^verbatim>\<open>crates/rt-dashboard/src/main.rs\<close> that ask the host: systemd units and timers, disks,
  backups, the journal, and the headers of the proxy.  A command is an argument that gives what running it
  yields, its output as text decoded by \<^verbatim>\<open>from_utf8_lossy\<close>; so are the two time formats of \<^verbatim>\<open>chrono\<close>.  The clock
  stands still while a request is answered.\<close>

section \<open>Text\<close>

text \<open>Pieces between separators, one more than there are separators.\<close>
fun split_by :: "(char \<Rightarrow> bool) \<Rightarrow> string \<Rightarrow> string list" where
  "split_by P [] = [[]]"
| "split_by P (c # cs) = (if P c then [] # split_by P cs
     else (case split_by P cs of p # ps \<Rightarrow> (c # p) # ps | [] \<Rightarrow> [[c]]))"

definition newline :: char where
  "newline = CHR 0x0A"

definition strip_cr :: "string \<Rightarrow> string" where
  "strip_cr s = (if s \<noteq> [] \<and> List.last s = CHR 0x0D then butlast s else s)"

text \<open>\<^verbatim>\<open>str::lines\<close>: a carriage return goes only with a line feed, and nothing follows the last line feed.\<close>
definition text_lines :: "string \<Rightarrow> string list" where
  "text_lines s = (let ps = split_by (\<lambda>c. c = newline) s; end = List.last ps in
     map strip_cr (butlast ps) @ (if end = [] then [] else [end]))"

text \<open>White space among the ASCII characters.\<close>
definition is_space :: "char \<Rightarrow> bool" where
  "is_space c \<longleftrightarrow> c \<in> {CHR 0x09, CHR 0x0A, CHR 0x0B, CHR 0x0C, CHR 0x0D, CHR 0x20}"

definition trim :: "string \<Rightarrow> string" where
  "trim s = rev (dropWhile is_space (rev (dropWhile is_space s)))"

definition words_of :: "string \<Rightarrow> string list" where
  "words_of s = filter (\<lambda>p. p \<noteq> []) (split_by is_space s)"

definition split_once :: "char \<Rightarrow> string \<Rightarrow> (string \<times> string) option" where
  "split_once c s = (if c \<in> set s then Some (takeWhile (\<lambda>x. x \<noteq> c) s, tl (dropWhile (\<lambda>x. x \<noteq> c) s)) else None)"

text \<open>\<^verbatim>\<open>parse::<u64>\<close> and its like: an optional plus sign, digits, and a bound.\<close>
definition parse_uint :: "nat \<Rightarrow> string \<Rightarrow> nat option" where
  "parse_uint bound s = (let ds = (case s of c # cs \<Rightarrow> if c = CHR ''+'' then cs else s | [] \<Rightarrow> []) in
     case parse_nat ds of Some n \<Rightarrow> if n < bound then Some n else None | None \<Rightarrow> None)"

definition or_zero :: "nat option \<Rightarrow> nat" where
  "or_zero r = (case r of Some n \<Rightarrow> n | None \<Rightarrow> 0)"

definition or_empty :: "string option \<Rightarrow> string" where
  "or_empty r = (case r of Some s \<Rightarrow> s | None \<Rightarrow> [])"

section \<open>The host\<close>

record command_output =
  ou_success :: bool
  ou_stdout :: string

text \<open>\<^verbatim>\<open>None\<close> when the command cannot be started.\<close>
record host =
  ho_run :: "string list \<Rightarrow> command_output option"
  ho_parse :: "string \<Rightarrow> string \<Rightarrow> time option"
  ho_rfc3339 :: "time \<Rightarrow> string"
  ho_now :: time

definition seconds_after :: "lib \<Rightarrow> host \<Rightarrow> string option \<Rightarrow> int option" where
  "seconds_after L H stamp = map_option (\<lambda>t. num_seconds (t - ho_now H)) (Option.bind stamp (l_parse_iso L))"

definition systemctl_show :: "host \<Rightarrow> string \<Rightarrow> string list \<Rightarrow> (string \<rightharpoonup> string)" where
  "systemctl_show H unit props =
     (case ho_run H ([''systemctl'', ''show'', unit] @ map (\<lambda>p. ''--property='' @ p) props @ [''--no-pager'']) of
        None \<Rightarrow> Map.empty
      | Some r \<Rightarrow> map_of (rev (List.map_filter (split_once (CHR ''='')) (text_lines (ou_stdout r)))))"

definition parse_systemd_timestamp :: "host \<Rightarrow> string \<Rightarrow> string option" where
  "parse_systemd_timestamp H stamp =
     (let s = trim stamp in
      if s = [] \<or> s = ''n/a'' then None
      else (let rest = (case split_once (CHR '' '') s of Some (_, r) \<Rightarrow> r | None \<Rightarrow> s) in
        map_option (ho_rfc3339 H) (case ho_parse H ''%Y-%m-%d %H:%M:%S %Z'' rest of
            Some t \<Rightarrow> Some t
          | None \<Rightarrow> ho_parse H ''%Y-%m-%d %H:%M:%S %z'' rest)))"

section \<open>Units and timers\<close>

record service_status =
  sv_name :: string
  sv_active_state :: string
  sv_sub_state :: string
  sv_since_iso :: "string option"
  sv_uptime_seconds :: "int option"
  sv_memory_bytes :: "nat option"
  sv_last_exit_status :: "string option"

definition probe_service :: "lib \<Rightarrow> host \<Rightarrow> string \<Rightarrow> service_status" where
  "probe_service L H unit =
     (let props = systemctl_show H unit
            [''ActiveState'', ''SubState'', ''ActiveEnterTimestamp'', ''MemoryCurrent'', ''ExecMainStatus''];
          since = Option.bind (props ''ActiveEnterTimestamp'') (parse_systemd_timestamp H) in
      \<lparr> sv_name = unit, sv_active_state = or_empty (props ''ActiveState''),
        sv_sub_state = or_empty (props ''SubState''), sv_since_iso = since,
        sv_uptime_seconds = seconds_since L (ho_now H) since,
        sv_memory_bytes = Option.bind (Option.bind (props ''MemoryCurrent'') (parse_uint (2 ^ 64)))
          (\<lambda>v. if 0 < v then Some v else None),
        sv_last_exit_status = props ''ExecMainStatus'' \<rparr>)"

definition system_status :: "lib \<Rightarrow> host \<Rightarrow> service_status list" where
  "system_status L H = map (probe_service L H) [''rt-daemon.service'', ''rt-dashboard.service'',
     ''razortrade-signals.timer'', ''razortrade-backup.timer'', ''caddy.service'', ''oauth2-proxy.service'']"

record timer_status =
  tm_name :: string
  tm_next_elapse_iso :: "string option"
  tm_last_trigger_iso :: "string option"
  tm_seconds_until_next :: "int option"
  tm_seconds_since_last :: "int option"

definition probe_timer :: "lib \<Rightarrow> host \<Rightarrow> string \<Rightarrow> timer_status" where
  "probe_timer L H unit =
     (let props = systemctl_show H unit [''NextElapseUSecRealtime'', ''LastTriggerUSec''];
          upcoming = Option.bind (props ''NextElapseUSecRealtime'') (parse_systemd_timestamp H);
          previous = Option.bind (props ''LastTriggerUSec'') (parse_systemd_timestamp H) in
      \<lparr> tm_name = unit, tm_next_elapse_iso = upcoming, tm_last_trigger_iso = previous,
        tm_seconds_until_next = seconds_after L H upcoming,
        tm_seconds_since_last = seconds_since L (ho_now H) previous \<rparr>)"

definition timers :: "lib \<Rightarrow> host \<Rightarrow> timer_status list" where
  "timers L H = map (probe_timer L H) [''razortrade-signals.timer'', ''razortrade-backup.timer'']"

section \<open>Disks and backups\<close>

record disk_usage =
  du_path :: string
  du_used_bytes :: nat
  du_total_bytes :: nat
  du_available_bytes :: nat
  du_use_percent :: nat

definition trim_percent :: "string \<Rightarrow> string" where
  "trim_percent s = rev (dropWhile (\<lambda>c. c = CHR ''%'') (rev s))"

text \<open>The second line of \<^verbatim>\<open>df\<close>, when it has five fields.\<close>
definition disk_of :: "string \<Rightarrow> disk_usage option" where
  "disk_of out = (case text_lines out of
      _ # line # _ \<Rightarrow> (case words_of line of
          target # used # capacity # avail # pcent # _ \<Rightarrow>
            Some \<lparr> du_path = target, du_used_bytes = or_zero (parse_uint (2 ^ 64) used),
              du_total_bytes = or_zero (parse_uint (2 ^ 64) capacity),
              du_available_bytes = or_zero (parse_uint (2 ^ 64) avail),
              du_use_percent = or_zero (parse_uint (2 ^ 8) (trim_percent pcent)) \<rparr>
        | _ \<Rightarrow> None)
    | _ \<Rightarrow> None)"

definition dash_disk_usage :: "host \<Rightarrow> disk_usage list" where
  "dash_disk_usage H = List.map_filter (\<lambda>mount. Option.bind
       (ho_run H [''df'', ''-B1'', ''--output=target,used,size,avail,pcent'', mount]) (\<lambda>r. disk_of (ou_stdout r)))
     [''/var/lib/razortrade'', ''/'']"

text \<open>File names are ASCII text.\<close>
definition extract_date_from_filename :: "string \<Rightarrow> string option" where
  "extract_date_from_filename file =
     (let fname = List.last (split_by (\<lambda>c. c = CHR ''/'') file); n = length fname - 7 in
      if 7 \<le> length fname \<and> drop n fname = ''.sqlite'' then
        (let stem = take n fname in
         if length stem = 10 \<and> stem ! 4 = CHR ''-'' \<and> stem ! 7 = CHR ''-'' then Some stem else None)
      else None)"

record backup_status =
  bs_last_run_iso :: "string option"
  bs_last_exit_status :: "string option"
  bs_seconds_since_last_run :: "int option"
  bs_seconds_until_next_run :: "int option"
  bs_local_backup_count :: nat
  bs_local_backup_latest_iso :: "string option"
  bs_local_backup_latest_bytes :: "nat option"

text \<open>The line of the latest file, when there is one, and the count after it.\<close>
definition local_backups :: "command_output option \<Rightarrow> nat \<times> string option \<times> nat option" where
  "local_backups out = (case out of
      None \<Rightarrow> (0, None, None)
    | Some r \<Rightarrow>
        (let lines = text_lines (ou_stdout r);
             count = (if lines = [] then 0 else or_zero (parse_uint (2 ^ 32) (trim (List.last lines))));
             (bytes, date) = (case lines of
                 [] \<Rightarrow> (None, None)
               | l # _ \<Rightarrow> if trim l = [] then (None, None)
                   else (let fields = words_of l in
                     if 9 \<le> length fields
                     then (parse_uint (2 ^ 64) (fields ! 4), extract_date_from_filename (List.last fields))
                     else (None, None))) in
         (count, date, bytes)))"

definition backup_command :: string where
  "backup_command = ''ls -l /var/lib/razortrade/backups/*.sqlite 2>/dev/null | tail -1; ''
     @ ''ls /var/lib/razortrade/backups/*.sqlite 2>/dev/null | wc -l''"

definition dash_backup_status :: "lib \<Rightarrow> host \<Rightarrow> backup_status" where
  "dash_backup_status L H =
     (let svc = systemctl_show H ''razortrade-backup.service'' [''ExecMainExitTimestamp'', ''ExecMainStatus''];
          ran = Option.bind (svc ''ExecMainExitTimestamp'') (parse_systemd_timestamp H);
          tmr = systemctl_show H ''razortrade-backup.timer'' [''NextElapseUSecRealtime''];
          (count, date, bytes) = local_backups (ho_run H [''sh'', ''-c'', backup_command]) in
      \<lparr> bs_last_run_iso = ran, bs_last_exit_status = svc ''ExecMainStatus'',
        bs_seconds_since_last_run = seconds_since L (ho_now H) ran,
        bs_seconds_until_next_run = seconds_after L H
          (Option.bind (tmr ''NextElapseUSecRealtime'') (parse_systemd_timestamp H)),
        bs_local_backup_count = count, bs_local_backup_latest_iso = date,
        bs_local_backup_latest_bytes = bytes \<rparr>)"

section \<open>The journal\<close>

text \<open>What following the journal yields: no process, a process without a pipe, or the reads of its lines.\<close>
datatype line_read = LineRead string | ReadFailed
datatype journal = SpawnFailed string | NoStdout | Reads "line_read list"
datatype log_event = LogError string | LogLine string

fun follow :: "line_read list \<Rightarrow> log_event list" where
  "follow [] = []"
| "follow (LineRead l # rs) = LogLine l # follow rs"
| "follow (ReadFailed # rs) = []"

definition default_tail :: nat where
  "default_tail = 50"

text \<open>The tail of the query is at most 500.\<close>
definition logs_stream :: "(string list \<Rightarrow> journal) \<Rightarrow> nat option \<Rightarrow> log_event list" where
  "logs_stream spawn requested =
     (let wanted = (case requested of Some n \<Rightarrow> n | None \<Rightarrow> default_tail); tail = min wanted 500 in
      case spawn [''journalctl'', ''--follow'', ''--no-pager'', ''--output=short-iso'', ''-n'', show_nat tail,
           ''-u'', ''rt-daemon.service'', ''-u'', ''razortrade-signals.service'',
           ''-u'', ''razortrade-backup.service'', ''-u'', ''rt-dashboard.service''] of
        SpawnFailed e \<Rightarrow> [LogError (''spawn failed: '' @ e)]
      | NoStdout \<Rightarrow> [LogError ''no stdout on journalctl'']
      | Reads rs \<Rightarrow> follow rs)"

definition count_journal_lines :: "host \<Rightarrow> string \<Rightarrow> nat" where
  "count_journal_lines H pattern =
     (case ho_run H [''journalctl'', ''-u'', ''rt-daemon'', ''--since'', ''24 hours ago'', ''--no-pager'',
          ''--output=cat'', ''-g'', pattern] of
        Some r \<Rightarrow> if ou_success r then length (filter (\<lambda>c. c = newline) (ou_stdout r)) else 0
      | None \<Rightarrow> 0)"

record fill_stats =
  fl_applied_fills_24h :: nat
  fl_orphan_catcher_24h :: nat
  fl_unknown_order_warnings_24h :: nat
  fl_ws_deser_failures_24h :: nat
  fl_ws_reconnects_24h :: nat
  fl_applied_fills_total :: nat

definition dash_fill_stats :: "host \<Rightarrow> fill_stats dbio" where
  "dash_fill_stats H = bnd (fetch_or 0 (query (\<lambda>d. length (db_applied d)))) (\<lambda>n. ret
     \<lparr> fl_applied_fills_24h = count_journal_lines H ''\"fill applied to order\"'',
       fl_orphan_catcher_24h = count_journal_lines H ''orphan-catcher: matched fill'',
       fl_unknown_order_warnings_24h = count_journal_lines H ''\"fill received for unknown order\"'',
       fl_ws_deser_failures_24h = count_journal_lines H ''WS message did not match any known variant'',
       fl_ws_reconnects_24h = count_journal_lines H ''connection lost'',
       fl_applied_fills_total = n \<rparr>)"

section \<open>The user\<close>

record user_info =
  ui_email :: "string option"
  ui_name :: "string option"
  ui_user :: "string option"

text \<open>\<^verbatim>\<open>HeaderValue::to_str\<close> takes visible ASCII, the blank and the tab.\<close>
definition header_string :: "(string \<rightharpoonup> string) \<Rightarrow> string \<Rightarrow> string option" where
  "header_string h name = Option.bind (h name) (\<lambda>v.
     if list_all (\<lambda>c. 32 \<le> (of_char c :: nat) \<and> (of_char c :: nat) < 127 \<or> c = CHR 0x09) v then Some v else None)"

definition dash_user_info :: "(string \<rightharpoonup> string) \<Rightarrow> user_info" where
  "dash_user_info headers = \<lparr> ui_email = header_string headers ''x-auth-request-email'',
     ui_name = header_string headers ''x-auth-request-preferred-username'',
     ui_user = header_string headers ''x-auth-request-user'' \<rparr>"

section \<open>Reading the output of systemctl\<close>

lemma split_by_ne [simp]: "split_by P s \<noteq> []"
  by (induction s) (auto split: list.splits)

lemma split_by_append:
  assumes "list_all (\<lambda>c. \<not> P c) p"
  shows "split_by P (p @ s) = (p @ hd (split_by P s)) # tl (split_by P s)"
  using assms by (induction p) (auto split: list.split)

lemma split_once_pair: "c \<notin> set k \<Longrightarrow> split_once c (k @ c # v) = Some (k, v)"
  by (auto simp: split_once_def takeWhile_append dropWhile_append)

text \<open>The lines of a text made of lines.\<close>
lemma text_lines_of:
  assumes "list_all (\<lambda>l. newline \<notin> set l \<and> (l = [] \<or> List.last l \<noteq> CHR 0x0D)) ls"
  shows "text_lines (concat (map (\<lambda>l. l @ [newline]) ls)) = ls"
proof -
  have "split_by (\<lambda>c. c = newline) (concat (map (\<lambda>l. l @ [newline]) ls)) = ls @ [[]]"
    using assms
  proof (induction ls)
    case (Cons l ls)
    then have "split_by (\<lambda>c. c = newline) (l @ newline # concat (map (\<lambda>l. l @ [newline]) ls)) = l # (ls @ [[]])"
      by (subst split_by_append) (auto simp: list_all_iff)
    then show ?case by simp
  qed simp
  moreover have "map strip_cr ls = ls"
    using assms by (induction ls) (auto simp: strip_cr_def)
  ultimately show ?thesis by (simp add: text_lines_def)
qed

text \<open>What systemctl prints is read back, the last line of a property counting.\<close>
lemma systemctl_roundtrip:
  assumes "list_all (\<lambda>(k, v). CHR ''='' \<notin> set k \<and> newline \<notin> set (k @ v) \<and> (v = [] \<or> List.last v \<noteq> CHR 0x0D)) kvs"
    and "ho_run H ([''systemctl'', ''show'', unit] @ map (\<lambda>p. ''--property='' @ p) props @ [''--no-pager'']) = Some r"
    and "ou_stdout r = concat (map (\<lambda>(k, v). k @ ''='' @ v @ [newline]) kvs)"
  shows "systemctl_show H unit props = map_of (rev kvs)"
proof -
  let ?line = "\<lambda>(k, v). k @ CHR ''='' # v"
  have out: "ou_stdout r = concat (map (\<lambda>l. l @ [newline]) (map ?line kvs))"
    unfolding assms(3) map_map by (rule arg_cong [of _ _ concat]) (rule map_cong; auto)
  have lines: "text_lines (ou_stdout r) = map ?line kvs"
    unfolding out
    by (rule text_lines_of) (use assms(1) in \<open>fastforce simp: list_all_iff newline_def split: if_splits\<close>)
  have "List.map_filter (split_once (CHR ''='')) (map ?line kvs) = kvs"
    using assms(1) by (induction kvs) (auto simp: map_filter_simps split_once_pair)
  then show ?thesis using assms(2) by (simp add: systemctl_show_def lines)
qed

end
