(* ===== verification/Signing.thy ===== *)
theory Signing
  imports Kraken_Rest
begin

text \<open>The signatures of \<^verbatim>\<open>crates/rt-kraken-futures/src/auth.rs\<close> over the primitives of the crates \<^verbatim>\<open>sha2\<close>,
  \<^verbatim>\<open>hmac\<close> and \<^verbatim>\<open>base64\<close>, which are arguments, and the REST client that uses them.\<close>

datatype auth_error = Base64Decode string | InvalidKeyLength | SystemClockBeforeEpoch

fun auth_error_text :: "auth_error \<Rightarrow> string" where
  "auth_error_text (Base64Decode e) = ''base64 decode of api_secret failed: '' @ e"
| "auth_error_text InvalidKeyLength = ''base64 key has invalid length for HMAC-SHA-512''"
| "auth_error_text SystemClockBeforeEpoch = ''system clock is before UNIX epoch''"

text \<open>\<^verbatim>\<open>hmac key message\<close> is \<^verbatim>\<open>None\<close> for a key it does not take.\<close>
record crypto =
  cy_sha256 :: "string \<Rightarrow> string"
  cy_hmac_sha512 :: "string \<Rightarrow> (string \<Rightarrow> string) option"
  cy_decode :: "string \<Rightarrow> string + string"
  cy_encode :: "string \<Rightarrow> string"

definition sign_digest :: "crypto \<Rightarrow> string \<Rightarrow> string \<Rightarrow> auth_error + string" where
  "sign_digest Y api_secret_b64 digest =
     rbind (map_sum Base64Decode id (cy_decode Y api_secret_b64)) (\<lambda>secret_bytes.
     case cy_hmac_sha512 Y secret_bytes of
       None \<Rightarrow> Inl InvalidKeyLength
     | Some mac \<Rightarrow> Inr (cy_encode Y (mac digest)))"

definition sign_rest_request :: "crypto \<Rightarrow> string \<Rightarrow> string \<Rightarrow> string \<Rightarrow> string \<Rightarrow> auth_error + string" where
  "sign_rest_request Y api_secret_b64 post_data nonce endpoint_path =
     sign_digest Y api_secret_b64 (cy_sha256 Y (post_data @ nonce @ endpoint_path))"

definition sign_ws_challenge :: "crypto \<Rightarrow> string \<Rightarrow> string \<Rightarrow> auth_error + string" where
  "sign_ws_challenge Y api_secret_b64 challenge = sign_digest Y api_secret_b64 (cy_sha256 Y challenge)"

text \<open>A client whose signatures are these.\<close>
definition signing :: "crypto \<Rightarrow> rest_env \<Rightarrow> rest_env" where
  "signing Y E = E\<lparr> rv_sign := (\<lambda>secret payload nonce path.
     map_sum auth_error_text id (sign_rest_request Y secret payload nonce path)) \<rparr>"

text \<open>Both signatures are one function.\<close>
lemma ws_challenge_is_rest: "sign_ws_challenge Y secret challenge = sign_rest_request Y secret challenge [] []"
  by (simp add: sign_ws_challenge_def sign_rest_request_def)

text \<open>A request that goes out is signed over the bytes it carries, its nonce and its path without the prefix,
  with the secret of the client's credentials.\<close>
lemma signed_headers:
  assumes "auth_headers C (signing Y E) payload path = Inr hs"
  shows "\<exists>key secret nonce sg. kc_credentials C = Some (key, secret) \<and> rv_nonce E = Inr nonce \<and>
     sign_rest_request Y secret payload nonce path = Inr sg \<and>
     hs = [(''APIKey'', key), (''Nonce'', nonce), (''Authent'', sg)]"
proof -
  obtain key secret where c: "kc_credentials C = Some (key, secret)"
    using assms by (cases "kc_credentials C") (auto simp: auth_headers_def creds_def)
  obtain nonce where n: "rv_nonce E = Inr nonce"
    using assms by (cases "rv_nonce E") (auto simp: auth_headers_def creds_def c signing_def)
  obtain sg where "sign_rest_request Y secret payload nonce path = Inr sg"
    using assms by (cases "sign_rest_request Y secret payload nonce path") (auto simp: auth_headers_def creds_def c signing_def n)
  then show ?thesis using assms by (simp add: auth_headers_def creds_def c signing_def n)
qed

lemma signed_post:
  assumes "authed_post_form C (signing Y E) path body = Inr answer"
  shows "\<exists>key secret nonce sg. kc_credentials C = Some (key, secret) \<and> rv_nonce E = Inr nonce \<and>
     sign_rest_request Y secret body nonce path = Inr sg \<and>
     read_response (rv_http E (post_request C path ''application/x-www-form-urlencoded'' body
       [(''APIKey'', key), (''Nonce'', nonce), (''Authent'', sg)])) = Inr answer"
proof -
  obtain hs where hs: "auth_headers C (signing Y E) body path = Inr hs"
    and r: "read_response (rv_http (signing Y E) (post_request C path ''application/x-www-form-urlencoded'' body hs)) = Inr answer"
    using assms unfolding authed_post_form_def rbind_Inr_iff by (elim exE conjE)
  show ?thesis using signed_headers [OF hs] r by (auto simp: signing_def)
qed

end
