(* ===== verification/Blocked_Signals.thy ===== *)
theory Blocked_Signals
  imports Overlap_Run Order_Properties
begin

text \<open>Signals that are stuck: the row of their order keeps them from being sent again and from being done.  The
  runs considered here are runs of whole ticks in which no fill is reconciled.\<close>

section \<open>What the other work leaves alone\<close>

text \<open>The rows of one signal's orders, and that the signal is there and not done.\<close>
definition untouched :: "int \<Rightarrow> order_row list \<Rightarrow> db \<Rightarrow> bool" where
  "untouched i R d \<longleftrightarrow> sorted_wrt (<) (map od_id (db_orders d)) \<and>
     filter (\<lambda>r. od_signal_id r = Some i) (db_orders d) = R \<and> i \<in> sr_id ` set (db_signals d) \<and>
     (\<forall>s \<in> set (db_signals d). sr_id s = i \<longrightarrow> sr_status s \<noteq> ''processed'')"

definition sent_for :: "int \<Rightarrow> world \<Rightarrow> order list" where
  "sent_for i w = filter (\<lambda>o'. or_signal_id o' = Some i) (w_sent w)"

definition held_up :: "int \<Rightarrow> order_row list \<Rightarrow> order list \<Rightarrow> world \<Rightarrow> bool" where
  "held_up i R os w \<longleftrightarrow> untouched i R (w_db w) \<and> sent_for i w = os"

lemma untouched_blind [simp]: "fault_blind (untouched i R)"
  by (simp add: fault_blind_def untouched_def)

lemma update_where_keys: "(\<And>r. g (f r) = g r) \<Longrightarrow> g ` set (update_where P f rs) = g ` set rs"
  by (metis list.set_map update_where_map)

lemma untouched_signals:
  assumes "\<And>s. sr_id (f s) = sr_id s" "j \<noteq> i \<or> (\<forall>s. sr_status s \<noteq> ''processed'' \<longrightarrow> sr_status (f s) \<noteq> ''processed'')"
  shows "keeps (untouched i R) (update_signal j f)"
  unfolding update_signal_def
proof (rule keeps_exec)
  fix d
  assume u: "untouched i R d"
  have "\<forall>s \<in> set (update_where (\<lambda>s. sr_id s = j) f (db_signals d)). sr_id s = i \<longrightarrow> sr_status s \<noteq> ''processed''"
    using u assms by (auto simp: untouched_def update_where_def)
  then show "untouched i R (d\<lparr> db_signals := update_where (\<lambda>s. sr_id s = j) f (db_signals d) \<rparr>)"
    using u by (simp add: untouched_def update_where_keys [of sr_id f, OF assms(1)])
qed simp

lemma untouched_marks [keeps_intro]:
  "keeps (untouched i R) (mark_signal_rejected j t rs)" "keeps (untouched i R) (set_signal_retry_after j t)"
  "keeps (untouched i R) (clear_signal_retry_after j)"
  unfolding mark_signal_rejected_def set_signal_retry_after_def clear_signal_retry_after_def
  by (rule untouched_signals; simp)+

lemma untouched_processed: "j \<noteq> i \<Longrightarrow> keeps (untouched i R) (mark_signal_processed j t)"
  unfolding mark_signal_processed_def by (rule untouched_signals) simp_all

lemma untouched_orders:
  assumes "n \<notin> od_id ` set R" "\<And>r. P r \<Longrightarrow> od_id r = n" "\<And>r. od_id (f r) = od_id r"
    "\<And>r. od_signal_id (f r) = od_signal_id r"
  shows "keeps (untouched i R) (update_order P f)"
  unfolding update_order_def
proof (rule keeps_exec)
  fix d
  assume u: "untouched i R d"
  have "\<not> (od_signal_id r = Some i)" if "r \<in> set (db_orders d)" "P r" for r
    using that assms(1) assms(2) [OF that(2)] u by (force simp: untouched_def)
  then have "filter (\<lambda>r. od_signal_id r = Some i) (update_where P f (db_orders d)) = R"
    using u assms(4) filter_update_other [of "db_orders d" P "\<lambda>r. od_signal_id r = Some i" f]
    by (simp add: untouched_def)
  then show "untouched i R (d\<lparr> db_orders := update_where P f (db_orders d) \<rparr>)"
    using u update_where_map [of od_id f P "db_orders d"] assms(3) by (simp add: untouched_def)
qed simp

lemma untouched_marked:
  assumes "n \<notin> od_id ` set R"
  shows "keeps (untouched i R) (mark_order_submitted n b st t)" "keeps (untouched i R) (mark_order_failed n msg t)"
    "keeps (untouched i R) (mark_order_uncertain n msg t)" "keeps (untouched i R) (backfill_broker_order_id n b t)"
  unfolding mark_order_submitted_def mark_order_failed_def mark_order_uncertain_def backfill_broker_order_id_def
  by (rule untouched_orders [OF assms]; simp)+

lemma untouched_stmts [keeps_intro]:
  "keeps (untouched i R) (insert_equity_snapshot a b c d e f g h k l m n)"
  "keeps (untouched i R) (record_checklist_evaluation j t ap oc)" "keeps (untouched i R) (record_kill_switch t k' a' b')"
  unfolding insert_equity_snapshot_def record_checklist_evaluation_def record_kill_switch_def
  by (intro keeps_stmt; simp add: keeps_def Let_def untouched_def)+

lemma held_lift [keeps_intro]:
  assumes "keeps (untouched i R) m"
  shows "keeps (held_up i R os) (lift_with f m)" "keeps (held_up i R os) (sql m)" "keeps (held_up i R os) (sql_context msg m)"
  using assms unfolding sql_def sql_context_def
  by (auto simp: keeps_def held_up_def sent_for_def lift_with_def split: prod.splits res.splits)

lemma held_lookup [keeps_intro]: "keeps (held_up i R os) (get_order_by_cli_ord_id cli)" "keeps (held_up i R os) open_orders"
  by (auto simp: keeps_def held_up_def sent_for_def get_order_by_cli_ord_id_def open_orders_def split: prod.splits)

lemma held_submit: "or_signal_id o' \<noteq> Some i \<Longrightarrow> keeps (held_up i R os) (submit_order o')"
  by (auto simp: keeps_def held_up_def sent_for_def submit_order_def split: prod.splits)

lemma held_small [keeps_intro]:
  "keeps (held_up i R os) (reject_now L j rs)" "keeps (held_up i R os) (reject_expired L sg t)"
  "keeps (held_up i R os) (set_cooldown L j)"
  unfolding reject_now_def reject_expired_def set_cooldown_def by (intro keeps_intro)+

lemma held_load [keeps_intro]: "keeps (held_up i R os) (load_portfolio_state L t)"
  unfolding load_portfolio_state_def latest_equity_snapshot_def write_bootstrap_equity_snapshot_def
    kill_switch_active_def list_open_leverage_positions_def
  by (intro keeps_intro untouched_blind)

lemma held_iteration: "keeps (held_up i R os) (evaluate_kill_switch_once L cfg ins hb)"
proof -
  have "keeps (held_up i R os) (panic_close_leverage_positions L ins n)" for n
    unfolding panic_close_leverage_positions_def list_open_leverage_positions_def panic_close_one_def
    by (intro keeps_intro untouched_blind held_submit) (simp add: close_order_def Let_def)
  then show ?thesis
    by (intro keeps_iteration) (auto intro!: keeps_intro simp: has_active_hard_trigger_def)
qed

lemma held_periodic: "keeps (held_up i R os) periodic_once"
  unfolding periodic_once_def list_live_orders_def by (intro keeps_intro untouched_blind)

lemma untouched_sum [keeps_intro]: "keeps (untouched i R) (sum_texts L acc rows)"
  by (induction rows arbitrary: acc) (auto intro!: keeps_intro)

lemma held_snapshot: "keeps (held_up i R os) (write_one_snapshot L fo mo cfg answer)"
  unfolding write_one_snapshot_def persist_snapshot_def sum_realized_pnl_btc_by_sleeve_def Let_def
  by (intro keeps_intro untouched_blind) (simp add: keeps_def)

section \<open>An attempt for another signal\<close>

text \<open>A sequence whose first operation establishes a fact about its result.\<close>
lemma keeps_bnd_fact:
  assumes "triple P m (\<lambda>a s. P s \<and> F a) P" "\<And>a. F a \<Longrightarrow> keeps P (k a)"
  shows "keeps P (bnd m k)"
proof (rule keeps_triple, rule triple_bnd [OF assms(1)])
  fix a
  show "triple (\<lambda>s. P s \<and> F a) (k a) (\<lambda>_. P) P"
    by (rule triple_assume, rule triple_mono [OF triple_keeps [OF assms(2)]]) auto
qed

lemma triple_bnd_keeps: "keeps P m \<Longrightarrow> (\<And>a. triple P (k a) Q P) \<Longrightarrow> triple P (bnd m k) Q P"
  by (rule triple_bnd [OF triple_keeps])

lemma held_triple:
  assumes "triple (untouched i R) m (\<lambda>a d. untouched i R d \<and> F a) (untouched i R)"
  shows "triple (held_up i R os) (sql m) (\<lambda>a w. held_up i R os w \<and> F a) (held_up i R os)"
proof -
  have step: "case sql m w of (w', Ok a) \<Rightarrow> held_up i R os w' \<and> F a | (w', _) \<Rightarrow> held_up i R os w'"
    if h: "held_up i R os w" for w
  proof -
    obtain d r where m: "m (w_db w) = (d, r)" by (cases "m (w_db w)")
    have "case m (w_db w) of (d', Ok a) \<Rightarrow> untouched i R d' \<and> F a | (d', _) \<Rightarrow> untouched i R d'"
      using assms [unfolded triple_def, rule_format, of "w_db w"] h by (simp add: held_up_def)
    then show ?thesis
      using m h by (cases r) (simp_all add: held_up_def sent_for_def sql_def lift_with_def)
  qed
  show ?thesis unfolding triple_def using step by blast
qed

lemma find_conj: "find (\<lambda>x. P x \<and> Q x) xs = find Q (filter P xs)"
  by (induction xs) auto

text \<open>A row found for a signal is a row of that signal.\<close>
lemma pending_found:
  "triple (held_up i R os) (sql (pending_order_for_signal j)) (\<lambda>found w. held_up i R os w \<and>
     (if j = i then found = map_option (\<lambda>r. (od_id r, od_status r, od_cli_ord_id r))
        (find (\<lambda>r. od_status r \<in> set pending_statuses) (rev R))
      else \<forall>n st cli. found = Some (n, st, cli) \<longrightarrow> n \<notin> od_id ` set R)) (held_up i R os)"
proof (rule held_triple)
  let ?Q = "\<lambda>found. if j = i then found = map_option (\<lambda>r. (od_id r, od_status r, od_cli_ord_id r))
        (find (\<lambda>r. od_status r \<in> set pending_statuses) (rev R))
      else \<forall>n st cli. found = Some (n, st, cli) \<longrightarrow> n \<notin> od_id ` set R"
  have own: "?Q (map_option (\<lambda>r. (od_id r, od_status r, od_cli_ord_id r))
      (find (\<lambda>r. od_signal_id r = Some j \<and> od_status r \<in> set pending_statuses) (rev (db_orders d))))"
    if u: "untouched i R d" for d
  proof (cases "j = i")
    case True
    have "filter (\<lambda>r. od_signal_id r = Some i) (db_orders d) = R" using u by (simp add: untouched_def)
    then show ?thesis using True by (simp add: find_conj rev_filter [symmetric])
  next
    case False
    have inj: "inj_on od_id (set (db_orders d))"
      using u by (simp add: untouched_def strict_sorted_iff distinct_map)
    have "od_id r \<notin> od_id ` set R" if "r \<in> set (db_orders d)" "od_signal_id r = Some j" for r
      using that u False inj_onD [OF inj _ that(1)] by (auto simp: untouched_def)
    then have "od_id r \<notin> od_id ` set R"
      if "find (\<lambda>r. od_signal_id r = Some j \<and> od_status r \<in> set pending_statuses) (rev (db_orders d)) = Some r" for r
      using find_Some_in [OF that] by simp
    then show ?thesis using False by force
  qed
  show "triple (untouched i R) (pending_order_for_signal j) (\<lambda>a d. untouched i R d \<and> ?Q a) (untouched i R)"
    unfolding pending_order_for_signal_def by (rule triple_query) (use own in auto)
qed

text \<open>The id of a new row is new, and a client id is not given twice.\<close>
lemma insert_found:
  assumes "j \<noteq> i \<or> taken"
    and taken: "taken \<longleftrightarrow> cli \<noteq> None \<and> (\<exists>r \<in> set R. od_broker r = b \<and> od_cli_ord_id r = cli)"
  shows "triple (held_up i R os) (sql (insert_pending_order (Some j) b ins sd ot tif q lm sp t cli))
     (\<lambda>n w. held_up i R os w \<and> n \<notin> od_id ` set R \<and> \<not> taken) (held_up i R os)"
proof (rule held_triple)
  let ?n = "\<lambda>d. next_id (map od_id (db_orders d))"
  have fresh: "\<forall>x \<in> set (db_orders d). od_id x < ?n d" for d
    using next_id_greater [of _ "map od_id (db_orders d)"] by force
  have new: "?n d \<notin> od_id ` set R" if "untouched i R d" for d
    using that fresh [of d] by (force simp: untouched_def)
  have none: "\<not> taken" if "untouched i R d"
    "\<not> (\<exists>r \<in> set (db_orders d). cli \<noteq> None \<and> od_broker r = b \<and> od_cli_ord_id r = cli)" for d
    using that unfolding taken untouched_def by auto
  let ?row = "\<lambda>d. \<lparr> od_id = ?n d, od_signal_id = Some j, od_broker = b, od_broker_order_id = None,
     od_instrument_symbol = ins, od_side = sd, od_order_type = ot, od_time_in_force = tif, od_quantity = q,
     od_limit_price = lm, od_stop_price = sp, od_status = ''pending_submission'', od_filled_quantity = ''0'',
     od_avg_fill_price = None, od_fees_paid = ''0'', od_created_at = t, od_updated_at = t,
     od_error_message = None, od_cli_ord_id = cli \<rparr>"
  show "triple (untouched i R) (insert_pending_order (Some j) b ins sd ot tif q lm sp t cli)
      (\<lambda>n d. untouched i R d \<and> n \<notin> od_id ` set R \<and> \<not> taken) (untouched i R)"
    unfolding insert_pending_order_def Let_def
  proof (rule triple_stmt)
    let ?add = "\<lambda>d. d\<lparr> db_orders := db_orders d @ [?row d] \<rparr>"
    have "untouched i R (?add d)" if "untouched i R d" "\<not> taken" for d
      using that assms(1) fresh [of d] by (auto simp: untouched_def sorted_wrt_append)
    then show "triple (untouched i R) (\<lambda>d.
        if \<exists>o' \<in> set (db_orders d). cli \<noteq> None \<and> od_broker o' = b \<and> od_cli_ord_id o' = cli
        then (d, Err (PSql (SqlUnique ''orders.broker, orders.cli_ord_id'')))
        else if case Some j of Some i \<Rightarrow> \<not> signal_exists d i | None \<Rightarrow> False then (d, Err (PSql SqlForeignKey))
        else (?add d, Ok (?n d)))
        (\<lambda>n d. untouched i R d \<and> n \<notin> od_id ` set R \<and> \<not> taken) (untouched i R)"
      using new none unfolding triple_def by auto
  qed simp_all
qed

lemma held_after:
  assumes "j \<noteq> i" "n \<notin> od_id ` set R"
  shows "keeps (held_up i R os) (after_submit L j n a t)"
  unfolding after_submit_def
  by (intro keeps_intro untouched_marked untouched_processed assms)

lemma held_place:
  assumes "or_signal_id o' = Some (sg_id sg)" "sg_id sg \<noteq> i" "\<And>n. resubmit = Some n \<Longrightarrow> n \<notin> od_id ` set R"
  shows "keeps (held_up i R os) (place_order L sg resubmit o')"
  unfolding place_order_def
proof (rule keeps_bnd [OF keeps_clock(2)])
  fix t
  let ?m = "case resubmit of Some n \<Rightarrow> ret n
    | None \<Rightarrow> sql (insert_pending_order (Some (sg_id sg)) broker_tag (ins_symbol (or_instrument o'))
        (side_text (or_side o')) (order_type_text (or_order_type o')) (tif_text (or_time_in_force o'))
        (l_show L (or_quantity o')) (map_option (l_show L) (or_limit_price o')) None t (or_cli_ord_id o'))"
  have "triple (held_up i R os) ?m (\<lambda>n w. held_up i R os w \<and> n \<notin> od_id ` set R) (held_up i R os)"
    using assms(2,3) by (cases resubmit) (auto intro: triple_ret triple_mono [OF insert_found [OF _ refl]])
  then show "keeps (held_up i R os) (bnd ?m (\<lambda>n. bnd (submit_order o') (\<lambda>r. bnd (now_iso L) (after_submit L (sg_id sg) n r))))"
    by (rule keeps_bnd_fact) (use assms in \<open>intro keeps_intro held_after held_submit; simp\<close>)
qed

lemma held_build:
  assumes "sg_id sg \<noteq> i" "\<And>n. resubmit = Some n \<Longrightarrow> n \<notin> od_id ` set R"
  shows "keeps (held_up i R os) (build_and_place L P sg m pf resubmit)"
proof -
  have "keeps (held_up i R os) (case build_kraken_futures_order L sg m pf (sp_instruments P) now of
       Inl reason \<Rightarrow> reject_now L (sg_id sg) reason | Inr o' \<Rightarrow> place_order L sg resubmit o')" for now
    by (cases "build_kraken_futures_order L sg m pf (sp_instruments P) now")
      (use assms in \<open>auto intro!: keeps_intro held_place dest: built_order_matches simp: order_matches_def\<close>)
  then show ?thesis unfolding build_and_place_def by (intro keeps_bnd keeps_clock)
qed

lemma held_other:
  assumes "sg_id sg \<noteq> i"
  shows "keeps (held_up i R os) (submit_via_broker L P sg m pf)"
proof -
  let ?Q = "\<lambda>out w. held_up i R os w \<and> (\<forall>n. out = ResubmitWithOrderId n \<longrightarrow> n \<notin> od_id ` set R)"
  have settle: "triple (held_up i R os) (bnd m (\<lambda>_. ret out)) ?Q (held_up i R os)"
    if "keeps (held_up i R os) m" "\<And>n. out \<noteq> ResubmitWithOrderId n" for m :: "'a dio" and out
    by (rule triple_bnd [OF triple_keeps [OF that(1)]], rule triple_ret) (use that(2) in simp)
  have ask: "triple (held_up i R os) (reconcile_uncertain L (sg_id sg) n cli) ?Q (held_up i R os)"
    if "n \<notin> od_id ` set R" for n cli
  proof -
    have "triple (held_up i R os) (case answer of
         Inr (Some oo) \<Rightarrow> bnd (now_iso L) (\<lambda>t. bnd (sql (backfill_broker_order_id n (os_broker_order_id oo) t)) (\<lambda>_.
           bnd (sql (mark_signal_processed (sg_id sg) t)) (\<lambda>_.
           bnd (sql (clear_signal_retry_after (sg_id sg))) (\<lambda>_. ret AlreadyReconciled))))
       | Inr None \<Rightarrow> ret (ResubmitWithOrderId n)
       | Inl e \<Rightarrow> bnd (set_cooldown L (sg_id sg)) (\<lambda>_. ret LookupFailedRetry)) ?Q (held_up i R os)" for answer
    proof (cases answer)
      case (Inl e)
      then show ?thesis by (simp add: settle keeps_intro)
    next
      case (Inr found)
      show ?thesis
      proof (cases found)
        case None
        then show ?thesis using Inr that by (auto intro: triple_ret)
      next
        case (Some oo)
        then show ?thesis
          using Inr by (auto intro!: triple_bnd_keeps settle keeps_intro untouched_marked untouched_processed that assms)
      qed
    qed
    then show ?thesis unfolding reconcile_uncertain_def by (intro triple_bnd_keeps held_lookup)
  qed
  have "triple (held_up i R os) (try_reconcile_uncertain_order L (sg_id sg)) ?Q (held_up i R os)"
    unfolding try_reconcile_uncertain_order_def
  proof (rule triple_bnd [OF pending_found], unfold if_not_P [OF assms], rule triple_assume)
    fix found :: "(int \<times> string \<times> string option) option" and w
    assume f: "held_up i R os w \<and> (\<forall>n st cli. found = Some (n, st, cli) \<longrightarrow> n \<notin> od_id ` set R)"
    have "triple (held_up i R os) (case found of None \<Rightarrow> ret NoExistingOrder
       | Some (n, st, cli) \<Rightarrow>
         if st \<in> set settled_statuses then
           bnd (now_iso L) (\<lambda>t. bnd (sql (mark_signal_processed (sg_id sg) t)) (\<lambda>_.
           bnd (sql (clear_signal_retry_after (sg_id sg))) (\<lambda>_. ret AlreadyReconciled)))
         else if st = ''uncertain'' then
           (case cli of Some c \<Rightarrow> reconcile_uncertain L (sg_id sg) n c
            | None \<Rightarrow> bnd (reject_now L (sg_id sg) (JObj [(''kind'', JStr ''uncertain_without_cli''),
                 (''order_id'', JNum (show_int n))])) (\<lambda>_. ret MalformedUnrecoverable))
         else ret AlreadyReconciled) ?Q (held_up i R os)"
      using f by (auto intro!: triple_ret triple_if triple_bnd_keeps settle ask keeps_intro untouched_processed assms
          split: option.splits)
    then show "triple (\<lambda>v. v = w) (case found of None \<Rightarrow> ret NoExistingOrder
       | Some (n, st, cli) \<Rightarrow>
         if st \<in> set settled_statuses then
           bnd (now_iso L) (\<lambda>t. bnd (sql (mark_signal_processed (sg_id sg) t)) (\<lambda>_.
           bnd (sql (clear_signal_retry_after (sg_id sg))) (\<lambda>_. ret AlreadyReconciled)))
         else if st = ''uncertain'' then
           (case cli of Some c \<Rightarrow> reconcile_uncertain L (sg_id sg) n c
            | None \<Rightarrow> bnd (reject_now L (sg_id sg) (JObj [(''kind'', JStr ''uncertain_without_cli''),
                 (''order_id'', JNum (show_int n))])) (\<lambda>_. ret MalformedUnrecoverable))
         else ret AlreadyReconciled) ?Q (held_up i R os)"
      by (rule triple_mono) (use f in auto)
  qed
  then have "keeps (held_up i R os) (bnd (try_reconcile_uncertain_order L (sg_id sg)) (\<lambda>outcome.
        case outcome of
          NoExistingOrder \<Rightarrow> build_and_place L P sg m pf None
        | ResubmitWithOrderId n \<Rightarrow> build_and_place L P sg m pf (Some n)
        | _ \<Rightarrow> ret ()))"
    by (rule keeps_bnd_fact) (auto intro!: held_build assms split: reconcile_outcome.splits)
  then show ?thesis unfolding submit_via_broker_def by (intro keeps_if held_small)
qed

section \<open>An attempt for the signal itself\<close>

text \<open>The newest open row is stuck before its answer, or no row is open and the client id is taken.\<close>
definition blocked :: "int \<Rightarrow> order_row list \<Rightarrow> bool" where
  "blocked i R \<longleftrightarrow> (case find (\<lambda>r. od_status r \<in> set pending_statuses) (rev R) of
      Some r \<Rightarrow> od_status r = ''pending_submission''
    | None \<Rightarrow> \<exists>r \<in> set R. od_broker r = broker_tag \<and> od_cli_ord_id r = Some (signal_cli i))"

lemma held_blocked:
  assumes "blocked i R" "sg_id sg = i"
  shows "keeps (held_up i R os) (submit_via_broker L P sg m pf)"
proof -
  let ?open = "find (\<lambda>r. od_status r \<in> set pending_statuses) (rev R)"
  have insert: "keeps (held_up i R os) (place_order L sg None o')"
    if free: "?open = None" and o': "or_cli_ord_id o' = Some (signal_cli i)" for o'
  proof -
    have "\<exists>r \<in> set R. od_broker r = broker_tag \<and> od_cli_ord_id r = or_cli_ord_id o'"
      using assms(1) free o' by (simp add: blocked_def)
    then have "triple (held_up i R os) (sql (insert_pending_order (Some (sg_id sg)) broker_tag (ins_symbol (or_instrument o'))
        (side_text (or_side o')) (order_type_text (or_order_type o')) (tif_text (or_time_in_force o'))
        (l_show L (or_quantity o')) (map_option (l_show L) (or_limit_price o')) None t (or_cli_ord_id o')))
        (\<lambda>n w. held_up i R os w \<and> False) (held_up i R os)" for t
      using o' by (intro triple_mono [OF insert_found [OF _ refl]]) auto
    then show ?thesis
      unfolding place_order_def option.case by (intro keeps_bnd keeps_clock keeps_bnd_fact) simp_all
  qed
  have build: "keeps (held_up i R os) (build_and_place L P sg m pf None)" if "?open = None"
  proof -
    have "keeps (held_up i R os) (case build_kraken_futures_order L sg m pf (sp_instruments P) now of
         Inl reason \<Rightarrow> reject_now L (sg_id sg) reason | Inr o' \<Rightarrow> place_order L sg None o')" for now
    proof (cases "build_kraken_futures_order L sg m pf (sp_instruments P) now")
      case (Inr o')
      then have "or_cli_ord_id o' = Some (signal_cli i)"
        using built_order_matches assms(2) by (auto simp: order_matches_def)
      then show ?thesis using Inr insert [OF that] by simp
    qed (simp add: held_small)
    then show ?thesis unfolding build_and_place_def by (intro keeps_bnd keeps_clock)
  qed
  have settled: "triple (held_up i R os) (try_reconcile_uncertain_order L (sg_id sg)) (\<lambda>out w. held_up i R os w \<and>
      (if ?open = None then out = NoExistingOrder else out = AlreadyReconciled)) (held_up i R os)"
    unfolding try_reconcile_uncertain_order_def
  proof (rule triple_bnd [OF pending_found], unfold if_P [OF assms(2)], rule triple_assume)
    fix found :: "(int \<times> string \<times> string option) option" and w
    assume f: "held_up i R os w \<and> found = map_option (\<lambda>r. (od_id r, od_status r, od_cli_ord_id r)) ?open"
    show "triple (\<lambda>v. v = w) (case found of None \<Rightarrow> ret NoExistingOrder
       | Some (n, st, cli) \<Rightarrow>
         if st \<in> set settled_statuses then
           bnd (now_iso L) (\<lambda>t. bnd (sql (mark_signal_processed (sg_id sg) t)) (\<lambda>_.
           bnd (sql (clear_signal_retry_after (sg_id sg))) (\<lambda>_. ret AlreadyReconciled)))
         else if st = ''uncertain'' then
           (case cli of Some c \<Rightarrow> reconcile_uncertain L (sg_id sg) n c
            | None \<Rightarrow> bnd (reject_now L (sg_id sg) (JObj [(''kind'', JStr ''uncertain_without_cli''),
                 (''order_id'', JNum (show_int n))])) (\<lambda>_. ret MalformedUnrecoverable))
         else ret AlreadyReconciled) (\<lambda>out w. held_up i R os w \<and>
      (if ?open = None then out = NoExistingOrder else out = AlreadyReconciled)) (held_up i R os)"
      using f assms(1) by (cases ?open) (auto simp: blocked_def settled_statuses_def intro!: triple_ret)
  qed
  have "keeps (held_up i R os) (bnd (try_reconcile_uncertain_order L (sg_id sg)) (\<lambda>outcome.
        case outcome of
          NoExistingOrder \<Rightarrow> build_and_place L P sg m pf None
        | ResubmitWithOrderId n \<Rightarrow> build_and_place L P sg m pf (Some n)
        | _ \<Rightarrow> ret ()))"
    by (rule keeps_bnd_fact [OF settled]) (auto intro!: build split: if_splits)
  then show ?thesis unfolding submit_via_broker_def by (intro keeps_if held_small)
qed

lemma held_process:
  assumes "blocked i R" "sp_mode P \<noteq> DryRun"
  shows "keeps (held_up i R os) (process_signal L P row)"
proof -
  have "keeps (held_up i R os) (submit_via_broker L P sg m pf)" for sg m pf
    using held_blocked [OF assms(1)] held_other by (cases "sg_id sg = i") auto
  then have "keeps (held_up i R os) (handle_approval L P sg m pf)" for sg m pf
    using assms(2) by (cases "sp_mode P") (simp_all add: handle_approval_def)
  then have "keeps (held_up i R os) (run_checklist L P sg m pf)" for sg m pf
    unfolding run_checklist_def by (intro keeps_intro)
  then show ?thesis
    unfolding process_signal_def by (intro keeps_intro)
qed

lemma held_poll:
  assumes "blocked i R" "sp_mode P \<noteq> DryRun"
  shows "keeps (held_up i R os) (poll_once L P)"
  unfolding poll_once_def pending_signals_def by (intro keeps_intro held_process assms untouched_blind)

section \<open>Runs without fills\<close>

text \<open>Any number of ticks of the other tasks, restarts, and anything from outside: clock, feeds, answers of the
  broker, failing statements, new signals and resolved events.\<close>
inductive without_fills :: "daemon \<Rightarrow> world \<Rightarrow> world \<Rightarrow> bool" for D w where
  start: "without_fills D w w"
| polled: "without_fills D w v \<Longrightarrow> poll_once (dm_lib D) (dm_processor D) v = (v', r) \<Longrightarrow> without_fills D w v'"
| supervised: "without_fills D w v \<Longrightarrow> evaluate_kill_switch_once (dm_lib D) (rk_risk (dm_reconciler D))
      (rk_instruments (dm_reconciler D)) (rk_has_broker (dm_reconciler D)) v = (v', r) \<Longrightarrow> without_fills D w v'"
| checked: "without_fills D w v \<Longrightarrow> periodic_once v = (v', r') \<Longrightarrow> without_fills D w v'"
| wrote: "without_fills D w v \<Longrightarrow>
    write_one_snapshot (dm_lib D) (dm_flex D) (dm_margin D) (rk_risk (dm_reconciler D)) answer v = (v', r'') \<Longrightarrow>
    without_fills D w v'"
| restarted: "without_fills D w v \<Longrightarrow> without_fills D w (v\<lparr> w_applied_seq := 0 \<rparr>)"
| outer: "without_fills D w v \<Longrightarrow> outside v v' \<Longrightarrow> without_fills D w v'"

lemma held_outside:
  assumes "outside w w'" "held_up i R os w"
  shows "held_up i R os w'"
  using assms by (cases rule: outside.cases)
    (force simp: held_up_def untouched_def sent_for_def resolve_event_def)+

lemma held_runs:
  assumes "without_fills D w v" "blocked i R" "sp_mode (dm_processor D) \<noteq> DryRun" "held_up i R os w"
  shows "held_up i R os v"
  using assms(1)
proof induction
  case (polled v v' r)
  then show ?case using keepsD [OF held_poll [OF assms(2,3)]] by blast
next
  case (supervised v v' r)
  then show ?case using keepsD [OF held_iteration] by blast
next
  case (checked v v' r)
  then show ?case using keepsD [OF held_periodic] by blast
next
  case (wrote v answer v' r)
  then show ?case using keepsD [OF held_snapshot] by blast
next
  case (restarted v)
  then show ?case by (simp add: held_up_def sent_for_def)
qed (use assms(4) held_outside in auto)

text \<open>The one row of a signal that is not done.\<close>
lemma stays_held:
  assumes "daemon_ok w" "rows_of i w = [row]" "blocked i [row]" "sp_mode (dm_processor D) \<noteq> DryRun"
    and "s \<in> set (db_signals (w_db w))" "sr_id s = i" "sr_status s \<noteq> ''processed''" "without_fills D w v"
  shows "rows_of i v = [row] \<and> sent_for i v = sent_for i w \<and> (\<exists>s \<in> set (db_signals (w_db v)). sr_id s = i) \<and>
     (\<forall>s \<in> set (db_signals (w_db v)). sr_id s = i \<longrightarrow> sr_status s \<noteq> ''processed'')"
proof -
  have sorted: "sorted_wrt (<) (map od_id (db_orders (w_db w)))" and ids: "distinct (map sr_id (db_signals (w_db w)))"
    using assms(1) by (auto simp: daemon_ok_def world_ok_def tables_ok_def store_inv_def)
  have "sr_status x \<noteq> ''processed''" if "x \<in> set (db_signals (w_db w))" "sr_id x = i" for x
    using that assms(5-7) ids by (metis distinct_map inj_onD)
  then have "held_up i [row] (sent_for i w) w"
    using sorted assms(2,5,6) by (auto simp: held_up_def untouched_def rows_of_def)
  from held_runs [OF assms(8,3,4) this] show ?thesis
    by (auto simp: held_up_def untouched_def rows_of_def)
qed

lemma runs_in_pool:
  assumes "without_fills D w v" "pool_reachable D (idle_threads, w)"
  shows "pool_reachable D (idle_threads, v)"
  using assms(1)
proof induction
  case (polled v v' r)
  show ?case by (rule daemon_step_in_pool [OF polled.IH daemon_step.poll [OF polled.hyps(2)]])
next
  case (supervised v v' r)
  show ?case by (rule daemon_step_in_pool [OF supervised.IH daemon_step.supervise [OF supervised.hyps(2)]])
next
  case (checked v v' r)
  show ?case by (rule daemon_step_in_pool [OF checked.IH daemon_step.periodic [OF checked.hyps(2)]])
next
  case (wrote v answer v' r)
  show ?case by (rule daemon_step_in_pool [OF wrote.IH daemon_step.equity [OF wrote.hyps(2)]])
next
  case (restarted v)
  show ?case by (rule pool_reachable.step [OF restarted.IH pool_step.crash])
next
  case (outer v v')
  show ?case by (rule pool_reachable.step [OF outer.IH pool_step.outer [OF outer.hyps(2)]])
qed (rule assms(2))

section \<open>An attempt that the checklist approves\<close>

definition approved :: "daemon \<Rightarrow> world \<Rightarrow> signal_row \<Rightarrow> signal \<Rightarrow> market_snapshot \<Rightarrow> portfolio \<Rightarrow> bool" where
  "approved D w r sg m pf \<longleftrightarrow> calm w \<and> r \<in> set (db_signals (w_db w)) \<and>
     (\<exists>result. cleared_by (dm_lib D) (dm_processor D) w r sg m pf result)"

lemma approved_run:
  assumes "approved D w r sg m pf"
  obtains w1 where "process_signal (dm_lib D) (dm_processor D) r w = submit_via_broker (dm_lib D) (dm_processor D) sg m pf w1"
    "calm w1" "db_orders (w_db w1) = db_orders (w_db w)" "db_signals (w_db w1) = db_signals (w_db w)"
    "w_sent w1 = w_sent w" "w_lookups w1 = w_lookups w" "w_now w1 = w_now w"
proof -
  let ?L = "dm_lib D" and ?P = "dm_processor D"
  obtain result where c: "cleared_by ?L ?P w r sg m pf result" and calm: "calm w" and r: "r \<in> set (db_signals (w_db w))"
    using assms by (auto simp: approved_def)
  let ?w = "w\<lparr> w_db := loaded_db ?L (w_now w) (w_db w) \<rparr>"
  let ?e = "\<lparr> ce_id = next_id (map ce_id (db_checklists (w_db ?w))), ce_signal_id = sg_id sg,
     ce_evaluated_at = canonical_iso ?L (cr_evaluated_at result), ce_approved = True,
     ce_outcomes = outcomes_json ?L (cr_outcomes result) \<rparr>"
  let ?w1 = "?w\<lparr> w_db := (w_db ?w)\<lparr> db_checklists := db_checklists (w_db ?w) @ [?e] \<rparr> \<rparr>"
  have load: "load_portfolio_state ?L (w_now w) w = (?w, Ok pf)"
    using c load_calm [OF calm, of ?L "w_now w"] by (auto simp: cleared_by_def)
  have loads: "catch (load_portfolio_state ?L (w_now w)) k w = k (Inr pf) ?w" for k :: "_ \<Rightarrow> unit dio"
    by (rule catch_ok) (rule load)
  have id: "sg_id sg = sr_id r" using c row_to_signal_Inr(1) by (auto simp: cleared_by_def)
  have "signal_exists (w_db ?w) (sg_id sg)" using r by (auto simp: signal_exists_def list_ex_iff id)
  then have "record_checklist_evaluation (sg_id sg) (canonical_iso ?L (cr_evaluated_at result)) True
      (outcomes_json ?L (cr_outcomes result)) (w_db ?w) = (w_db ?w1, Ok ())"
    using calm by (simp add: record_checklist_evaluation_def calm_def)
  then have rec: "sql (record_checklist_evaluation (sg_id sg) (canonical_iso ?L (cr_evaluated_at result)) True
      (outcomes_json ?L (cr_outcomes result))) ?w = (?w1, Ok ())" by (simp add: sql_run)
  have recs: "bnd (sql (record_checklist_evaluation (sg_id sg) (canonical_iso ?L (cr_evaluated_at result)) True
      (outcomes_json ?L (cr_outcomes result)))) k ?w = k () ?w1" for k :: "_ \<Rightarrow> unit dio"
    by (rule bnd_eq) (rule rec)
  have "process_signal ?L ?P r w = run_checklist ?L ?P sg m pf ?w"
    using c by (simp add: cleared_by_def process_signal_def loads)
  also have "\<dots> = submit_via_broker ?L ?P sg m pf ?w1"
    using c by (cases "sp_mode ?P") (simp_all add: cleared_by_def run_checklist_def recs handle_approval_def)
  finally show thesis
    by (rule that) (use calm in \<open>simp_all add: calm_def\<close>)
qed

lemma open_row_rows: "open_row_of i (w_db w) = find (\<lambda>r. od_status r \<in> set pending_statuses) (rev (rows_of i w))"
  by (simp add: open_row_of_def rows_of_def find_conj rev_filter [symmetric])

lemma rows_of_eq: "db_orders (w_db v) = db_orders (w_db w) \<Longrightarrow> rows_of i v = rows_of i w"
  by (simp add: rows_of_def)

text \<open>A row whose client id is taken and which is not open.\<close>
lemma filled_attempt:
  assumes "approved D w r sg m pf" "sr_id r = i" "rows_of i w = [row]" "od_status row = ''filled''"
    and "od_broker row = broker_tag" "od_cli_ord_id row = Some (signal_cli i)"
    and "build_kraken_futures_order (dm_lib D) sg m pf (sp_instruments (dm_processor D)) (w_now w) = Inr o'"
  shows "\<exists>w'. process_signal (dm_lib D) (dm_processor D) r w
       = (w', Err (EStore (PSql (SqlUnique ''orders.broker, orders.cli_ord_id'')))) \<and>
     db_orders (w_db w') = db_orders (w_db w) \<and> db_signals (w_db w') = db_signals (w_db w) \<and> w_sent w' = w_sent w"
proof -
  let ?L = "dm_lib D" and ?P = "dm_processor D"
  obtain w1 where w1: "process_signal ?L ?P r w = submit_via_broker ?L ?P sg m pf w1"
    "calm w1" "db_orders (w_db w1) = db_orders (w_db w)" "db_signals (w_db w1) = db_signals (w_db w)"
    "w_sent w1 = w_sent w" "w_now w1 = w_now w"
    using approved_run [OF assms(1)] by metis
  have c: "sg_sleeve sg = CryptoLeverage" "sp_has_broker ?P" "sg_id sg = i"
    using assms(1,2) row_to_signal_Inr(1) by (auto simp: approved_def cleared_by_def)
  have none: "open_row_of (sg_id sg) (w_db w1) = None"
    unfolding open_row_rows rows_of_eq [OF w1(3)] c assms(3) using assms(4) by (simp add: pending_statuses_def)
  have cli: "or_cli_ord_id o' = Some (signal_cli i)"
    using built_order_matches [OF assms(7)] c by (simp add: order_matches_def)
  have "row \<in> set (db_orders (w_db w1))" using assms(3) w1(3) by (auto simp: rows_of_def filter_eq_Cons_iff)
  then have ins: "insert_pending_order (Some (sg_id sg)) broker_tag (ins_symbol (or_instrument o'))
      (side_text (or_side o')) (order_type_text (or_order_type o')) (tif_text (or_time_in_force o'))
      (l_show ?L (or_quantity o')) (map_option (l_show ?L) (or_limit_price o')) None t (or_cli_ord_id o') (w_db w1)
      = (w_db w1, Err (PSql (SqlUnique ''orders.broker, orders.cli_ord_id'')))" for t
    using w1(2) assms(5,6) cli by (auto simp: insert_pending_order_def calm_def)
  have "place_order ?L sg None o' w1 = (w1, Err (EStore (PSql (SqlUnique ''orders.broker, orders.cli_ord_id''))))"
    by (simp add: place_order_def) (simp add: bnd_def sql_def lift_with_def ins)
  then have "submit_via_broker ?L ?P sg m pf w1 = (w1, Err (EStore (PSql (SqlUnique ''orders.broker, orders.cli_ord_id''))))"
    using c(1,2) assms(7) none w1(6)
    by (simp add: submit_via_broker_def try_reconcile_uncertain_order_def bnd_assoc pending_calm [OF w1(2)]
        build_and_place_def)
  then show ?thesis using w1 by auto
qed

text \<open>A row that is open but not uncertain: the signal counts as dealt with, and is marked so unless the row is still
  waiting for its answer.\<close>
lemma open_attempt:
  assumes "approved D w r sg m pf" "sr_id r = i" "rows_of i w = [row]"
    and "od_status row \<in> set pending_statuses" "od_status row \<noteq> ''uncertain''"
  shows "\<exists>w'. process_signal (dm_lib D) (dm_processor D) r w = (w', Ok ()) \<and> w_sent w' = w_sent w \<and>
     w_lookups w' = w_lookups w \<and> db_orders (w_db w') = db_orders (w_db w) \<and>
     (if od_status row = ''pending_submission'' then db_signals (w_db w') = db_signals (w_db w)
      else \<forall>s \<in> set (db_signals (w_db w')). sr_id s = i \<longrightarrow> sr_status s = ''processed'')"
proof -
  let ?L = "dm_lib D" and ?P = "dm_processor D"
  obtain w1 where w1: "process_signal ?L ?P r w = submit_via_broker ?L ?P sg m pf w1"
    "calm w1" "db_orders (w_db w1) = db_orders (w_db w)" "db_signals (w_db w1) = db_signals (w_db w)"
    "w_sent w1 = w_sent w" "w_lookups w1 = w_lookups w"
    using approved_run [OF assms(1)] by metis
  have c: "sg_sleeve sg = CryptoLeverage" "sp_has_broker ?P" "sg_id sg = i"
    using assms(1,2) row_to_signal_Inr(1) by (auto simp: approved_def cleared_by_def)
  have found: "open_row_of (sg_id sg) (w_db w1) = Some row"
    unfolding open_row_rows rows_of_eq [OF w1(3)] c assms(3) using assms(4) by simp
  show ?thesis
  proof (cases "od_status row = ''pending_submission''")
    case True
    then have "submit_via_broker ?L ?P sg m pf w1 = (w1, Ok ())"
      using c(1,2) found by (simp add: submit_via_broker_def try_reconcile_uncertain_order_def bnd_assoc
          pending_calm [OF w1(2)] settled_statuses_def)
    then show ?thesis using w1 True by auto
  next
    case False
    then have "od_status row \<in> set settled_statuses"
      using assms(4,5) by (auto simp: pending_statuses_def settled_statuses_def)
    then show ?thesis
      using c found w1 False
      by (auto simp: submit_via_broker_def try_reconcile_uncertain_order_def bnd_assoc pending_calm [OF w1(2)]
          mark_signal_processed_def clear_signal_retry_after_def update_signal_def calm_def no_faults_def update_where_def)
  qed
qed

end
