(* ===== verification/Stuck_Signals.thy ===== *)
theory Stuck_Signals
  imports Blocked_Signals
begin

text \<open>Two ways in which the signal of an order that went out never comes to an end: the order is filled while the
  signal is pending, and the process stops before the answer of the broker is noted.\<close>

section \<open>A fill nobody sees\<close>

lemma find_filter_hd: "filter P xs = x # ys \<Longrightarrow> find P xs = Some x"
  by (induction xs) (auto split: if_splits)

lemma own_row:
  assumes "daemon_ok w" "rows_of i w = [row]"
  shows "od_broker row = broker_tag" "od_cli_ord_id row = Some (signal_cli i)" "row \<in> set (db_orders (w_db w))"
proof -
  show row: "row \<in> set (db_orders (w_db w))" using assms(2) by (auto simp: rows_of_def filter_eq_Cons_iff)
  have "od_signal_id row = Some i" using assms(2) by (auto simp: rows_of_def filter_eq_Cons_iff)
  then show "od_broker row = broker_tag" "od_cli_ord_id row = Some (signal_cli i)"
    using row assms(1) by (auto simp: daemon_ok_def world_ok_def tables_ok_def rows_ok_def order_row_ok_def)
qed

text \<open>The orphan-catcher finds the row by its client id.\<close>
lemma caught:
  assumes "daemon_ok w" "rows_of i w = [row]" "calm w" "od_broker_order_id row = None"
    and "od_status row = ''pending_submission''" "fe_cli_ord_id f = Some (signal_cli i)"
  shows "\<exists>w1. try_backfill f t w = (w1, Ok True) \<and> rows_of i w1 = [row\<lparr> od_broker_order_id := Some (fe_order_id f),
     od_status := ''acknowledged'', od_updated_at := t \<rparr>]"
proof -
  let ?P = "\<lambda>r. od_broker r = fill_broker \<and> od_cli_ord_id r = Some (signal_cli i)"
  let ?Q = "\<lambda>r. od_id r = od_id row \<and> od_broker_order_id r = None"
  let ?f = "\<lambda>r. r\<lparr> od_broker_order_id := Some (fe_order_id f), od_status := (if od_status r
     \<in> {''pending_submission'', ''uncertain''} then ''acknowledged'' else od_status r), od_updated_at := t \<rparr>"
  note own = own_row [OF assms(1,2)]
  have unique: "cli_unique (db_orders (w_db w))" and sorted: "sorted_wrt (<) (map od_id (db_orders (w_db w)))"
    using assms(1) by (auto simp: daemon_ok_def world_ok_def tables_ok_def store_inv_def)
  have "filter ?P (db_orders (w_db w)) = [row]"
  proof -
    have "length (filter ?P (db_orders (w_db w))) \<le> 1"
      by (rule filter_one [OF unique [unfolded cli_unique_def], where c = "(fill_broker, Some (signal_cli i))"]) auto
    moreover have "row \<in> set (filter ?P (db_orders (w_db w)))"
      using own by (simp add: fill_broker_def broker_tag_def)
    ultimately show ?thesis by (cases "filter ?P (db_orders (w_db w))") auto
  qed
  then have find: "find ?P (db_orders (w_db w)) = Some row" by (simp add: find_filter_hd)
  have "filter (\<lambda>r. od_signal_id r = Some i) (update_where ?Q ?f (db_orders (w_db w))) = [?f row]"
  proof -
    have inj: "inj_on od_id (set (db_orders (w_db w)))" using sorted by (simp add: strict_sorted_iff distinct_map)
    have "?Q r \<longleftrightarrow> od_id r = od_id row" if "r \<in> set (db_orders (w_db w))" for r
      using inj_onD [OF inj _ that own(3)] assms(4) by auto
    then have "update_where ?Q ?f (db_orders (w_db w)) = update_where (\<lambda>r. od_id r = od_id row) ?f (db_orders (w_db w))"
      unfolding update_where_def by (intro map_cong) simp_all
    then show ?thesis
      using filter_update_one [of "\<lambda>r. od_signal_id r = Some i" "db_orders (w_db w)" row od_id ?f] assms(2) sorted
      by (auto simp: rows_of_def strict_sorted_iff filter_eq_Cons_iff)
  qed
  then show ?thesis
    using assms(3,5,6) find
    by (simp add: try_backfill_def catch_def find_order_id_by_cli_ord_id_def backfill_broker_order_id_def
        update_order_def rows_of_def)
qed


lemma stopped_worlds:
  "w_now half_booked = 1200000000" "w_now demo_sent = 1200000000" "w_sent half_booked = [demo_order]"
  "w_sent demo_sent = [demo_order]" "db_signals (w_db half_booked) = [demo_row]" "db_signals (w_db demo_sent) = [demo_row]"
  "db_orders (w_db half_booked) = [demo_filled_row]"
  "db_orders (w_db demo_sent) = [pending_row demo_lib 1 7 demo_order (iso_fixed 1200000000)]"
  "calm half_booked" "calm demo_sent" "fd_books (w_feeds half_booked) = fd_books demo_feeds"
  "fd_tickers (w_feeds half_booked) = fd_tickers demo_feeds" "w_feeds demo_sent = demo_feeds"
  by (simp_all add: half_booked_def demo_linked_db_def demo_delivered_def demo_sent_def demo_cleared_def demo_world_def
      demo_start_def calm_def no_faults_def db_empty_def)

text \<open>No position is open in either world, so the checklist approves the signal.\<close>
lemma stopped_loaded: "loaded demo_lib 1200000000 (w_db half_booked) = Inr demo_portfolio"
  "loaded demo_lib 1200000000 (w_db demo_sent) = Inr demo_portfolio"
  by (simp_all add: half_booked_def demo_linked_db_def demo_delivered_def demo_sent_def demo_cleared_def demo_world_def
      demo_start_def loaded_def leverage_rows_def latest_row_def db_empty_def bootstrap_row_def materialise_def
      snapshot_decimal_def parse_demo demo_portfolio_def)

lemma stopped_approved:
  assumes "calm w" "w_now w = 1200000000" "db_signals (w_db w) = [demo_row]"
    and "loaded demo_lib 1200000000 (w_db w) = Inr demo_portfolio"
    and "fd_books (w_feeds w) = fd_books demo_feeds" "fd_tickers (w_feeds w) = fd_tickers demo_feeds"
  shows "approved demo_daemon w demo_row demo_signal demo_market demo_portfolio"
proof -
  have sg: "sg_instrument_symbol demo_signal = ''PI_XBTUSD''" "sg_metadata demo_signal = Some demo_metadata"
    "sg_sleeve demo_signal = CryptoLeverage" "\<not> is_expired demo_signal t" "sp_mode demo_processor = Live"
    "sp_has_broker demo_processor" for t
    by (simp_all add: demo_signal_def is_expired_def demo_processor_def)
  have "snapshot_for_signal demo_lib (w_feeds w) ''PI_XBTUSD'' (Some demo_metadata) 1200000000 = Some (Inr demo_market)"
    using demo_snapshot unfolding snapshot_for_signal_def assms(5,6) .
  moreover have "evaluate standard_checks demo_lib \<lparr> cx_signal = demo_signal, cx_market = demo_market,
      cx_portfolio = demo_portfolio, cx_config = sp_risk demo_processor, cx_now = 1200000000 \<rparr> = Some demo_result"
    "cr_approved demo_result"
    using demo_evaluate by (simp_all add: demo_ctx_def demo_processor_def demo_result_def)
  ultimately have "cleared_by demo_lib demo_processor w demo_row demo_signal demo_market demo_portfolio demo_result"
    unfolding cleared_by_def using load_calm [OF assms(1), of demo_lib 1200000000]
    by (simp add: sg assms(2,4) demo_row_signal)
  then show ?thesis using assms(1,3) unfolding approved_def demo_parts by auto
qed


text \<open>C32. A crash in the wrong moment holds a signal up.  Once the row of its order is stuck in
  \<^verbatim>\<open>pending_submission\<close> (the process stopped between writing the row and noting the broker's answer), no run
  of ticks without fills sends an order for the signal, changes the row or marks the signal as processed:
  every attempt the checklist approves reports success and changes neither orders nor signals, without
  asking the broker.  What frees the signal is the orphan-catcher: when a fill of the order arrives it
  gives the row its broker id and the status acknowledged, and the next approved attempt marks the signal
  as processed without sending anything.\<close>
theorem stuck_submission:
  assumes "pool_reachable D (idle_threads, w)" "rows_of i w = [row]" "od_status row = ''pending_submission''"
    and "s \<in> set (db_signals (w_db w))" "sr_id s = i" "sr_status s = ''pending''"
    and "sp_mode (dm_processor D) \<noteq> DryRun" "without_fills D w v"
  shows "rows_of i v = [row] \<and> sent_for i v = sent_for i w \<and> (\<exists>s \<in> set (db_signals (w_db v)). sr_id s = i) \<and>
     (\<forall>s \<in> set (db_signals (w_db v)). sr_id s = i \<longrightarrow> sr_status s \<noteq> ''processed'') \<and>
     (\<forall>r sg m pf. approved D v r sg m pf \<longrightarrow> sr_id r = i \<longrightarrow>
        (\<exists>v'. process_signal (dm_lib D) (dm_processor D) r v = (v', Ok ()) \<and> w_sent v' = w_sent v \<and>
           w_lookups v' = w_lookups v \<and> db_orders (w_db v') = db_orders (w_db v) \<and>
           db_signals (w_db v') = db_signals (w_db v))) \<and>
     (\<forall>f t v1 r1 r sg m pf. calm v \<longrightarrow> od_broker_order_id row = None \<longrightarrow> fe_cli_ord_id f = Some (signal_cli i) \<longrightarrow>
        try_backfill f t v = (v1, r1) \<longrightarrow>
        r1 = Ok True \<and> rows_of i v1 = [row\<lparr> od_broker_order_id := Some (fe_order_id f),
          od_status := ''acknowledged'', od_updated_at := t \<rparr>] \<and>
        (approved D v1 r sg m pf \<longrightarrow> sr_id r = i \<longrightarrow>
         (\<exists>v2. process_signal (dm_lib D) (dm_processor D) r v1 = (v2, Ok ()) \<and> w_sent v2 = w_sent v1 \<and>
            (\<forall>s \<in> set (db_signals (w_db v2)). sr_id s = i \<longrightarrow> sr_status s = ''processed''))))"
proof -
  note own = own_row [OF pool_reachable_ok [OF assms(1)] assms(2)]
  have "blocked i [row]" using own assms(3) by (simp add: blocked_def pending_statuses_def)
  note stays = stays_held [OF pool_reachable_ok [OF assms(1)] assms(2) this assms(7,4,5) _ assms(8)]
  have rows: "rows_of i v = [row]" using stays assms(6) by simp
  have again: "\<exists>v'. process_signal (dm_lib D) (dm_processor D) r v = (v', Ok ()) \<and> w_sent v' = w_sent v \<and>
      w_lookups v' = w_lookups v \<and> db_orders (w_db v') = db_orders (w_db v) \<and> db_signals (w_db v') = db_signals (w_db v)"
    if "approved D v r sg m pf" "sr_id r = i" for r sg m pf
    using open_attempt [OF that rows] assms(3) by (auto simp: pending_statuses_def)
  have freed: "r1 = Ok True \<and> rows_of i v1 = [row\<lparr> od_broker_order_id := Some (fe_order_id f),
          od_status := ''acknowledged'', od_updated_at := t \<rparr>]"
    if "calm v" "od_broker_order_id row = None" "fe_cli_ord_id f = Some (signal_cli i)" "try_backfill f t v = (v1, r1)"
    for f t v1 r1
    using caught [OF pool_reachable_ok [OF runs_in_pool [OF assms(8,1)]] rows that(1,2) assms(3) that(3), of t] that(4) by auto
  have done': "\<exists>v2. process_signal (dm_lib D) (dm_processor D) r v1 = (v2, Ok ()) \<and> w_sent v2 = w_sent v1 \<and>
      (\<forall>s \<in> set (db_signals (w_db v2)). sr_id s = i \<longrightarrow> sr_status s = ''processed'')"
    if "rows_of i v1 = [row\<lparr> od_broker_order_id := b, od_status := ''acknowledged'', od_updated_at := t \<rparr>]"
      "approved D v1 r sg m pf" "sr_id r = i" for b t v1 r sg m pf
    using open_attempt [OF that(2,3,1)] by (auto simp: pending_statuses_def)
  show ?thesis
    using stays assms(6) again freed done' by (intro conjI) (simp, simp, simp, simp, blast, metis)
qed

text \<open>The process stops while it waits for the answer; the attempt after that does nothing, and once a fill has
  come the signal is done.\<close>
theorem stuck_submission_witness:
  "pool_reachable demo_daemon (idle_threads, demo_sent) \<and> map sr_status (db_signals (w_db demo_sent)) = [''pending''] \<and>
   sent_for 7 (fst (poll_once demo_lib demo_processor (demo_sent\<lparr> w_now := 1801200000000 \<rparr>))) = [demo_order] \<and>
   (\<exists>w'. process_signal demo_lib demo_processor demo_row demo_sent = (w', Ok ()) \<and> w_sent w' = [demo_order] \<and>
      db_signals (w_db w') = [demo_row]) \<and>
   (\<exists>w1 w2. try_backfill demo_fill ''t'' demo_sent = (w1, Ok True) \<and>
      process_signal demo_lib demo_processor demo_row w1 = (w2, Ok ()) \<and> w_sent w2 = [demo_order] \<and>
      (\<forall>s \<in> set (db_signals (w_db w2)). sr_id s = 7 \<longrightarrow> sr_status s = ''processed''))"
proof -
  let ?v = "fst (poll_once demo_lib demo_processor (demo_sent\<lparr> w_now := 1801200000000 \<rparr>))"
  let ?row = "pending_row demo_lib 1 7 demo_order (iso_fixed 1200000000)"
  have rows: "rows_of 7 demo_sent = [?row]" "od_status ?row = ''pending_submission''" "od_broker_order_id ?row = None"
    by (simp_all add: rows_of_def stopped_worlds pending_row_def)
  have row: "demo_row \<in> set (db_signals (w_db demo_sent))" "sr_id demo_row = 7" "sr_status demo_row = ''pending''"
    "sp_mode (dm_processor demo_daemon) \<noteq> DryRun"
    by (simp_all add: stopped_worlds demo_row_def demo_parts demo_processor_def)
  note stuck = stuck_submission [OF stopped_in_pool(2) rows(1,2) row(1-4)]
  have "outside demo_sent (demo_sent\<lparr> w_now := 1801200000000 \<rparr>)"
    using outside.environment [where w = demo_sent and now = 1801200000000 and fd = "w_feeds demo_sent" and a = "w_submits demo_sent"
        and b = "w_lookups demo_sent" and c = "w_listings demo_sent" and fs = "db_faults (w_db demo_sent)"]
    by (simp add: stopped_worlds(2))
  then have runs: "without_fills demo_daemon demo_sent ?v"
    by (rule without_fills.polled [OF without_fills.outer [OF without_fills.start]])
      (simp add: demo_parts prod_eq_iff)
  have appr: "approved demo_daemon demo_sent demo_row demo_signal demo_market demo_portfolio"
    by (rule stopped_approved) (simp_all add: stopped_worlds stopped_loaded)
  have sent: "sent_for 7 demo_sent = [demo_order]"
    by (simp add: sent_for_def stopped_worlds) (simp add: demo_order_def)
  have again: "\<exists>w'. process_signal demo_lib demo_processor demo_row demo_sent = (w', Ok ()) \<and> w_sent w' = [demo_order] \<and>
      db_signals (w_db w') = [demo_row]"
    using stuck [OF without_fills.start] appr row(2) unfolding demo_parts stopped_worlds by blast
  let ?w1 = "demo_sent\<lparr> w_db := (w_db demo_sent)\<lparr> db_orders :=
     [?row\<lparr> od_broker_order_id := Some ''X1'', od_status := ''acknowledged'', od_updated_at := ''t'' \<rparr>] \<rparr> \<rparr>"
  have fill: "fe_cli_ord_id demo_fill = Some (signal_cli 7)" "fe_order_id demo_fill = ''X1''"
    by (simp_all add: demo_fill_def)
  have catch: "try_backfill demo_fill ''t'' demo_sent = (?w1, Ok True)"
    using stopped_worlds(10)
    by (simp add: try_backfill_def fill catch_def find_order_id_by_cli_ord_id_def backfill_broker_order_id_def
        update_order_def stopped_worlds update_where_def pending_row_def fill_broker_def broker_tag_def demo_order_def)
  have "approved demo_daemon ?w1 demo_row demo_signal demo_market demo_portfolio"
  proof (rule stopped_approved)
    show "calm ?w1" using stopped_worlds(10) by (simp add: calm_def no_faults_def)
    show "loaded demo_lib 1200000000 (w_db ?w1) = Inr demo_portfolio"
      using stopped_loaded(2) by (simp add: loaded_def leverage_rows_def latest_row_def)
  qed (simp_all add: stopped_worlds)
  then have "\<exists>w2. process_signal demo_lib demo_processor demo_row ?w1 = (w2, Ok ()) \<and> w_sent w2 = w_sent ?w1 \<and>
      (\<forall>s \<in> set (db_signals (w_db w2)). sr_id s = 7 \<longrightarrow> sr_status s = ''processed'')"
    using stuck [OF without_fills.start] stopped_worlds(10) rows(3) fill(1) catch row(2) unfolding demo_parts by blast
  moreover have "w_sent ?w1 = [demo_order]" by (simp add: stopped_worlds)
  ultimately have "\<exists>w1 w2. try_backfill demo_fill ''t'' demo_sent = (w1, Ok True) \<and>
      process_signal demo_lib demo_processor demo_row w1 = (w2, Ok ()) \<and> w_sent w2 = [demo_order] \<and>
      (\<forall>s \<in> set (db_signals (w_db w2)). sr_id s = 7 \<longrightarrow> sr_status s = ''processed'')"
    using catch by metis
  then show ?thesis
    using stuck [OF runs] again stopped_in_pool(2) sent row(3) by (auto simp: stopped_worlds)
qed

end
