(* ===== verification/Connection_Loss.thy ===== *)
theory Connection_Loss
  imports Feed_Properties Ledger_Properties
begin

text \<open>What the tasks of the daemon see of the feeds while the connection is down.\<close>

text \<open>What a lost connection clears, and what it leaves.\<close>
definition cleared_feeds :: "feeds \<Rightarrow> bool" where
  "cleared_feeds fd \<longleftrightarrow> (\<forall>p bk. fd_books fd p = Some bk \<longrightarrow> \<not> is_synced bk \<and> bk_bids bk = [] \<and> bk_asks bk = []) \<and>
     oo_orders (fd_open_orders fd) = Map.empty \<and> \<not> oo_is_synced (fd_open_orders fd) \<and>
     fr_fills (fd_fills fd) = [] \<and> \<not> fr_is_synced (fd_fills fd)"

lemma invalidate_all_clears: "cleared_feeds (invalidate_all fd)" "fd_tickers (invalidate_all fd) = fd_tickers fd"
  by (auto simp: cleared_feeds_def invalidate_all_def is_synced_def book_invalidate_def oo_invalidate_def
      fills_invalidate_def)

lemma cleared_no_snapshot:
  assumes "cleared_feeds fd"
  shows "snapshot_for_signal L fd product meta now \<noteq> Some (Inr m)"
proof
  assume "snapshot_for_signal L fd product meta now = Some (Inr m)"
  then obtain book where "fd_books fd product = Some book" "is_synced book" by (rule snapshot_for_signal_Inr)
  then show False using assms by (simp add: cleared_feeds_def)
qed

lemma snapshot_panic:
  assumes "snapshot_for_signal L fd product meta now = None"
  shows "\<exists>ticker. fd_tickers fd product = Some ticker \<and> tk_funding_rate_per_8h L ticker = None"
  using assms by (auto simp: snapshot_for_signal_def Option.bind_eq_None_conv split: sum.splits option.splits)

lemma reject_calm:
  assumes "calm w"
  shows "reject_now L i reason w = (w\<lparr> w_db := (w_db w)\<lparr> db_signals := update_where (\<lambda>s. sr_id s = i)
     (\<lambda>s. s\<lparr> sr_status := ''rejected'', sr_processed_at := Some (canonical_iso L (w_now w)),
       sr_rejection_reason := Some reason \<rparr>) (db_signals (w_db w)) \<rparr> \<rparr>, Ok ())"
  using assms by (simp add: reject_now_def mark_signal_rejected_def update_signal_def)

text \<open>A signal is judged by its own row.\<close>
definition rejected_only :: "signal_row \<Rightarrow> world \<Rightarrow> world \<Rightarrow> bool" where
  "rejected_only row w w' \<longleftrightarrow> w_sent w' = w_sent w \<and> db_orders (w_db w') = db_orders (w_db w) \<and>
     list_all2 (\<lambda>s s'. if sr_id s = sr_id row then sr_id s' = sr_id s \<and> sr_status s' = ''rejected'' else s' = s)
       (db_signals (w_db w)) (db_signals (w_db w'))"

lemma rejected_row: "calm w \<Longrightarrow> i = sr_id row \<Longrightarrow> rejected_only row w (fst (reject_now L i reason w))"
  by (auto simp: reject_calm rejected_only_def update_where_def list_all2_conv_all_nth)

lemma cleared_attempt:
  assumes "cleared_feeds (w_feeds w)" "calm w" "process_signal L P row w = (w', r)"
  shows "if r = Panic then w' = w \<and> (\<exists>ticker. fd_tickers (w_feeds w) (sr_instrument_symbol row) = Some ticker \<and>
      tk_funding_rate_per_8h L ticker = None) else r = Ok () \<and> rejected_only row w w'"
proof (cases "row_to_signal L row")
  case (Inl e)
  then show ?thesis
    using assms(2,3) rejected_row [of w "sr_id row" row L] by (auto simp: process_signal_def reject_calm)
next
  case (Inr sg)
  note id = row_to_signal_Inr(1,6) [OF Inr]
  have expired: "rejected_only row w (fst (reject_expired L sg (w_now w) w)) \<and> snd (reject_expired L sg (w_now w) w) = Ok ()"
    using assms(2) id(1) by (auto simp: reject_expired_def mark_signal_rejected_def update_signal_def rejected_only_def
        update_where_def list_all2_conv_all_nth)
  let ?s = "snapshot_for_signal L (w_feeds w) (sg_instrument_symbol sg) (sg_metadata sg) (w_now w)"
  show ?thesis
  proof (cases "is_expired sg (w_now w)")
    case True
    then show ?thesis using assms(3) expired Inr by (auto simp: process_signal_def)
  next
    case False
    show ?thesis
    proof (cases ?s)
      case None
      then show ?thesis using assms(3) Inr False snapshot_panic [OF None] id(2) by (auto simp: process_signal_def)
    next
      case (Some answer)
      then obtain e where "answer = Inl e" using cleared_no_snapshot [OF assms(1)] by (cases answer) auto
      then show ?thesis
        using assms(2,3) Inr False Some rejected_row [OF assms(2) id(1), of L] by (auto simp: process_signal_def reject_calm)
    qed
  qed
qed

text \<open>C37. A lost connection rejects signals and leaves an old price.  When the loop of the feed goes into its
  backoff, the books are empty and unsynced, and the orders and fills are gone; the tickers stay as they
  were.  So until snapshots arrive again the fill reconciler finds nothing to do, and a signal that is
  processed sends nothing: it is not left for later but rejected for good (unless the funding rate of its
  stale ticker overflows and the task panics); while the equity writer goes on computing with the last price
  from before the failure, however old it is.\<close>
theorem failed_connection_effect:
  assumes "run_once cfg key c fd = Some (fd1, out, ExitErr e)" "\<not> cn_shutdown_before c"
    and "cn_shutdown_in_backoff c \<or> cs = []"
    and "w_feeds w = fst (the (ws_run cfg key b (c # cs) fd))" "calm w" "process_signal L P row w = (w', r)"
  shows "(\<exists>ex. ws_run cfg key b (c # cs) fd = Some (w_feeds w, [b], ex)) \<and>
     cleared_feeds (w_feeds w) \<and> fd_tickers (w_feeds w) = fd_tickers fd1 \<and>
     reconcile_once L R w = (w, Ok ()) \<and> btc_mark L (w_feeds w) = btc_mark L fd1 \<and>
     (if r = Panic then w' = w \<and> (\<exists>ticker. fd_tickers fd1 (sr_instrument_symbol row) = Some ticker \<and>
        tk_funding_rate_per_8h L ticker = None)
      else r = Ok () \<and> rejected_only row w w')"
proof -
  obtain ex where run: "ws_run cfg key b (c # cs) fd = Some (invalidate_all fd1, [b], ex)"
    using assms(1-3) by (cases "cn_shutdown_in_backoff c") (auto simp: Let_def)
  then have fd: "w_feeds w = invalidate_all fd1" using assms(4) by simp
  note clear = invalidate_all_clears [of fd1, folded fd]
  have "due_fills w = []" using clear(1) by (simp add: due_fills_def Let_def cleared_feeds_def)
  then have "reconcile_once L R w = (w, Ok ())" by (simp add: reconcile_due)
  moreover have "btc_mark L (w_feeds w) = btc_mark L fd1" by (simp add: btc_mark_def clear(2))
  ultimately show ?thesis
    using run [folded fd] clear(1) cleared_attempt [OF clear(1) assms(5,6)] unfolding clear(2) by blast
qed

definition offline_world :: world where
  "offline_world = demo_world\<lparr> w_feeds := invalidate_all demo_feeds \<rparr>"

text \<open>The signal that is traded with the feeds up is rejected with the connection lost, and the mark stays.\<close>
theorem failed_connection_effect_witness:
  "(\<exists>w'. process_signal demo_lib demo_processor demo_row offline_world = (w', Ok ()) \<and> w_sent w' = [] \<and>
      map sr_status (db_signals (w_db w')) = [''rejected'']) \<and>
   w_sent (fst (process_signal demo_lib demo_processor demo_row demo_world)) = [demo_order] \<and>
   btc_mark demo_lib (w_feeds offline_world) = Inr 50005"
proof -
  obtain w' r where p: "process_signal demo_lib demo_processor demo_row offline_world = (w', r)"
    by (cases "process_signal demo_lib demo_processor demo_row offline_world")
  have run: "run_once (ws_config_new []) None lost demo_feeds = Some (demo_feeds,
      public_subscriptions (ws_config_new []) None, ExitErr (KTimeout ''server closed connection''))"
    by (simp add: run_once_def lost_def)
  have off: "w_feeds offline_world = fst (the (ws_run (ws_config_new []) None 1000 [lost] demo_feeds))"
    using run by (simp add: offline_world_def Let_def lost_def)
  have c: "calm offline_world" "\<not> cn_shutdown_before lost" "w_sent offline_world = []"
    "db_signals (w_db offline_world) = [demo_row]" "fd_tickers demo_feeds ''PI_XBTUSD'' = Some demo_ticker"
    "sr_instrument_symbol demo_row = ''PI_XBTUSD''"
    by (simp_all add: offline_world_def demo_world_def demo_start_def lost_def calm_def no_faults_def db_empty_def
        demo_feeds_def demo_row_def)
  have "tk_funding_rate_per_8h demo_lib demo_ticker \<noteq> None"
    by (simp add: tk_funding_rate_per_8h_def demo_ticker_def)
  then have "r = Ok () \<and> rejected_only demo_row offline_world w' \<and> btc_mark demo_lib (w_feeds offline_world) = btc_mark demo_lib demo_feeds"
    using failed_connection_effect [OF run c(2) _ off c(1) p, of sample_reconciler] c(5,6) by (simp split: if_splits)
  moreover have "btc_mark demo_lib demo_feeds = Inr 50005"
    by (simp add: btc_mark_def perp_symbol_def demo_feeds_def demo_ticker_def)
  ultimately show ?thesis
    using p c(3,4) by (auto simp: rejected_only_def list_all2_Cons1 demo_process) (simp add: demo_after_def)
qed

end
