(* ===== verification/Absurd_Signal.thy ===== *)
theory Absurd_Signal
  imports Startup Sample_Run
begin

text \<open>A signal whose notional is within the range of a decimal but overflows it in the first conversion.\<close>







text \<open>Seven times ten to the 28 francs at two dollars a franc; the largest decimal is 7.9 times ten to the 28.\<close>
definition absurd_metadata :: json where
  "absurd_metadata = JObj [(''atr_absolute'', JNum ''1000''), (''atr_pct'', JNum ''2''),
     (''fx_quote_per_chf'', JNum ''2'')]"

definition absurd_lib :: lib where
  "absurd_lib = lib0\<lparr> l_parse_json := (\<lambda>s. Some absurd_metadata) \<rparr>"




lemma absurd_lib_sel [simp]:
  "l_rnd absurd_lib x = (if \<bar>x\<bar> < 2 ^ 96 then Some x else None)"
  "l_show absurd_lib = show_dec" "l_parse absurd_lib = parse_dec"
  "l_iso absurd_lib = iso_fixed" "l_parse_iso absurd_lib = parse_iso_fixed"
  "l_parse_json absurd_lib s = Some absurd_metadata"
  by (simp add: absurd_lib_def)+



end
