(* ===== verification/Risk_Tests.thy ===== *)
theory Risk_Tests
  imports Kill_Switch
begin

text \<open>The unit tests of \<^verbatim>\<open>crates/rt-risk\<close> and \<^verbatim>\<open>crates/rt-core\<close>, replayed on the model: the contexts the
  test modules build, and what each test asserts, with the whole result where the test looks at a part of
  it.  Decimals are those of \<open>lib0\<close>, which are exact here; \<open>now\<close> is any time.\<close>

section \<open>The contexts of the tests\<close>

definition test_signal ::
    "time \<Rightarrow> string \<Rightarrow> side \<Rightarrow> signal_type \<Rightarrow> sleeve \<Rightarrow> dec \<Rightarrow> dec \<Rightarrow> signal" where
  "test_signal now symbol side ty sleeve notional lev = \<lparr> sg_id = 1, sg_created_at = now,
     sg_instrument_symbol = symbol, sg_side = side, sg_signal_type = ty, sg_sleeve = sleeve,
     sg_notional_chf = notional, sg_leverage = lev, sg_metadata = None, sg_status = SPending,
     sg_processed_at = None, sg_rejection_reason = None, sg_expires_at = None \<rparr>"

definition test_market ::
    "time \<Rightarrow> string \<Rightarrow> level list \<Rightarrow> level list \<Rightarrow> dec \<Rightarrow> dec \<Rightarrow> dec \<Rightarrow> dec option \<Rightarrow> dec \<Rightarrow> market_snapshot" where
  "test_market now symbol bids asks mark atr pct funding fx = \<lparr> mk_instrument_symbol = symbol,
     mk_order_book = \<lparr> ob_bids = bids, ob_asks = asks, ob_timestamp = now \<rparr>, mk_last_price = mark,
     mk_last_trade_at = now, mk_atr_absolute = atr, mk_atr_pct = pct, mk_funding_rate_per_8h = funding,
     mk_fx_quote_per_chf = fx \<rparr>"

definition test_portfolio ::
    "time \<Rightarrow> sleeve \<Rightarrow> dec \<Rightarrow> dec \<Rightarrow> dec \<Rightarrow> dec \<Rightarrow> dec \<Rightarrow> dec \<Rightarrow> open_position list \<Rightarrow> portfolio" where
  "test_portfolio now sleeve cash realized unrealized nav hwm units ps = \<lparr> pf_snapshot_at = now,
     pf_sleeves = [\<lparr> ss_sleeve = sleeve, ss_market_value_chf = 0, ss_cash_chf = cash,
       ss_realized_pnl_lifetime_chf = realized, ss_unrealized_pnl_chf = unrealized \<rparr>],
     pf_nav_per_unit = nav, pf_nav_hwm_per_unit = hwm, pf_total_units = units,
     pf_kill_switch_active = False, pf_open_positions = ps \<rparr>"

definition one_level :: "dec \<Rightarrow> dec \<Rightarrow> level list" where
  "one_level p q = [\<lparr> lv_price = p, lv_quantity = q \<rparr>]"

definition hard_limit_ctx :: "time \<Rightarrow> sleeve \<Rightarrow> dec \<Rightarrow> dec \<Rightarrow> dec \<Rightarrow> dec \<Rightarrow> dec \<Rightarrow> dec \<Rightarrow> ctx" where
  "hard_limit_ctx now sleeve notional lev realized unrealized nav hwm = \<lparr>
     cx_signal = test_signal now ''PI_XBTUSD'' Buy TrendEntry sleeve notional lev,
     cx_market = test_market now ''PI_XBTUSD'' (one_level 50000 1) (one_level 50010 1) 50000 1500 3 None 1,
     cx_portfolio = test_portfolio now sleeve 10000 realized unrealized nav hwm 10000 [],
     cx_config = risk_config_default, cx_now = now \<rparr>"

text \<open>A millisecond is a million nanoseconds.\<close>
definition staleness_ctx :: "time \<Rightarrow> int \<Rightarrow> ctx" where
  "staleness_ctx now age_ms = (let ts = now - age_ms * 1000000 in \<lparr>
     cx_signal = test_signal now ''XBT/USD'' Buy SpotAccumulation CryptoSpot 100 1,
     cx_market = test_market ts ''XBT/USD'' (one_level 50000 1) (one_level 50010 1) 50000 1500 3 None 1,
     cx_portfolio = test_portfolio now CryptoSpot 1000 0 0 1 1 1000 [],
     cx_config = risk_config_default, cx_now = now \<rparr>)"

text \<open>The quantities of a level are given in thousandths.\<close>
definition spread_ctx :: "time \<Rightarrow> (dec \<times> dec) list \<Rightarrow> (dec \<times> dec) list \<Rightarrow> dec \<Rightarrow> side \<Rightarrow> dec \<Rightarrow> ctx" where
  "spread_ctx now bids asks notional side fx =
     (let levels = map (\<lambda>(p, q). \<lparr> lv_price = p, lv_quantity = q / 1000 \<rparr>) in \<lparr>
     cx_signal = test_signal now ''XBT/USD'' side SpotAccumulation CryptoSpot notional 1,
     cx_market = test_market now ''XBT/USD'' (levels bids) (levels asks) 50000 1500 3 None fx,
     cx_portfolio = test_portfolio now CryptoSpot 1000 0 0 1 1 1000 [],
     cx_config = risk_config_default, cx_now = now \<rparr>)"

definition volatility_ctx :: "time \<Rightarrow> sleeve \<Rightarrow> dec \<Rightarrow> ctx" where
  "volatility_ctx now sleeve pct = \<lparr>
     cx_signal = test_signal now ''XBT/USD'' Buy TrendEntry sleeve 100 (if sleeve = CryptoLeverage then 2 else 1),
     cx_market = test_market now ''XBT/USD'' (one_level 50000 1) (one_level 50010 1) 50000 1500 pct None 1,
     cx_portfolio = test_portfolio now sleeve 1000 0 0 1 1 1000 [],
     cx_config = risk_config_default, cx_now = now \<rparr>"

definition notional_ctx :: "time \<Rightarrow> dec \<Rightarrow> ctx" where
  "notional_ctx now notional = \<lparr>
     cx_signal = test_signal now ''XBT/USD'' Buy TrendEntry CryptoLeverage notional 1,
     cx_market = test_market now ''XBT/USD'' (one_level 50000 1) (one_level 50010 1) 50000 1500 3 None 1,
     cx_portfolio = test_portfolio now CryptoLeverage 10000 0 0 1 1 1000 [],
     cx_config = risk_config_default, cx_now = now \<rparr>"

definition funding_ctx :: "time \<Rightarrow> side \<Rightarrow> dec option \<Rightarrow> ctx" where
  "funding_ctx now side funding = \<lparr>
     cx_signal = test_signal now ''PI_XBTUSD'' side TrendEntry CryptoLeverage 100 2,
     cx_market = test_market now ''PI_XBTUSD'' (one_level 50000 1) (one_level 50010 1) 50000 1500 3 funding 1,
     cx_portfolio = test_portfolio now CryptoLeverage 1000 0 0 1 1 1000 [],
     cx_config = risk_config_default, cx_now = now \<rparr>"

definition liquidation_ctx :: "time \<Rightarrow> open_position list \<Rightarrow> dec \<Rightarrow> dec \<Rightarrow> ctx" where
  "liquidation_ctx now ps mark atr = \<lparr>
     cx_signal = test_signal now ''PI_XBTUSD'' Buy TrendEntry CryptoLeverage 300 2,
     cx_market = test_market now ''PI_XBTUSD'' (one_level mark 10) (one_level mark 10) mark atr 3 None (78 / 100),
     cx_portfolio = test_portfolio now CryptoLeverage 1000 0 0 1 1 1000 ps,
     cx_config = risk_config_default\<lparr> rc_min_liq_distance_atrs := 2 \<rparr>, cx_now = now \<rparr>"

definition pos_with_liq :: "dec option \<Rightarrow> open_position" where
  "pos_with_liq liq = \<lparr> op_instrument_symbol = ''PI_XBTUSD'', op_sleeve = CryptoLeverage, op_quantity = 50,
     op_avg_entry_price = Some 60000, op_liquidation_price = liq, op_leverage = Some 2 \<rparr>"

definition duplicate_ctx :: "time \<Rightarrow> side \<Rightarrow> open_position list \<Rightarrow> ctx" where
  "duplicate_ctx now side ps = \<lparr>
     cx_signal = test_signal now ''PI_XBTUSD'' side TrendEntry CryptoLeverage 300 2,
     cx_market = test_market now ''PI_XBTUSD'' (one_level 50000 10) (one_level 50010 10) 50000 1500 3 None (78 / 100),
     cx_portfolio = test_portfolio now CryptoLeverage 1000 0 0 1 1 1000 ps,
     cx_config = risk_config_default, cx_now = now \<rparr>"

definition existing :: "string \<Rightarrow> dec \<Rightarrow> open_position list" where
  "existing symbol q = [\<lparr> op_instrument_symbol = symbol, op_sleeve = CryptoLeverage, op_quantity = q,
     op_avg_entry_price = None, op_liquidation_price = None, op_leverage = None \<rparr>]"

definition kill_portfolio :: "time \<Rightarrow> dec \<Rightarrow> dec \<Rightarrow> dec \<Rightarrow> dec \<Rightarrow> bool \<Rightarrow> portfolio" where
  "kill_portfolio now realized unrealized nav hwm active =
     (test_portfolio now CryptoLeverage 0 realized unrealized nav hwm 10000 [])\<lparr> pf_kill_switch_active := active \<rparr>"

lemmas test_ctx_defs = test_signal_def test_market_def test_portfolio_def one_level_def
  hard_limit_ctx_def staleness_ctx_def spread_ctx_def volatility_ctx_def notional_ctx_def funding_ctx_def
  liquidation_ctx_def pos_with_liq_def duplicate_ctx_def existing_def kill_portfolio_def risk_config_default_def

section \<open>\<^verbatim>\<open>hard_limit.rs\<close>\<close>

lemmas hard_limit_run = hard_limit_check_def test_ctx_defs Let_def leverage_effective_pnl_def
  leverage_realized_pnl_def leverage_unrealized_pnl_def find_sleeve_def drawdown_fraction_def
  worst_case_loss_def dec_ops

lemma rejects_over_leverage:
  "hard_limit_check lib0 (hard_limit_ctx now CryptoLeverage 100 3 0 0 1 1) = Some (Rejected (LeverageCapExceeded 3 2))"
  by (simp add: hard_limit_run)

lemma rejects_when_realized_alone_exceeds_budget:
  "hard_limit_check lib0 (hard_limit_ctx now CryptoLeverage 100 2 (- 1000) 0 1 1)
     = Some (Rejected (LeverageEffectivePnlBudgetExhausted (- 1000) (- 1000) 0 (- 1000)))"
  by (simp add: hard_limit_run)

lemma rejects_when_unrealized_loss_pushes_effective_over_budget:
  "hard_limit_check lib0 (hard_limit_ctx now CryptoLeverage 100 2 (- 200) (- 900) 1 1)
     = Some (Rejected (LeverageEffectivePnlBudgetExhausted (- 1100) (- 200) (- 900) (- 1000)))"
  by (simp add: hard_limit_run)

lemma rejects_new_trade_when_open_position_close_to_budget:
  "hard_limit_check lib0 (hard_limit_ctx now CryptoLeverage 1000 2 0 (- 900) 1 1)
     = Some (Rejected (WorstCaseLossWouldExhaustBudget 206 100))"
  by (simp add: hard_limit_run)

lemma favourable_unrealized_does_not_inflate_budget:
  "hard_limit_check lib0 (hard_limit_ctx now CryptoLeverage 1000 2 (- 950) 200 1 1)
     = Some (Rejected (WorstCaseLossWouldExhaustBudget 206 50))"
  by (simp add: hard_limit_run)

lemma rejects_when_nav_drawdown_exceeded:
  "hard_limit_check lib0 (hard_limit_ctx now CryptoLeverage 100 2 0 0 (75 / 100) 1)
     = Some (Rejected (PortfolioDrawdownExceeded (25 / 100) (20 / 100)))"
  by (simp add: hard_limit_run)

lemma approves_healthy_leverage_trade:
  "hard_limit_check lib0 (hard_limit_ctx now CryptoLeverage 100 2 0 0 1 1) = Some Approved"
  by (simp add: hard_limit_run)

lemma spot_trades_skip_leverage_specific_guards:
  "hard_limit_check lib0 (hard_limit_ctx now CryptoSpot 100 1 (- 5000) (- 1000) (50 / 100) 1) = Some Approved"
  by (simp add: hard_limit_run)

lemma fees_plus_funding_reserve_tips_over_budget:
  "hard_limit_check lib0 (hard_limit_ctx now CryptoLeverage 1000 2 0 (- 795) 1 1)
     = Some (Rejected (WorstCaseLossWouldExhaustBudget 206 205))"
  by (simp add: hard_limit_run)

section \<open>\<^verbatim>\<open>staleness.rs\<close>, \<^verbatim>\<open>spread_liquidity.rs\<close>, \<^verbatim>\<open>volatility.rs\<close>\<close>

lemmas staleness_run = staleness_check_def tick_age_ms_def num_milliseconds_def test_ctx_defs Let_def

lemma approves_fresh_data: "staleness_check lib0 (staleness_ctx now 100) = Some Approved"
  by (simp add: staleness_run)

lemma rejects_stale_data:
  "staleness_check lib0 (staleness_ctx now 1000) = Some (Rejected (StaleMarketData 1000 500))"
  by (simp add: staleness_run)

lemma boundary_exactly_at_limit_is_approved: "staleness_check lib0 (staleness_ctx now 500) = Some Approved"
  by (simp add: staleness_run)

lemmas spread_run = spread_liquidity_check_def spread_bps_def spread_def best_bid_def best_ask_def mid_price_def
  required_quantity_def available_depth_def ask_depth_def bid_depth_def no_liquidity_def dsum_def test_ctx_defs Let_def dec_ops

lemma rejects_wide_spread:
  "spread_liquidity_check lib0 (spread_ctx now [(49900, 1000)] [(50100, 1000)] 100 Buy 1)
     = Some (Rejected (SpreadTooWide 40 20))"
  by (simp add: spread_run)

lemma approves_tight_book_sufficient_depth_at_parity:
  "spread_liquidity_check lib0 (spread_ctx now [(49995, 1000)] [(50005, 1000)] 100 Buy 1) = Some Approved"
  by (simp add: spread_run)

lemma fx_rate_is_actually_used:
  "spread_liquidity_check lib0 (spread_ctx now [(49995, 1000)] [(50005, 1000)] 100 Buy (125 / 100)) = Some Approved"
  by (simp add: spread_run)

lemma rejects_on_invalid_fx:
  "\<exists>d. spread_liquidity_check lib0 (spread_ctx now [(49995, 1000)] [(50005, 1000)] 100 Buy 0)
     = Some (Rejected (InvalidSignal d))"
  by (simp add: spread_run)

lemmas volatility_run = volatility_check_def test_ctx_defs Let_def

lemma approves_normal_vol_spot: "volatility_check lib0 (volatility_ctx now CryptoSpot 4) = Some Approved"
  by (simp add: volatility_run)

lemma approves_normal_vol_leverage: "volatility_check lib0 (volatility_ctx now CryptoLeverage 4) = Some Approved"
  by (simp add: volatility_run)

lemma rejects_high_vol_only_for_leverage:
  "volatility_check lib0 (volatility_ctx now CryptoLeverage 8) = Some (Rejected (VolatilityTooHighForLeverage 8 6))"
  "volatility_check lib0 (volatility_ctx now CryptoSpot 8) = Some Approved"
  by (simp_all add: volatility_run)

lemma rejects_extreme_vol_for_every_sleeve:
  "volatility_check lib0 (volatility_ctx now sl 20) = Some (Rejected (VolatilityAbsoluteHalt 20 15))"
  by (simp add: volatility_run)

section \<open>\<^verbatim>\<open>notional_cap.rs\<close>, \<^verbatim>\<open>funding_rate.rs\<close>\<close>

lemmas notional_run = notional_cap_check_def test_ctx_defs Let_def

lemma approves_notional_up_to_limit:
  "notional_cap_check lib0 (notional_ctx now 500) = Some Approved"
  "notional_cap_check lib0 (notional_ctx now 1000) = Some Approved"
  by (simp_all add: notional_run)

lemma rejects_notional_above_limit:
  "notional_cap_check lib0 (notional_ctx now 2000) = Some (Rejected (NotionalTooLarge 2000 1000))"
  by (simp add: notional_run)

lemma respects_custom_limit_from_config:
  "notional_cap_check lib0 ((notional_ctx now 500)\<lparr> cx_config := risk_config_default\<lparr> rc_max_notional_chf_per_order := 200 \<rparr> \<rparr>)
     = Some (Rejected (NotionalTooLarge 500 200))"
  by (simp add: notional_run)

lemmas funding_run = funding_rate_check_def test_ctx_defs Let_def

lemma not_applicable_for_spot_instruments: "funding_rate_check lib0 (funding_ctx now Buy None) = Some NotApplicable"
  by (simp add: funding_run)

lemma rejects_long_when_funding_very_positive:
  "funding_rate_check lib0 (funding_ctx now Buy (Some (5 / 10000)))
     = Some (Rejected (FundingRateTooExpensive (5 / 10000) (2 / 10000)))"
  by (simp add: funding_run)

lemma approves_long_when_funding_negative:
  "funding_rate_check lib0 (funding_ctx now Buy (Some (- 5 / 10000))) = Some Approved"
  by (simp add: funding_run)

lemma rejects_short_when_funding_very_negative:
  "funding_rate_check lib0 (funding_ctx now Sell (Some (- 5 / 10000)))
     = Some (Rejected (FundingRateTooExpensive (5 / 10000) (2 / 10000)))"
  by (simp add: funding_run)

section \<open>\<^verbatim>\<open>liquidation_distance.rs\<close>, \<^verbatim>\<open>duplicate_position.rs\<close>\<close>

lemmas liquidation_run = liquidation_distance_check_def test_ctx_defs Let_def dec_ops round2_def

lemma liquidation_not_applicable:
  "liquidation_distance_check lib0 (liquidation_ctx now [pos_with_liq None] 60000 1000) = Some NotApplicable"
  "liquidation_distance_check lib0 (liquidation_ctx now [] 60000 1000) = Some NotApplicable"
  "liquidation_distance_check lib0 (liquidation_ctx now [pos_with_liq (Some 59500)] 60000 0) = Some NotApplicable"
  by (simp_all add: liquidation_run)

lemma approves_when_far_from_liquidation:
  "liquidation_distance_check lib0 (liquidation_ctx now [pos_with_liq (Some 30000)] 60000 1000) = Some Approved"
  by (simp add: liquidation_run)

lemma rejects_when_inside_atr_buffer:
  "liquidation_distance_check lib0 (liquidation_ctx now [pos_with_liq (Some 59500)] 60000 1000)
     = Some (Rejected (LiquidationTooClose ''PI_XBTUSD'' (50 / 100) 2))"
proof -
  have "\<lfloor>101 / 2 :: rat\<rfloor> = 50" by (rule floor_unique) simp_all
  then show ?thesis by (simp add: liquidation_run)
qed

lemma spot_signal_is_not_applicable:
  "cx_signal c = (cx_signal (liquidation_ctx now ps mark atr))\<lparr> sg_sleeve := CryptoSpot \<rparr> \<Longrightarrow>
   liquidation_distance_check lib0 c = Some NotApplicable"
  by (simp add: liquidation_distance_check_def)

lemma other_instrument_is_ignored:
  "liquidation_distance_check lib0 (liquidation_ctx now
     [(pos_with_liq (Some 59500))\<lparr> op_instrument_symbol := ''PI_ETHUSD'' \<rparr>] 60000 1000) = Some NotApplicable"
  by (simp add: liquidation_run)

lemmas duplicate_run = duplicate_position_check_def same_direction_def op_is_long_def op_is_short_def test_ctx_defs

lemma duplicate_approved:
  "duplicate_position_check lib0 (duplicate_ctx now Buy []) = Some Approved"
  "duplicate_position_check lib0 (duplicate_ctx now Sell (existing ''PI_XBTUSD'' 50)) = Some Approved"
  "duplicate_position_check lib0 (duplicate_ctx now Buy (existing ''PI_ETHUSD'' 50)) = Some Approved"
  "duplicate_position_check lib0 (duplicate_ctx now Buy (existing ''PI_XBTUSD'' 0)) = Some Approved"
  by (simp_all add: duplicate_run)

lemma rejects_when_open_long_and_new_long:
  "duplicate_position_check lib0 (duplicate_ctx now Buy (existing ''PI_XBTUSD'' 50))
     = Some (Rejected (DuplicatePositionOpen ''PI_XBTUSD'' ''buy'' 50))"
  by (simp add: duplicate_run)

lemma rejects_when_open_short_and_new_short:
  "duplicate_position_check lib0 (duplicate_ctx now Sell (existing ''PI_XBTUSD'' (- 25)))
     = Some (Rejected (DuplicatePositionOpen ''PI_XBTUSD'' ''sell'' (- 25)))"
  by (simp add: duplicate_run)

lemma spot_sleeve_signal_is_not_applicable:
  "cx_signal c = (cx_signal (duplicate_ctx now side ps))\<lparr> sg_sleeve := CryptoSpot \<rparr> \<Longrightarrow>
   duplicate_position_check lib0 c = Some NotApplicable"
  by (simp add: duplicate_position_check_def)

section \<open>\<^verbatim>\<open>kill_switch.rs\<close>, \<^verbatim>\<open>position_sizing.rs\<close>\<close>

lemmas kill_run = ks_evaluate_def test_ctx_defs Let_def leverage_effective_pnl_def leverage_realized_pnl_def
  leverage_unrealized_pnl_def find_sleeve_def drawdown_fraction_def dec_ops

lemma no_change_when_healthy:
  "ks_evaluate lib0 (kill_portfolio t 0 0 1 1 False) risk_config_default now = Some NoChange"
  by (simp add: kill_run)

lemma disables_on_realised_budget_exhausted:
  "ks_evaluate lib0 (kill_portfolio t (- 1000) 0 1 1 False) risk_config_default now
     = Some (Disable (LifetimeRealisedLossBudgetExhausted (- 1000) (- 1000)) now)"
  by (simp add: kill_run)

lemma does_not_disable_on_mild_unrealised_alone:
  "ks_evaluate lib0 (kill_portfolio t 0 (- 500) 1 1 False) risk_config_default now = Some NoChange"
  by (simp add: kill_run)

lemma panic_closes_on_unrealised_past_hard_threshold:
  "ks_evaluate lib0 (kill_portfolio t 0 (- 1500) 1 1 False) risk_config_default now
     = Some (PanicClose (EffectivePnlBudgetExhausted (- 1500) (- 1200)) now)"
  by (simp add: kill_run)

lemma panic_closes_even_when_already_soft_disabled:
  "ks_evaluate lib0 (kill_portfolio t (- 1000) (- 300) 1 1 True) risk_config_default now
     = Some (PanicClose (EffectivePnlBudgetExhausted (- 1300) (- 1200)) now)"
  by (simp add: kill_run)

lemma disables_on_nav_drawdown:
  "ks_evaluate lib0 (kill_portfolio t 0 0 (75 / 100) 1 False) risk_config_default now
     = Some (Disable (PortfolioDrawdown (25 / 100) (20 / 100)) now)"
  by (simp add: kill_run)

lemma no_duplicate_trigger_when_already_active:
  "ks_evaluate lib0 (kill_portfolio t (- 1000) 0 1 1 True) risk_config_default now = Some NoChange"
  by (simp add: kill_run)

lemma basic_sizing_example:
  "atr_based_size lib0 10000 (1 / 100) 1500 2 1
     = Some (Some \<lparr> sz_quantity = 100 / 3000, sz_stop_distance_quote = 3000, sz_risk_chf = 100 \<rparr>)"
  by (simp add: atr_based_size_def dec_ops)

lemma zero_atr_returns_none: "atr_based_size lib0 10000 (1 / 100) 0 2 1 = Some None"
  by (simp add: atr_based_size_def)

section \<open>\<^verbatim>\<open>crates/rt-core\<close>\<close>

definition nav_state :: "time \<Rightarrow> dec \<Rightarrow> dec \<Rightarrow> dec \<Rightarrow> dec \<Rightarrow> portfolio" where
  "nav_state now nav hwm realized unrealized =
     test_portfolio now CryptoLeverage 0 realized unrealized nav hwm 1000 []"

lemmas nav_run = nav_state_def test_portfolio_def drawdown_fraction_def leverage_effective_pnl_def
  leverage_realized_pnl_def leverage_unrealized_pnl_def find_sleeve_def dec_ops

lemma drawdown_zero_at_hwm: "drawdown_fraction lib0 (nav_state now (105 / 100) (105 / 100) 0 0) = Some 0"
  by (simp add: nav_run)

lemma drawdown_twenty_percent_nav_based: "drawdown_fraction lib0 (nav_state now 1 (125 / 100) 0 0) = Some (2 / 10)"
  by (simp add: nav_run)

lemma drawdown_independent_of_units_outstanding:
  "drawdown_fraction L (p\<lparr> pf_total_units := u \<rparr>) = drawdown_fraction L p"
  by (simp add: drawdown_fraction_def)

lemma effective_pnl_includes_adverse_unrealized:
  "leverage_effective_pnl lib0 (nav_state now 1 1 (- 500) (- 900)) = Some (- 1400)"
  by (simp add: nav_run)

lemma effective_pnl_ignores_favourable_unrealized:
  "leverage_effective_pnl lib0 (nav_state now 1 1 (- 500) 300) = Some (- 500)"
  by (simp add: nav_run)

definition test_book :: "time \<Rightarrow> dec \<Rightarrow> dec \<Rightarrow> book_snapshot" where
  "test_book now bid ask = \<lparr> ob_bids = one_level bid 1, ob_asks = one_level ask 1, ob_timestamp = now \<rparr>"

lemma spread_bps_computed_correctly:
  "\<exists>b. spread_bps lib0 (test_book now 100 101) = Some (Some b) \<and> 99 < b \<and> b < 100"
  by (intro exI [of _ "20000 / 201"]) (simp add: test_book_def spread_run)

lemma empty_book_returns_none:
  "spread L \<lparr> ob_bids = [], ob_asks = [], ob_timestamp = now \<rparr> = Some None"
  "spread_bps L \<lparr> ob_bids = [], ob_asks = [], ob_timestamp = now \<rparr> = Some None"
  by (simp_all add: spread_def spread_bps_def best_bid_def best_ask_def)

lemma terminal_states_are_mutually_exclusive_from_live_states: "\<not> (is_terminal s \<and> is_live s)"
  by (cases s) simp_all

lemma side_opposite_is_involutive: "opposite (opposite s) = s"
  by (cases s) simp_all

lemma kill_switch_only_applies_to_leverage_sleeve: "counts_toward_kill_switch s \<longleftrightarrow> s = CryptoLeverage"
  by (cases s) simp_all

lemma target_weights_sum_to_100_excluding_cash:
  "target_weight_pct CryptoSpot + target_weight_pct Etf + target_weight_pct CryptoLeverage = 100"
  by simp

lemma paper_and_live_submit: "\<not> submits_orders DryRun" "submits_orders Paper" "submits_orders Live"
  by simp_all

end
