(* ===== verification/Feed_Tests.thy ===== *)
theory Feed_Tests
  imports Feeds Signing
begin

text \<open>The unit tests of \<^verbatim>\<open>crates/rt-kraken-futures\<close>, replayed on the model: the messages its test modules
  build, and what each test asserts.  The lengths of the signatures hold for any primitives of the shape the
  crates document; that other nonces and paths give other signatures is a fact about the hash; the test of
  the nonces is the property of \<open>Feed_Properties\<close>.\<close>

section \<open>\<^verbatim>\<open>orderbook.rs\<close>\<close>

definition test_levels :: "(dec \<times> dec) list \<Rightarrow> price_level list" where
  "test_levels = map (\<lambda>(p, q). \<lparr> pl_price = p, pl_qty = q \<rparr>)"

definition test_snap :: "string \<Rightarrow> 64 word \<Rightarrow> (dec \<times> dec) list \<Rightarrow> (dec \<times> dec) list \<Rightarrow> book_snapshot_msg" where
  "test_snap product sq bids asks = \<lparr> bs_product_id = product, bs_timestamp = 1, bs_seq = sq,
     bs_bids = test_levels bids, bs_asks = test_levels asks \<rparr>"

definition test_delta :: "string \<Rightarrow> 64 word \<Rightarrow> book_side \<Rightarrow> dec \<Rightarrow> dec \<Rightarrow> book_delta_msg" where
  "test_delta product sq side price qty = \<lparr> bd_product_id = product, bd_timestamp = 1, bd_seq = sq,
     bd_side = side, bd_price = price, bd_qty = qty \<rparr>"

definition loaded_book :: "time \<Rightarrow> (dec \<times> dec) list \<Rightarrow> (dec \<times> dec) list \<Rightarrow> local_book" where
  "loaded_book now bids asks =
     fst (book_apply_snapshot (book_new ''PI_XBTUSD'') (test_snap ''PI_XBTUSD'' 100 bids asks) now)"

lemmas feed_run = loaded_book_def book_apply_snapshot_def test_snap_def test_levels_def book_new_def
  load_levels_def book_apply_delta_def test_delta_def change_side_def sanity_check_def book_best_bid_def
  book_best_ask_def bt_first_def bt_last_def is_synced_def Let_def

lemma snapshot_initialises_book:
  "book_apply_snapshot (book_new ''PI_XBTUSD'') (test_snap ''PI_XBTUSD'' 100 [(100, 5), (99, 3)] [(101, 4), (102, 2)]) now
     = (loaded_book now [(100, 5), (99, 3)] [(101, 4), (102, 2)], Inr ())"
  "is_synced (loaded_book now [(100, 5), (99, 3)] [(101, 4), (102, 2)])"
  "book_best_bid (loaded_book now [(100, 5), (99, 3)] [(101, 4), (102, 2)]) = Some (100, 5)"
  "book_best_ask (loaded_book now [(100, 5), (99, 3)] [(101, 4), (102, 2)]) = Some (101, 4)"
  by (simp_all add: feed_run)

lemma delta_in_sequence_updates_book:
  "\<exists>b. book_apply_delta (loaded_book now [(100, 5)] [(101, 4)]) (test_delta ''PI_XBTUSD'' 101 BBuy 100 8) now
     = Some (b, Inr ()) \<and> book_best_bid b = Some (100, 8)"
  by (simp add: feed_run)

lemma delta_with_gap_invalidates_book:
  "\<exists>b. book_apply_delta (loaded_book now [(100, 5)] [(101, 4)]) (test_delta ''PI_XBTUSD'' 103 BBuy 100 8) now
     = Some (b, Inl (SequenceGap ''PI_XBTUSD'' 101 103)) \<and> \<not> is_synced b"
  by (simp add: feed_run)

lemma delta_with_zero_qty_removes_level:
  "\<exists>b. book_apply_delta (loaded_book now [(100, 5), (99, 3)] [(101, 4)]) (test_delta ''PI_XBTUSD'' 101 BBuy 100 0) now
     = Some (b, Inr ()) \<and> book_best_bid b = Some (99, 3)"
  by (simp add: feed_run)

lemma crossed_book_sets_out_of_sync:
  "\<exists>b. book_apply_delta (loaded_book now [(100, 5)] [(101, 4)]) (test_delta ''PI_XBTUSD'' 101 BBuy 105 1) now
     = Some (b, Inl (Crossed 105 101)) \<and> \<not> is_synced b"
  by (simp add: feed_run)

lemma product_mismatch_rejected:
  "book_apply_snapshot (book_new ''PI_XBTUSD'') (test_snap ''PI_ETHUSD'' 100 [(100, 5)] [(101, 4)]) now
     = (book_new ''PI_XBTUSD'', Inl (ProductMismatch ''PI_XBTUSD'' ''PI_ETHUSD''))"
  by (simp add: feed_run)

lemma delta_before_snapshot_is_rejected:
  "book_apply_delta (book_new ''PI_XBTUSD'') (test_delta ''PI_XBTUSD'' 1 BBuy 100 1) now
     = Some (book_new ''PI_XBTUSD'', Inl (NotInitialised ''PI_XBTUSD''))"
  by (simp add: feed_run)

lemma to_snapshot_caps_depth:
  "\<exists>s. to_core_snapshot (loaded_book now [(100, 1), (99, 1), (98, 1), (97, 1), (96, 1)]
       [(101, 1), (102, 1), (103, 1), (104, 1), (105, 1)]) 3 now = Inr s
     \<and> map lv_price (ob_bids s) = [100, 99, 98] \<and> map lv_price (ob_asks s) = [101, 102, 103]"
  by (simp add: feed_run to_core_snapshot_def to_levels_def)

lemma to_snapshot_fails_when_out_of_sync:
  "is_err (to_core_snapshot (book_invalidate (book_new ''PI_XBTUSD'')) 5 now)"
  by (simp add: book_new_def book_invalidate_def to_core_snapshot_def is_synced_def)

section \<open>\<^verbatim>\<open>private_state.rs\<close>\<close>

definition test_fill :: "64 word \<Rightarrow> fill_entry" where
  "test_fill sq = \<lparr> fe_instrument = ''PI_XBTUSD'', fe_time = 0, fe_price = 50000, fe_seq = sq, fe_buy = True,
     fe_qty = 1, fe_remaining_order_qty = None, fe_order_id = ''order-'' @ show_u64 sq,
     fe_fill_id = ''fill-'' @ show_u64 sq, fe_fill_type = ''maker'', fe_fee_paid = 0,
     fe_fee_currency = ''BTC'', fe_cli_ord_id = None, fe_order_type = Some ''limit'',
     fe_taker_order_type = None \<rparr>"

lemmas ring_run = fills_new_def fills_apply_snapshot_def fills_apply_def fills_push_def max_def
  word_le_nat_alt

lemma test_fill_seq [simp]: "fe_seq (test_fill sq) = sq"
  by (simp add: test_fill_def)

lemma fills_ring_rejects_duplicates:
  "\<exists>r. fills_apply [test_fill 2, test_fill 3, test_fill 4]
       (fills_apply_snapshot [test_fill 1, test_fill 2, test_fill 3] (fills_new 10))
     = (r, \<lparr> fa_appended = 1, fa_duplicates = 2, fa_gap_detected = False \<rparr>) \<and> fr_highest_seq r = 4"
  by (simp add: ring_run)

lemma fills_ring_detects_gap:
  "\<exists>r. fills_apply [test_fill 5] (fills_apply_snapshot [test_fill 1] (fills_new 10))
     = (r, \<lparr> fa_appended = 1, fa_duplicates = 0, fa_gap_detected = True \<rparr>) \<and> fr_highest_seq r = 5"
  by (simp add: ring_run)

lemma fills_ring_respects_capacity:
  "map fe_seq (fr_fills (foldl (\<lambda>r i. fst (fills_apply [test_fill i] r)) (fills_new 3) [1, 2, 3, 4, 5])) = [3, 4, 5]"
  by (simp add: ring_run)

section \<open>\<^verbatim>\<open>auth.rs\<close>\<close>

text \<open>An encoding of \<open>n\<close> bytes has \<open>4 * ((n + 2) div 3)\<close> characters and a digest of HMAC-SHA-512 has 64 bytes.\<close>
definition test_primitives :: "crypto \<Rightarrow> bool" where
  "test_primitives Y \<longleftrightarrow> (\<forall>bs. length (cy_encode Y bs) = 4 * ((length bs + 2) div 3))
     \<and> (\<forall>k mac m. cy_hmac_sha512 Y k = Some mac \<longrightarrow> length (mac m) = 64)"

lemma rest_signature_length:
  assumes "test_primitives Y" and "sign_rest_request Y secret payload nonce path = Inr sg"
  shows "length sg = 88"
  using assms
  by (auto simp: test_primitives_def sign_rest_request_def sign_digest_def rbind_Inr_iff split: option.splits)

lemma ws_challenge_signature_length:
  "test_primitives Y \<Longrightarrow> sign_ws_challenge Y secret challenge = Inr sg \<Longrightarrow> length sg = 88"
  unfolding ws_challenge_is_rest by (rule rest_signature_length)

lemma invalid_base64_secret_returns_error:
  "cy_decode Y bad = Inl e \<Longrightarrow> sign_rest_request Y bad payload nonce path = Inl (Base64Decode e)"
  by (simp add: sign_rest_request_def sign_digest_def)

end
