(* ===== verification/Store_Tests.thy ===== *)
theory Store_Tests
  imports Fill_Properties
begin

text \<open>The unit tests of \<^verbatim>\<open>crates/rt-persistence/src/repo.rs\<close>, replayed on the model from the database its
  \<^verbatim>\<open>test_db\<close> opens: empty tables, no faults.  Every test is a lemma that says what the calls return; \<open>t\<close>
  and \<open>u\<close> are any times.\<close>

section \<open>The fixtures\<close>

definition insert_test_signal :: "string \<Rightarrow> string \<Rightarrow> int dbio" where
  "insert_test_signal t slv = stmt (\<lambda>d.
     let n = next_id (map sr_id (db_signals d)) in
     (d\<lparr> db_signals := db_signals d @
        [\<lparr> sr_id = n, sr_created_at = t, sr_instrument_symbol = ''PI_XBTUSD'', sr_side = ''buy'',
           sr_signal_type = ''breakout'', sr_sleeve = slv, sr_notional_chf = ''300'', sr_leverage = ''1'',
           sr_metadata_json = None, sr_status = ''pending'', sr_processed_at = None,
           sr_rejection_reason = None, sr_expires_at = None, sr_retry_after_at = None \<rparr>] \<rparr>, Ok n))"

definition insert_test_order :: "string \<Rightarrow> int option \<Rightarrow> string \<Rightarrow> string \<Rightarrow> string \<Rightarrow> int dbio" where
  "insert_test_order t signal_id sd qty broker_order_id =
     bnd (insert_pending_order signal_id ''kraken_futures'' ''PI_XBTUSD'' sd ''post_only'' ''gtc'' qty
            (Some ''50000'') None t None) (\<lambda>order_id.
     bnd (mark_order_submitted order_id broker_order_id ''acknowledged'' t) (\<lambda>_.
     ret order_id))"

text \<open>The calls most tests repeat.\<close>
definition fill_perp :: "string \<Rightarrow> bool \<Rightarrow> dec \<Rightarrow> dec \<Rightarrow> position_fill_outcome dbio" where
  "fill_perp t is_buy q price =
     apply_fill_to_position lib0 ''PI_XBTUSD'' ''kraken_futures'' ''CryptoLeverage'' is_buy q price t"

definition order_of_100 :: "string \<Rightarrow> string \<Rightarrow> string \<Rightarrow> int dbio" where
  "order_of_100 t sd boid =
     bnd (insert_test_signal t ''CryptoLeverage'') (\<lambda>sid. insert_test_order t (Some sid) sd ''100'' boid)"

section \<open>The profit of a contract\<close>

lemma pnl_is_zero_when_entry_equals_exit: "inverse_pnl_per_contract lib0 50000 50000 = Some 0"
  by (simp add: inverse_pnl_per_contract_def dec_ops)

lemma pnl_per_contract_is_positive_when_exit_above_entry:
  "inverse_pnl_per_contract lib0 50000 60000 = Some (1 / 300000)"
  by (simp add: inverse_pnl_per_contract_def dec_ops)

lemma pnl_per_contract_is_negative_when_exit_below_entry:
  "inverse_pnl_per_contract lib0 50000 40000 = Some (- 1 / 200000)"
  by (simp add: inverse_pnl_per_contract_def dec_ops)

section \<open>The state machine of a position\<close>

definition perp_row :: "string \<Rightarrow> dec \<Rightarrow> dec \<Rightarrow> position_row" where
  "perp_row t q price = \<lparr> pn_id = 1, pn_instrument_symbol = ''PI_XBTUSD'', pn_broker = ''kraken_futures'',
     pn_sleeve = ''CryptoLeverage'', pn_quantity = show_dec q, pn_avg_entry_price = show_dec price,
     pn_leverage = ''1'', pn_liquidation_price = None, pn_opened_at = t, pn_updated_at = t,
     pn_closed_at = None, pn_realized_pnl_chf = None, pn_realized_pnl_btc = Some ''0'' \<rparr>"

definition perp_db :: "string \<Rightarrow> dec \<Rightarrow> dec \<Rightarrow> db" where
  "perp_db t q price = db_empty\<lparr> db_positions := [perp_row t q price] \<rparr>"

lemmas db_run = bnd_def ret_def stmt_def query_def gets_def exec_def modify_def or_fail_def or_panic_def
  db_empty_def Let_def

lemma first_fill_opens:
  "fill_perp t is_buy q price db_empty = (perp_db t (signed_fill is_buy q) price,
     Ok \<lparr> po_position_id = 1, po_new_quantity = signed_fill is_buy q, po_new_avg_entry_price = Some price,
          po_realized_pnl_btc = 0, po_transition = Opened \<rparr>)"
  unfolding fill_perp_def
  by (rule apply_position_run)
    (simp_all add: no_faults_def position_fill_body_def insert_position_def perp_db_def perp_row_def
      next_id_def db_run)


lemma opens_new_long_from_first_buy_fill:
  "\<exists>d out. fill_perp t True 100 50000 db_empty = (d, Ok out) \<and> po_transition out = Opened \<and>
     po_new_quantity out = 100 \<and> po_new_avg_entry_price out = Some 50000 \<and> po_realized_pnl_btc out = 0"
  by (simp add: first_fill_opens signed_fill_def)

lemma opens_new_short_from_first_sell_fill:
  "\<exists>d out. fill_perp t False 100 50000 db_empty = (d, Ok out) \<and> po_transition out = Opened \<and>
     po_new_quantity out = - 100 \<and> po_new_avg_entry_price out = Some 50000"
  by (simp add: first_fill_opens signed_fill_def)

lemma test_texts [simp]: "parse_dec ''0'' = Some 0" "parse_dec ''100'' = Some 100"
  by code_simp+

lemma bnd_stmt [simp]: "no_faults d \<Longrightarrow> bnd (stmt m) k d = bnd m k d"
  by (simp add: bnd_def)

lemma perp_db_facts [simp]:
  "no_faults (perp_db t q price)"
  "find (open_row ''PI_XBTUSD'' ''kraken_futures'') (rev (db_positions (perp_db t q price))) = Some (perp_row t q price)"
  "parse_col lib0 col (pn_quantity (perp_row t q price)) = Inr q"
  "parse_col lib0 col (pn_avg_entry_price (perp_row t q price)) = Inr price"
  "parse_realized lib0 (pn_realized_pnl_btc (perp_row t q price)) = Inr 0"
  "pn_id (perp_row t q price) = 1" "map pn_id (db_positions (perp_db t q price)) = [1]"
  by (simp_all add: no_faults_def perp_db_def db_empty_def perp_row_def open_row_def parse_col_def parse_realized_def)

lemma perp_closed: "map pn_id (update_where P (closed_row lib0 r u) rs) = map pn_id rs"
  by (simp add: update_where_def closed_row_def)

lemmas position_run = position_fill_body_def add_to_position_def reduce_position_def flat_position_def
  insert_position_def update_position_def sign_positive_def signed_fill_def inverse_pnl_per_contract_def
  dec_ops bnd_assoc

text \<open>The result of two fills, the first on the empty tables.\<close>
definition two_fills :: "string \<Rightarrow> string \<Rightarrow> bool \<Rightarrow> dec \<Rightarrow> dec \<Rightarrow> bool \<Rightarrow> dec \<Rightarrow> dec \<Rightarrow> (perr, position_fill_outcome) res" where
  "two_fills t u b1 q1 p1 b2 q2 p2 =
     snd (bnd (fill_perp t b1 q1 p1) (\<lambda>_. fill_perp u b2 q2 p2) db_empty)"

lemma two_fills_run:
  assumes "snd (position_fill_body lib0 ''PI_XBTUSD'' ''kraken_futures'' ''CryptoLeverage'' b2 q2 p2 u
      (perp_db t (signed_fill b1 q1) p1)) = Ok out"
  shows "two_fills t u b1 q1 p1 b2 q2 p2 = Ok out"
proof (cases "position_fill_body lib0 ''PI_XBTUSD'' ''kraken_futures'' ''CryptoLeverage'' b2 q2 p2 u
      (perp_db t (signed_fill b1 q1) p1)")
  case (Pair d r)
  with assms have "fill_perp u b2 q2 p2 (perp_db t (signed_fill b1 q1) p1) = (d, Ok out)"
    unfolding fill_perp_def by (intro apply_position_run [OF perp_db_facts(1)]) (simp only: snd_conv)
  then show ?thesis by (simp only: two_fills_def bnd_def first_fill_opens split_conv res.case snd_conv prod.case)
qed

lemma adds_to_long_with_weighted_average_entry:
  "two_fills t u True 100 50000 True 100 60000 = Ok \<lparr> po_position_id = 1, po_new_quantity = 200,
     po_new_avg_entry_price = Some 55000, po_realized_pnl_btc = 0, po_transition = Added \<rparr>"
  by (rule two_fills_run) (simp add: position_run)

lemma adds_to_short_with_weighted_average_entry:
  "two_fills t u False 100 60000 False 100 40000 = Ok \<lparr> po_position_id = 1, po_new_quantity = - 200,
     po_new_avg_entry_price = Some 50000, po_realized_pnl_btc = 0, po_transition = Added \<rparr>"
  by (rule two_fills_run) (simp add: position_run)

lemma reduces_long_and_records_positive_pnl:
  "two_fills t u True 200 50000 False 100 60000 = Ok \<lparr> po_position_id = 1, po_new_quantity = 100,
     po_new_avg_entry_price = Some 50000, po_realized_pnl_btc = 1 / 3000, po_transition = Reduced \<rparr>"
  by (rule two_fills_run) (simp add: position_run)

lemma reduces_short_and_records_positive_pnl:
  "two_fills t u False 200 60000 True 100 50000 = Ok \<lparr> po_position_id = 1, po_new_quantity = - 100,
     po_new_avg_entry_price = Some 60000, po_realized_pnl_btc = 1 / 3000, po_transition = Reduced \<rparr>"
  by (rule two_fills_run) (simp add: position_run)

lemma closes_long_exactly_at_profit:
  "two_fills t u True 100 50000 False 100 60000 = Ok \<lparr> po_position_id = 1, po_new_quantity = 0,
     po_new_avg_entry_price = None, po_realized_pnl_btc = 1 / 3000, po_transition = Closed \<rparr>"
  by (rule two_fills_run) (simp add: position_run)

lemma short_closed_at_higher_price_records_loss:
  "two_fills t u False 100 50000 True 100 60000 = Ok \<lparr> po_position_id = 1, po_new_quantity = 0,
     po_new_avg_entry_price = None, po_realized_pnl_btc = - 1 / 3000, po_transition = Closed \<rparr>"
  by (rule two_fills_run) (simp add: position_run)

lemma flips_from_long_to_short_with_residual:
  "two_fills t u True 100 50000 False 150 60000 = Ok \<lparr> po_position_id = 2, po_new_quantity = - 50,
     po_new_avg_entry_price = Some 60000, po_realized_pnl_btc = 1 / 3000, po_transition = Flipped \<rparr>"
  by (rule two_fills_run) (simp add: position_run bnd_def Let_def next_id_def perp_closed)

lemma flips_from_short_to_long_with_residual:
  "two_fills t u False 100 60000 True 150 50000 = Ok \<lparr> po_position_id = 2, po_new_quantity = 50,
     po_new_avg_entry_price = Some 50000, po_realized_pnl_btc = 1 / 3000, po_transition = Flipped \<rparr>"
  by (rule two_fills_run) (simp add: position_run bnd_def Let_def next_id_def perp_closed)

section \<open>The fills applied\<close>

lemmas applied_run = has_fill_been_applied_def record_fill_applied_def db_run

lemma has_fill_been_applied_is_false_for_unknown_id:
  "snd (has_fill_been_applied ''kraken_futures'' ''nonexistent-fill'' db_empty) = Ok False"
  by (simp add: applied_run)

lemma has_fill_been_applied_is_true_after_record:
  "snd (bnd (record_fill_applied ''kraken_futures'' ''fill-a'' t)
     (\<lambda>_. has_fill_been_applied ''kraken_futures'' ''fill-a'') db_empty) = Ok True"
  by (simp add: applied_run)

lemma record_fill_applied_is_idempotent:
  "bnd (record_fill_applied ''kraken_futures'' ''fill-b'' t) (\<lambda>_. record_fill_applied ''kraken_futures'' ''fill-b'' t)
     db_empty = record_fill_applied ''kraken_futures'' ''fill-b'' t db_empty"
  by (simp add: applied_run)

lemma applied_fills_are_keyed_per_broker:
  "snd (bnd (record_fill_applied ''kraken_futures'' ''shared-id'' t) (\<lambda>_.
        bnd (record_fill_applied ''some_other_broker'' ''shared-id'' t) (\<lambda>_.
        bnd (has_fill_been_applied ''kraken_futures'' ''shared-id'') (\<lambda>a.
        bnd (has_fill_been_applied ''some_other_broker'' ''shared-id'') (\<lambda>b. ret (a, b))))) db_empty) = Ok (True, True)"
  by (simp add: applied_run)

section \<open>A fill on an order\<close>

definition test_order_row :: "string \<Rightarrow> int option \<Rightarrow> string \<Rightarrow> string \<Rightarrow> order_row" where
  "test_order_row t sid sd boid = \<lparr> od_id = 1, od_signal_id = sid, od_broker = ''kraken_futures'',
     od_broker_order_id = Some boid, od_instrument_symbol = ''PI_XBTUSD'', od_side = sd,
     od_order_type = ''post_only'', od_time_in_force = ''gtc'', od_quantity = ''100'',
     od_limit_price = Some ''50000'', od_stop_price = None, od_status = ''acknowledged'',
     od_filled_quantity = ''0'', od_avg_fill_price = None, od_fees_paid = ''0'', od_created_at = t,
     od_updated_at = t, od_error_message = None, od_cli_ord_id = None \<rparr>"

text \<open>The tables of most tests: the signal, and an order row.\<close>
definition order_db :: "string \<Rightarrow> order_row \<Rightarrow> db" where
  "order_db t r = (fst (insert_test_signal t ''CryptoLeverage'' db_empty))\<lparr> db_orders := [r] \<rparr>"

lemma order_of_100_run: "order_of_100 t sd boid db_empty = (order_db t (test_order_row t (Some 1) sd boid), Ok 1)"
  by (simp add: order_of_100_def insert_test_signal_def insert_test_order_def insert_pending_order_def
      mark_order_submitted_def update_order_def update_where_def order_db_def test_order_row_def next_id_def
      signal_exists_def db_run)

lemma order_without_signal_run:
  "insert_test_order t None sd ''100'' boid db_empty = (db_empty\<lparr> db_orders := [test_order_row t None sd boid] \<rparr>, Ok 1)"
  by (simp add: insert_test_order_def insert_pending_order_def mark_order_submitted_def update_order_def
      update_where_def test_order_row_def next_id_def db_run)

lemma order_db_facts [simp]:
  "no_faults (order_db t r)"
  "od_broker_order_id r = Some boid \<Longrightarrow> od_signal_id r = Some 1 \<Longrightarrow>
   order_with_sleeve (order_db t r) boid = Some (r, Some ''CryptoLeverage'')"
  "order_db t r\<lparr> db_orders := update_where P f (db_orders (order_db t r)) \<rparr> = order_db t (if P r then f r else r)"
  by (simp_all add: order_db_def insert_test_signal_def no_faults_def order_with_sleeve_def update_where_def
      next_id_def db_run)

lemma fill_test_order:
  assumes "od_broker_order_id r = Some boid" "od_signal_id r = Some 1" "side_is_buy (od_side r) = Inr is_buy"
    and "parse_dec (od_quantity r) = Some 100" "parse_dec (od_filled_quantity r) = Some filled"
    and "parse_dec (od_fees_paid r) = Some fees" "parse_opt_col lib0 ''orders.avg_fill_price'' (od_avg_fill_price r) = Inr avg"
    and "dadd lib0 filled q = Some filled'" "fill_average lib0 filled avg q p filled' = Some avg'"
    and "dadd lib0 fees fee = Some fees'"
    and "s = (if od_status r = ''filled'' \<or> 100 \<le> filled' then ''filled'' else ''partially_filled'')"
  shows "apply_fill_to_order lib0 boid q p fee u (order_db t r) =
    (order_db t (r\<lparr> od_filled_quantity := show_dec filled', od_avg_fill_price := Some (show_dec avg'),
       od_fees_paid := show_dec fees', od_status := s, od_updated_at := u \<rparr>),
     Ok (Some \<lparr> fo_order_id = od_id r, fo_sleeve = Some ''CryptoLeverage'', fo_broker = od_broker r,
       fo_instrument_symbol = od_instrument_symbol r, fo_is_buy = is_buy, fo_new_filled_quantity = filled',
       fo_new_avg_fill_price = avg', fo_new_fees_paid = fees', fo_new_status = s,
       fo_is_fully_filled = (100 \<le> filled') \<rparr>))"
  by (rule apply_fill_to_order_run)
    (simp_all add: order_fill_body_def parse_col_def write_fill_def update_order_def Let_def assms)

text \<open>The outcomes of the fills \<open>(quantity, price, fee)\<close> on a new order for 100 contracts.\<close>
fun fill_outcomes :: "string \<Rightarrow> string \<Rightarrow> (dec \<times> dec \<times> dec) list \<Rightarrow> order_fill_outcome option list dbio" where
  "fill_outcomes t boid [] = ret []"
| "fill_outcomes t boid ((q, p, fee) # fills) =
     bnd (apply_fill_to_order lib0 boid q p fee t) (\<lambda>out. bnd (fill_outcomes t boid fills) (\<lambda>outs. ret (out # outs)))"

definition order_fill_test ::
    "string \<Rightarrow> string \<Rightarrow> string \<Rightarrow> (dec \<times> dec \<times> dec) list \<Rightarrow> (perr, order_fill_outcome option list) res" where
  "order_fill_test t sd boid fills = snd (bnd (order_of_100 t sd boid) (\<lambda>_. fill_outcomes t boid fills) db_empty)"

lemma fill_outcomes_step:
  "fill_outcomes t boid ((q, p, fee) # fills) d = (case apply_fill_to_order lib0 boid q p fee t d of
     (d', Ok out) \<Rightarrow> (case fill_outcomes t boid fills d' of
        (d'', Ok outs) \<Rightarrow> (d'', Ok (out # outs)) | (d'', Err e) \<Rightarrow> (d'', Err e) | (d'', Panic) \<Rightarrow> (d'', Panic))
   | (d', Err e) \<Rightarrow> (d', Err e) | (d', Panic) \<Rightarrow> (d', Panic))"
  by (simp add: bnd_def ret_def)

declare fill_outcomes.simps(2) [simp del]

lemmas order_run = order_fill_test_def bnd_def [of "order_of_100 _ _ _"] order_of_100_run
  fill_outcomes_step fill_test_order test_order_row_def side_is_buy_def
  parse_opt_col_def parse_col_def fill_average_def dec_ops

lemma partial_fill_updates_quantity_and_sets_partially_filled_status:
  "\<exists>out. order_fill_test t ''buy'' ''broker-uid-1'' [(50, 50000, 0)] = Ok [Some out] \<and>
     fo_new_filled_quantity out = 50 \<and> fo_new_avg_fill_price out = 50000 \<and>
     fo_new_status out = ''partially_filled'' \<and> \<not> fo_is_fully_filled out \<and> fo_is_buy out"
  by (simp add: order_run)

lemma fill_matching_quantity_completes_order:
  "\<exists>out. order_fill_test t ''buy'' ''broker-uid-2'' [(100, 50000, 0)] = Ok [Some out] \<and>
     fo_new_filled_quantity out = 100 \<and> fo_new_status out = ''filled'' \<and> fo_is_fully_filled out"
  by (simp add: order_run)

lemma two_partial_fills_accumulate_with_weighted_average_price:
  "\<exists>out1 out. order_fill_test t ''buy'' ''broker-uid-3'' [(50, 50000, 0), (50, 60000, 0)] = Ok [Some out1, Some out] \<and>
     fo_new_filled_quantity out = 100 \<and> fo_new_avg_fill_price out = 55000 \<and> fo_new_status out = ''filled''"
  by (simp add: order_run)

lemma fees_accumulate_across_fills:
  "\<exists>out1 out. order_fill_test t ''buy'' ''broker-uid-4'' [(50, 50000, 1 / 10000), (50, 50000, 2 / 10000)]
     = Ok [Some out1, Some out] \<and> fo_new_fees_paid out = 3 / 10000"
  by (simp add: order_run del: divide_eq_eq_numeral1 eq_divide_eq_numeral1)

lemma unknown_broker_order_id_returns_none:
  "snd (apply_fill_to_order lib0 ''never-seen-id'' 10 50000 0 t db_empty) = Ok None"
proof -
  have "order_fill_body lib0 ''never-seen-id'' 10 50000 0 t db_empty = (db_empty, Ok None)"
    by (simp add: order_fill_body_def order_with_sleeve_def db_run)
  then show ?thesis using apply_fill_to_order_run [of db_empty] by (simp add: no_faults_def db_empty_def)
qed

lemma status_does_not_regress_after_order_is_filled:
  "\<exists>out1 out2. order_fill_test t ''buy'' ''broker-uid-5'' [(100, 50000, 0), (5, 50000, 0)] = Ok [Some out1, Some out2] \<and>
     fo_new_status out1 = ''filled'' \<and> fo_new_status out2 = ''filled''"
  by (simp add: order_run)

lemma sleeve_propagates_from_signals_via_join:
  "\<exists>out. order_fill_test t ''buy'' ''broker-uid-6'' [(100, 50000, 0)] = Ok [Some out] \<and>
     fo_sleeve out = Some ''CryptoLeverage'' \<and> fo_broker out = ''kraken_futures'' \<and>
     fo_instrument_symbol out = ''PI_XBTUSD''"
  by (simp add: order_run)

lemma sleeve_is_none_when_order_has_no_signal:
  "\<exists>out. snd (bnd (insert_test_order t None ''buy'' ''100'' ''broker-uid-7'') (\<lambda>_. fill_outcomes t ''broker-uid-7''
      [(100, 50000, 0)]) db_empty) = Ok [Some out] \<and> fo_sleeve out = None"
proof -
  let ?r = "test_order_row t None ''buy'' ''broker-uid-7''"
  let ?d = "db_empty\<lparr> db_orders := [?r] \<rparr>"
  have nf: "no_faults ?d" by (simp add: no_faults_def db_empty_def)
  have row: "order_with_sleeve ?d ''broker-uid-7'' = Some (?r, None)"
    by (simp add: order_with_sleeve_def test_order_row_def)
  have fields: "od_side ?r = ''buy''" "od_quantity ?r = ''100''" "od_filled_quantity ?r = ''0''"
    "od_fees_paid ?r = ''0''" "od_avg_fill_price ?r = None"
    by (simp_all add: test_order_row_def)
  have "\<exists>d out. order_fill_body lib0 ''broker-uid-7'' 100 50000 0 t ?d = (d, Ok (Some out)) \<and> fo_sleeve out = None"
    by (simp add: order_fill_body_def nf row fields side_is_buy_def parse_col_def parse_opt_col_def
        fill_average_def dec_ops write_fill_def update_order_def Let_def)
  then obtain d out where "apply_fill_to_order lib0 ''broker-uid-7'' 100 50000 0 t ?d = (d, Ok (Some out))"
    "fo_sleeve out = None"
    using apply_fill_to_order_run [OF nf] by blast
  then show ?thesis by (simp add: order_without_signal_run bnd_def [of "insert_test_order _ _ _ _ _"]
        fill_outcomes_step)
qed

lemma is_buy_flag_reflects_order_side:
  "\<exists>out. order_fill_test t ''sell'' ''broker-uid-8'' [(100, 50000, 0)] = Ok [Some out] \<and> \<not> fo_is_buy out"
  by (simp add: order_run fill_test_order [where is_buy = False])

end
