(* ===== verification/Daemon_Tests.thy ===== *)
theory Daemon_Tests
  imports Risk_Tests Equity_Writer Order_Builder
begin

text \<open>The unit tests of \<^verbatim>\<open>crates/rt-daemon\<close>, replayed on the model: the order intent of the dry run
  (\<^verbatim>\<open>signal_processor.rs\<close>), the portfolio of a snapshot row (\<^verbatim>\<open>portfolio_loader.rs\<close>) and the conversions of
  the equity writer (\<^verbatim>\<open>equity_writer.rs\<close>).\<close>

section \<open>\<^verbatim>\<open>signal_processor.rs\<close>\<close>

definition intent_signal :: "time \<Rightarrow> side \<Rightarrow> sleeve \<Rightarrow> dec \<Rightarrow> signal" where
  "intent_signal now sd slv notional =
     (test_signal now ''PI_XBTUSD'' sd TrendEntry slv notional 2)\<lparr> sg_id := 42 \<rparr>"

definition intent_market :: "time \<Rightarrow> dec \<Rightarrow> dec \<Rightarrow> dec \<Rightarrow> market_snapshot" where
  "intent_market now bid ask fx =
     test_market now ''PI_XBTUSD'' (one_level bid 10) (one_level ask 10) ask 500 (2 / 100) (Some (1 / 10000)) fx"

lemmas intent_run = build_order_intent_def intent_signal_def intent_market_def test_signal_def test_market_def
  one_level_def best_ask_def best_bid_def dec_ops Let_def

lemma buy_intent_uses_best_ask:
  "oi_estimated_price (build_order_intent L (intent_signal now Buy CryptoLeverage 300)
     (intent_market now 50000 50010 (110 / 100))) = Some 50010"
  "oi_broker_hint (build_order_intent L (intent_signal now Buy CryptoLeverage 300)
     (intent_market now 50000 50010 (110 / 100))) = ''kraken_futures''"
  by (simp_all add: intent_run)

lemma sell_intent_uses_best_bid:
  "oi_estimated_price (build_order_intent L (intent_signal now Sell CryptoLeverage 300)
     (intent_market now 50000 50010 (110 / 100))) = Some 50000"
  by (simp add: intent_run)

text \<open>300 CHF are 330 USD, and 330 USD at 50010 are 11/1667 BTC.\<close>
lemma quantity_approximates_notional_usd_over_price:
  "oi_estimated_quantity (build_order_intent lib0 (intent_signal now Buy CryptoLeverage 300)
     (intent_market now 50000 50010 (110 / 100))) = Some (11 / 1667)"
  "\<bar>11 / 1667 - 6598 / 1000000\<bar> < (1 / 10000 :: dec)"
  by (simp_all add: intent_run)

lemma empty_book_yields_none_price:
  fixes now :: time
  defines "m \<equiv> intent_market now 50000 50010 1"
  shows "build_order_intent L (intent_signal now Buy CryptoSpot 300)
      (m\<lparr> mk_order_book := mk_order_book m\<lparr> ob_asks := [] \<rparr> \<rparr>)
    = \<lparr> oi_broker_hint = ''kraken_spot'', oi_estimated_price = None, oi_estimated_quantity = None \<rparr>"
  by (simp add: m_def intent_run)

lemma sleeve_to_broker_hint_is_exhaustive:
  "map broker_hint_for_sleeve [CryptoSpot, CryptoLeverage, Etf, CashYield]
     = [''kraken_spot'', ''kraken_futures'', ''ibkr'', ''ibkr'']"
  by simp

lemma enum_to_snake_case_strips_quotes: "side_text Buy = ''buy''" "sleeve_text CryptoLeverage = ''crypto_leverage''"
  by simp_all

section \<open>\<^verbatim>\<open>portfolio_loader.rs\<close>\<close>

definition sample_row :: equity_row where
  "sample_row = \<lparr> eq_id = 1, eq_timestamp = ''2026-04-19T10:00:00+00:00'', eq_total_equity_chf = ''1500'',
     eq_crypto_spot_value_chf = ''400'', eq_etf_value_chf = ''300'', eq_crypto_leverage_value_chf = ''500'',
     eq_cash_chf = ''300'', eq_realized_pnl_leverage_lifetime = ''-50'', eq_drawdown_fraction = ''0.05'',
     eq_unrealized_pnl_leverage_chf = ''-30'', eq_nav_per_unit = ''1.5'', eq_nav_hwm_per_unit = ''1.6'',
     eq_total_units = ''1000'' \<rparr>"

text \<open>The decimal texts of the row, read as \<^verbatim>\<open>Decimal::from_str\<close> reads them.\<close>
definition reads_sample :: "lib \<Rightarrow> bool" where
  "reads_sample L \<longleftrightarrow> map (l_parse L) [''400'', ''300'', ''500'', ''-50'', ''-30'', ''1.5'', ''1.6'', ''1000'']
     = map Some [400, 300, 500, - 50, - 30, 15 / 10, 16 / 10, 1000] \<and> l_parse L ''not-a-number'' = None"

lemma reads_sample_parse:
  assumes "reads_sample L"
  shows "l_parse L ''400'' = Some 400" "l_parse L ''300'' = Some 300" "l_parse L ''500'' = Some 500"
    "l_parse L ''-50'' = Some (- 50)" "l_parse L ''-30'' = Some (- 30)" "l_parse L ''1.5'' = Some (15 / 10)"
    "l_parse L ''1.6'' = Some (16 / 10)" "l_parse L ''1000'' = Some 1000" "l_parse L ''not-a-number'' = None"
  using assms by (simp_all add: reads_sample_def)

lemma materialise_maps_fields_correctly:
  assumes "reads_sample L"
  shows "materialise L sample_row now active ps = Inr \<lparr> pf_snapshot_at = now, pf_sleeves =
      [\<lparr> ss_sleeve = CryptoSpot, ss_market_value_chf = 400, ss_cash_chf = 300,
         ss_realized_pnl_lifetime_chf = 0, ss_unrealized_pnl_chf = 0 \<rparr>,
       \<lparr> ss_sleeve = Etf, ss_market_value_chf = 300, ss_cash_chf = 0,
         ss_realized_pnl_lifetime_chf = 0, ss_unrealized_pnl_chf = 0 \<rparr>,
       \<lparr> ss_sleeve = CryptoLeverage, ss_market_value_chf = 500, ss_cash_chf = 0,
         ss_realized_pnl_lifetime_chf = - 50, ss_unrealized_pnl_chf = - 30 \<rparr>],
      pf_nav_per_unit = 15 / 10, pf_nav_hwm_per_unit = 16 / 10, pf_total_units = 1000,
      pf_kill_switch_active = active, pf_open_positions = ps \<rparr>"
  by (simp add: materialise_def snapshot_decimal_def sample_row_def reads_sample_parse [OF assms])

lemma materialise_propagates_kill_switch:
  assumes "reads_sample L"
  shows "\<exists>p. materialise L sample_row now True [] = Inr p \<and> pf_kill_switch_active p"
  by (simp add: materialise_maps_fields_correctly [OF assms])

lemma malformed_decimal_is_hard_error:
  assumes "reads_sample L"
  shows "\<exists>rest. materialise L (sample_row\<lparr> eq_nav_per_unit := ''not-a-number'' \<rparr>) now False []
    = Inl (EText (''parsing nav_per_unit'' @ rest))"
  by (simp add: materialise_def snapshot_decimal_def sample_row_def reads_sample_parse [OF assms])

section \<open>\<^verbatim>\<open>equity_writer.rs\<close>\<close>

lemma fx_conversion_btc_to_chf_is_correct:
  "\<exists>chf. btc_to_chf lib0 (5 / 10) 75000 (110 / 100) = Some chf \<and> 3409090 / 100 < chf \<and> chf < 3409092 / 100"
  by (intro exI [of _ "375000 / 11"]) (simp add: btc_to_chf_def dec_ops)

lemma fx_conversion_usd_to_chf_inverse_of_usd_per_chf: "ddiv lib0 11 (110 / 100) = Some 10"
  by (simp add: dec_ops)

lemma realized_pnl_btc_negative_converts_to_negative_chf:
  "\<exists>chf. btc_to_chf lib0 (- 1 / 100) 75000 (110 / 100) = Some chf \<and> - 68182 / 100 < chf \<and> chf < - 68181 / 100"
  by (intro exI [of _ "- 7500 / 11"]) (simp add: btc_to_chf_def dec_ops)

end
