(* ===== verification/Spec2Isabelle.thy ===== *)
theory Spec2Isabelle
  imports Risk_Properties Feed_Properties Fill_Properties Order_Properties Uncertain_Orders Ledger_Properties
    Crash_Fill Supervision_Properties Races Broker_Properties Startup_Properties
    Message_Properties Answer_Properties Dashboard_Properties Dashboard_System Signing
    Stuck_Signals Connection_Loss Absurd_Signal
    Risk_Tests Feed_Tests Store_Tests Daemon_Tests
begin

text \<open>The verification library of razortrade, a daemon that trades Bitcoin perpetuals on Kraken Futures.

  \<^bold>\<open>The program.\<close>  Strategies outside the repository write signals into a SQLite database.  The daemon
  (\<^verbatim>\<open>crates/rt-daemon\<close>) runs five tasks over that database and the feeds: the signal processor judges each
  pending signal with the pre-trade checklist and sends an order for an approved one; the safety supervisor
  evaluates the kill switch and closes all positions when its hard threshold is reached; the fill
  reconciler applies the exchange's fills to orders and positions; the periodic reconciler compares open
  orders; the equity writer stores snapshots of the account.  The WebSocket client of
  \<^verbatim>\<open>crates/rt-kraken-futures\<close> fills the feeds, its REST client talks to the exchange, and
  \<^verbatim>\<open>crates/rt-dashboard\<close> reads the database.

  \<^bold>\<open>The theories and the code they model.\<close>
  \<^item> \<open>Prelude\<close>: decimals with the rounding of \<^verbatim>\<open>rust_decimal\<close>, text, JSON values, sums, and the record \<open>lib\<close>
    of everything that belongs to a library, with the laws assumed of it (\<open>dec_laws\<close>, \<open>text_laws\<close>) and an
    instance \<open>lib0\<close> for which they are proved.
  \<^item> \<open>Domain\<close>, \<open>Json_Encoding\<close>: \<^verbatim>\<open>crates/rt-core\<close> and the names serde gives its types.
  \<^item> \<open>Checks\<close>, \<open>Checklist\<close>, \<open>Kill_Switch\<close>, \<open>Check_Safety\<close>: \<^verbatim>\<open>crates/rt-risk\<close>, with the panics its decimal
    arithmetic can run into.  \<open>Risk_Properties\<close>: verdict, survival of the worst case, the decision and its
    monotonicity.  \<open>Absurd_Signal\<close>: a signal whose conversion overflows, from the check to the loop it stops.
  \<^item> \<open>Sorted_Map\<close>, \<open>Order_Book\<close>, \<open>Private_State\<close>, \<open>Feeds\<close>: \<^verbatim>\<open>BTreeMap\<close>, \<^verbatim>\<open>orderbook.rs\<close>,
    \<^verbatim>\<open>private_state.rs\<close>, the nonces of \<^verbatim>\<open>auth.rs\<close>, and \<^verbatim>\<open>ws.rs\<close>.  \<open>Feed_Properties\<close>: replay, ordering, the
    fills ring, the backoff.  \<open>Connection_Loss\<close>: what a failed connection clears and what the tasks see of it.
  \<^item> \<open>Effects\<close>, \<open>Triples\<close>: stateful code as functions from a state to a state and a result, with rules for
    preserved properties and Hoare triples over values and errors.
  \<^item> \<open>Store\<close>, \<open>Fill_Accounting\<close>: \<^verbatim>\<open>crates/rt-persistence\<close>, one list of rows per table; every statement asks a
    script whether it fails.  \<open>Fill_Properties\<close>: orders, positions, and that a fill takes effect in full or not at
    all.
  \<^item> \<open>World\<close>: what the tasks share, and the broker interface of \<^verbatim>\<open>crates/rt-execution\<close>, a script of answers with
    the time each takes and a record of what was sent.
  \<^item> \<open>Market_Data\<close>, \<open>Portfolio_Loader\<close>, \<open>Order_Builder\<close>, \<open>Signal_Processor\<close>, \<open>Supervisor\<close>,
    \<open>Fill_Reconciler\<close>, \<open>Periodic_Reconciler\<close>, \<open>Equity_Writer\<close>: the files of \<^verbatim>\<open>crates/rt-daemon/src\<close> of these
    names (\<^verbatim>\<open>signal_processor.rs\<close> in two, the supervisor from \<^verbatim>\<open>main.rs\<close>), one tick each.
  \<^item> \<open>Accounts\<close>, \<open>Kraken_Rest\<close>: \<^verbatim>\<open>accounts.rs\<close>, \<^verbatim>\<open>rest.rs\<close> and the REST part of \<^verbatim>\<open>messages.rs\<close>.
    \<open>Signing\<close>: the signatures of \<^verbatim>\<open>auth.rs\<close>.
  \<^item> \<open>Serde\<close>, \<open>Message_Decoding\<close>, \<open>Rest_Decoding\<close>: what serde's attributes say of reading a JSON document,
    and the readers they make for every message of \<^verbatim>\<open>messages.rs\<close> and the accounts; the locale \<open>enum_names\<close>
    states when the names of an enum are read back.  \<open>Message_Properties\<close>, \<open>Answer_Properties\<close>: what the
    client makes of a document, and the assertions of the tests of \<^verbatim>\<open>accounts.rs\<close>.
  \<^item> \<open>Dashboard\<close>, \<open>Dashboard_System\<close>: the endpoints of \<^verbatim>\<open>crates/rt-dashboard/src/main.rs\<close> that query the
    database, and those that ask the host.
  \<^item> \<open>Table_Invariants\<close>, \<open>Daemon\<close>: the invariant of the tables, and the daemon as a step relation whose steps
    are ticks of the tasks, restarts, and moves of the environment.
  \<^item> \<open>Processes\<close>, \<open>Task_Steps\<close>, \<open>Interleaving\<close>: the same tasks as trees of atomic actions, one per point at
    which the source awaits (a statement or transaction, the sending of an order, the arrival of its answer),
    each with a lemma that running it alone is the tick of the theories before; and the pool in which they
    take turns between any two actions, with crashes anywhere.  The locale \<open>pool_family\<close> states when a family
    of properties holds throughout a pool; \<open>Pool_Invariant\<close> and \<open>Pool_Events\<close> interpret it.
  \<^item> \<open>Risk_Tests\<close>, \<open>Feed_Tests\<close>, \<open>Store_Tests\<close>, \<open>Daemon_Tests\<close>: the unit tests of the crates, one lemma each
    (two or three share one where their contexts do): the contexts and rows the test modules build, and what
    the model gives on them, which is what the tests assert.  The decimals are those of \<open>lib0\<close>.
  \<^item> \<open>Startup\<close>: the configuration and the start in \<^verbatim>\<open>main.rs\<close>, and the \<^verbatim>\<open>run\<close> loops of the tasks.

  \<^bold>\<open>What is shown of the whole.\<close>  \<open>pool_reachable_ok\<close> proves the invariant of the tables for every interleaving
  of the tasks' actions and every pattern of failing statements, answers and crashes; the tick-by-tick daemon
  is a special case (\<open>reachable_in_pool\<close>).  From it \<open>Order_Properties\<close> has that every order sent for a signal
  is on record under one client id, and that the positions table is sound; \<open>Pool_Events\<close> that every closing
  order is ordered by an event on record.  \<open>Overlap_Run\<close> is a concrete run of the pool in which a fill
  overtakes the answer to its order, and \<open>Races\<close> shows what the interleaving breaks: a late timeout reopens a
  filled order, and two evaluations of the kill switch close the book twice.  \<open>Uncertain_Orders\<close> follows an
  order the broker did not answer for, through cooldown, lookup and resubmission.  \<open>Blocked_Signals\<close> has the
  runs of ticks in which no fill is reconciled (\<open>without_fills\<close>) and shows what they leave alone of a signal whose
  order row blocks it; \<open>Stuck_Signals\<close> applies it to a signal whose order was filled while it was pending, and to
  one whose row never got its answer, and shows that the orphan-catcher frees the second.
  \<open>Ledger_Properties\<close> interprets the contract \<open>ledger\<close> on the fill reconciler: each fill takes effect
  once; \<open>Crash_Fill\<close> shows for which failures a fill still counts twice.  \<open>Supervision_Properties\<close> shows what the hard trigger
  does and what the equity writer hides from the soft one; \<open>Dashboard_Properties\<close> what the operator sees of it.
  \<open>Broker_Properties\<close> follows an order to the wire and an answer back.  \<open>Message_Properties\<close> shows how inbound documents are routed, which drifts of the schema
  pass for valid messages, and when a signed request is sent; \<open>Answer_Properties\<close> what an incomplete answer
  does to the lookup of an order and to the equity row.  \<open>Startup_Properties\<close> ties the start to the run: which
  endpoints a mode uses, that a daemon started in dry-run mode never trades, and that the loops of all five tasks
  stay within the pool, go on after a failing tick and stop at the shutdown.  \<open>Sample_Run\<close> is one concrete run, from an empty database to an order sent, for the
  witnesses.

  \<^bold>\<open>Bounds and interleaving.\<close>  Loops of the source end and are recursions over lists; the reconnect loop takes
  the list of its connections, so no fuel is needed anywhere.  Sequence numbers, milliseconds and nonces are
  64-bit words; a decimal is an exact rational that each operation rounds or rejects.  The properties
  of one operation take it as running alone, with failing statements anywhere in it; those of the daemon hold
  in the pool.  Time passes in a tick only while the broker is asked, and between any two actions in the pool.

  \<^bold>\<open>Parameters.\<close>  \<^verbatim>\<open>rust_decimal\<close>, \<^verbatim>\<open>chrono\<close>, \<^verbatim>\<open>serde_json\<close> and the SQL functions that convert text are fields
  of \<open>lib\<close>; HTTP, form encoding and the decoding of answers are fields of \<open>rest_env\<close> (\<open>with_json\<close>
  sets the decoders to the readers of \<open>Rest_Decoding\<close>, given the JSON parser and the decimal's own reader),
  the primitives of the signatures of \<open>crypto\<close>, the commands of the host of \<open>host\<close>; the decoding of
  account values and SQLite's \<^verbatim>\<open>datetime\<close> are arguments of the operations that use them.  Of serde the model
  takes what its attributes are documented to do, the positional form of a struct and the numbered form of a
  tag included.

  \<^bold>\<open>Not modelled.\<close>  The decoding of the configuration file, the timing of the timers and the signals of the
  operating system (a loop takes the list of what wakes it), logging and metrics, the SQL text itself and the migrations, the
  static pages and the router of the dashboard.  The pool interrupts a task at every point where it awaits and
  at a few more (the clock); the WebSocket client acts on it as part of the environment, and SQLite's
  transactions are single actions, whose roll-back is SQLite's promise and not shown here.  The sign bit that
  \<^verbatim>\<open>rust_decimal\<close> can give a zero is not kept: a zero counts as positive.  In the WebSocket client the result of
  signing a challenge comes with the inbound message (\<open>WText\<close>), since the signature itself is in \<open>Signing\<close>, and the
  sending of a batch of subscriptions is one step.\<close>

end
